(* ===== verification/BD_Prelude.thy ===== *)
theory BD_Prelude
  imports Main "HOL-Library.Word"
begin

text \<open>
  Shared vocabulary of the development: Rust's machine integers and
  \<open>Result\<close>, the \<open>?\<close> operator, \<open>str::trim\<close> on UTF-8 byte strings, and the
  list and word lemmas that the component theories share.

  A Rust \<open>String\<close> is modelled by its UTF-8 bytes, one HOL \<open>char\<close> per byte, so
  that \<open>len\<close>, \<open>is_empty\<close>, \<open>==\<close> and the byte order are the list operations.
\<close>

named_theorems handler_defs \<open>definitions of command handlers and their guards\<close>

section \<open>Rust types\<close>

type_synonym u8 = "8 word"
type_synonym u32 = "32 word"
type_synonym i32 = "32 word"
type_synonym u64 = "64 word"
type_synonym i64 = "64 word"
type_synonym f32_bits = "32 word"
type_synonym uuid = "128 word"

text \<open>\<open>chrono\<close> values are only stored and compared: nanoseconds and days.\<close>

type_synonym datetime = int
type_synonym naive_date = int

abbreviation nil_uuid :: uuid where
  "nil_uuid \<equiv> 0"

abbreviation Ok :: "'a \<Rightarrow> 'e + 'a" where
  "Ok \<equiv> Inr"

abbreviation Err :: "'e \<Rightarrow> 'e + 'a" where
  "Err \<equiv> Inl"

text \<open>Rust's \<open>?\<close>: continue with the value, return the error early.\<close>

fun and_then :: "'e + 'a \<Rightarrow> ('a \<Rightarrow> 'e + 'b) \<Rightarrow> 'e + 'b" where
  "and_then (Inl e) k = Inl e"
| "and_then (Inr x) k = k x"

fun map_err :: "('e \<Rightarrow> 'f) \<Rightarrow> 'e + 'a \<Rightarrow> 'f + 'a" where
  "map_err f (Inl e) = Inl (f e)"
| "map_err f (Inr x) = Inr x"

text \<open>\<open>Vec::retain(|y| y != x)\<close>.\<close>

definition retain_ne :: "'a \<Rightarrow> 'a list \<Rightarrow> 'a list" where
  "retain_ne x xs = filter (\<lambda>y. y \<noteq> x) xs"

text \<open>A run of versions that continues \<open>v\<close>: every element is its predecessor plus one.\<close>

primrec consecutive :: "u64 \<Rightarrow> u64 list \<Rightarrow> bool" where
  "consecutive v [] \<longleftrightarrow> True"
| "consecutive v (w # ws) \<longleftrightarrow> w = v + 1 \<and> consecutive w ws"

section \<open>\<open>str::trim\<close>\<close>

text \<open>The UTF-8 encodings of the characters with Unicode property White\_Space.\<close>

definition whitespace_encodings :: "string list" where
  "whitespace_encodings =
     [[CHR 0x09], [CHR 0x0A], [CHR 0x0B], [CHR 0x0C], [CHR 0x0D], [CHR 0x20],
      [CHR 0xC2, CHR 0x85], [CHR 0xC2, CHR 0xA0], [CHR 0xE1, CHR 0x9A, CHR 0x80],
      [CHR 0xE2, CHR 0x80, CHR 0x80], [CHR 0xE2, CHR 0x80, CHR 0x81],
      [CHR 0xE2, CHR 0x80, CHR 0x82], [CHR 0xE2, CHR 0x80, CHR 0x83],
      [CHR 0xE2, CHR 0x80, CHR 0x84], [CHR 0xE2, CHR 0x80, CHR 0x85],
      [CHR 0xE2, CHR 0x80, CHR 0x86], [CHR 0xE2, CHR 0x80, CHR 0x87],
      [CHR 0xE2, CHR 0x80, CHR 0x88], [CHR 0xE2, CHR 0x80, CHR 0x89],
      [CHR 0xE2, CHR 0x80, CHR 0x8A], [CHR 0xE2, CHR 0x80, CHR 0xA8],
      [CHR 0xE2, CHR 0x80, CHR 0xA9], [CHR 0xE2, CHR 0x80, CHR 0xAF],
      [CHR 0xE2, CHR 0x81, CHR 0x9F], [CHR 0xE3, CHR 0x80, CHR 0x80]]"

definition starts_with :: "'a list \<Rightarrow> 'a list \<Rightarrow> bool" where
  "starts_with s p \<longleftrightarrow> take (length p) s = p"

text \<open>Drop leading words of a code, as long as there is one.\<close>

function strip_leading :: "string list \<Rightarrow> string \<Rightarrow> string" where
  "strip_leading code s =
     (case find (\<lambda>p. p \<noteq> [] \<and> starts_with s p) code of
        None \<Rightarrow> s
      | Some p \<Rightarrow> strip_leading code (drop (length p) s))"
  by pat_completeness auto
termination
proof (relation "measure (\<lambda>(_, s). length s)", simp, clarsimp)
  fix code s p
  assume "find (\<lambda>p. p \<noteq> [] \<and> starts_with s p) code = Some p"
  then have "p \<noteq> []" "take (length p) s = p"
    by (auto simp: find_Some_iff starts_with_def)
  then show "length s - length p < length s"
    by (cases s) auto
qed

declare strip_leading.simps [simp del]

definition trim_start :: "string \<Rightarrow> string" where
  "trim_start = strip_leading whitespace_encodings"

definition trim_end :: "string \<Rightarrow> string" where
  "trim_end s = rev (strip_leading (map rev whitespace_encodings) (rev s))"

definition trim :: "string \<Rightarrow> string" where
  "trim s = trim_end (trim_start s)"

section \<open>Lemmas\<close>

lemma and_then_eq_Inr [simp]:
  "and_then r k = Inr y \<longleftrightarrow> (\<exists>x. r = Inr x \<and> k x = Inr y)"
  by (cases r) auto

lemma retain_ne_simps [simp]:
  "retain_ne x [] = []"
  "retain_ne x (y # ys) = (if y = x then retain_ne x ys else y # retain_ne x ys)"
  by (auto simp: retain_ne_def)

lemma set_retain_ne [simp]: "set (retain_ne x xs) = set xs - {x}"
  by (auto simp: retain_ne_def)

lemma distinct_retain_ne [simp]: "distinct xs \<Longrightarrow> distinct (retain_ne x xs)"
  by (simp add: retain_ne_def)

lemma retain_ne_absent: "x \<notin> set xs \<Longrightarrow> retain_ne x xs = xs"
  by (auto simp: retain_ne_def filter_id_conv)

lemma consecutive_append [simp]:
  "consecutive v (xs @ ys) \<longleftrightarrow>
     consecutive v xs \<and> consecutive (if xs = [] then v else last xs) ys"
  by (induction xs arbitrary: v) auto

lemma consecutive_last:
  "consecutive v xs \<Longrightarrow> xs \<noteq> [] \<Longrightarrow> last xs = v + of_nat (length xs)"
  by (induction xs arbitrary: v) (auto simp: add_ac)

lemma consecutive_nth:
  "consecutive v xs \<Longrightarrow> i < length xs \<Longrightarrow> xs ! i = v + of_nat (Suc i)"
proof (induction xs arbitrary: v i)
  case (Cons x xs)
  then show ?case
    by (cases i) (auto simp: add_ac)
qed simp

lemma strip_leading_done:
  "find (\<lambda>p. p \<noteq> [] \<and> starts_with (strip_leading code s) p) code = None"
proof (induction code s rule: strip_leading.induct)
  case (1 code s)
  then show ?case
    by (subst strip_leading.simps) (auto split: option.split)
qed

lemma strip_leading_suffix: "\<exists>pre. s = pre @ strip_leading code s"
proof (induction code s rule: strip_leading.induct)
  case (1 code s)
  show ?case
  proof (cases "find (\<lambda>p. p \<noteq> [] \<and> starts_with s p) code")
    case None
    then show ?thesis
      by (simp add: strip_leading.simps)
  next
    case (Some p)
    with 1 obtain pre where "drop (length p) s = pre @ strip_leading code (drop (length p) s)"
      by blast
    then have "s = (take (length p) s @ pre) @ strip_leading code (drop (length p) s)"
      by (metis append.assoc append_take_drop_id)
    moreover have "strip_leading code s = strip_leading code (drop (length p) s)"
      using Some by (simp add: strip_leading.simps [of code s])
    ultimately show ?thesis
      by metis
  qed
qed

lemma strip_leading_fixed:
  "find (\<lambda>p. p \<noteq> [] \<and> starts_with s p) code = None \<Longrightarrow> strip_leading code s = s"
  by (simp add: strip_leading.simps)

lemma strip_leading_idem [simp]: "strip_leading code (strip_leading code s) = strip_leading code s"
  by (rule strip_leading_fixed) (rule strip_leading_done)

lemma strip_leading_Nil [simp]: "strip_leading code [] = []"
  using strip_leading_suffix [of "[]" code] by auto

lemma trim_end_idem [simp]: "trim_end (trim_end s) = trim_end s"
  by (simp add: trim_end_def)

lemma trim_Nil [simp]: "trim [] = []"
  by (simp add: trim_def trim_end_def trim_start_def)

text \<open>Dropping bytes at the end never makes a leading white-space character appear.\<close>

lemma starts_with_append: "starts_with s p \<Longrightarrow> starts_with (s @ t) p"
  unfolding starts_with_def by (metis append_take_drop_id append_eq_conv_conj append.assoc)

lemma trim_end_prefix: "\<exists>suf. s = trim_end s @ suf"
proof -
  obtain pre where "rev s = pre @ strip_leading (map rev whitespace_encodings) (rev s)"
    using strip_leading_suffix by blast
  then have "s = rev (strip_leading (map rev whitespace_encodings) (rev s)) @ rev pre"
    by (metis rev_append rev_rev_ident)
  then show ?thesis
    unfolding trim_end_def by blast
qed

lemma trim_start_trim: "trim_start (trim s) = trim s"
proof -
  let ?t = "trim_start s"
  obtain suf where suf: "?t = trim_end ?t @ suf"
    using trim_end_prefix by blast
  have "find (\<lambda>p. p \<noteq> [] \<and> starts_with ?t p) whitespace_encodings = None"
    unfolding trim_start_def by (rule strip_leading_done)
  then have "find (\<lambda>p. p \<noteq> [] \<and> starts_with (trim_end ?t) p) whitespace_encodings = None"
    using starts_with_append [of "trim_end ?t" _ suf] suf by (auto simp: find_None_iff)
  then show ?thesis
    unfolding trim_def trim_start_def by (rule strip_leading_fixed)
qed

lemma trim_idem [simp]: "trim (trim s) = trim s"
proof -
  have "trim (trim s) = trim_end (trim s)"
    by (simp add: trim_def [of "trim s"] trim_start_trim)
  also have "\<dots> = trim s"
    by (simp add: trim_def)
  finally show ?thesis .
qed

end
