(* ===== verification/Error_Registry.thy ===== *)
theory Error_Registry
  imports BD_Prelude
begin

text \<open>
  The problem-code registry of \<open>backend/crates/core/src/error_registry.rs\<close>: one
  constant per registered code, the list that the \<open>problem_codes!\<close> macro
  generates, the lookup and the derived \<open>type\<close> URI and localisation key.
  The lemmas show that codes identify entries and that the localisation key
  does as well, which is the bijection the message bundles rely on.
\<close>

section \<open>Registry\<close>

record problem_code =
  pc_code :: string
  pc_status :: nat
  pc_title :: string
  pc_extensions :: "string list"

definition PROBLEM_DOCS_BASE :: string where
  "PROBLEM_DOCS_BASE = ''https://docs.breakdown.example''"

definition type_uri :: "problem_code \<Rightarrow> string" where
  "type_uri p = PROBLEM_DOCS_BASE @ ''/problems/'' @ pc_code p"

definition message_key :: "problem_code \<Rightarrow> string" where
  "message_key p = ''problem-'' @ map (\<lambda>c. if c = CHR ''.'' then CHR ''-'' else c) (pc_code p)"

named_theorems registry_defs \<open>definitions of the registered codes\<close>

definition HTTP_BAD_JSON_BODY :: problem_code where [registry_defs]:
  "HTTP_BAD_JSON_BODY =
     \<lparr>pc_code = ''http.bad-json-body'', pc_status = 400,
      pc_title = ''Malformed JSON body'', pc_extensions = []\<rparr>"

definition HTTP_BAD_PATH_PARAM :: problem_code where [registry_defs]:
  "HTTP_BAD_PATH_PARAM =
     \<lparr>pc_code = ''http.bad-path-param'', pc_status = 400,
      pc_title = ''Invalid path parameter'', pc_extensions = []\<rparr>"

definition HTTP_BAD_QUERY_PARAM :: problem_code where [registry_defs]:
  "HTTP_BAD_QUERY_PARAM =
     \<lparr>pc_code = ''http.bad-query-param'', pc_status = 400,
      pc_title = ''Invalid query parameter'', pc_extensions = []\<rparr>"

definition HTTP_BAD_REQUEST :: problem_code where [registry_defs]:
  "HTTP_BAD_REQUEST =
     \<lparr>pc_code = ''http.bad-request'', pc_status = 400,
      pc_title = ''Bad request'', pc_extensions = []\<rparr>"

definition HTTP_UNSUPPORTED_MEDIA_TYPE :: problem_code where [registry_defs]:
  "HTTP_UNSUPPORTED_MEDIA_TYPE =
     \<lparr>pc_code = ''http.unsupported-media-type'', pc_status = 415,
      pc_title = ''Unsupported media type'', pc_extensions = []\<rparr>"

definition HTTP_PAYLOAD_TOO_LARGE :: problem_code where [registry_defs]:
  "HTTP_PAYLOAD_TOO_LARGE =
     \<lparr>pc_code = ''http.payload-too-large'', pc_status = 413,
      pc_title = ''Payload too large'', pc_extensions = []\<rparr>"

definition HTTP_REQUEST_TIMEOUT :: problem_code where [registry_defs]:
  "HTTP_REQUEST_TIMEOUT =
     \<lparr>pc_code = ''http.request-timeout'', pc_status = 504,
      pc_title = ''Gateway timeout'', pc_extensions = []\<rparr>"

definition HTTP_ROUTE_NOT_FOUND :: problem_code where [registry_defs]:
  "HTTP_ROUTE_NOT_FOUND =
     \<lparr>pc_code = ''http.route-not-found'', pc_status = 404,
      pc_title = ''Route not found'', pc_extensions = []\<rparr>"

definition HTTP_INTERNAL_ERROR :: problem_code where [registry_defs]:
  "HTTP_INTERNAL_ERROR =
     \<lparr>pc_code = ''http.internal-error'', pc_status = 500,
      pc_title = ''Internal server error'', pc_extensions = []\<rparr>"

definition AUTH_UNAUTHENTICATED :: problem_code where [registry_defs]:
  "AUTH_UNAUTHENTICATED =
     \<lparr>pc_code = ''auth.unauthenticated'', pc_status = 401,
      pc_title = ''Authentication required'', pc_extensions = []\<rparr>"

definition AUTH_MISSING_ACTIVE_BLOCK :: problem_code where [registry_defs]:
  "AUTH_MISSING_ACTIVE_BLOCK =
     \<lparr>pc_code = ''auth.missing-active-block'', pc_status = 400,
      pc_title = ''Missing active block'', pc_extensions = []\<rparr>"

definition AUTH_INVALID_ACTIVE_BLOCK :: problem_code where [registry_defs]:
  "AUTH_INVALID_ACTIVE_BLOCK =
     \<lparr>pc_code = ''auth.invalid-active-block'', pc_status = 400,
      pc_title = ''Invalid active block'', pc_extensions = []\<rparr>"

definition AUTH_IDP_UNAVAILABLE :: problem_code where [registry_defs]:
  "AUTH_IDP_UNAVAILABLE =
     \<lparr>pc_code = ''auth.idp-unavailable'', pc_status = 503,
      pc_title = ''Identity provider unavailable'', pc_extensions = []\<rparr>"

definition CONCURRENCY_VERSION_MISMATCH :: problem_code where [registry_defs]:
  "CONCURRENCY_VERSION_MISMATCH =
     \<lparr>pc_code = ''concurrency.version-mismatch'', pc_status = 409,
      pc_title = ''Version conflict'', pc_extensions = [''expected_version'', ''current_version'']\<rparr>"

definition DOMAIN_NOT_FOUND :: problem_code where [registry_defs]:
  "DOMAIN_NOT_FOUND =
     \<lparr>pc_code = ''domain.not-found'', pc_status = 404,
      pc_title = ''Not found'', pc_extensions = []\<rparr>"

definition DOMAIN_VALIDATION :: problem_code where [registry_defs]:
  "DOMAIN_VALIDATION =
     \<lparr>pc_code = ''domain.validation'', pc_status = 422,
      pc_title = ''Validation failed'', pc_extensions = []\<rparr>"

definition DOMAIN_CONFLICT :: problem_code where [registry_defs]:
  "DOMAIN_CONFLICT =
     \<lparr>pc_code = ''domain.conflict'', pc_status = 409,
      pc_title = ''Conflict'', pc_extensions = []\<rparr>"

definition DOMAIN_FORBIDDEN :: problem_code where [registry_defs]:
  "DOMAIN_FORBIDDEN =
     \<lparr>pc_code = ''domain.forbidden'', pc_status = 403,
      pc_title = ''Forbidden'', pc_extensions = []\<rparr>"

definition DOMAIN_SERVICE_UNAVAILABLE :: problem_code where [registry_defs]:
  "DOMAIN_SERVICE_UNAVAILABLE =
     \<lparr>pc_code = ''domain.service-unavailable'', pc_status = 503,
      pc_title = ''Service unavailable'', pc_extensions = []\<rparr>"

definition DEPENDENCY_AUTH_FAILED :: problem_code where [registry_defs]:
  "DEPENDENCY_AUTH_FAILED =
     \<lparr>pc_code = ''dependency.auth-failed'', pc_status = 503,
      pc_title = ''Dependency authentication failed'', pc_extensions = []\<rparr>"

definition REPORT_RENDERER_UNAVAILABLE :: problem_code where [registry_defs]:
  "REPORT_RENDERER_UNAVAILABLE =
     \<lparr>pc_code = ''report.renderer-unavailable'', pc_status = 503,
      pc_title = ''Report rendering unavailable'', pc_extensions = []\<rparr>"

definition SEASON_VALIDATION :: problem_code where [registry_defs]:
  "SEASON_VALIDATION =
     \<lparr>pc_code = ''season.validation'', pc_status = 422,
      pc_title = ''Season validation failed'', pc_extensions = []\<rparr>"

definition SEASON_NOT_FOUND :: problem_code where [registry_defs]:
  "SEASON_NOT_FOUND =
     \<lparr>pc_code = ''season.not-found'', pc_status = 404,
      pc_title = ''Season not found'', pc_extensions = [''id'']\<rparr>"

definition SEASON_NUMBER_ALREADY_EXISTS :: problem_code where [registry_defs]:
  "SEASON_NUMBER_ALREADY_EXISTS =
     \<lparr>pc_code = ''season.number-already-exists'', pc_status = 409,
      pc_title = ''Season number already exists'', pc_extensions = []\<rparr>"

definition SEASON_ARCHIVED :: problem_code where [registry_defs]:
  "SEASON_ARCHIVED =
     \<lparr>pc_code = ''season.archived'', pc_status = 409,
      pc_title = ''Season is archived'', pc_extensions = [''id'']\<rparr>"

definition BLOCK_VALIDATION :: problem_code where [registry_defs]:
  "BLOCK_VALIDATION =
     \<lparr>pc_code = ''block.validation'', pc_status = 422,
      pc_title = ''Block validation failed'', pc_extensions = []\<rparr>"

definition BLOCK_NOT_FOUND :: problem_code where [registry_defs]:
  "BLOCK_NOT_FOUND =
     \<lparr>pc_code = ''block.not-found'', pc_status = 404,
      pc_title = ''Block not found'', pc_extensions = [''id'']\<rparr>"

definition BLOCK_NUMBER_ALREADY_EXISTS :: problem_code where [registry_defs]:
  "BLOCK_NUMBER_ALREADY_EXISTS =
     \<lparr>pc_code = ''block.number-already-exists'', pc_status = 409,
      pc_title = ''Block number already exists'', pc_extensions = []\<rparr>"

definition EPISODE_VALIDATION :: problem_code where [registry_defs]:
  "EPISODE_VALIDATION =
     \<lparr>pc_code = ''episode.validation'', pc_status = 422,
      pc_title = ''Episode validation failed'', pc_extensions = []\<rparr>"

definition EPISODE_NOT_FOUND :: problem_code where [registry_defs]:
  "EPISODE_NOT_FOUND =
     \<lparr>pc_code = ''episode.not-found'', pc_status = 404,
      pc_title = ''Episode not found'', pc_extensions = [''id'']\<rparr>"

definition EPISODE_NUMBER_ALREADY_EXISTS :: problem_code where [registry_defs]:
  "EPISODE_NUMBER_ALREADY_EXISTS =
     \<lparr>pc_code = ''episode.number-already-exists'', pc_status = 409,
      pc_title = ''Episode number already exists'', pc_extensions = [''existing_episode_id'', ''number'', ''existing_block_id'']\<rparr>"

definition SCENE_NOT_FOUND :: problem_code where [registry_defs]:
  "SCENE_NOT_FOUND =
     \<lparr>pc_code = ''scene.not-found'', pc_status = 404,
      pc_title = ''Scene not found'', pc_extensions = [''id'']\<rparr>"

definition SCENE_CHARACTER_NOT_FOUND :: problem_code where [registry_defs]:
  "SCENE_CHARACTER_NOT_FOUND =
     \<lparr>pc_code = ''scene.character-not-found'', pc_status = 404,
      pc_title = ''Scene character not found'', pc_extensions = [''id'']\<rparr>"

definition SCENE_CHARACTER_ALREADY_ASSIGNED :: problem_code where [registry_defs]:
  "SCENE_CHARACTER_ALREADY_ASSIGNED =
     \<lparr>pc_code = ''scene.character-already-assigned'', pc_status = 409,
      pc_title = ''Character already assigned to this scene'', pc_extensions = []\<rparr>"

definition SCENE_CHARACTER_NOT_IN_SCENE :: problem_code where [registry_defs]:
  "SCENE_CHARACTER_NOT_IN_SCENE =
     \<lparr>pc_code = ''scene.character-not-in-scene'', pc_status = 422,
      pc_title = ''Character is not assigned to this scene'', pc_extensions = [''character_id'']\<rparr>"

definition SCENE_BEAT_NOT_FOUND :: problem_code where [registry_defs]:
  "SCENE_BEAT_NOT_FOUND =
     \<lparr>pc_code = ''scene.beat-not-found'', pc_status = 422,
      pc_title = ''Costume beat not found'', pc_extensions = [''character_id'', ''order'']\<rparr>"

definition SCENE_ALREADY_SCHEDULED :: problem_code where [registry_defs]:
  "SCENE_ALREADY_SCHEDULED =
     \<lparr>pc_code = ''scene.already-scheduled'', pc_status = 409,
      pc_title = ''Scene schedule conflict'', pc_extensions = [''offending_shooting_day_id'']\<rparr>"

definition SCENE_NOT_SCHEDULED :: problem_code where [registry_defs]:
  "SCENE_NOT_SCHEDULED =
     \<lparr>pc_code = ''scene.not-scheduled'', pc_status = 409,
      pc_title = ''Scene not scheduled on this day'', pc_extensions = [''shooting_day_id'']\<rparr>"

definition SCENE_VALIDATION :: problem_code where [registry_defs]:
  "SCENE_VALIDATION =
     \<lparr>pc_code = ''scene.validation'', pc_status = 422,
      pc_title = ''Scene validation failed'', pc_extensions = []\<rparr>"

definition CHARACTER_NOT_FOUND :: problem_code where [registry_defs]:
  "CHARACTER_NOT_FOUND =
     \<lparr>pc_code = ''character.not-found'', pc_status = 404,
      pc_title = ''Character not found'', pc_extensions = [''id'']\<rparr>"

definition CHARACTER_VALIDATION :: problem_code where [registry_defs]:
  "CHARACTER_VALIDATION =
     \<lparr>pc_code = ''character.validation'', pc_status = 422,
      pc_title = ''Character validation failed'', pc_extensions = []\<rparr>"

definition PIECE_NOT_FOUND :: problem_code where [registry_defs]:
  "PIECE_NOT_FOUND =
     \<lparr>pc_code = ''piece.not-found'', pc_status = 404,
      pc_title = ''Piece not found'', pc_extensions = [''id'']\<rparr>"

definition PIECE_VALIDATION :: problem_code where [registry_defs]:
  "PIECE_VALIDATION =
     \<lparr>pc_code = ''piece.validation'', pc_status = 422,
      pc_title = ''Piece validation failed'', pc_extensions = []\<rparr>"

definition PIECE_CONTAINER_UNRESOLVED :: problem_code where [registry_defs]:
  "PIECE_CONTAINER_UNRESOLVED =
     \<lparr>pc_code = ''piece.container-unresolved'', pc_status = 422,
      pc_title = ''Piece has no resolvable container'', pc_extensions = []\<rparr>"

definition PIECE_DETAIL_NOT_FOUND :: problem_code where [registry_defs]:
  "PIECE_DETAIL_NOT_FOUND =
     \<lparr>pc_code = ''piece-detail.not-found'', pc_status = 404,
      pc_title = ''Piece detail not found'', pc_extensions = [''id'']\<rparr>"

definition OUTFIT_NOT_FOUND :: problem_code where [registry_defs]:
  "OUTFIT_NOT_FOUND =
     \<lparr>pc_code = ''outfit.not-found'', pc_status = 404,
      pc_title = ''Outfit not found'', pc_extensions = [''id'']\<rparr>"

definition OUTFIT_VALIDATION :: problem_code where [registry_defs]:
  "OUTFIT_VALIDATION =
     \<lparr>pc_code = ''outfit.validation'', pc_status = 422,
      pc_title = ''Outfit validation failed'', pc_extensions = []\<rparr>"

definition COSTUME_CATEGORY_NOT_FOUND :: problem_code where [registry_defs]:
  "COSTUME_CATEGORY_NOT_FOUND =
     \<lparr>pc_code = ''costume-category.not-found'', pc_status = 404,
      pc_title = ''Costume category not found'', pc_extensions = [''id'']\<rparr>"

definition COSTUME_CATEGORY_ARCHIVED :: problem_code where [registry_defs]:
  "COSTUME_CATEGORY_ARCHIVED =
     \<lparr>pc_code = ''costume-category.archived'', pc_status = 409,
      pc_title = ''Costume category is archived'', pc_extensions = [''id'']\<rparr>"

definition COSTUME_CATEGORY_SEASON_MISMATCH :: problem_code where [registry_defs]:
  "COSTUME_CATEGORY_SEASON_MISMATCH =
     \<lparr>pc_code = ''costume-category.season-mismatch'', pc_status = 409,
      pc_title = ''Costume category from a foreign season'', pc_extensions = [''category_id'']\<rparr>"

definition COSTUME_CATEGORY_VALIDATION :: problem_code where [registry_defs]:
  "COSTUME_CATEGORY_VALIDATION =
     \<lparr>pc_code = ''costume-category.validation'', pc_status = 422,
      pc_title = ''Costume category validation failed'', pc_extensions = []\<rparr>"

definition SHOOTING_DAY_NOT_FOUND :: problem_code where [registry_defs]:
  "SHOOTING_DAY_NOT_FOUND =
     \<lparr>pc_code = ''shooting-day.not-found'', pc_status = 404,
      pc_title = ''Shooting day not found'', pc_extensions = [''id'']\<rparr>"

definition SHOOTING_DAY_ARCHIVED :: problem_code where [registry_defs]:
  "SHOOTING_DAY_ARCHIVED =
     \<lparr>pc_code = ''shooting-day.archived'', pc_status = 409,
      pc_title = ''Shooting day is archived'', pc_extensions = [''id'']\<rparr>"

definition SHOOTING_DAY_DUPLICATE_ORDER_KEY :: problem_code where [registry_defs]:
  "SHOOTING_DAY_DUPLICATE_ORDER_KEY =
     \<lparr>pc_code = ''shooting-day.duplicate-order-key'', pc_status = 409,
      pc_title = ''Duplicate order key'', pc_extensions = []\<rparr>"

definition SHOOTING_DAY_VALIDATION :: problem_code where [registry_defs]:
  "SHOOTING_DAY_VALIDATION =
     \<lparr>pc_code = ''shooting-day.validation'', pc_status = 422,
      pc_title = ''Shooting day validation failed'', pc_extensions = []\<rparr>"

definition SCENE_SHOOT_NOT_FOUND :: problem_code where [registry_defs]:
  "SCENE_SHOOT_NOT_FOUND =
     \<lparr>pc_code = ''scene-shoot.not-found'', pc_status = 404,
      pc_title = ''Scene shoot not found'', pc_extensions = [''id'']\<rparr>"

definition SCENE_SHOOT_PAIR_ALREADY_EXISTS :: problem_code where [registry_defs]:
  "SCENE_SHOOT_PAIR_ALREADY_EXISTS =
     \<lparr>pc_code = ''scene-shoot.pair-already-exists'', pc_status = 409,
      pc_title = ''Scene shoot pair already exists'', pc_extensions = []\<rparr>"

definition SCENE_SHOOT_PLANNED_ORDER_FROZEN :: problem_code where [registry_defs]:
  "SCENE_SHOOT_PLANNED_ORDER_FROZEN =
     \<lparr>pc_code = ''scene-shoot.planned-order-frozen'', pc_status = 409,
      pc_title = ''Planned order is frozen'', pc_extensions = []\<rparr>"

definition SCENE_SHOOT_NOTE_NOT_FOUND :: problem_code where [registry_defs]:
  "SCENE_SHOOT_NOTE_NOT_FOUND =
     \<lparr>pc_code = ''scene-shoot.note-not-found'', pc_status = 404,
      pc_title = ''Scene shoot note not found'', pc_extensions = [''note_id'']\<rparr>"

definition SCENE_SHOOT_ALREADY_LINKED :: problem_code where [registry_defs]:
  "SCENE_SHOOT_ALREADY_LINKED =
     \<lparr>pc_code = ''scene-shoot.already-linked'', pc_status = 409,
      pc_title = ''Continuity photo already linked'', pc_extensions = [''photo_id'']\<rparr>"

definition SCENE_SHOOT_ALREADY_STARTED :: problem_code where [registry_defs]:
  "SCENE_SHOOT_ALREADY_STARTED =
     \<lparr>pc_code = ''scene-shoot.already-started'', pc_status = 409,
      pc_title = ''Scene shoot already started'', pc_extensions = []\<rparr>"

definition SCENE_SHOOT_TERMINAL_STATE :: problem_code where [registry_defs]:
  "SCENE_SHOOT_TERMINAL_STATE =
     \<lparr>pc_code = ''scene-shoot.terminal-state'', pc_status = 409,
      pc_title = ''Scene shoot in terminal state'', pc_extensions = []\<rparr>"

definition SCENE_SHOOT_VALIDATION :: problem_code where [registry_defs]:
  "SCENE_SHOOT_VALIDATION =
     \<lparr>pc_code = ''scene-shoot.validation'', pc_status = 422,
      pc_title = ''Scene shoot validation failed'', pc_extensions = []\<rparr>"

definition SCENE_SHOOT_SHOOTING_DAY_WRAPPED :: problem_code where [registry_defs]:
  "SCENE_SHOOT_SHOOTING_DAY_WRAPPED =
     \<lparr>pc_code = ''scene-shoot.shooting-day-wrapped'', pc_status = 409,
      pc_title = ''Shooting day is wrapped'', pc_extensions = [''shooting_day_id'']\<rparr>"

definition PHOTO_NOT_FOUND :: problem_code where [registry_defs]:
  "PHOTO_NOT_FOUND =
     \<lparr>pc_code = ''photo.not-found'', pc_status = 404,
      pc_title = ''Photo not found'', pc_extensions = [''id'']\<rparr>"

definition PHOTO_ALREADY_DELETED :: problem_code where [registry_defs]:
  "PHOTO_ALREADY_DELETED =
     \<lparr>pc_code = ''photo.already-deleted'', pc_status = 409,
      pc_title = ''Photo already deleted'', pc_extensions = []\<rparr>"

definition PHOTO_VALIDATION :: problem_code where [registry_defs]:
  "PHOTO_VALIDATION =
     \<lparr>pc_code = ''photo.validation'', pc_status = 422,
      pc_title = ''Photo validation failed'', pc_extensions = []\<rparr>"

definition MEMBERSHIP_VALIDATION :: problem_code where [registry_defs]:
  "MEMBERSHIP_VALIDATION =
     \<lparr>pc_code = ''membership.validation'', pc_status = 422,
      pc_title = ''Membership validation failed'', pc_extensions = []\<rparr>"

definition MEMBERSHIP_ALREADY_INVITED :: problem_code where [registry_defs]:
  "MEMBERSHIP_ALREADY_INVITED =
     \<lparr>pc_code = ''membership.already-invited'', pc_status = 409,
      pc_title = ''Already invited'', pc_extensions = []\<rparr>"

definition MEMBERSHIP_NO_PENDING_INVITATION :: problem_code where [registry_defs]:
  "MEMBERSHIP_NO_PENDING_INVITATION =
     \<lparr>pc_code = ''membership.no-pending-invitation'', pc_status = 409,
      pc_title = ''No pending invitation'', pc_extensions = []\<rparr>"

definition MEMBERSHIP_NOT_ACTIVE_MEMBER :: problem_code where [registry_defs]:
  "MEMBERSHIP_NOT_ACTIVE_MEMBER =
     \<lparr>pc_code = ''membership.not-active-member'', pc_status = 409,
      pc_title = ''Not an active member'', pc_extensions = []\<rparr>"

definition MEMBERSHIP_MISSING_ACTOR :: problem_code where [registry_defs]:
  "MEMBERSHIP_MISSING_ACTOR =
     \<lparr>pc_code = ''membership.missing-actor'', pc_status = 422,
      pc_title = ''Authenticated actor required'', pc_extensions = []\<rparr>"

definition MEMBERSHIP_BOOTSTRAP_NOT_ALLOWED :: problem_code where [registry_defs]:
  "MEMBERSHIP_BOOTSTRAP_NOT_ALLOWED =
     \<lparr>pc_code = ''membership.bootstrap-not-allowed'', pc_status = 409,
      pc_title = ''Bootstrap not allowed'', pc_extensions = []\<rparr>"

definition MEMBERSHIP_NOT_FOUND :: problem_code where [registry_defs]:
  "MEMBERSHIP_NOT_FOUND =
     \<lparr>pc_code = ''membership.not-found'', pc_status = 404,
      pc_title = ''Membership not found'', pc_extensions = []\<rparr>"

definition SETTINGS_EMPTY_PROVIDER :: problem_code where [registry_defs]:
  "SETTINGS_EMPTY_PROVIDER =
     \<lparr>pc_code = ''settings.empty-provider'', pc_status = 422,
      pc_title = ''Credential provider must not be empty'', pc_extensions = []\<rparr>"

definition SETTINGS_EMPTY_VAULT_KEY :: problem_code where [registry_defs]:
  "SETTINGS_EMPTY_VAULT_KEY =
     \<lparr>pc_code = ''settings.empty-vault-key'', pc_status = 422,
      pc_title = ''Vault key reference must not be empty'', pc_extensions = []\<rparr>"

definition SETTINGS_PROVIDER_MISMATCH :: problem_code where [registry_defs]:
  "SETTINGS_PROVIDER_MISMATCH =
     \<lparr>pc_code = ''settings.provider-mismatch'', pc_status = 409,
      pc_title = ''Credential provider cannot change during rotation'', pc_extensions = []\<rparr>"

definition SETTINGS_NOT_FOUND :: problem_code where [registry_defs]:
  "SETTINGS_NOT_FOUND =
     \<lparr>pc_code = ''settings.not-found'', pc_status = 404,
      pc_title = ''Credential not found'', pc_extensions = []\<rparr>"

definition SETTINGS_ALREADY_REVOKED :: problem_code where [registry_defs]:
  "SETTINGS_ALREADY_REVOKED =
     \<lparr>pc_code = ''settings.already-revoked'', pc_status = 409,
      pc_title = ''Credential already revoked'', pc_extensions = []\<rparr>"

definition SETTINGS_FORBIDDEN :: problem_code where [registry_defs]:
  "SETTINGS_FORBIDDEN =
     \<lparr>pc_code = ''settings.forbidden'', pc_status = 403,
      pc_title = ''Settings forbidden'', pc_extensions = []\<rparr>"

definition SETTINGS_BINDING_FORBIDDEN :: problem_code where [registry_defs]:
  "SETTINGS_BINDING_FORBIDDEN =
     \<lparr>pc_code = ''settings.binding-forbidden'', pc_status = 403,
      pc_title = ''Credential binding not owned by caller'', pc_extensions = []\<rparr>"

definition AI_CONFIG_NOT_FOUND :: problem_code where [registry_defs]:
  "AI_CONFIG_NOT_FOUND =
     \<lparr>pc_code = ''ai-config.not-found'', pc_status = 404,
      pc_title = ''AI configuration not found'', pc_extensions = []\<rparr>"

definition AI_CONFIG_EMPTY_PROVIDER :: problem_code where [registry_defs]:
  "AI_CONFIG_EMPTY_PROVIDER =
     \<lparr>pc_code = ''ai-config.empty-provider'', pc_status = 422,
      pc_title = ''AI provider must be selected'', pc_extensions = []\<rparr>"

definition AI_CONFIG_EMPTY_MODEL :: problem_code where [registry_defs]:
  "AI_CONFIG_EMPTY_MODEL =
     \<lparr>pc_code = ''ai-config.empty-model'', pc_status = 422,
      pc_title = ''AI assistant model must not be empty'', pc_extensions = []\<rparr>"

definition AI_CONFIG_EMPTY_PROMPT :: problem_code where [registry_defs]:
  "AI_CONFIG_EMPTY_PROMPT =
     \<lparr>pc_code = ''ai-config.empty-prompt'', pc_status = 422,
      pc_title = ''AI prompt must not be empty'', pc_extensions = []\<rparr>"

definition AI_CONFIG_EMPTY_VAULT_KEY :: problem_code where [registry_defs]:
  "AI_CONFIG_EMPTY_VAULT_KEY =
     \<lparr>pc_code = ''ai-config.empty-vault-key'', pc_status = 422,
      pc_title = ''AI vault key reference must not be empty'', pc_extensions = []\<rparr>"

definition AI_CONFIG_DECISION_PROVIDER_UNSUPPORTED :: problem_code where [registry_defs]:
  "AI_CONFIG_DECISION_PROVIDER_UNSUPPORTED =
     \<lparr>pc_code = ''ai-config.decision-provider-unsupported'', pc_status = 422,
      pc_title = ''Provider does not host decision models'', pc_extensions = []\<rparr>"

definition AI_CONFIG_DECISION_INCOMPLETE :: problem_code where [registry_defs]:
  "AI_CONFIG_DECISION_INCOMPLETE =
     \<lparr>pc_code = ''ai-config.decision-incomplete'', pc_status = 422,
      pc_title = ''Decision model configuration incomplete'', pc_extensions = []\<rparr>"

definition AI_CONFIG_DECISION_MODEL_EMPTY :: problem_code where [registry_defs]:
  "AI_CONFIG_DECISION_MODEL_EMPTY =
     \<lparr>pc_code = ''ai-config.decision-model-empty'', pc_status = 422,
      pc_title = ''Decision model must not be empty'', pc_extensions = []\<rparr>"

definition AI_CONFIG_DECISION_MODEL_UNKNOWN :: problem_code where [registry_defs]:
  "AI_CONFIG_DECISION_MODEL_UNKNOWN =
     \<lparr>pc_code = ''ai-config.decision-model-unknown'', pc_status = 422,
      pc_title = ''Decision model not curated for provider'', pc_extensions = []\<rparr>"

definition AI_CONFIG_DECISION_VAULT_KEY_EMPTY :: problem_code where [registry_defs]:
  "AI_CONFIG_DECISION_VAULT_KEY_EMPTY =
     \<lparr>pc_code = ''ai-config.decision-vault-key-empty'', pc_status = 422,
      pc_title = ''Decision vault key reference must not be empty'', pc_extensions = []\<rparr>"

definition AI_CONFIG_PROVIDER_MISMATCH :: problem_code where [registry_defs]:
  "AI_CONFIG_PROVIDER_MISMATCH =
     \<lparr>pc_code = ''ai-config.provider-mismatch'', pc_status = 409,
      pc_title = ''AI provider cannot be changed'', pc_extensions = []\<rparr>"

definition AI_CONFIG_ALREADY_REVOKED :: problem_code where [registry_defs]:
  "AI_CONFIG_ALREADY_REVOKED =
     \<lparr>pc_code = ''ai-config.already-revoked'', pc_status = 409,
      pc_title = ''AI configuration already revoked'', pc_extensions = []\<rparr>"

definition AI_CONFIG_VAULT_KEY_FORBIDDEN :: problem_code where [registry_defs]:
  "AI_CONFIG_VAULT_KEY_FORBIDDEN =
     \<lparr>pc_code = ''ai-config.vault-key-forbidden'', pc_status = 403,
      pc_title = ''Vault credential not owned by caller'', pc_extensions = []\<rparr>"

definition AI_CONFIG_FORBIDDEN :: problem_code where [registry_defs]:
  "AI_CONFIG_FORBIDDEN =
     \<lparr>pc_code = ''ai-config.forbidden'', pc_status = 403,
      pc_title = ''AI configuration forbidden'', pc_extensions = []\<rparr>"

definition AI_IMPORT_DISABLED :: problem_code where [registry_defs]:
  "AI_IMPORT_DISABLED =
     \<lparr>pc_code = ''ai-import.disabled'', pc_status = 404,
      pc_title = ''AI import disabled'', pc_extensions = []\<rparr>"

definition AI_IMPORT_FORBIDDEN :: problem_code where [registry_defs]:
  "AI_IMPORT_FORBIDDEN =
     \<lparr>pc_code = ''ai-import.forbidden'', pc_status = 403,
      pc_title = ''AI import forbidden'', pc_extensions = []\<rparr>"

definition AI_IMPORT_UNSUPPORTED_MEDIA_TYPE :: problem_code where [registry_defs]:
  "AI_IMPORT_UNSUPPORTED_MEDIA_TYPE =
     \<lparr>pc_code = ''ai-import.unsupported-media-type'', pc_status = 415,
      pc_title = ''AI import unsupported media type'', pc_extensions = []\<rparr>"

definition AI_IMPORT_NOT_FOUND :: problem_code where [registry_defs]:
  "AI_IMPORT_NOT_FOUND =
     \<lparr>pc_code = ''ai-import.not-found'', pc_status = 404,
      pc_title = ''AI import job not found'', pc_extensions = []\<rparr>"

definition AI_IMPORT_JOB_NOT_DELETABLE :: problem_code where [registry_defs]:
  "AI_IMPORT_JOB_NOT_DELETABLE =
     \<lparr>pc_code = ''ai-import.job-not-deletable'', pc_status = 409,
      pc_title = ''AI import job is not in a deletable state'', pc_extensions = []\<rparr>"

definition AI_IMPORT_TARGET_MISSING :: problem_code where [registry_defs]:
  "AI_IMPORT_TARGET_MISSING =
     \<lparr>pc_code = ''ai-import.target-missing'', pc_status = 409,
      pc_title = ''AI import job has no target block yet'', pc_extensions = [''season_id'']\<rparr>"

definition AI_IMPORT_TARGET_IMMUTABLE :: problem_code where [registry_defs]:
  "AI_IMPORT_TARGET_IMMUTABLE =
     \<lparr>pc_code = ''ai-import.target-immutable'', pc_status = 409,
      pc_title = ''AI import target cannot be changed'', pc_extensions = [''existing_block_id'', ''applied'']\<rparr>"

definition AI_IMPORT_SCOPE_MISMATCH :: problem_code where [registry_defs]:
  "AI_IMPORT_SCOPE_MISMATCH =
     \<lparr>pc_code = ''ai-import.scope-mismatch'', pc_status = 409,
      pc_title = ''AI import target season does not match the active block'', pc_extensions = []\<rparr>"

definition AI_CONFIG_VERSION_MISMATCH :: problem_code where [registry_defs]:
  "AI_CONFIG_VERSION_MISMATCH =
     \<lparr>pc_code = ''ai-config.version-mismatch'', pc_status = 409,
      pc_title = ''AI configuration version conflict'', pc_extensions = [''expected_version'', ''current_version'']\<rparr>"

definition AI_IMPORT_APPLY_BLOCKED :: problem_code where [registry_defs]:
  "AI_IMPORT_APPLY_BLOCKED =
     \<lparr>pc_code = ''ai-import.apply-blocked'', pc_status = 409,
      pc_title = ''AI import apply blocked by unresolved uncertainties'', pc_extensions = [''blocking_uncertainties'']\<rparr>"

definition AI_IMPORT_APPLY_MISSING_MAPPING :: problem_code where [registry_defs]:
  "AI_IMPORT_APPLY_MISSING_MAPPING =
     \<lparr>pc_code = ''ai-import.apply-missing-mapping'', pc_status = 409,
      pc_title = ''AI import apply has a draft row without a mapping decision'', pc_extensions = [''draft_ref'']\<rparr>"

definition AI_IMPORT_APPLY_MISSING_EPISODE_GROUP :: problem_code where [registry_defs]:
  "AI_IMPORT_APPLY_MISSING_EPISODE_GROUP =
     \<lparr>pc_code = ''ai-import.apply-missing-episode-group'', pc_status = 409,
      pc_title = ''AI import apply maps an episode group the preview does not carry'', pc_extensions = [''episode_ref'']\<rparr>"

definition AI_IMPORT_APPLY_IN_FLIGHT :: problem_code where [registry_defs]:
  "AI_IMPORT_APPLY_IN_FLIGHT =
     \<lparr>pc_code = ''ai-import.apply-in-flight'', pc_status = 409,
      pc_title = ''AI import apply is already running for this job'', pc_extensions = [''apply_run_age_seconds'', ''stale_after_seconds'']\<rparr>"

definition AI_IMPORT_APPLY_MISSING_SHOOTING_DAY_GROUP :: problem_code where [registry_defs]:
  "AI_IMPORT_APPLY_MISSING_SHOOTING_DAY_GROUP =
     \<lparr>pc_code = ''ai-import.apply-missing-shooting-day-group'', pc_status = 409,
      pc_title = ''AI import apply has a shooting-day group without a decision'', pc_extensions = [''day_ref'']\<rparr>"

definition AI_IMPORT_APPLY_UNKNOWN_CONTINUITY_CANDIDATE :: problem_code where [registry_defs]:
  "AI_IMPORT_APPLY_UNKNOWN_CONTINUITY_CANDIDATE =
     \<lparr>pc_code = ''ai-import.apply-unknown-continuity-candidate'', pc_status = 409,
      pc_title = ''AI import apply selects a continuity candidate the preview does not offer'', pc_extensions = [''draft_ref'']\<rparr>"

definition SHOOTING_DAY_TARGET_WRAPPED :: problem_code where [registry_defs]:
  "SHOOTING_DAY_TARGET_WRAPPED =
     \<lparr>pc_code = ''shooting-day.target-wrapped'', pc_status = 409,
      pc_title = ''Target shooting day is wrapped'', pc_extensions = [''shooting_day_id'']\<rparr>"

definition SHOOTING_DAY_EPISODE_MISMATCH :: problem_code where [registry_defs]:
  "SHOOTING_DAY_EPISODE_MISMATCH =
     \<lparr>pc_code = ''shooting-day.episode-mismatch'', pc_status = 409,
      pc_title = ''Shooting days belong to different episodes'', pc_extensions = [''shooting_day_id'']\<rparr>"

definition PROBLEM_CODES :: "problem_code list" where
  "PROBLEM_CODES =
     [HTTP_BAD_JSON_BODY, HTTP_BAD_PATH_PARAM, HTTP_BAD_QUERY_PARAM, HTTP_BAD_REQUEST,
      HTTP_UNSUPPORTED_MEDIA_TYPE, HTTP_PAYLOAD_TOO_LARGE, HTTP_REQUEST_TIMEOUT,
      HTTP_ROUTE_NOT_FOUND, HTTP_INTERNAL_ERROR, AUTH_UNAUTHENTICATED,
      AUTH_MISSING_ACTIVE_BLOCK, AUTH_INVALID_ACTIVE_BLOCK, AUTH_IDP_UNAVAILABLE,
      CONCURRENCY_VERSION_MISMATCH, DOMAIN_NOT_FOUND, DOMAIN_VALIDATION, DOMAIN_CONFLICT,
      DOMAIN_FORBIDDEN, DOMAIN_SERVICE_UNAVAILABLE, DEPENDENCY_AUTH_FAILED,
      REPORT_RENDERER_UNAVAILABLE, SEASON_VALIDATION, SEASON_NOT_FOUND,
      SEASON_NUMBER_ALREADY_EXISTS, SEASON_ARCHIVED, BLOCK_VALIDATION, BLOCK_NOT_FOUND,
      BLOCK_NUMBER_ALREADY_EXISTS, EPISODE_VALIDATION, EPISODE_NOT_FOUND,
      EPISODE_NUMBER_ALREADY_EXISTS, SCENE_NOT_FOUND, SCENE_CHARACTER_NOT_FOUND,
      SCENE_CHARACTER_ALREADY_ASSIGNED, SCENE_CHARACTER_NOT_IN_SCENE, SCENE_BEAT_NOT_FOUND,
      SCENE_ALREADY_SCHEDULED, SCENE_NOT_SCHEDULED, SCENE_VALIDATION, CHARACTER_NOT_FOUND,
      CHARACTER_VALIDATION, PIECE_NOT_FOUND, PIECE_VALIDATION, PIECE_CONTAINER_UNRESOLVED,
      PIECE_DETAIL_NOT_FOUND, OUTFIT_NOT_FOUND, OUTFIT_VALIDATION, COSTUME_CATEGORY_NOT_FOUND,
      COSTUME_CATEGORY_ARCHIVED, COSTUME_CATEGORY_SEASON_MISMATCH, COSTUME_CATEGORY_VALIDATION,
      SHOOTING_DAY_NOT_FOUND, SHOOTING_DAY_ARCHIVED, SHOOTING_DAY_DUPLICATE_ORDER_KEY,
      SHOOTING_DAY_VALIDATION, SCENE_SHOOT_NOT_FOUND, SCENE_SHOOT_PAIR_ALREADY_EXISTS,
      SCENE_SHOOT_PLANNED_ORDER_FROZEN, SCENE_SHOOT_NOTE_NOT_FOUND, SCENE_SHOOT_ALREADY_LINKED,
      SCENE_SHOOT_ALREADY_STARTED, SCENE_SHOOT_TERMINAL_STATE, SCENE_SHOOT_VALIDATION,
      SCENE_SHOOT_SHOOTING_DAY_WRAPPED, PHOTO_NOT_FOUND, PHOTO_ALREADY_DELETED,
      PHOTO_VALIDATION, MEMBERSHIP_VALIDATION, MEMBERSHIP_ALREADY_INVITED,
      MEMBERSHIP_NO_PENDING_INVITATION, MEMBERSHIP_NOT_ACTIVE_MEMBER, MEMBERSHIP_MISSING_ACTOR,
      MEMBERSHIP_BOOTSTRAP_NOT_ALLOWED, MEMBERSHIP_NOT_FOUND, SETTINGS_EMPTY_PROVIDER,
      SETTINGS_EMPTY_VAULT_KEY, SETTINGS_PROVIDER_MISMATCH, SETTINGS_NOT_FOUND,
      SETTINGS_ALREADY_REVOKED, SETTINGS_FORBIDDEN, SETTINGS_BINDING_FORBIDDEN,
      AI_CONFIG_NOT_FOUND, AI_CONFIG_EMPTY_PROVIDER, AI_CONFIG_EMPTY_MODEL,
      AI_CONFIG_EMPTY_PROMPT, AI_CONFIG_EMPTY_VAULT_KEY,
      AI_CONFIG_DECISION_PROVIDER_UNSUPPORTED, AI_CONFIG_DECISION_INCOMPLETE,
      AI_CONFIG_DECISION_MODEL_EMPTY, AI_CONFIG_DECISION_MODEL_UNKNOWN,
      AI_CONFIG_DECISION_VAULT_KEY_EMPTY, AI_CONFIG_PROVIDER_MISMATCH,
      AI_CONFIG_ALREADY_REVOKED, AI_CONFIG_VAULT_KEY_FORBIDDEN, AI_CONFIG_FORBIDDEN,
      AI_IMPORT_DISABLED, AI_IMPORT_FORBIDDEN, AI_IMPORT_UNSUPPORTED_MEDIA_TYPE,
      AI_IMPORT_NOT_FOUND, AI_IMPORT_JOB_NOT_DELETABLE, AI_IMPORT_TARGET_MISSING,
      AI_IMPORT_TARGET_IMMUTABLE, AI_IMPORT_SCOPE_MISMATCH, AI_CONFIG_VERSION_MISMATCH,
      AI_IMPORT_APPLY_BLOCKED, AI_IMPORT_APPLY_MISSING_MAPPING,
      AI_IMPORT_APPLY_MISSING_EPISODE_GROUP, AI_IMPORT_APPLY_IN_FLIGHT,
      AI_IMPORT_APPLY_MISSING_SHOOTING_DAY_GROUP, AI_IMPORT_APPLY_UNKNOWN_CONTINUITY_CANDIDATE,
      SHOOTING_DAY_TARGET_WRAPPED, SHOOTING_DAY_EPISODE_MISMATCH]"

definition PROBLEM_CODE_COUNT :: nat where
  "PROBLEM_CODE_COUNT = 112"

definition problem_code_lookup :: "string \<Rightarrow> problem_code option" where
  "problem_code_lookup code = find (\<lambda>entry. pc_code entry = code) PROBLEM_CODES"



section \<open>Lemmas\<close>

lemma registry_slugs_distinct:
  "distinct (map (map (\<lambda>c. if c = CHR ''.'' then CHR ''-'' else c) \<circ> pc_code) PROBLEM_CODES)"
  by (simp add: PROBLEM_CODES_def registry_defs)

lemma message_keys_distinct: "distinct (map message_key PROBLEM_CODES)"
  using registry_slugs_distinct
  by (simp add: distinct_map inj_on_def message_key_def)

lemma registry_codes_distinct: "distinct (map pc_code PROBLEM_CODES)"
  using registry_slugs_distinct by (auto simp: distinct_map inj_on_def)

lemma find_unique_key:
  "distinct (map f xs) \<Longrightarrow> x \<in> set xs \<Longrightarrow> find (\<lambda>y. f y = f x) xs = Some x"
  by (induction xs) (auto simp: image_iff)

section \<open>Properties\<close>

text \<open>
  The registry is consistent: it has the declared number of entries, every
  status is a client or server error, the localisation keys (and with them the
  codes) are pairwise distinct, and looking up the code of a registered entry
  returns that entry.
\<close>

theorem registry_consistent:
  "length PROBLEM_CODES = PROBLEM_CODE_COUNT \<and>
   list_all (\<lambda>p. 400 \<le> pc_status p \<and> pc_status p \<le> 599) PROBLEM_CODES \<and>
   distinct (map message_key PROBLEM_CODES) \<and>
   list_all (\<lambda>p. problem_code_lookup (pc_code p) = Some p) PROBLEM_CODES"
proof (intro conjI)
  show "length PROBLEM_CODES = PROBLEM_CODE_COUNT"
    by (simp add: PROBLEM_CODES_def PROBLEM_CODE_COUNT_def)
  show "list_all (\<lambda>p. 400 \<le> pc_status p \<and> pc_status p \<le> 599) PROBLEM_CODES"
    by (simp add: PROBLEM_CODES_def registry_defs)
  show "distinct (map message_key PROBLEM_CODES)"
    by (rule message_keys_distinct)
  show "list_all (\<lambda>p. problem_code_lookup (pc_code p) = Some p) PROBLEM_CODES"
    by (simp add: list_all_iff problem_code_lookup_def find_unique_key [OF registry_codes_distinct])
qed

end
