(* ===== verification/Shared_Types.thy ===== *)
theory Shared_Types
  imports BD_Prelude "HOL-Library.List_Lexorder" "HOL-Library.Char_ord"
begin

text \<open>
  The value objects of \<open>backend/crates/core/src/shared.rs\<close>: identifiers, event
  metadata, the status enumerations, \<open>AggregateVersion\<close> and \<open>LexicalSortKey\<close>
  with its fractional-key \<open>midpoint\<close>.

  Identifier newtypes are their \<open>Uuid\<close>; \<open>Uuid::default()\<close> is nil, but the
  \<open>Default\<close> of a newtype draws a fresh UUIDv7, which the aggregate theories
  take as a parameter of their initial state.
\<close>

section \<open>Identifiers and metadata\<close>

type_synonym user_id = string
type_synonym project_id = uuid
type_synonym season_id = uuid
type_synonym block_id = uuid
type_synonym episode_id = uuid
type_synonym costume_category_id = uuid
type_synonym shooting_day_id = uuid
type_synonym scene_shoot_id = uuid
type_synonym photo_id = uuid

datatype provenance = Human | Saga string | System

fun provenance_as_str :: "provenance \<Rightarrow> string" where
  "provenance_as_str Human = ''Human''"
| "provenance_as_str (Saga name) = name"
| "provenance_as_str System = ''System''"

record event_metadata =
  em_actor :: "user_id option"
  em_provenance :: provenance
  em_project_id :: "project_id option"

datatype photo_variant = Original | Thumb | Medium

fun photo_variant_as_str :: "photo_variant \<Rightarrow> string" where
  "photo_variant_as_str Original = ''original''"
| "photo_variant_as_str Thumb = ''thumb''"
| "photo_variant_as_str Medium = ''medium''"

datatype scene_shoot_status = Planned | Scheduled | InProgress | Shot | Skipped

fun scene_shoot_status_as_str :: "scene_shoot_status \<Rightarrow> string" where
  "scene_shoot_status_as_str Planned = ''Planned''"
| "scene_shoot_status_as_str Scheduled = ''Scheduled''"
| "scene_shoot_status_as_str InProgress = ''InProgress''"
| "scene_shoot_status_as_str Shot = ''Shot''"
| "scene_shoot_status_as_str Skipped = ''Skipped''"

datatype variant_status = Pending | Ready | Failed

section \<open>AggregateVersion\<close>

type_synonym aggregate_version = u64

definition INITIAL :: aggregate_version where
  "INITIAL = 1"

definition version_next :: "aggregate_version \<Rightarrow> aggregate_version" where
  "version_next v = v + 1"

section \<open>LexicalSortKey\<close>

type_synonym lexical_sort_key = string

definition LEXICAL_MIN_BYTE :: char where
  "LEXICAL_MIN_BYTE = CHR ''!''"

definition LEXICAL_MAX_BYTE :: char where
  "LEXICAL_MAX_BYTE = CHR ''~''"

definition LEXICAL_MAX_LEN :: nat where
  "LEXICAL_MAX_LEN = 64"

datatype lexical_sort_key_error = KeyEmpty | KeyInvalidChar | KeyTooLong nat | KeyNoRoom

definition sort_key_new :: "string \<Rightarrow> lexical_sort_key_error + lexical_sort_key" where
  "sort_key_new s =
     (if s = [] then Err KeyEmpty
      else if length s > LEXICAL_MAX_LEN then Err (KeyTooLong LEXICAL_MAX_LEN)
      else if \<not> list_all (\<lambda>b. LEXICAL_MIN_BYTE \<le> b \<and> b \<le> LEXICAL_MAX_BYTE) s
        then Err KeyInvalidChar
      else Ok s)"

text \<open>The \<open>while\<close> loop of \<open>midpoint\<close>: the length of the longest common prefix.\<close>

fun common_prefix_len :: "string \<Rightarrow> string \<Rightarrow> nat" where
  "common_prefix_len (x # xs) (y # ys) = (if x = y then Suc (common_prefix_len xs ys) else 0)"
| "common_prefix_len _ _ = 0"

text \<open>\<open>str::is_char_boundary\<close>: slicing a \<open>String\<close> elsewhere panics.\<close>

definition is_char_boundary :: "string \<Rightarrow> nat \<Rightarrow> bool" where
  "is_char_boundary s i \<longleftrightarrow>
     i = length s \<or> (i < length s \<and> \<not> (128 \<le> (of_char (s ! i) :: nat) \<and> (of_char (s ! i) :: nat) < 192))"

text \<open>\<open>String::push\<close> of the character with code point \<open>c < 256\<close>.\<close>

definition utf8_of_byte :: "nat \<Rightarrow> string" where
  "utf8_of_byte c = (if c < 128 then [char_of c] else [char_of (192 + c div 64), char_of (128 + c mod 64)])"

text \<open>
  \<open>None\<close> is the panic of slicing \<open>a.0[..i]\<close> inside a multi-byte character,
  which only a key that did not come through \<open>new\<close> can cause.
\<close>

definition midpoint ::
  "lexical_sort_key \<Rightarrow> lexical_sort_key \<Rightarrow> (lexical_sort_key_error + lexical_sort_key) option" where
  "midpoint a b =
     (if a = [] \<or> b = [] then Some (Err KeyEmpty)
      else if a \<ge> b then Some (Err KeyNoRoom)
      else let i = common_prefix_len a b in
        if \<not> is_char_boundary a i then None
        else if i < length a \<and> i < length b then
          let lo = (of_char (a ! i) :: nat); hi = (of_char (b ! i) :: nat) in
          if hi > lo + 1 then Some (sort_key_new (take i a @ utf8_of_byte (lo + 1)))
          else Some (sort_key_new (a @ [LEXICAL_MIN_BYTE]))
        else Some (sort_key_new (a @ [LEXICAL_MIN_BYTE])))"

definition valid_key :: "string \<Rightarrow> bool" where
  "valid_key s \<longleftrightarrow> sort_key_new s = Ok s"

section \<open>Lemmas\<close>

lemma sort_key_new_Ok: "sort_key_new s = Ok k \<Longrightarrow> k = s \<and> valid_key s"
  by (auto simp: valid_key_def sort_key_new_def split: if_splits)

lemma valid_key_iff:
  "valid_key s \<longleftrightarrow> s \<noteq> [] \<and> length s \<le> 64 \<and>
     (\<forall>b \<in> set s. 33 \<le> (of_char b :: nat) \<and> (of_char b :: nat) \<le> 126)"
  by (auto simp: valid_key_def sort_key_new_def LEXICAL_MAX_LEN_def LEXICAL_MIN_BYTE_def
      LEXICAL_MAX_BYTE_def list_all_iff less_eq_char_def)

lemma common_prefix_take:
  "take (common_prefix_len a b) a = take (common_prefix_len a b) b"
  by (induction a b rule: common_prefix_len.induct) auto

lemma common_prefix_bounds:
  "common_prefix_len a b \<le> length a" "common_prefix_len a b \<le> length b"
  by (induction a b rule: common_prefix_len.induct) auto

lemma common_prefix_differ:
  "common_prefix_len a b < length a \<Longrightarrow> common_prefix_len a b < length b \<Longrightarrow>
     a ! common_prefix_len a b \<noteq> b ! common_prefix_len a b"
  by (induction a b rule: common_prefix_len.induct) auto

lemma string_less_split:
  fixes a b :: string
  assumes "a < b"
  obtains (diff) p x xs y ys where "a = p @ x # xs" "b = p @ y # ys" "x < y"
      "common_prefix_len a b = length p"
  | (prefix) y ys where "b = a @ y # ys" "common_prefix_len a b = length a"
  using assms
proof (induction a b arbitrary: thesis rule: common_prefix_len.induct)
  case (1 x xs y ys)
  show ?case
  proof (cases "x = y")
    case True
    with 1(4) have "xs < ys"
      by simp
    then show ?thesis
    proof (rule 1(1) [OF True, rotated 2])
      fix p u us v vs
      assume "xs = p @ u # us" "ys = p @ v # vs" "u < v" "common_prefix_len xs ys = length p"
      with True show ?thesis
        using 1(2) [of "x # p" u us v vs] by simp
    next
      fix v vs
      assume "ys = xs @ v # vs" "common_prefix_len xs ys = length xs"
      with True show ?thesis
        using 1(3) [of v vs] by simp
    qed
  next
    case False
    then show ?thesis
      using 1(2) [of "[]" x xs y ys] 1(4) by auto
  qed
next
  case "2_1"
  then show ?case
    by (metis append_Nil common_prefix_len.simps(2) list.exhaust list.size(3) order_less_irrefl)
next
  case "2_2"
  then show ?case
    by auto
qed

lemma less_append_string [simp]: "p @ xs < p @ (ys :: string) \<longleftrightarrow> xs < ys"
  by (induction p) auto

lemma less_snoc_string [simp]: "(a :: string) < a @ [c]"
  by (induction a) auto

lemma sort_key_new_valid: "valid_key s \<Longrightarrow> sort_key_new s = Ok s"
  by (simp add: valid_key_def)

lemma ascii_boundary: "valid_key a \<Longrightarrow> i \<le> length a \<Longrightarrow> is_char_boundary a i"
  using nth_mem [of i a] by (fastforce simp: is_char_boundary_def valid_key_iff)

lemma midpoint_diff:
  assumes v: "valid_key (p @ x # xs)" "valid_key (p @ y # ys)" and less: "x < y"
    and cp: "common_prefix_len (p @ x # xs) (p @ y # ys) = length p"
  shows "midpoint (p @ x # xs) (p @ y # ys) =
    Some (if of_char y > (of_char x :: nat) + 1 then Ok (p @ [char_of ((of_char x :: nat) + 1)])
          else sort_key_new (p @ x # xs @ [LEXICAL_MIN_BYTE]))"
proof -
  have bound: "(of_char x :: nat) + 1 < 127" if "of_char y > (of_char x :: nat) + 1"
    using v(2) that by (auto simp: valid_key_iff)
  have "valid_key (p @ [char_of ((of_char x :: nat) + 1)])"
    if "of_char y > (of_char x :: nat) + 1"
    using v(1) bound [OF that] by (auto simp: valid_key_iff of_char_of)
  then have new: "sort_key_new (p @ [char_of ((of_char x :: nat) + 1)]) =
      Ok (p @ [char_of ((of_char x :: nat) + 1)])" if "of_char y > (of_char x :: nat) + 1"
    using that sort_key_new_valid by blast
  have "\<not> p @ y # ys \<le> p @ x # xs"
    using less by (simp add: not_le)
  moreover have "is_char_boundary (p @ x # xs) (length p)"
    using v(1) by (auto intro: ascii_boundary)
  ultimately show ?thesis
    using bound new unfolding midpoint_def cp by (auto simp: utf8_of_byte_def Let_def)
qed

lemma midpoint_prefix:
  assumes "valid_key a"
  shows "midpoint a (a @ y # ys) = Some (sort_key_new (a @ [LEXICAL_MIN_BYTE]))"
proof -
  have "common_prefix_len a (a @ y # ys) = length a"
    by (induction a) auto
  moreover have "a < a @ y # ys"
    by (induction a) auto
  moreover have "is_char_boundary a (length a)"
    by (simp add: is_char_boundary_def)
  ultimately show ?thesis
    using assms unfolding midpoint_def by (auto simp: valid_key_iff)
qed

lemma valid_key_snoc:
  "valid_key a \<Longrightarrow> length a < LEXICAL_MAX_LEN \<Longrightarrow> valid_key (a @ [LEXICAL_MIN_BYTE])"
  by (auto simp: valid_key_iff LEXICAL_MAX_LEN_def LEXICAL_MIN_BYTE_def)

lemma min_byte_least: "valid_key (a @ y # ys) \<Longrightarrow> LEXICAL_MIN_BYTE \<le> y"
  by (simp add: valid_key_iff LEXICAL_MIN_BYTE_def less_eq_char_def)

lemma char_succ_between:
  assumes "(of_char x :: nat) + 1 < of_char y"
  shows "x < char_of ((of_char x :: nat) + 1)" "char_of ((of_char x :: nat) + 1) < y"
proof -
  have "(of_char x :: nat) + 1 < 256"
    using assms nat_of_char_less_256 [of y] by linarith
  then show "x < char_of ((of_char x :: nat) + 1)" "char_of ((of_char x :: nat) + 1) < y"
    using assms by (simp_all add: less_char_def of_char_of)
qed

section \<open>Properties\<close>



text \<open>
  Against its contract, \<open>midpoint\<close> of a validated key below the length limit
  and the same key followed by the smallest byte succeeds with the upper bound
  itself, so the two siblings collide.
\<close>

theorem midpoint_degenerate:
  assumes "valid_key a" "length a < LEXICAL_MAX_LEN"
  shows "midpoint a (a @ [LEXICAL_MIN_BYTE]) = Some (Ok (a @ [LEXICAL_MIN_BYTE]))"
  using midpoint_prefix [OF assms(1), of LEXICAL_MIN_BYTE "[]"]
    sort_key_new_valid [OF valid_key_snoc [OF assms]] by simp

theorem midpoint_degenerate_witness:
  "midpoint ''a'' (''a'' @ [LEXICAL_MIN_BYTE]) = Some (Ok (''a'' @ [LEXICAL_MIN_BYTE]))"
  by (rule midpoint_degenerate) (simp_all add: valid_key_iff LEXICAL_MAX_LEN_def)

end
