(* ===== verification/Event_Sourcing.thy ===== *)
theory Event_Sourcing
  imports Shared_Types
begin

text \<open>
  The event-sourcing contract that every aggregate is written against: the
  \<open>Entity\<close>/\<open>Apply\<close>/\<open>Command\<close> traits of \<open>backend/.patches/kameo_es/core/src/lib.rs\<close>
  as a fold of \<open>apply\<close> over a stream, the translation between domain versions
  and SierraDB stream versions of
  \<open>backend/crates/infra/src/event_store/command_adapters.rs\<close>, and the step
  relation that appends the events of an accepted command to a stream.

  The locales state what an aggregate promises (version discipline, a
  tombstone that freezes the stream, an invariant of the replayed state); the
  lemmas inside them are proved once for all aggregates, and every aggregate
  theory interprets them on its own handlers.

  \<open>ExpectedVersion\<close> and \<open>CurrentVersion\<close> come from the \<open>sierradb_client\<close> crate,
  which is not part of the repository: their constructors are the ones the
  sources match on, and \<open>is_satisfied_by\<close> is a parameter \<open>sat\<close> with the laws
  \<open>expected_version_laws\<close>.
\<close>

section \<open>Versions\<close>

datatype expected_version = AnyVersion | ExistsVersion | EmptyVersion | Exact u64

datatype current_version = CurrentEmpty | Current u64

definition expected_version_laws :: "(expected_version \<Rightarrow> current_version \<Rightarrow> bool) \<Rightarrow> bool" where
  "expected_version_laws sat \<longleftrightarrow>
     (\<forall>c. sat AnyVersion c) \<and>
     (\<forall>c. sat ExistsVersion c \<longleftrightarrow> c \<noteq> CurrentEmpty) \<and>
     (\<forall>c. sat EmptyVersion c \<longleftrightarrow> c = CurrentEmpty) \<and>
     (\<forall>n c. sat (Exact n) c \<longleftrightarrow> c = Current n)"

text \<open>The satisfaction relation that the laws describe, for use in examples.\<close>

definition reference_satisfied :: "expected_version \<Rightarrow> current_version \<Rightarrow> bool" where
  "reference_satisfied expected current =
     (case expected of
        AnyVersion \<Rightarrow> True
      | ExistsVersion \<Rightarrow> current \<noteq> CurrentEmpty
      | EmptyVersion \<Rightarrow> current = CurrentEmpty
      | Exact n \<Rightarrow> current = Current n)"

definition stream_to_domain :: "u64 \<Rightarrow> aggregate_version" where
  "stream_to_domain stream_version = stream_version + 1"

definition domain_to_stream :: "aggregate_version \<Rightarrow> u64 option" where
  "domain_to_stream v = (if v = 0 then None else Some (v - 1))"

definition version_from_current :: "current_version \<Rightarrow> aggregate_version" where
  "version_from_current c = (case c of Current v \<Rightarrow> stream_to_domain v | CurrentEmpty \<Rightarrow> 0)"

definition version_from_expected :: "expected_version \<Rightarrow> aggregate_version" where
  "version_from_expected e = (case e of Exact v \<Rightarrow> v | _ \<Rightarrow> INITIAL)"

text \<open>
  The \<open>expected_version\<close> an adapter dispatches an update with:
  \<open>check_nonzero_version\<close>, then \<open>Exact(domain_to_stream_checked(version)?)\<close>.
  \<open>None\<close> is the early \<open>VersionConflict\<close>.
\<close>

definition exact_version :: "aggregate_version \<Rightarrow> expected_version option" where
  "exact_version v = map_option Exact (domain_to_stream v)"

section \<open>Streams\<close>

definition replay :: "('s \<Rightarrow> 'e \<Rightarrow> 's) \<Rightarrow> 's \<Rightarrow> 'e list \<Rightarrow> 's" where
  "replay ap s0 es = foldl ap s0 es"

definition stream_current :: "'e list \<Rightarrow> current_version" where
  "stream_current es = (if es = [] then CurrentEmpty else Current (of_nat (length es - 1)))"

text \<open>
  One accepted command: the adapter yields an expected version, SierraDB finds
  it satisfied by the stream, the command is not skipped as idempotent, and the
  events of the handler are appended.
\<close>

inductive dispatch_step ::
  "(expected_version \<Rightarrow> current_version \<Rightarrow> bool) \<Rightarrow> ('c \<Rightarrow> expected_version option) \<Rightarrow>
   ('s \<Rightarrow> 'c \<Rightarrow> bool) \<Rightarrow> ('s \<Rightarrow> 'e \<Rightarrow> 's) \<Rightarrow> ('s \<Rightarrow> 'c \<Rightarrow> 'err + 'e list) \<Rightarrow> 's \<Rightarrow>
   'e list \<Rightarrow> 'e list \<Rightarrow> bool"
  for sat expect idem ap hnd s0
where
  dispatchI:
  "expect c = Some ev \<Longrightarrow> sat ev (stream_current es) \<Longrightarrow> \<not> idem (replay ap s0 es) c \<Longrightarrow>
   hnd (replay ap s0 es) c = Ok new \<Longrightarrow>
   dispatch_step sat expect idem ap hnd s0 es (es @ new)"

definition history ::
  "(expected_version \<Rightarrow> current_version \<Rightarrow> bool) \<Rightarrow> ('c \<Rightarrow> expected_version option) \<Rightarrow>
   ('s \<Rightarrow> 'c \<Rightarrow> bool) \<Rightarrow> ('s \<Rightarrow> 'e \<Rightarrow> 's) \<Rightarrow> ('s \<Rightarrow> 'c \<Rightarrow> 'err + 'e list) \<Rightarrow> 's \<Rightarrow>
   'e list \<Rightarrow> bool" where
  "history sat expect idem ap hnd s0 es \<longleftrightarrow> (dispatch_step sat expect idem ap hnd s0)\<^sup>*\<^sup>* [] es"

text \<open>\<open>Command::is_state_idempotent\<close> is \<open>false\<close> unless a command overrides it.\<close>

definition never_idempotent :: "'s \<Rightarrow> 'c \<Rightarrow> bool" where
  "never_idempotent s c \<longleftrightarrow> False"

text \<open>
  The data reset and the sagas dispatch without an expected version, but only
  to streams they found in a projection or were notified of. \<open>on_existing\<close>
  restricts such dispatches to streams that exist.
\<close>

definition on_existing :: "('c \<Rightarrow> expected_version option) \<Rightarrow> 'c \<Rightarrow> expected_version option" where
  "on_existing expect c =
     (case expect c of Some AnyVersion \<Rightarrow> Some ExistsVersion | other \<Rightarrow> other)"

text \<open>Dispatching a list of commands one after the other, stopping at the first error.\<close>

fun exec_all ::
  "('s \<Rightarrow> 'e \<Rightarrow> 's) \<Rightarrow> ('s \<Rightarrow> 'c \<Rightarrow> 'err + 'e list) \<Rightarrow> 's \<Rightarrow> 'c list \<Rightarrow> 'err + 's \<times> 'e list" where
  "exec_all ap hnd s [] = Ok (s, [])"
| "exec_all ap hnd s (c # cs) =
     and_then (hnd s c) (\<lambda>es. and_then (exec_all ap hnd (foldl ap s es) cs) (\<lambda>(s', es').
       Ok (s', es @ es')))"

text \<open>The step relation as a function on a list of commands, \<open>None\<close> when one is refused.\<close>

fun run_commands ::
  "(expected_version \<Rightarrow> current_version \<Rightarrow> bool) \<Rightarrow> ('c \<Rightarrow> expected_version option) \<Rightarrow>
   ('s \<Rightarrow> 'c \<Rightarrow> bool) \<Rightarrow> ('s \<Rightarrow> 'e \<Rightarrow> 's) \<Rightarrow> ('s \<Rightarrow> 'c \<Rightarrow> 'err + 'e list) \<Rightarrow> 's \<Rightarrow>
   'e list \<Rightarrow> 'c list \<Rightarrow> 'e list option" where
  "run_commands sat expect idem ap hnd s0 es [] = Some es"
| "run_commands sat expect idem ap hnd s0 es (c # cs) =
     (case expect c of
        None \<Rightarrow> None
      | Some ev \<Rightarrow>
          if sat ev (stream_current es) \<and> \<not> idem (replay ap s0 es) c
          then (case hnd (replay ap s0 es) c of
                  Inl _ \<Rightarrow> None
                | Inr new \<Rightarrow> run_commands sat expect idem ap hnd s0 (es @ new) cs)
          else None)"

section \<open>Contracts of a stream\<close>

text \<open>
  \<open>version_contract\<close>: in every stream that dispatched commands can produce, the version of the
  replayed state is the length of the stream, and an update sent with version \<open>v\<close> passes the optimistic
  concurrency check exactly when \<open>v\<close> is that version. \<open>final_once\<close>: a stream whose state satisfies
  \<open>frozen\<close> never grows again. \<open>kept_by_updates\<close>: nothing that follows the create changes \<open>attr\<close>.
\<close>

definition version_contract ::
  "(expected_version \<Rightarrow> current_version \<Rightarrow> bool) \<Rightarrow> ('c \<Rightarrow> expected_version option) \<Rightarrow>
   ('s \<Rightarrow> 'c \<Rightarrow> bool) \<Rightarrow> ('s \<Rightarrow> 'e \<Rightarrow> 's) \<Rightarrow> ('s \<Rightarrow> 'c \<Rightarrow> 'err + 'e list) \<Rightarrow> 's \<Rightarrow>
   ('s \<Rightarrow> aggregate_version) \<Rightarrow> bool" where
  "version_contract sat expect idem ap hnd s0 ver \<longleftrightarrow>
     (\<forall>es. history sat expect idem ap hnd s0 es \<longrightarrow> es \<noteq> [] \<longrightarrow>
        ver (replay ap s0 es) = of_nat (length es) \<and>
        (\<forall>v ev. exact_version v = Some ev \<longrightarrow>
           (sat ev (stream_current es) \<longleftrightarrow> v = ver (replay ap s0 es))))"

definition final_once ::
  "(expected_version \<Rightarrow> current_version \<Rightarrow> bool) \<Rightarrow> ('c \<Rightarrow> expected_version option) \<Rightarrow>
   ('s \<Rightarrow> 'c \<Rightarrow> bool) \<Rightarrow> ('s \<Rightarrow> 'e \<Rightarrow> 's) \<Rightarrow> ('s \<Rightarrow> 'c \<Rightarrow> 'err + 'e list) \<Rightarrow> 's \<Rightarrow>
   ('s \<Rightarrow> bool) \<Rightarrow> bool" where
  "final_once sat expect idem ap hnd s0 frozen \<longleftrightarrow>
     (\<forall>es es'. frozen (replay ap s0 es) \<longrightarrow>
        (dispatch_step sat expect idem ap hnd s0)\<^sup>*\<^sup>* es es' \<longrightarrow> es' = es)"

definition kept_by_updates ::
  "(expected_version \<Rightarrow> current_version \<Rightarrow> bool) \<Rightarrow> ('c \<Rightarrow> expected_version option) \<Rightarrow>
   ('s \<Rightarrow> 'c \<Rightarrow> bool) \<Rightarrow> ('s \<Rightarrow> 'e \<Rightarrow> 's) \<Rightarrow> ('s \<Rightarrow> 'c \<Rightarrow> 'err + 'e list) \<Rightarrow> 's \<Rightarrow>
   ('s \<Rightarrow> 'a) \<Rightarrow> bool" where
  "kept_by_updates sat expect idem ap hnd s0 attr \<longleftrightarrow>
     (\<forall>es es'. es \<noteq> [] \<longrightarrow> (dispatch_step sat expect idem ap hnd s0)\<^sup>*\<^sup>* es es' \<longrightarrow>
        attr (replay ap s0 es') = attr (replay ap s0 es))"

section \<open>Lemmas on streams and versions\<close>

lemma reference_laws: "expected_version_laws reference_satisfied"
  by (simp add: expected_version_laws_def reference_satisfied_def)

lemma on_existing_simps [simp]:
  "on_existing expect c \<noteq> Some AnyVersion"
  "on_existing expect c = Some EmptyVersion \<longleftrightarrow> expect c = Some EmptyVersion"
  by (auto simp: on_existing_def split: option.splits expected_version.splits)


lemma replay_simps [simp]:
  "replay ap s0 [] = s0"
  "replay ap s0 (es @ new) = foldl ap (replay ap s0 es) new"
  by (simp_all add: replay_def)

lemma exec_all_state: "exec_all ap hnd s cs = Ok (s', es) \<Longrightarrow> s' = foldl ap s es"
  by (induction cs arbitrary: s s' es) auto

lemma stream_current_Nil [simp]: "stream_current es = CurrentEmpty \<longleftrightarrow> es = []"
  by (simp add: stream_current_def)

lemma history_Nil [simp]: "history sat expect idem ap hnd s0 []"
  by (simp add: history_def)

lemma history_step:
  "history sat expect idem ap hnd s0 es \<Longrightarrow> dispatch_step sat expect idem ap hnd s0 es es' \<Longrightarrow>
     history sat expect idem ap hnd s0 es'"
  by (simp add: history_def)

lemma run_commands_steps:
  "run_commands sat expect idem ap hnd s0 es cs = Some es' \<Longrightarrow>
     (dispatch_step sat expect idem ap hnd s0)\<^sup>*\<^sup>* es es'"
proof (induction cs arbitrary: es)
  case (Cons c cs)
  then obtain ev new where
      "expect c = Some ev" "sat ev (stream_current es)" "\<not> idem (replay ap s0 es) c"
      "hnd (replay ap s0 es) c = Ok new"
    and rest: "run_commands sat expect idem ap hnd s0 (es @ new) cs = Some es'"
    by (auto split: option.splits if_splits sum.splits)
  then have "dispatch_step sat expect idem ap hnd s0 es (es @ new)"
    by (blast intro: dispatchI)
  then show ?case
    using Cons.IH [OF rest] by (rule converse_rtranclp_into_rtranclp)
qed simp

lemma run_commands_history:
  "run_commands sat expect idem ap hnd s0 [] cs = Some es \<Longrightarrow> history sat expect idem ap hnd s0 es"
  unfolding history_def by (rule run_commands_steps)

lemma history_induct [consumes 1, case_names empty step]:
  assumes "history sat expect idem ap hnd s0 es" and "P []"
    and "\<And>es c ev new. history sat expect idem ap hnd s0 es \<Longrightarrow> P es \<Longrightarrow> expect c = Some ev \<Longrightarrow>
      sat ev (stream_current es) \<Longrightarrow> \<not> idem (replay ap s0 es) c \<Longrightarrow>
      hnd (replay ap s0 es) c = Ok new \<Longrightarrow> P (es @ new)"
  shows "P es"
proof -
  have "(dispatch_step sat expect idem ap hnd s0)\<^sup>*\<^sup>* [] es"
    using assms(1) by (simp add: history_def)
  then show ?thesis
  proof (induction rule: rtranclp_induct)
    case base
    show ?case
      by (rule assms(2))
  next
    case (step ys zs)
    have "history sat expect idem ap hnd s0 ys"
      using step(1) by (simp add: history_def)
    with step(2,3) assms(3) show ?case
      by (auto elim!: dispatch_step.cases)
  qed
qed

lemma sat_simps:
  assumes "expected_version_laws sat"
  shows "sat AnyVersion c" "sat ExistsVersion c \<longleftrightarrow> c \<noteq> CurrentEmpty"
    "sat EmptyVersion c \<longleftrightarrow> c = CurrentEmpty" "sat (Exact n) c \<longleftrightarrow> c = Current n"
  using assms by (simp_all add: expected_version_laws_def)

lemma exact_version_eq:
  "exact_version v = Some ev \<longleftrightarrow> v \<noteq> 0 \<and> ev = Exact (v - 1)"
  by (auto simp: exact_version_def domain_to_stream_def)

lemma exact_version_ne [simp]:
  "exact_version v \<noteq> Some EmptyVersion" "exact_version v \<noteq> Some AnyVersion"
  "exact_version v \<noteq> Some ExistsVersion"
  by (auto simp: exact_version_eq)

section \<open>Interfaces\<close>

text \<open>
  Version discipline: the events of a command carry consecutive versions that
  continue the version of the state, a create starts at \<open>INITIAL\<close>, and a
  command dispatched without an expected version emits nothing on a stream
  that does not exist yet.
\<close>

locale versioned_aggregate =
  fixes ap :: "'s \<Rightarrow> 'e \<Rightarrow> 's"
    and hnd :: "'s \<Rightarrow> 'c \<Rightarrow> 'err + 'e list"
    and idem :: "'s \<Rightarrow> 'c \<Rightarrow> bool"
    and expect :: "'c \<Rightarrow> expected_version option"
    and s0 :: 's
    and state_version :: "'s \<Rightarrow> aggregate_version"
    and event_version :: "'e \<Rightarrow> aggregate_version"
  assumes apply_version: "state_version (ap s e) = event_version e"
    and create_versions:
      "expect c = Some EmptyVersion \<Longrightarrow> hnd s0 c = Ok es \<Longrightarrow> map event_version es = [INITIAL]"
    and update_versions:
      "expect c = Some ev \<Longrightarrow> ev \<noteq> EmptyVersion \<Longrightarrow> hnd s c = Ok es \<Longrightarrow>
       consecutive (state_version s) (map event_version es)"
    and any_on_initial: "expect c = Some AnyVersion \<Longrightarrow> hnd s0 c = Ok es \<Longrightarrow> es = []"
begin

lemma foldl_version:
  "es \<noteq> [] \<Longrightarrow> state_version (foldl ap s es) = event_version (last es)"
  by (induction es arbitrary: s rule: rev_induct) (simp_all add: apply_version)

lemma history_versions:
  assumes laws: "expected_version_laws sat" and "history sat expect idem ap hnd s0 es"
  shows "consecutive 0 (map event_version es)"
  using assms(2)
proof (induction rule: history_induct)
  case empty
  show ?case
    by simp
next
  case (step es c ev new)
  show ?case
  proof (cases "es = []")
    case True
    then have hnd: "hnd s0 c = Ok new"
      using step by simp
    show ?thesis
    proof (cases ev)
      case AnyVersion
      then show ?thesis
        using any_on_initial [OF _ hnd] step True by simp
    next
      case ExistsVersion
      then show ?thesis
        using step True laws by (simp add: sat_simps)
    next
      case EmptyVersion
      then show ?thesis
        using create_versions [OF _ hnd] step True by (simp add: INITIAL_def)
    next
      case (Exact n)
      then show ?thesis
        using step True laws by (simp add: sat_simps stream_current_def)
    qed
  next
    case False
    then have "ev \<noteq> EmptyVersion"
      using step laws by (auto simp: sat_simps)
    then have "consecutive (state_version (replay ap s0 es)) (map event_version new)"
      using step update_versions by blast
    moreover have "state_version (replay ap s0 es) = last (map event_version es)"
      using False by (simp add: replay_def foldl_version last_map)
    ultimately show ?thesis
      using step False by simp
  qed
qed

lemma version_is_length:
  assumes "expected_version_laws sat" "history sat expect idem ap hnd s0 es" "es \<noteq> []"
  shows "state_version (replay ap s0 es) = of_nat (length es)"
  using consecutive_last [OF history_versions [OF assms(1,2)]] assms(3)
  by (simp add: replay_def foldl_version last_map)

lemma event_versions:
  assumes "expected_version_laws sat" "history sat expect idem ap hnd s0 es" "i < length es"
  shows "event_version (es ! i) = stream_to_domain (of_nat i)"
  using consecutive_nth [OF history_versions [OF assms(1,2)], of i] assms(3)
  by (simp add: stream_to_domain_def add.commute)

lemma version_is_stream_version:
  assumes "expected_version_laws sat" "history sat expect idem ap hnd s0 es" "es \<noteq> []"
  shows "state_version (replay ap s0 es) = version_from_current (stream_current es)"
  using version_is_length [OF assms] assms(3)
  by (cases es) (simp_all add: stream_current_def version_from_current_def stream_to_domain_def)

text \<open>The expected version of an adapter is satisfied exactly when the state has the
  client's version, so SierraDB and the handlers agree on what is stale.\<close>

lemma expected_iff_current:
  assumes "expected_version_laws sat" "history sat expect idem ap hnd s0 es"
    and "exact_version v = Some ev"
  shows "sat ev (stream_current es) \<longleftrightarrow> es \<noteq> [] \<and> v = state_version (replay ap s0 es)"
proof (cases "es = []")
  case False
  then have "state_version (replay ap s0 es) = of_nat (length es - 1) + 1"
    using version_is_length [OF assms(1,2)] by (cases es) simp_all
  then show ?thesis
    using assms(1,3) False by (auto simp: sat_simps exact_version_eq stream_current_def)
qed (use assms(1,3) in \<open>auto simp: sat_simps exact_version_eq stream_current_def\<close>)

lemma keeps_version_contract:
  "expected_version_laws sat \<Longrightarrow> version_contract sat expect idem ap hnd s0 state_version"
  using version_is_length expected_iff_current unfolding version_contract_def by blast

end

text \<open>
  Tombstones: once \<open>frozen\<close> holds of the replayed state, no command other than
  a create emits an event. Creates are dispatched against an empty stream, so
  a frozen stream is final.
\<close>

locale frozen_aggregate =
  fixes ap :: "'s \<Rightarrow> 'e \<Rightarrow> 's"
    and hnd :: "'s \<Rightarrow> 'c \<Rightarrow> 'err + 'e list"
    and idem :: "'s \<Rightarrow> 'c \<Rightarrow> bool"
    and expect :: "'c \<Rightarrow> expected_version option"
    and s0 :: 's
    and frozen :: "'s \<Rightarrow> bool"
  assumes frozen_initial: "\<not> frozen s0"
    and frozen_silent:
      "frozen s \<Longrightarrow> expect c \<noteq> None \<Longrightarrow> expect c \<noteq> Some EmptyVersion \<Longrightarrow> hnd s c = Ok es \<Longrightarrow>
       es = []"
begin

lemma frozen_step:
  assumes "expected_version_laws sat" "frozen (replay ap s0 es)"
    and "dispatch_step sat expect idem ap hnd s0 es es'"
  shows "es' = es"
  using assms(3)
proof cases
  case (dispatchI c ev new)
  have "es \<noteq> []"
    using assms(2) frozen_initial by auto
  then have "expect c \<noteq> Some EmptyVersion"
    using dispatchI assms(1) by (auto simp: sat_simps)
  then show ?thesis
    using dispatchI frozen_silent [OF assms(2)] by blast
qed

lemma frozen_forever:
  assumes "expected_version_laws sat" "frozen (replay ap s0 es)"
    and "(dispatch_step sat expect idem ap hnd s0)\<^sup>*\<^sup>* es es'"
  shows "es' = es"
  using assms(3)
proof (induction rule: rtranclp_induct)
  case (step ys zs)
  then show ?case
    using frozen_step [OF assms(1,2)] by simp
qed simp

lemma frozen_is_final:
  "expected_version_laws sat \<Longrightarrow> final_once sat expect idem ap hnd s0 frozen"
  using frozen_forever unfolding final_once_def by blast


end

text \<open>
  An invariant of every state replayed from a stream that exists, indexed by the
  length of the stream: the commands accepted on an empty stream establish it,
  the others keep it.
\<close>

locale invariant_aggregate =
  fixes ap :: "'s \<Rightarrow> 'e \<Rightarrow> 's"
    and hnd :: "'s \<Rightarrow> 'c \<Rightarrow> 'err + 'e list"
    and idem :: "'s \<Rightarrow> 'c \<Rightarrow> bool"
    and expect :: "'c \<Rightarrow> expected_version option"
    and s0 :: 's
    and inv :: "nat \<Rightarrow> 's \<Rightarrow> bool"
  assumes inv_start:
      "expect c = Some ev \<Longrightarrow> ev = EmptyVersion \<or> ev = AnyVersion \<Longrightarrow> hnd s0 c = Ok es \<Longrightarrow>
       es \<noteq> [] \<Longrightarrow> inv (length es) (foldl ap s0 es)"
    and inv_update:
      "inv n s \<Longrightarrow> expect c = Some ev \<Longrightarrow> ev \<noteq> EmptyVersion \<Longrightarrow> \<not> idem s c \<Longrightarrow> hnd s c = Ok es \<Longrightarrow>
       inv (n + length es) (foldl ap s es)"
begin

lemma history_inv:
  assumes laws: "expected_version_laws sat" and "history sat expect idem ap hnd s0 es" "es \<noteq> []"
  shows "inv (length es) (replay ap s0 es)"
  using assms(2,3)
proof (induction rule: history_induct)
  case (step es c ev new)
  show ?case
  proof (cases "es = []")
    case True
    with step have "ev = EmptyVersion \<or> ev = AnyVersion"
      using laws by (cases ev) (auto simp: sat_simps stream_current_def)
    then show ?thesis
      using inv_start [of c ev new] step True by (simp add: replay_def)
  next
    case False
    with step have "ev \<noteq> EmptyVersion"
      using laws by (auto simp: sat_simps)
    then show ?thesis
      using inv_update [of "length es" "replay ap s0 es" c ev new] step False by simp
  qed
qed simp

end

text \<open>
  An attribute that no update changes once \<open>since\<close> holds: scope references that
  only the create sets, or data that a state of the life cycle freezes.
\<close>

locale immutable_attribute =
  fixes ap :: "'s \<Rightarrow> 'e \<Rightarrow> 's"
    and hnd :: "'s \<Rightarrow> 'c \<Rightarrow> 'err + 'e list"
    and idem :: "'s \<Rightarrow> 'c \<Rightarrow> bool"
    and expect :: "'c \<Rightarrow> expected_version option"
    and s0 :: 's
    and since :: "'s \<Rightarrow> bool"
    and attr :: "'s \<Rightarrow> 'a"
  assumes attr_kept:
    "since s \<Longrightarrow> expect c \<noteq> None \<Longrightarrow> expect c \<noteq> Some EmptyVersion \<Longrightarrow> hnd s c = Ok es \<Longrightarrow>
     since (foldl ap s es) \<and> attr (foldl ap s es) = attr s"
begin

lemma attr_stable:
  assumes "expected_version_laws sat" "es \<noteq> []" "since (replay ap s0 es)"
    and "(dispatch_step sat expect idem ap hnd s0)\<^sup>*\<^sup>* es es'"
  shows "since (replay ap s0 es') \<and> attr (replay ap s0 es') = attr (replay ap s0 es)"
proof -
  from assms(4) have
    "es' \<noteq> [] \<and> since (replay ap s0 es') \<and> attr (replay ap s0 es') = attr (replay ap s0 es)"
  proof (induction rule: rtranclp_induct)
    case base
    show ?case
      using assms(2,3) by simp
  next
    case (step ys zs)
    from step(2) show ?case
    proof cases
      case (dispatchI c ev new)
      then have "expect c \<noteq> Some EmptyVersion"
        using step(3) assms(1) by (auto simp: sat_simps)
      from attr_kept [OF _ _ this dispatchI(5)] show ?thesis
        using dispatchI step(3) by simp
    qed
  qed
  then show ?thesis
    by blast
qed

lemma attr_kept_by_updates:
  "expected_version_laws sat \<Longrightarrow> \<forall>s. since s \<Longrightarrow> kept_by_updates sat expect idem ap hnd s0 attr"
  using attr_stable unfolding kept_by_updates_def by blast

end

end
