(* ===== verification/Season_Aggregate.thy ===== *)
theory Season_Aggregate
  imports Event_Sourcing
begin

text \<open>
  The Season aggregate (\<open>backend/crates/core/src/season\<close>): state, events,
  commands, handlers, and its instances of the event-sourcing interfaces. An
  archived season accepts no further event.
\<close>

section \<open>State, events, commands\<close>

record season =
  season_id :: uuid
  season_project_id :: project_id
  season_number :: i32
  season_title :: "string option"
  season_version :: aggregate_version
  season_archived :: bool

datatype season_event =
    SeasonCreated uuid project_id i32 "string option" (season_event_version: aggregate_version)
  | SeasonRenamed uuid "string option" (season_event_version: aggregate_version)
  | SeasonArchived uuid (season_event_version: aggregate_version)

datatype season_error =
    SeasonValidationError string
  | SeasonNotFound uuid
  | SeasonArchivedCannotBeMutated uuid
  | SeasonVersionMismatch aggregate_version aggregate_version

datatype season_command =
    CreateSeason uuid project_id i32 "string option"
  | RenameSeason uuid "string option" "project_id option" aggregate_version
  | ArchiveSeason uuid "project_id option" aggregate_version

text \<open>\<open>Default\<close>: the project id is a fresh UUIDv7.\<close>

definition season_default :: "project_id \<Rightarrow> season" where
  "season_default fresh =
     \<lparr>season_id = nil_uuid, season_project_id = fresh, season_number = 0, season_title = None,
      season_version = INITIAL, season_archived = False\<rparr>"

fun season_event_type :: "season_event \<Rightarrow> string" where
  "season_event_type (SeasonCreated _ _ _ _ _) = ''SeasonCreated''"
| "season_event_type (SeasonRenamed _ _ _) = ''SeasonRenamed''"
| "season_event_type (SeasonArchived _ _) = ''SeasonArchived''"

section \<open>Apply and handlers\<close>

fun season_apply :: "season \<Rightarrow> season_event \<Rightarrow> season" where
  "season_apply s (SeasonCreated i project number title v) =
     s\<lparr>season_id := i, season_project_id := project, season_number := number,
       season_title := title, season_version := v\<rparr>"
| "season_apply s (SeasonRenamed i title v) = s\<lparr>season_title := title, season_version := v\<rparr>"
| "season_apply s (SeasonArchived i v) = s\<lparr>season_archived := True, season_version := v\<rparr>"

definition handle_CreateSeason ::
  "season \<Rightarrow> uuid \<Rightarrow> project_id \<Rightarrow> i32 \<Rightarrow> string option \<Rightarrow> season_error + season_event list" where
  [handler_defs]: "handle_CreateSeason s i project number title =
     Ok [SeasonCreated i project number title INITIAL]"

definition handle_RenameSeason ::
  "season \<Rightarrow> string option \<Rightarrow> aggregate_version \<Rightarrow> season_error + season_event list" where
  [handler_defs]: "handle_RenameSeason s title v =
     (if season_archived s then Err (SeasonArchivedCannotBeMutated (season_id s))
      else if v \<noteq> season_version s then Err (SeasonVersionMismatch v (season_version s))
      else if title = season_title s then Err (SeasonValidationError ''Season title unchanged'')
      else Ok [SeasonRenamed (season_id s) title (version_next (season_version s))])"

definition handle_ArchiveSeason ::
  "season \<Rightarrow> aggregate_version \<Rightarrow> season_error + season_event list" where
  [handler_defs]: "handle_ArchiveSeason s v =
     (if v \<noteq> season_version s then Err (SeasonVersionMismatch v (season_version s))
      else if season_archived s then Err (SeasonArchivedCannotBeMutated (season_id s))
      else Ok [SeasonArchived (season_id s) (version_next (season_version s))])"

fun season_handle :: "season \<Rightarrow> season_command \<Rightarrow> season_error + season_event list" where
  "season_handle s (CreateSeason i project number title) = handle_CreateSeason s i project number title"
| "season_handle s (RenameSeason i title project v) = handle_RenameSeason s title v"
| "season_handle s (ArchiveSeason i project v) = handle_ArchiveSeason s v"

text \<open>The expected version each method of \<open>SeasonCommandsImpl\<close> dispatches with.\<close>

fun season_expect :: "season_command \<Rightarrow> expected_version option" where
  "season_expect (CreateSeason _ _ _ _) = Some EmptyVersion"
| "season_expect (RenameSeason _ _ _ v) = exact_version v"
| "season_expect (ArchiveSeason _ _ v) = exact_version v"

section \<open>Interfaces\<close>

interpretation season_versions: versioned_aggregate
  season_apply season_handle never_idempotent season_expect "season_default fresh"
  season_version season_event_version for fresh
proof unfold_locales
  fix s e
  show "season_version (season_apply s e) = season_event_version e"
    by (cases e) simp_all
next
  fix c es
  assume "season_expect c = Some EmptyVersion" "season_handle (season_default fresh) c = Ok es"
  then show "map season_event_version es = [INITIAL]"
    by (cases c) (auto simp: handler_defs)
next
  fix c ev s es
  assume "season_expect c = Some ev" "ev \<noteq> EmptyVersion" "season_handle s c = Ok es"
  then show "consecutive (season_version s) (map season_event_version es)"
    by (cases c) (auto simp: handler_defs version_next_def split: if_splits)
next
  fix c es
  assume "season_expect c = Some AnyVersion" "season_handle (season_default fresh) c = Ok es"
  then show "es = []"
    by (cases c) auto
qed

interpretation season_archive: frozen_aggregate
  season_apply season_handle never_idempotent season_expect "season_default fresh" season_archived
  for fresh
proof unfold_locales
  show "\<not> season_archived (season_default fresh)"
    by (simp add: season_default_def)
next
  fix s c es
  assume "season_archived s" "season_expect c \<noteq> Some EmptyVersion" "season_handle s c = Ok es"
  then show "es = []"
    by (cases c) (auto simp: handler_defs split: if_splits)
qed

interpretation season_scope: immutable_attribute
  season_apply season_handle never_idempotent season_expect "season_default fresh"
  "\<lambda>_. True" "\<lambda>s. (season_id s, season_project_id s, season_number s)" for fresh
proof unfold_locales
  fix s c es
  assume "season_expect c \<noteq> Some EmptyVersion" "season_handle s c = Ok es"
  then show "True \<and> (\<lambda>s. (season_id s, season_project_id s, season_number s)) (foldl season_apply s es) =
      (season_id s, season_project_id s, season_number s)"
    by (cases c) (auto simp: handler_defs split: if_splits)
qed

end
