(* ===== verification/Block_Aggregate.thy ===== *)
theory Block_Aggregate
  imports Event_Sourcing
begin

text \<open>
  The Block aggregate (\<open>backend/crates/core/src/block\<close>): a numbered group of
  episodes with a time span.
\<close>

section \<open>State, events, commands\<close>

record block =
  block_id :: uuid
  block_season_id :: season_id
  block_project_id :: project_id
  block_number :: i32
  block_start_date :: "naive_date option"
  block_end_date :: "naive_date option"
  block_version :: aggregate_version

datatype block_event =
    BlockCreated uuid season_id project_id i32 "naive_date option" "naive_date option"
      (block_event_version: aggregate_version)
  | BlockTimeSpanUpdated uuid "naive_date option" "naive_date option"
      (block_event_version: aggregate_version)

datatype block_error =
    BlockValidationError string
  | BlockNotFound uuid
  | BlockVersionMismatch aggregate_version aggregate_version

datatype block_command =
    CreateBlock uuid season_id project_id i32 "naive_date option" "naive_date option"
  | UpdateBlockTimeSpan uuid "naive_date option" "naive_date option" "project_id option"
      aggregate_version

definition block_default :: "season_id \<Rightarrow> project_id \<Rightarrow> block" where
  "block_default fresh_season fresh_project =
     \<lparr>block_id = nil_uuid, block_season_id = fresh_season, block_project_id = fresh_project,
      block_number = 0, block_start_date = None, block_end_date = None, block_version = INITIAL\<rparr>"

fun block_event_type :: "block_event \<Rightarrow> string" where
  "block_event_type (BlockCreated _ _ _ _ _ _ _) = ''BlockCreated''"
| "block_event_type (BlockTimeSpanUpdated _ _ _ _) = ''BlockTimeSpanUpdated''"

section \<open>Apply and handlers\<close>

fun block_apply :: "block \<Rightarrow> block_event \<Rightarrow> block" where
  "block_apply s (BlockCreated i season project number start_date end_date v) =
     s\<lparr>block_id := i, block_season_id := season, block_project_id := project,
       block_number := number, block_start_date := start_date, block_end_date := end_date,
       block_version := v\<rparr>"
| "block_apply s (BlockTimeSpanUpdated i start_date end_date v) =
     s\<lparr>block_start_date := start_date, block_end_date := end_date, block_version := v\<rparr>"

definition handle_CreateBlock ::
  "block \<Rightarrow> uuid \<Rightarrow> season_id \<Rightarrow> project_id \<Rightarrow> i32 \<Rightarrow> naive_date option \<Rightarrow> naive_date option \<Rightarrow>
   block_error + block_event list" where
  [handler_defs]: "handle_CreateBlock s i season project number start_date end_date =
     Ok [BlockCreated i season project number start_date end_date INITIAL]"

definition handle_UpdateBlockTimeSpan ::
  "block \<Rightarrow> naive_date option \<Rightarrow> naive_date option \<Rightarrow> aggregate_version \<Rightarrow>
   block_error + block_event list" where
  [handler_defs]: "handle_UpdateBlockTimeSpan s start_date end_date v =
     (if v \<noteq> block_version s then Err (BlockVersionMismatch v (block_version s))
      else Ok [BlockTimeSpanUpdated (block_id s) start_date end_date (version_next (block_version s))])"

fun block_handle :: "block \<Rightarrow> block_command \<Rightarrow> block_error + block_event list" where
  "block_handle s (CreateBlock i season project number start_date end_date) =
     handle_CreateBlock s i season project number start_date end_date"
| "block_handle s (UpdateBlockTimeSpan i start_date end_date project v) =
     handle_UpdateBlockTimeSpan s start_date end_date v"

fun block_expect :: "block_command \<Rightarrow> expected_version option" where
  "block_expect (CreateBlock _ _ _ _ _ _) = Some EmptyVersion"
| "block_expect (UpdateBlockTimeSpan _ _ _ _ v) = exact_version v"

section \<open>Interfaces\<close>

interpretation block_versions: versioned_aggregate
  block_apply block_handle never_idempotent block_expect "block_default fs fp"
  block_version block_event_version for fs fp
proof unfold_locales
  fix s e
  show "block_version (block_apply s e) = block_event_version e"
    by (cases e) simp_all
next
  fix c es
  assume "block_expect c = Some EmptyVersion" "block_handle (block_default fs fp) c = Ok es"
  then show "map block_event_version es = [INITIAL]"
    by (cases c) (auto simp: handler_defs)
next
  fix c ev s es
  assume "block_expect c = Some ev" "ev \<noteq> EmptyVersion" "block_handle s c = Ok es"
  then show "consecutive (block_version s) (map block_event_version es)"
    by (cases c) (auto simp: handler_defs version_next_def split: if_splits)
next
  fix c es
  assume "block_expect c = Some AnyVersion" "block_handle (block_default fs fp) c = Ok es"
  then show "es = []"
    by (cases c) auto
qed

interpretation block_scope: immutable_attribute
  block_apply block_handle never_idempotent block_expect "block_default fs fp"
  "\<lambda>_. True" "\<lambda>s. (block_id s, block_season_id s, block_project_id s, block_number s)" for fs fp
proof unfold_locales
  fix s c es
  assume "block_expect c \<noteq> Some EmptyVersion" "block_handle s c = Ok es"
  then show "True \<and> (\<lambda>s. (block_id s, block_season_id s, block_project_id s, block_number s)) (foldl block_apply s es) =
      (block_id s, block_season_id s, block_project_id s, block_number s)"
    by (cases c) (auto simp: handler_defs split: if_splits)
qed

end
