(* ===== verification/Episode_Aggregate.thy ===== *)
theory Episode_Aggregate
  imports Event_Sourcing
begin

text \<open>
  The Episode aggregate (\<open>backend/crates/core/src/episode\<close>). \<open>DeleteEpisode\<close> is
  dispatched by the development data reset without an expected version; a
  deleted episode accepts no further event.
\<close>

section \<open>State, events, commands\<close>

record episode =
  episode_id :: uuid
  episode_block_id :: block_id
  episode_project_id :: project_id
  episode_number :: i32
  episode_name :: "string option"
  episode_deleted :: bool
  episode_version :: aggregate_version

datatype episode_event =
    EpisodeCreated uuid block_id project_id i32 "string option" (episode_event_version: aggregate_version)
  | EpisodeRenamed uuid "string option" (episode_event_version: aggregate_version)
  | EpisodeDeleted uuid (episode_event_version: aggregate_version)

datatype episode_error =
    EpisodeValidationError string
  | EpisodeNotFound uuid
  | EpisodeIsDeleted uuid
  | EpisodeVersionMismatch aggregate_version aggregate_version

datatype episode_command =
    CreateEpisode uuid block_id project_id i32 "string option"
  | RenameEpisode uuid "string option" "project_id option" aggregate_version
  | DeleteEpisode uuid

definition episode_default :: "block_id \<Rightarrow> project_id \<Rightarrow> episode" where
  "episode_default fresh_block fresh_project =
     \<lparr>episode_id = nil_uuid, episode_block_id = fresh_block, episode_project_id = fresh_project,
      episode_number = 0, episode_name = None, episode_deleted = False, episode_version = INITIAL\<rparr>"

fun episode_event_type :: "episode_event \<Rightarrow> string" where
  "episode_event_type (EpisodeCreated _ _ _ _ _ _) = ''EpisodeCreated''"
| "episode_event_type (EpisodeRenamed _ _ _) = ''EpisodeRenamed''"
| "episode_event_type (EpisodeDeleted _ _) = ''EpisodeDeleted''"

section \<open>Apply and handlers\<close>

fun episode_apply :: "episode \<Rightarrow> episode_event \<Rightarrow> episode" where
  "episode_apply s (EpisodeDeleted i v) = s\<lparr>episode_deleted := True, episode_version := v\<rparr>"
| "episode_apply s (EpisodeCreated i block project number name v) =
     s\<lparr>episode_id := i, episode_block_id := block, episode_project_id := project,
       episode_number := number, episode_name := name, episode_version := v\<rparr>"
| "episode_apply s (EpisodeRenamed i name v) = s\<lparr>episode_name := name, episode_version := v\<rparr>"

definition handle_CreateEpisode ::
  "episode \<Rightarrow> uuid \<Rightarrow> block_id \<Rightarrow> project_id \<Rightarrow> i32 \<Rightarrow> string option \<Rightarrow>
   episode_error + episode_event list" where
  [handler_defs]: "handle_CreateEpisode s i block project number name =
     (if episode_deleted s then Err (EpisodeIsDeleted (episode_id s))
      else Ok [EpisodeCreated i block project number name INITIAL])"

definition handle_RenameEpisode ::
  "episode \<Rightarrow> string option \<Rightarrow> aggregate_version \<Rightarrow> episode_error + episode_event list" where
  [handler_defs]: "handle_RenameEpisode s name v =
     (if episode_deleted s then Err (EpisodeIsDeleted (episode_id s))
      else if v \<noteq> episode_version s then Err (EpisodeVersionMismatch v (episode_version s))
      else if name = episode_name s then Err (EpisodeValidationError ''Episode name unchanged'')
      else Ok [EpisodeRenamed (episode_id s) name (version_next (episode_version s))])"

definition handle_DeleteEpisode :: "episode \<Rightarrow> uuid \<Rightarrow> episode_error + episode_event list" where
  [handler_defs]: "handle_DeleteEpisode s i =
     (if episode_deleted s then Ok []
      else if episode_id s = nil_uuid then Err (EpisodeNotFound i)
      else Ok [EpisodeDeleted (episode_id s) (version_next (episode_version s))])"

fun episode_handle :: "episode \<Rightarrow> episode_command \<Rightarrow> episode_error + episode_event list" where
  "episode_handle s (CreateEpisode i block project number name) =
     handle_CreateEpisode s i block project number name"
| "episode_handle s (RenameEpisode i name project v) = handle_RenameEpisode s name v"
| "episode_handle s (DeleteEpisode i) = handle_DeleteEpisode s i"

fun episode_expect :: "episode_command \<Rightarrow> expected_version option" where
  "episode_expect (CreateEpisode _ _ _ _ _) = Some EmptyVersion"
| "episode_expect (RenameEpisode _ _ _ v) = exact_version v"
| "episode_expect (DeleteEpisode _) = Some AnyVersion"

section \<open>Interfaces\<close>

interpretation episode_versions: versioned_aggregate
  episode_apply episode_handle never_idempotent episode_expect "episode_default fb fp"
  episode_version episode_event_version for fb fp
proof unfold_locales
  fix s e
  show "episode_version (episode_apply s e) = episode_event_version e"
    by (cases e) simp_all
next
  fix c es
  assume "episode_expect c = Some EmptyVersion" "episode_handle (episode_default fb fp) c = Ok es"
  then show "map episode_event_version es = [INITIAL]"
    by (cases c) (auto simp: handler_defs split: if_splits)
next
  fix c ev s es
  assume "episode_expect c = Some ev" "ev \<noteq> EmptyVersion" "episode_handle s c = Ok es"
  then show "consecutive (episode_version s) (map episode_event_version es)"
    by (cases c) (auto simp: handler_defs version_next_def split: if_splits)
next
  fix c es
  assume "episode_expect c = Some AnyVersion" "episode_handle (episode_default fb fp) c = Ok es"
  then show "es = []"
    by (cases c) (auto simp: handler_defs episode_default_def)
qed

interpretation episode_tombstone: frozen_aggregate
  episode_apply episode_handle never_idempotent episode_expect "episode_default fb fp" episode_deleted
  for fb fp
proof unfold_locales
  show "\<not> episode_deleted (episode_default fb fp)"
    by (simp add: episode_default_def)
next
  fix s c es
  assume "episode_deleted s" "episode_expect c \<noteq> Some EmptyVersion" "episode_handle s c = Ok es"
  then show "es = []"
    by (cases c) (auto simp: handler_defs split: if_splits)
qed

interpretation episode_scope: immutable_attribute
  episode_apply episode_handle never_idempotent episode_expect "episode_default fb fp"
  "\<lambda>_. True" "\<lambda>s. (episode_id s, episode_block_id s, episode_project_id s, episode_number s)" for fb fp
proof unfold_locales
  fix s c es
  assume "episode_expect c \<noteq> Some EmptyVersion" "episode_handle s c = Ok es"
  then show "True \<and> (\<lambda>s. (episode_id s, episode_block_id s, episode_project_id s, episode_number s)) (foldl episode_apply s es) =
      (episode_id s, episode_block_id s, episode_project_id s, episode_number s)"
    by (cases c) (auto simp: handler_defs split: if_splits)
qed

end
