(* ===== verification/Character_Aggregate.thy ===== *)
theory Character_Aggregate
  imports Event_Sourcing
begin

text \<open>
  The Character aggregate (\<open>backend/crates/core/src/character\<close>). Body
  measurements are \<open>rust_decimal::Decimal\<close> values, which the aggregate only
  stores and compares with \<open>==\<close>: the model is polymorphic in their type \<open>'d\<close>,
  whose equality is the numerical one.
\<close>

section \<open>State, events, commands\<close>

datatype character_category = MainCast | Guest | Extra

fun character_category_as_str :: "character_category \<Rightarrow> string" where
  "character_category_as_str MainCast = ''main_cast''"
| "character_category_as_str Guest = ''guest''"
| "character_category_as_str Extra = ''extra''"

record 'd character_measurements =
  shoe_size :: "'d option"
  hat_size :: "'d option"
  height :: "'d option"
  weight :: "'d option"
  chest :: "'d option"
  waist :: "'d option"
  hips :: "'d option"

record contact_info =
  phone :: "string option"
  email :: "string option"

record 'd character =
  character_id :: uuid
  character_season_id :: season_id
  character_name :: string
  character_category :: character_category
  character_measurements :: "'d character_measurements"
  character_contact_info :: contact_info
  character_deleted :: bool
  character_version :: aggregate_version

datatype 'd character_event =
    CharacterCreated uuid season_id string character_category "'d character_measurements"
      contact_info (character_event_version: aggregate_version)
  | MeasurementsUpdated uuid "'d character_measurements" (character_event_version: aggregate_version)
  | ContactInfoUpdated uuid contact_info (character_event_version: aggregate_version)
  | CategoryChanged uuid character_category (character_event_version: aggregate_version)
  | CharacterDeleted uuid (character_event_version: aggregate_version)

datatype character_error =
    CharacterValidationError string
  | CharacterNotFound uuid
  | CharacterIsDeleted uuid
  | CharacterVersionMismatch aggregate_version aggregate_version

datatype 'd character_command =
    CreateCharacter uuid season_id "project_id option" string character_category
  | UpdateMeasurements uuid "'d character_measurements" "project_id option" aggregate_version
  | UpdateContactInfo uuid contact_info "project_id option" aggregate_version
  | UpdateCharacterCategory uuid "project_id option" character_category aggregate_version
  | DeleteCharacter uuid

definition measurements_default :: "'d character_measurements" where
  "measurements_default =
     \<lparr>shoe_size = None, hat_size = None, height = None, weight = None, chest = None, waist = None,
      hips = None\<rparr>"

definition contact_info_default :: contact_info where
  "contact_info_default = \<lparr>phone = None, email = None\<rparr>"

definition character_default :: "season_id \<Rightarrow> 'd character" where
  "character_default fresh =
     \<lparr>character_id = nil_uuid, character_season_id = fresh, character_name = [],
      character_category = MainCast, character_measurements = measurements_default,
      character_contact_info = contact_info_default, character_deleted = False,
      character_version = INITIAL\<rparr>"

fun character_event_type :: "'d character_event \<Rightarrow> string" where
  "character_event_type (CharacterCreated _ _ _ _ _ _ _) = ''CharacterCreated''"
| "character_event_type (MeasurementsUpdated _ _ _) = ''MeasurementsUpdated''"
| "character_event_type (ContactInfoUpdated _ _ _) = ''ContactInfoUpdated''"
| "character_event_type (CategoryChanged _ _ _) = ''CharacterCategoryChanged''"
| "character_event_type (CharacterDeleted _ _) = ''CharacterDeleted''"

section \<open>Apply and handlers\<close>

fun character_apply :: "'d character \<Rightarrow> 'd character_event \<Rightarrow> 'd character" where
  "character_apply s (CharacterDeleted i v) = s\<lparr>character_deleted := True, character_version := v\<rparr>"
| "character_apply s (CharacterCreated i season name cat measurements contact v) =
     s\<lparr>character_id := i, character_season_id := season, character_name := name,
       character_category := cat, character_measurements := measurements,
       character_contact_info := contact, character_version := v\<rparr>"
| "character_apply s (MeasurementsUpdated i measurements v) =
     s\<lparr>character_measurements := measurements, character_version := v\<rparr>"
| "character_apply s (ContactInfoUpdated i contact v) =
     s\<lparr>character_contact_info := contact, character_version := v\<rparr>"
| "character_apply s (CategoryChanged i cat v) =
     s\<lparr>character_category := cat, character_version := v\<rparr>"

definition handle_CreateCharacter ::
  "'d character \<Rightarrow> uuid \<Rightarrow> season_id \<Rightarrow> string \<Rightarrow> character_category \<Rightarrow>
   character_error + 'd character_event list" where
  [handler_defs]: "handle_CreateCharacter s i season name cat =
     (if character_deleted s then Err (CharacterIsDeleted (character_id s))
      else if name = [] then Err (CharacterValidationError ''Name must not be empty'')
      else Ok [CharacterCreated i season name cat measurements_default contact_info_default INITIAL])"

definition handle_UpdateMeasurements ::
  "'d character \<Rightarrow> 'd character_measurements \<Rightarrow> aggregate_version \<Rightarrow>
   character_error + 'd character_event list" where
  [handler_defs]: "handle_UpdateMeasurements s measurements v =
     (if character_deleted s then Err (CharacterIsDeleted (character_id s))
      else if v \<noteq> character_version s then Err (CharacterVersionMismatch v (character_version s))
      else if measurements = character_measurements s
        then Err (CharacterValidationError ''Measurements unchanged'')
      else Ok [MeasurementsUpdated (character_id s) measurements (version_next (character_version s))])"

definition handle_UpdateContactInfo ::
  "'d character \<Rightarrow> contact_info \<Rightarrow> aggregate_version \<Rightarrow>
   character_error + 'd character_event list" where
  [handler_defs]: "handle_UpdateContactInfo s contact v =
     (if character_deleted s then Err (CharacterIsDeleted (character_id s))
      else if v \<noteq> character_version s then Err (CharacterVersionMismatch v (character_version s))
      else if contact = character_contact_info s
        then Err (CharacterValidationError ''Contact info unchanged'')
      else Ok [ContactInfoUpdated (character_id s) contact (version_next (character_version s))])"

definition handle_UpdateCharacterCategory ::
  "'d character \<Rightarrow> character_category \<Rightarrow> aggregate_version \<Rightarrow>
   character_error + 'd character_event list" where
  [handler_defs]: "handle_UpdateCharacterCategory s cat v =
     (if character_deleted s then Err (CharacterIsDeleted (character_id s))
      else if v \<noteq> character_version s then Err (CharacterVersionMismatch v (character_version s))
      else if cat = character_category s then Ok []
      else Ok [CategoryChanged (character_id s) cat (version_next (character_version s))])"

definition handle_DeleteCharacter ::
  "'d character \<Rightarrow> uuid \<Rightarrow> character_error + 'd character_event list" where
  [handler_defs]: "handle_DeleteCharacter s i =
     (if character_deleted s then Ok []
      else if character_id s = nil_uuid then Err (CharacterNotFound i)
      else Ok [CharacterDeleted (character_id s) (version_next (character_version s))])"

fun character_handle ::
  "'d character \<Rightarrow> 'd character_command \<Rightarrow> character_error + 'd character_event list" where
  "character_handle s (CreateCharacter i season project name cat) =
     handle_CreateCharacter s i season name cat"
| "character_handle s (UpdateMeasurements i measurements project v) =
     handle_UpdateMeasurements s measurements v"
| "character_handle s (UpdateContactInfo i contact project v) = handle_UpdateContactInfo s contact v"
| "character_handle s (UpdateCharacterCategory i project cat v) =
     handle_UpdateCharacterCategory s cat v"
| "character_handle s (DeleteCharacter i) = handle_DeleteCharacter s i"

fun character_expect :: "'d character_command \<Rightarrow> expected_version option" where
  "character_expect (CreateCharacter _ _ _ _ _) = Some EmptyVersion"
| "character_expect (UpdateMeasurements _ _ _ v) = exact_version v"
| "character_expect (UpdateContactInfo _ _ _ v) = exact_version v"
| "character_expect (UpdateCharacterCategory _ _ _ v) = exact_version v"
| "character_expect (DeleteCharacter _) = Some AnyVersion"

section \<open>Interfaces\<close>

interpretation character_versions: versioned_aggregate
  character_apply character_handle never_idempotent character_expect "character_default fresh"
  character_version character_event_version for fresh
proof unfold_locales
  fix s :: "'d character" and e
  show "character_version (character_apply s e) = character_event_version e"
    by (cases e) simp_all
next
  fix c :: "'d character_command" and es
  assume "character_expect c = Some EmptyVersion" "character_handle (character_default fresh) c = Ok es"
  then show "map character_event_version es = [INITIAL]"
    by (cases c) (auto simp: handler_defs split: if_splits)
next
  fix c :: "'d character_command" and ev s es
  assume "character_expect c = Some ev" "ev \<noteq> EmptyVersion" "character_handle s c = Ok es"
  then show "consecutive (character_version s) (map character_event_version es)"
    by (cases c) (auto simp: handler_defs version_next_def split: if_splits)
next
  fix c :: "'d character_command" and es
  assume "character_expect c = Some AnyVersion" "character_handle (character_default fresh) c = Ok es"
  then show "es = []"
    by (cases c) (auto simp: handler_defs character_default_def)
qed

interpretation character_tombstone: frozen_aggregate
  character_apply character_handle never_idempotent character_expect "character_default fresh"
  character_deleted for fresh
proof unfold_locales
  show "\<not> character_deleted (character_default fresh)"
    by (simp add: character_default_def)
next
  fix s :: "'d character" and c es
  assume "character_deleted s" "character_expect c \<noteq> Some EmptyVersion" "character_handle s c = Ok es"
  then show "es = []"
    by (cases c) (auto simp: handler_defs split: if_splits)
qed

interpretation character_scope: immutable_attribute
  character_apply character_handle never_idempotent character_expect "character_default fresh"
  "\<lambda>_. True" "\<lambda>s. (character_id s, character_season_id s, character_name s)" for fresh
proof unfold_locales
  fix s :: "'d character" and c es
  assume "character_expect c \<noteq> Some EmptyVersion" "character_handle s c = Ok es"
  then show "True \<and> (\<lambda>s. (character_id s, character_season_id s, character_name s)) (foldl character_apply s es) =
      (character_id s, character_season_id s, character_name s)"
    by (cases c) (auto simp: handler_defs split: if_splits)
qed

text \<open>Every character has a name once its stream exists.\<close>

interpretation character_names: invariant_aggregate
  character_apply character_handle never_idempotent character_expect "character_default fresh"
  "\<lambda>_ s. character_name s \<noteq> []" for fresh
proof unfold_locales
  fix c :: "'d character_command" and ev es
  assume "character_expect c = Some ev" "ev = EmptyVersion \<or> ev = AnyVersion"
    "character_handle (character_default fresh) c = Ok es" "es \<noteq> []"
  then show "character_name (foldl character_apply (character_default fresh) es) \<noteq> []"
    by (cases c) (auto simp: handler_defs character_default_def split: if_splits)
next
  fix s :: "'d character" and c ev es
  assume "character_name s \<noteq> []" "character_expect c = Some ev" "ev \<noteq> EmptyVersion"
    "character_handle s c = Ok es"
  then show "character_name (foldl character_apply s es) \<noteq> []"
    by (cases c) (auto simp: handler_defs split: if_splits)
qed

end
