(* ===== verification/Costume_Category_Aggregate.thy ===== *)
theory Costume_Category_Aggregate
  imports Event_Sourcing
begin

text \<open>
  The CostumeCategory aggregate (\<open>backend/crates/core/src/costume_category\<close>): the
  season-scoped vocabulary of part types, with a terminal soft archive.
\<close>

section \<open>State, events, commands\<close>

record costume_category =
  category_id :: uuid
  category_season_id :: season_id
  category_name :: string
  category_order_key :: lexical_sort_key
  category_archived :: bool
  category_version :: aggregate_version

datatype costume_category_event =
    CostumeCategoryCreated uuid season_id string lexical_sort_key
      (category_event_version: aggregate_version)
  | CostumeCategoryRenamed uuid string (category_event_version: aggregate_version)
  | CostumeCategoryReordered uuid lexical_sort_key (category_event_version: aggregate_version)
  | CostumeCategoryArchived uuid (category_event_version: aggregate_version)

datatype costume_category_error =
    CostumeCategoryValidationError string
  | CostumeCategoryArchivedCannotBeMutated costume_category_id
  | CostumeCategoryVersionMismatch aggregate_version aggregate_version

datatype costume_category_command =
    CreateCostumeCategory uuid season_id "project_id option" string lexical_sort_key
  | RenameCostumeCategory uuid string "project_id option" aggregate_version
  | ReorderCostumeCategory uuid lexical_sort_key "project_id option" aggregate_version
  | ArchiveCostumeCategory uuid "project_id option" aggregate_version

definition costume_category_default :: "season_id \<Rightarrow> costume_category" where
  "costume_category_default fresh =
     \<lparr>category_id = nil_uuid, category_season_id = fresh, category_name = [],
      category_order_key = ''0'', category_archived = False, category_version = INITIAL\<rparr>"

fun costume_category_event_type :: "costume_category_event \<Rightarrow> string" where
  "costume_category_event_type (CostumeCategoryCreated _ _ _ _ _) = ''CostumeCategoryCreated''"
| "costume_category_event_type (CostumeCategoryRenamed _ _ _) = ''CostumeCategoryRenamed''"
| "costume_category_event_type (CostumeCategoryReordered _ _ _) = ''CostumeCategoryReordered''"
| "costume_category_event_type (CostumeCategoryArchived _ _) = ''CostumeCategoryArchived''"

section \<open>Apply and handlers\<close>

fun costume_category_apply :: "costume_category \<Rightarrow> costume_category_event \<Rightarrow> costume_category" where
  "costume_category_apply s (CostumeCategoryCreated i season name key v) =
     s\<lparr>category_id := i, category_season_id := season, category_name := name,
       category_order_key := key, category_archived := False, category_version := v\<rparr>"
| "costume_category_apply s (CostumeCategoryRenamed i name v) =
     s\<lparr>category_name := name, category_version := v\<rparr>"
| "costume_category_apply s (CostumeCategoryReordered i key v) =
     s\<lparr>category_order_key := key, category_version := v\<rparr>"
| "costume_category_apply s (CostumeCategoryArchived i v) =
     s\<lparr>category_archived := True, category_version := v\<rparr>"

definition handle_CreateCostumeCategory ::
  "costume_category \<Rightarrow> uuid \<Rightarrow> season_id \<Rightarrow> string \<Rightarrow> lexical_sort_key \<Rightarrow>
   costume_category_error + costume_category_event list" where
  [handler_defs]: "handle_CreateCostumeCategory s i season name key =
     (if trim name = []
        then Err (CostumeCategoryValidationError ''CostumeCategory name must not be empty'')
      else Ok [CostumeCategoryCreated i season name key INITIAL])"

definition handle_RenameCostumeCategory ::
  "costume_category \<Rightarrow> string \<Rightarrow> aggregate_version \<Rightarrow>
   costume_category_error + costume_category_event list" where
  [handler_defs]: "handle_RenameCostumeCategory s name v =
     (if category_archived s then Err (CostumeCategoryArchivedCannotBeMutated (category_id s))
      else if v \<noteq> category_version s then Err (CostumeCategoryVersionMismatch v (category_version s))
      else if trim name = []
        then Err (CostumeCategoryValidationError ''CostumeCategory name must not be empty'')
      else Ok [CostumeCategoryRenamed (category_id s) name (version_next (category_version s))])"

definition handle_ReorderCostumeCategory ::
  "costume_category \<Rightarrow> lexical_sort_key \<Rightarrow> aggregate_version \<Rightarrow>
   costume_category_error + costume_category_event list" where
  [handler_defs]: "handle_ReorderCostumeCategory s key v =
     (if category_archived s then Err (CostumeCategoryArchivedCannotBeMutated (category_id s))
      else if v \<noteq> category_version s then Err (CostumeCategoryVersionMismatch v (category_version s))
      else Ok [CostumeCategoryReordered (category_id s) key (version_next (category_version s))])"

definition handle_ArchiveCostumeCategory ::
  "costume_category \<Rightarrow> aggregate_version \<Rightarrow> costume_category_error + costume_category_event list" where
  [handler_defs]: "handle_ArchiveCostumeCategory s v =
     (if v \<noteq> category_version s then Err (CostumeCategoryVersionMismatch v (category_version s))
      else if category_archived s then Err (CostumeCategoryArchivedCannotBeMutated (category_id s))
      else Ok [CostumeCategoryArchived (category_id s) (version_next (category_version s))])"

fun costume_category_handle ::
  "costume_category \<Rightarrow> costume_category_command \<Rightarrow>
   costume_category_error + costume_category_event list" where
  "costume_category_handle s (CreateCostumeCategory i season project name key) =
     handle_CreateCostumeCategory s i season name key"
| "costume_category_handle s (RenameCostumeCategory i name project v) =
     handle_RenameCostumeCategory s name v"
| "costume_category_handle s (ReorderCostumeCategory i key project v) =
     handle_ReorderCostumeCategory s key v"
| "costume_category_handle s (ArchiveCostumeCategory i project v) = handle_ArchiveCostumeCategory s v"

fun costume_category_expect :: "costume_category_command \<Rightarrow> expected_version option" where
  "costume_category_expect (CreateCostumeCategory _ _ _ _ _) = Some EmptyVersion"
| "costume_category_expect (RenameCostumeCategory _ _ _ v) = exact_version v"
| "costume_category_expect (ReorderCostumeCategory _ _ _ v) = exact_version v"
| "costume_category_expect (ArchiveCostumeCategory _ _ v) = exact_version v"

section \<open>Interfaces\<close>

interpretation costume_category_versions: versioned_aggregate
  costume_category_apply costume_category_handle never_idempotent costume_category_expect
  "costume_category_default fresh" category_version category_event_version for fresh
proof unfold_locales
  fix s e
  show "category_version (costume_category_apply s e) = category_event_version e"
    by (cases e) simp_all
next
  fix c es
  assume "costume_category_expect c = Some EmptyVersion"
    "costume_category_handle (costume_category_default fresh) c = Ok es"
  then show "map category_event_version es = [INITIAL]"
    by (cases c) (auto simp: handler_defs split: if_splits)
next
  fix c ev s es
  assume "costume_category_expect c = Some ev" "ev \<noteq> EmptyVersion" "costume_category_handle s c = Ok es"
  then show "consecutive (category_version s) (map category_event_version es)"
    by (cases c) (auto simp: handler_defs version_next_def split: if_splits)
next
  fix c es
  assume "costume_category_expect c = Some AnyVersion"
    "costume_category_handle (costume_category_default fresh) c = Ok es"
  then show "es = []"
    by (cases c) auto
qed

interpretation costume_category_archive: frozen_aggregate
  costume_category_apply costume_category_handle never_idempotent costume_category_expect
  "costume_category_default fresh" category_archived for fresh
proof unfold_locales
  show "\<not> category_archived (costume_category_default fresh)"
    by (simp add: costume_category_default_def)
next
  fix s c es
  assume "category_archived s" "costume_category_expect c \<noteq> Some EmptyVersion"
    "costume_category_handle s c = Ok es"
  then show "es = []"
    by (cases c) (auto simp: handler_defs split: if_splits)
qed

interpretation costume_category_scope: immutable_attribute
  costume_category_apply costume_category_handle never_idempotent costume_category_expect
  "costume_category_default fresh" "\<lambda>_. True" "\<lambda>s. (category_id s, category_season_id s)" for fresh
proof unfold_locales
  fix s c es
  assume "costume_category_expect c \<noteq> Some EmptyVersion" "costume_category_handle s c = Ok es"
  then show "True \<and> (\<lambda>s. (category_id s, category_season_id s)) (foldl costume_category_apply s es) =
      (category_id s, category_season_id s)"
    by (cases c) (auto simp: handler_defs split: if_splits)
qed

text \<open>A category never has a blank name.\<close>

interpretation costume_category_names: invariant_aggregate
  costume_category_apply costume_category_handle never_idempotent costume_category_expect
  "costume_category_default fresh" "\<lambda>_ s. trim (category_name s) \<noteq> []" for fresh
proof unfold_locales
  fix c ev es
  assume "costume_category_expect c = Some ev" "ev = EmptyVersion \<or> ev = AnyVersion"
    "costume_category_handle (costume_category_default fresh) c = Ok es" "es \<noteq> []"
  then show "trim (category_name (foldl costume_category_apply (costume_category_default fresh) es)) \<noteq> []"
    by (cases c) (auto simp: handler_defs split: if_splits)
next
  fix s c ev es
  assume "trim (category_name s) \<noteq> []" "costume_category_expect c = Some ev" "ev \<noteq> EmptyVersion"
    "costume_category_handle s c = Ok es"
  then show "trim (category_name (foldl costume_category_apply s es)) \<noteq> []"
    by (cases c) (auto simp: handler_defs split: if_splits)
qed

end
