(* ===== verification/Settings_Aggregate.thy ===== *)
theory Settings_Aggregate
  imports Event_Sourcing
begin

text \<open>
  The Settings aggregate (\<open>backend/crates/core/src/settings\<close>): a reference to a
  credential held in the vault, its rotation and its revocation. The secret
  itself never enters the aggregate.
\<close>

section \<open>State, events, commands\<close>

datatype credential_binding_state = BindingActive | BindingRevoked | BindingUnreachable

record settings =
  settings_id :: uuid
  settings_provider :: string
  settings_vault_key_id :: string
  settings_vault_version :: u64
  settings_binding_state :: "credential_binding_state option"
  settings_version :: aggregate_version

datatype settings_event =
    CredentialBound uuid string string u64 (settings_event_version: aggregate_version)
  | CredentialRotated uuid string string u64 (settings_event_version: aggregate_version)
  | CredentialRevoked uuid (settings_event_version: aggregate_version)

datatype settings_error =
    SettingsEmptyProvider
  | SettingsEmptyVaultKey
  | SettingsProviderMismatch
  | SettingsNotFound
  | SettingsAlreadyRevoked
  | SettingsVersionMismatch aggregate_version aggregate_version

datatype settings_command =
    CreateCredentialBinding uuid string string u64
  | RotateCredentialBinding uuid string string u64 aggregate_version
  | RevokeCredential uuid aggregate_version

definition settings_default :: settings where
  "settings_default =
     \<lparr>settings_id = nil_uuid, settings_provider = [], settings_vault_key_id = [],
      settings_vault_version = 0, settings_binding_state = None, settings_version = INITIAL\<rparr>"

fun settings_event_type :: "settings_event \<Rightarrow> string" where
  "settings_event_type (CredentialBound _ _ _ _ _) = ''CredentialBound''"
| "settings_event_type (CredentialRotated _ _ _ _ _) = ''CredentialRotated''"
| "settings_event_type (CredentialRevoked _ _) = ''CredentialRevoked''"

section \<open>Apply and handlers\<close>

fun settings_apply :: "settings \<Rightarrow> settings_event \<Rightarrow> settings" where
  "settings_apply s (CredentialBound i provider key vault_version v) =
     s\<lparr>settings_id := i, settings_provider := provider, settings_vault_key_id := key,
       settings_vault_version := vault_version, settings_binding_state := Some BindingActive,
       settings_version := v\<rparr>"
| "settings_apply s (CredentialRotated i provider key vault_version v) =
     s\<lparr>settings_provider := provider, settings_vault_key_id := key,
       settings_vault_version := vault_version, settings_binding_state := Some BindingActive,
       settings_version := v\<rparr>"
| "settings_apply s (CredentialRevoked i v) =
     s\<lparr>settings_binding_state := Some BindingRevoked, settings_version := v\<rparr>"

definition handle_CreateCredentialBinding ::
  "settings \<Rightarrow> uuid \<Rightarrow> string \<Rightarrow> string \<Rightarrow> u64 \<Rightarrow> settings_error + settings_event list" where
  [handler_defs]: "handle_CreateCredentialBinding s i provider key vault_version =
     (if trim provider = [] then Err SettingsEmptyProvider
      else if trim key = [] then Err SettingsEmptyVaultKey
      else Ok [CredentialBound i provider key vault_version INITIAL])"

definition handle_RotateCredentialBinding ::
  "settings \<Rightarrow> string \<Rightarrow> string \<Rightarrow> u64 \<Rightarrow> aggregate_version \<Rightarrow>
   settings_error + settings_event list" where
  [handler_defs]: "handle_RotateCredentialBinding s provider key vault_version v =
     (if settings_binding_state s = None then Err SettingsNotFound
      else if settings_binding_state s = Some BindingRevoked then Err SettingsAlreadyRevoked
      else if trim provider = [] then Err SettingsEmptyProvider
      else if provider \<noteq> settings_provider s then Err SettingsProviderMismatch
      else if trim key = [] then Err SettingsEmptyVaultKey
      else if v \<noteq> settings_version s then Err (SettingsVersionMismatch v (settings_version s))
      else Ok [CredentialRotated (settings_id s) provider key vault_version
                 (version_next (settings_version s))])"

definition handle_RevokeCredential ::
  "settings \<Rightarrow> aggregate_version \<Rightarrow> settings_error + settings_event list" where
  [handler_defs]: "handle_RevokeCredential s v =
     (if settings_binding_state s = None then Err SettingsNotFound
      else if settings_binding_state s = Some BindingRevoked then Err SettingsAlreadyRevoked
      else if v \<noteq> settings_version s then Err (SettingsVersionMismatch v (settings_version s))
      else Ok [CredentialRevoked (settings_id s) (version_next (settings_version s))])"

fun settings_handle :: "settings \<Rightarrow> settings_command \<Rightarrow> settings_error + settings_event list" where
  "settings_handle s (CreateCredentialBinding i provider key vault_version) =
     handle_CreateCredentialBinding s i provider key vault_version"
| "settings_handle s (RotateCredentialBinding i provider key vault_version v) =
     handle_RotateCredentialBinding s provider key vault_version v"
| "settings_handle s (RevokeCredential i v) = handle_RevokeCredential s v"

fun settings_expect :: "settings_command \<Rightarrow> expected_version option" where
  "settings_expect (CreateCredentialBinding _ _ _ _) = Some EmptyVersion"
| "settings_expect (RotateCredentialBinding _ _ _ _ v) = exact_version v"
| "settings_expect (RevokeCredential _ v) = exact_version v"

text \<open>A binding that exists names a provider and a vault key, and is active or revoked.\<close>

definition settings_bound :: "settings \<Rightarrow> bool" where
  "settings_bound s \<longleftrightarrow>
     trim (settings_provider s) \<noteq> [] \<and> trim (settings_vault_key_id s) \<noteq> [] \<and>
     (settings_binding_state s = Some BindingActive \<or> settings_binding_state s = Some BindingRevoked)"

section \<open>Interfaces\<close>

interpretation settings_versions: versioned_aggregate
  settings_apply settings_handle never_idempotent settings_expect settings_default
  settings_version settings_event_version
proof unfold_locales
  fix s e
  show "settings_version (settings_apply s e) = settings_event_version e"
    by (cases e) simp_all
next
  fix c es
  assume "settings_expect c = Some EmptyVersion" "settings_handle settings_default c = Ok es"
  then show "map settings_event_version es = [INITIAL]"
    by (cases c) (auto simp: handler_defs split: if_splits)
next
  fix c ev s es
  assume "settings_expect c = Some ev" "ev \<noteq> EmptyVersion" "settings_handle s c = Ok es"
  then show "consecutive (settings_version s) (map settings_event_version es)"
    by (cases c) (auto simp: handler_defs version_next_def split: if_splits)
next
  fix c es
  assume "settings_expect c = Some AnyVersion" "settings_handle settings_default c = Ok es"
  then show "es = []"
    by (cases c) auto
qed

interpretation settings_revocation: frozen_aggregate
  settings_apply settings_handle never_idempotent settings_expect settings_default
  "\<lambda>s. settings_binding_state s = Some BindingRevoked"
proof unfold_locales
  show "settings_binding_state settings_default \<noteq> Some BindingRevoked"
    by (simp add: settings_default_def)
next
  fix s c es
  assume "settings_binding_state s = Some BindingRevoked" "settings_expect c \<noteq> Some EmptyVersion"
    "settings_handle s c = Ok es"
  then show "es = []"
    by (cases c) (auto simp: handler_defs split: if_splits)
qed

interpretation settings_scope: immutable_attribute
  settings_apply settings_handle never_idempotent settings_expect settings_default
  "\<lambda>_. True" "\<lambda>s. (settings_id s, settings_provider s)"
proof unfold_locales
  fix s c es
  assume "settings_expect c \<noteq> Some EmptyVersion" "settings_handle s c = Ok es"
  then show "True \<and> (\<lambda>s. (settings_id s, settings_provider s)) (foldl settings_apply s es) =
      (settings_id s, settings_provider s)"
    by (cases c) (auto simp: handler_defs split: if_splits)
qed

interpretation settings_binding: invariant_aggregate
  settings_apply settings_handle never_idempotent settings_expect settings_default "\<lambda>_. settings_bound"
proof unfold_locales
  fix c ev es
  assume "settings_expect c = Some ev" "ev = EmptyVersion \<or> ev = AnyVersion"
    "settings_handle settings_default c = Ok es" "es \<noteq> []"
  then show "settings_bound (foldl settings_apply settings_default es)"
    by (cases c) (auto simp: handler_defs settings_bound_def split: if_splits)
next
  fix s c ev es
  assume "settings_bound s" "settings_expect c = Some ev" "ev \<noteq> EmptyVersion"
    "settings_handle s c = Ok es"
  then show "settings_bound (foldl settings_apply s es)"
    by (cases c) (auto simp: handler_defs settings_bound_def split: if_splits)
qed

end
