(* ===== verification/Scene_Aggregate.thy ===== *)
theory Scene_Aggregate
  imports Event_Sourcing
begin

text \<open>
  The Scene aggregate (\<open>backend/crates/core/src/scene\<close>): assigned characters,
  linked shooting days and the ordered outfit beats of each character. The
  invariant \<open>scene_ok\<close> says that every beat belongs to an assigned character
  and that the orders of a character's beats increase.
\<close>

section \<open>State, events, commands\<close>

datatype scene_source =
    SceneManual
  | SceneAiExtracted uuid "string option" "f32_bits option"

record scene_details =
  scene_number :: "u32 option"
  location :: "string option"
  mood :: "string option"
  is_schedule_set :: bool
  summary :: "string option"
  script_day :: "string option"

record scene_outfit_beat =
  beat_character_id :: uuid
  beat_outfit_id :: uuid
  beat_order :: u32
  beat_note :: "string option"

record scene =
  scene_id :: uuid
  scene_episode_id :: episode_id
  scene_details :: scene_details
  assigned_characters :: "uuid list"
  shooting_day_ids :: "shooting_day_id list"
  outfit_beats :: "scene_outfit_beat list"
  scene_source :: scene_source
  scene_deleted :: bool
  scene_version :: aggregate_version

datatype scene_event =
    SceneCreated uuid episode_id scene_details "uuid list" scene_source
      (scene_event_version: aggregate_version)
  | SceneDetailsUpdated uuid scene_details (scene_event_version: aggregate_version)
  | CharacterAssigned uuid uuid (scene_event_version: aggregate_version)
  | CharacterRemoved uuid uuid (scene_event_version: aggregate_version)
  | ShootingDayScheduled uuid shooting_day_id (scene_event_version: aggregate_version)
  | ShootingDayUnscheduled uuid shooting_day_id (scene_event_version: aggregate_version)
  | OutfitBeatAdded uuid uuid uuid u32 "string option" (scene_event_version: aggregate_version)
  | OutfitBeatUpdated uuid uuid u32 uuid "string option" (scene_event_version: aggregate_version)
  | OutfitBeatRemoved uuid uuid u32 (scene_event_version: aggregate_version)
  | OutfitBeatsCleared uuid uuid (scene_event_version: aggregate_version)
  | SceneDeleted uuid (scene_event_version: aggregate_version)

datatype scene_error =
    SceneValidationError string
  | SceneCharacterNotFound uuid
  | SceneNotFound uuid
  | SceneIsDeleted uuid
  | CharacterAlreadyAssigned
  | CharacterNotInScene uuid
  | BeatNotFound uuid u32
  | NoOutfitBeats uuid
  | SceneAlreadyScheduled shooting_day_id
  | SceneNotScheduled shooting_day_id
  | SceneVersionMismatch aggregate_version aggregate_version

datatype scene_command =
    CreateScene uuid episode_id "project_id option" scene_details scene_source
  | UpdateSceneDetails uuid scene_details "project_id option" aggregate_version
  | AssignCharacter uuid uuid "project_id option" aggregate_version
  | RemoveCharacter uuid uuid "project_id option" aggregate_version
  | AddOutfitBeat uuid uuid uuid "string option" "project_id option" aggregate_version
  | UpdateOutfitBeat uuid uuid u32 uuid "string option" "project_id option" aggregate_version
  | RemoveOutfitBeat uuid uuid "u32 option" "project_id option" aggregate_version
  | ScheduleSceneOnShootingDay uuid shooting_day_id "project_id option" aggregate_version
  | UnscheduleSceneFromShootingDay uuid shooting_day_id "project_id option" aggregate_version
  | DeleteScene uuid

definition scene_details_default :: scene_details where
  "scene_details_default =
     \<lparr>scene_number = None, location = None, mood = None, is_schedule_set = False, summary = None,
      script_day = None\<rparr>"

definition scene_default :: "episode_id \<Rightarrow> scene" where
  "scene_default fresh =
     \<lparr>scene_id = nil_uuid, scene_episode_id = fresh, scene_details = scene_details_default,
      assigned_characters = [], shooting_day_ids = [], outfit_beats = [], scene_source = SceneManual,
      scene_deleted = False, scene_version = INITIAL\<rparr>"

fun scene_event_type :: "scene_event \<Rightarrow> string" where
  "scene_event_type (SceneCreated _ _ _ _ _ _) = ''SceneCreated''"
| "scene_event_type (SceneDetailsUpdated _ _ _) = ''SceneDetailsUpdated''"
| "scene_event_type (CharacterAssigned _ _ _) = ''CharacterAssigned''"
| "scene_event_type (CharacterRemoved _ _ _) = ''CharacterRemoved''"
| "scene_event_type (ShootingDayScheduled _ _ _) = ''ShootingDayScheduled''"
| "scene_event_type (ShootingDayUnscheduled _ _ _) = ''ShootingDayUnscheduled''"
| "scene_event_type (OutfitBeatAdded _ _ _ _ _ _) = ''OutfitBeatAdded''"
| "scene_event_type (OutfitBeatUpdated _ _ _ _ _ _) = ''OutfitBeatUpdated''"
| "scene_event_type (OutfitBeatRemoved _ _ _ _) = ''OutfitBeatRemoved''"
| "scene_event_type (OutfitBeatsCleared _ _ _) = ''OutfitBeatsCleared''"
| "scene_event_type (SceneDeleted _ _) = ''SceneDeleted''"

section \<open>Apply\<close>

definition is_beat :: "uuid \<Rightarrow> u32 \<Rightarrow> scene_outfit_beat \<Rightarrow> bool" where
  "is_beat c order b \<longleftrightarrow> beat_character_id b = c \<and> beat_order b = order"

text \<open>\<open>iter_mut().find(..)\<close>: the first beat at \<open>(c, order)\<close> is edited in place.\<close>

fun update_beat ::
  "uuid \<Rightarrow> u32 \<Rightarrow> uuid \<Rightarrow> string option \<Rightarrow> scene_outfit_beat list \<Rightarrow> scene_outfit_beat list" where
  "update_beat c order outfit note [] = []"
| "update_beat c order outfit note (b # bs) =
     (if is_beat c order b then b\<lparr>beat_outfit_id := outfit, beat_note := note\<rparr> # bs
      else b # update_beat c order outfit note bs)"

fun scene_apply :: "scene \<Rightarrow> scene_event \<Rightarrow> scene" where
  "scene_apply s (SceneDeleted i v) = s\<lparr>scene_deleted := True, scene_version := v\<rparr>"
| "scene_apply s (SceneCreated i episode details characters source v) =
     s\<lparr>scene_id := i, scene_episode_id := episode, scene_details := details,
       assigned_characters := characters, scene_source := source, shooting_day_ids := [],
       scene_version := v\<rparr>"
| "scene_apply s (SceneDetailsUpdated i details v) =
     s\<lparr>scene_details := details, scene_version := v\<rparr>"
| "scene_apply s (CharacterAssigned i c v) =
     s\<lparr>assigned_characters :=
         (if c \<in> set (assigned_characters s) then assigned_characters s
          else assigned_characters s @ [c]),
       scene_version := v\<rparr>"
| "scene_apply s (CharacterRemoved i c v) =
     s\<lparr>assigned_characters := retain_ne c (assigned_characters s), scene_version := v\<rparr>"
| "scene_apply s (ShootingDayScheduled i day v) =
     s\<lparr>shooting_day_ids :=
         (if day \<in> set (shooting_day_ids s) then shooting_day_ids s else shooting_day_ids s @ [day]),
       scene_version := v\<rparr>"
| "scene_apply s (ShootingDayUnscheduled i day v) =
     s\<lparr>shooting_day_ids := retain_ne day (shooting_day_ids s), scene_version := v\<rparr>"
| "scene_apply s (OutfitBeatAdded i c outfit order note v) =
     s\<lparr>outfit_beats := outfit_beats s @
         [\<lparr>beat_character_id = c, beat_outfit_id = outfit, beat_order = order, beat_note = note\<rparr>],
       scene_version := v\<rparr>"
| "scene_apply s (OutfitBeatUpdated i c order outfit note v) =
     s\<lparr>outfit_beats := update_beat c order outfit note (outfit_beats s), scene_version := v\<rparr>"
| "scene_apply s (OutfitBeatRemoved i c order v) =
     s\<lparr>outfit_beats := filter (\<lambda>b. \<not> is_beat c order b) (outfit_beats s), scene_version := v\<rparr>"
| "scene_apply s (OutfitBeatsCleared i c v) =
     s\<lparr>outfit_beats := filter (\<lambda>b. beat_character_id b \<noteq> c) (outfit_beats s), scene_version := v\<rparr>"

section \<open>Handlers\<close>

definition handle_CreateScene ::
  "scene \<Rightarrow> uuid \<Rightarrow> episode_id \<Rightarrow> scene_details \<Rightarrow> scene_source \<Rightarrow>
   scene_error + scene_event list" where
  [handler_defs]: "handle_CreateScene s i episode details source =
     (if scene_deleted s then Err (SceneIsDeleted (scene_id s))
      else Ok [SceneCreated i episode details [] source INITIAL])"

definition handle_UpdateSceneDetails ::
  "scene \<Rightarrow> scene_details \<Rightarrow> aggregate_version \<Rightarrow> scene_error + scene_event list" where
  [handler_defs]: "handle_UpdateSceneDetails s details v =
     (if scene_deleted s then Err (SceneIsDeleted (scene_id s))
      else if v \<noteq> scene_version s then Err (SceneVersionMismatch v (scene_version s))
      else if details = scene_details s then Err (SceneValidationError ''Scene details unchanged'')
      else Ok [SceneDetailsUpdated (scene_id s) details (version_next (scene_version s))])"

definition handle_AssignCharacter ::
  "scene \<Rightarrow> uuid \<Rightarrow> aggregate_version \<Rightarrow> scene_error + scene_event list" where
  [handler_defs]: "handle_AssignCharacter s c v =
     (if scene_deleted s then Err (SceneIsDeleted (scene_id s))
      else if v \<noteq> scene_version s then Err (SceneVersionMismatch v (scene_version s))
      else if c \<in> set (assigned_characters s) then Err CharacterAlreadyAssigned
      else Ok [CharacterAssigned (scene_id s) c (version_next (scene_version s))])"

definition has_beats :: "scene \<Rightarrow> uuid \<Rightarrow> bool" where
  "has_beats s c \<longleftrightarrow> list_ex (\<lambda>b. beat_character_id b = c) (outfit_beats s)"

definition handle_RemoveCharacter ::
  "scene \<Rightarrow> uuid \<Rightarrow> aggregate_version \<Rightarrow> scene_error + scene_event list" where
  [handler_defs]: "handle_RemoveCharacter s c v =
     (if scene_deleted s then Err (SceneIsDeleted (scene_id s))
      else if v \<noteq> scene_version s then Err (SceneVersionMismatch v (scene_version s))
      else if c \<notin> set (assigned_characters s)
        then Err (SceneValidationError ''Character is not assigned to this scene'')
      else if has_beats s c
        then Ok [OutfitBeatsCleared (scene_id s) c (version_next (scene_version s)),
                 CharacterRemoved (scene_id s) c (version_next (version_next (scene_version s)))]
      else Ok [CharacterRemoved (scene_id s) c (version_next (scene_version s))])"

definition handle_ScheduleSceneOnShootingDay ::
  "scene \<Rightarrow> shooting_day_id \<Rightarrow> aggregate_version \<Rightarrow> scene_error + scene_event list" where
  [handler_defs]: "handle_ScheduleSceneOnShootingDay s day v =
     (if scene_deleted s then Err (SceneIsDeleted (scene_id s))
      else if v \<noteq> scene_version s then Err (SceneVersionMismatch v (scene_version s))
      else if day \<in> set (shooting_day_ids s) then Err (SceneAlreadyScheduled day)
      else Ok [ShootingDayScheduled (scene_id s) day (version_next (scene_version s))])"

definition handle_UnscheduleSceneFromShootingDay ::
  "scene \<Rightarrow> shooting_day_id \<Rightarrow> aggregate_version \<Rightarrow> scene_error + scene_event list" where
  [handler_defs]: "handle_UnscheduleSceneFromShootingDay s day v =
     (if scene_deleted s then Err (SceneIsDeleted (scene_id s))
      else if v \<noteq> scene_version s then Err (SceneVersionMismatch v (scene_version s))
      else if day \<notin> set (shooting_day_ids s) then Err (SceneNotScheduled day)
      else Ok [ShootingDayUnscheduled (scene_id s) day (version_next (scene_version s))])"

definition character_beats :: "scene \<Rightarrow> uuid \<Rightarrow> scene_outfit_beat list" where
  "character_beats s c = filter (\<lambda>b. beat_character_id b = c) (outfit_beats s)"

text \<open>\<open>map(|b| b.order).max().map_or(0, |max| max + 1)\<close>, wrapping like the release build.\<close>

definition next_order :: "u32 list \<Rightarrow> u32" where
  "next_order orders = (case orders of [] \<Rightarrow> 0 | x # xs \<Rightarrow> fold max xs x + 1)"

text \<open>\<open>Iterator::max_by_key(|b| b.order)\<close>: of several maximal elements, the last.\<close>

definition last_beat :: "scene_outfit_beat list \<Rightarrow> scene_outfit_beat option" where
  "last_beat bs = foldl (\<lambda>acc b. case acc of None \<Rightarrow> Some b
     | Some m \<Rightarrow> if beat_order m \<le> beat_order b then Some b else Some m) None bs"

definition handle_AddOutfitBeat ::
  "scene \<Rightarrow> uuid \<Rightarrow> uuid \<Rightarrow> string option \<Rightarrow> aggregate_version \<Rightarrow> scene_error + scene_event list" where
  [handler_defs]: "handle_AddOutfitBeat s c outfit note v =
     (if scene_deleted s then Err (SceneIsDeleted (scene_id s))
      else if v \<noteq> scene_version s then Err (SceneVersionMismatch v (scene_version s))
      else if c \<notin> set (assigned_characters s) then Err (CharacterNotInScene c)
      else
        let order = next_order (map beat_order (character_beats s c));
            identical_last = (case last_beat (character_beats s c) of None \<Rightarrow> False
              | Some b \<Rightarrow> beat_outfit_id b = outfit \<and> beat_note b = note)
        in if identical_last
           then Err (SceneValidationError ''outfit beat identical to the character's last beat'')
           else Ok [OutfitBeatAdded (scene_id s) c outfit order note (version_next (scene_version s))])"

definition handle_UpdateOutfitBeat ::
  "scene \<Rightarrow> uuid \<Rightarrow> u32 \<Rightarrow> uuid \<Rightarrow> string option \<Rightarrow> aggregate_version \<Rightarrow>
   scene_error + scene_event list" where
  [handler_defs]: "handle_UpdateOutfitBeat s c order outfit note v =
     (if scene_deleted s then Err (SceneIsDeleted (scene_id s))
      else if v \<noteq> scene_version s then Err (SceneVersionMismatch v (scene_version s))
      else if c \<notin> set (assigned_characters s) then Err (CharacterNotInScene c)
      else if \<not> list_ex (is_beat c order) (outfit_beats s) then Err (BeatNotFound c order)
      else Ok [OutfitBeatUpdated (scene_id s) c order outfit note (version_next (scene_version s))])"

definition handle_RemoveOutfitBeat ::
  "scene \<Rightarrow> uuid \<Rightarrow> u32 option \<Rightarrow> aggregate_version \<Rightarrow> scene_error + scene_event list" where
  [handler_defs]: "handle_RemoveOutfitBeat s c order v =
     (if scene_deleted s then Err (SceneIsDeleted (scene_id s))
      else if v \<noteq> scene_version s then Err (SceneVersionMismatch v (scene_version s))
      else if c \<notin> set (assigned_characters s) then Err (CharacterNotInScene c)
      else case order of
        Some ord \<Rightarrow>
          if \<not> list_ex (is_beat c ord) (outfit_beats s) then Err (BeatNotFound c ord)
          else Ok [OutfitBeatRemoved (scene_id s) c ord (version_next (scene_version s))]
      | None \<Rightarrow>
          if \<not> has_beats s c then Err (NoOutfitBeats c)
          else Ok [OutfitBeatsCleared (scene_id s) c (version_next (scene_version s))])"

definition handle_DeleteScene :: "scene \<Rightarrow> uuid \<Rightarrow> scene_error + scene_event list" where
  [handler_defs]: "handle_DeleteScene s i =
     (if scene_deleted s then Ok []
      else if scene_id s = nil_uuid then Err (SceneNotFound i)
      else Ok [SceneDeleted (scene_id s) (version_next (scene_version s))])"

fun scene_handle :: "scene \<Rightarrow> scene_command \<Rightarrow> scene_error + scene_event list" where
  "scene_handle s (CreateScene i episode project details source) =
     handle_CreateScene s i episode details source"
| "scene_handle s (UpdateSceneDetails i details project v) = handle_UpdateSceneDetails s details v"
| "scene_handle s (AssignCharacter i c project v) = handle_AssignCharacter s c v"
| "scene_handle s (RemoveCharacter i c project v) = handle_RemoveCharacter s c v"
| "scene_handle s (AddOutfitBeat i c outfit note project v) = handle_AddOutfitBeat s c outfit note v"
| "scene_handle s (UpdateOutfitBeat i c order outfit note project v) =
     handle_UpdateOutfitBeat s c order outfit note v"
| "scene_handle s (RemoveOutfitBeat i c order project v) = handle_RemoveOutfitBeat s c order v"
| "scene_handle s (ScheduleSceneOnShootingDay i day project v) =
     handle_ScheduleSceneOnShootingDay s day v"
| "scene_handle s (UnscheduleSceneFromShootingDay i day project v) =
     handle_UnscheduleSceneFromShootingDay s day v"
| "scene_handle s (DeleteScene i) = handle_DeleteScene s i"

text \<open>The override of \<open>is_state_idempotent\<close> for \<open>ScheduleSceneOnShootingDay\<close>.\<close>

fun scene_idempotent :: "scene \<Rightarrow> scene_command \<Rightarrow> bool" where
  "scene_idempotent s (ScheduleSceneOnShootingDay i day project v) \<longleftrightarrow>
     \<not> scene_deleted s \<and> day \<in> set (shooting_day_ids s)"
| "scene_idempotent s _ \<longleftrightarrow> False"

fun scene_expect :: "scene_command \<Rightarrow> expected_version option" where
  "scene_expect (CreateScene _ _ _ _ _) = Some EmptyVersion"
| "scene_expect (UpdateSceneDetails _ _ _ v) = exact_version v"
| "scene_expect (AssignCharacter _ _ _ v) = exact_version v"
| "scene_expect (RemoveCharacter _ _ _ v) = exact_version v"
| "scene_expect (AddOutfitBeat _ _ _ _ _ v) = exact_version v"
| "scene_expect (UpdateOutfitBeat _ _ _ _ _ _ v) = exact_version v"
| "scene_expect (RemoveOutfitBeat _ _ _ _ v) = exact_version v"
| "scene_expect (ScheduleSceneOnShootingDay _ _ _ v) = exact_version v"
| "scene_expect (UnscheduleSceneFromShootingDay _ _ _ v) = exact_version v"
| "scene_expect (DeleteScene _) = Some AnyVersion"

text \<open>
  The invariant, for a stream of \<open>n\<close> events: no duplicate characters or days,
  beats only for assigned characters, and, while \<open>n\<close> fits a \<open>u32\<close>, strictly
  increasing orders per character, all below \<open>n\<close>.
\<close>

definition scene_ok :: "nat \<Rightarrow> scene \<Rightarrow> bool" where
  "scene_ok n s \<longleftrightarrow>
     distinct (assigned_characters s) \<and> distinct (shooting_day_ids s) \<and>
     (\<forall>b \<in> set (outfit_beats s). beat_character_id b \<in> set (assigned_characters s)) \<and>
     (n < 2 ^ 32 \<longrightarrow>
       (\<forall>c. sorted_wrt (<) (map beat_order (character_beats s c))) \<and>
       (\<forall>b \<in> set (outfit_beats s). unat (beat_order b) < n))"

section \<open>Lemmas\<close>

lemma fold_max_in: "fold max xs (x :: u32) \<in> set (x # xs)"
  by (induction xs arbitrary: x) (auto simp: max_def)

lemma fold_max_ge: "y \<in> set (x # xs) \<Longrightarrow> y \<le> fold max xs (x :: u32)"
  using Max.set_eq_fold [of x xs] Max_ge [of "set (x # xs)" y] by simp

lemma next_order_fresh:
  assumes "\<forall>x \<in> set orders. unat x < n" "n < 2 ^ 32"
  shows "\<forall>x \<in> set orders. x < next_order orders" "unat (next_order orders) \<le> n"
proof -
  have "(\<forall>x \<in> set orders. x < next_order orders) \<and> unat (next_order orders) \<le> n"
  proof (cases orders)
    case (Cons x xs)
    let ?m = "fold max xs x"
    have "unat ?m < n"
      using assms(1) fold_max_in [of xs x] Cons by blast
    then have succ: "unat (?m + 1) = Suc (unat ?m)"
      using assms(2) by (simp add: unat_word_ariths)
    have "y < ?m + 1" if "y \<in> set orders" for y
      using fold_max_ge [of y x xs] that succ Cons by (simp add: word_less_nat_alt word_le_nat_alt)
    then show ?thesis
      using succ \<open>unat ?m < n\<close> Cons by (simp add: next_order_def)
  qed (simp add: next_order_def)
  then show "\<forall>x \<in> set orders. x < next_order orders" "unat (next_order orders) \<le> n"
    by blast+
qed

lemma update_beat_orders [simp]:
  "map beat_order (filter (\<lambda>b. beat_character_id b = d) (update_beat c order outfit note bs)) =
   map beat_order (filter (\<lambda>b. beat_character_id b = d) bs)"
  by (induction bs) auto

lemma update_beat_keys:
  "(\<lambda>b. (beat_character_id b, beat_order b)) ` set (update_beat c order outfit note bs) =
   (\<lambda>b. (beat_character_id b, beat_order b)) ` set bs"
  by (induction bs) auto

lemma update_beat_mem:
  assumes "b \<in> set (update_beat c order outfit note bs)"
  obtains b' where "b' \<in> set bs" "beat_character_id b = beat_character_id b'" "beat_order b = beat_order b'"
proof -
  have "(beat_character_id b, beat_order b) \<in> (\<lambda>b. (beat_character_id b, beat_order b)) ` set bs"
    using assms update_beat_keys [of c order outfit "note" bs] by blast
  then show thesis
    using that by auto
qed

lemma sorted_wrt_map_filter:
  "sorted_wrt (<) (map f (filter P xs)) \<Longrightarrow> sorted_wrt (<) (map f (filter (\<lambda>x. Q x \<and> P x) xs))"
  by (induction xs) (auto split: if_splits)

lemma scene_ok_mono:
  "scene_ok n s \<Longrightarrow> n \<le> m \<Longrightarrow> scene_ok m s"
  by (fastforce simp: scene_ok_def)

lemma scene_ok_version [simp]:
  "scene_ok n (s\<lparr>scene_version := v\<rparr>) = scene_ok n s"
  "scene_ok n (s\<lparr>scene_deleted := d\<rparr>) = scene_ok n s"
  "scene_ok n (s\<lparr>scene_details := e\<rparr>) = scene_ok n s"
  by (simp_all add: scene_ok_def character_beats_def)

lemma scene_ok_filter:
  "scene_ok n s \<Longrightarrow> scene_ok n (s\<lparr>outfit_beats := filter P (outfit_beats s)\<rparr>)"
  by (auto simp: scene_ok_def character_beats_def sorted_wrt_map_filter)

lemma scene_ok_update_beat:
  "scene_ok n s \<Longrightarrow> scene_ok n (s\<lparr>outfit_beats := update_beat c order outfit note (outfit_beats s)\<rparr>)"
  by (fastforce simp: scene_ok_def character_beats_def elim!: update_beat_mem)

lemma scene_ok_assign:
  "scene_ok n s \<Longrightarrow> c \<notin> set (assigned_characters s) \<Longrightarrow>
   scene_ok n (s\<lparr>assigned_characters := assigned_characters s @ [c]\<rparr>)"
  by (auto simp: scene_ok_def character_beats_def)

lemma scene_ok_days:
  "scene_ok n s \<Longrightarrow> distinct days \<Longrightarrow> scene_ok n (s\<lparr>shooting_day_ids := days\<rparr>)"
  by (auto simp: scene_ok_def character_beats_def)

lemma scene_ok_remove:
  "scene_ok n s \<Longrightarrow> \<not> has_beats s c \<Longrightarrow>
   scene_ok n (s\<lparr>assigned_characters := retain_ne c (assigned_characters s)\<rparr>)"
  by (auto simp: scene_ok_def character_beats_def has_beats_def list_ex_iff)

lemma scene_ok_add_beat:
  assumes ok: "scene_ok n s" and c: "c \<in> set (assigned_characters s)"
  shows "scene_ok (Suc n) (s\<lparr>outfit_beats := outfit_beats s @
    [\<lparr>beat_character_id = c, beat_outfit_id = outfit,
      beat_order = next_order (map beat_order (character_beats s c)), beat_note = note\<rparr>]\<rparr>)"
proof (cases "Suc n < 2 ^ 32")
  case True
  then have "n < 2 ^ 32"
    by simp
  moreover have "\<forall>x \<in> set (map beat_order (character_beats s c)). unat x < n"
    using ok \<open>n < 2 ^ 32\<close> by (auto simp: scene_ok_def character_beats_def)
  ultimately have
    "\<forall>x \<in> set (map beat_order (character_beats s c)). x < next_order (map beat_order (character_beats s c))"
    "unat (next_order (map beat_order (character_beats s c))) \<le> n"
    using next_order_fresh by blast+
  then show ?thesis
    using ok c \<open>n < 2 ^ 32\<close>
    by (fastforce simp: scene_ok_def character_beats_def sorted_wrt_append)
qed (use ok c in \<open>auto simp: scene_ok_def\<close>)

section \<open>Interfaces\<close>

interpretation scene_versions: versioned_aggregate
  scene_apply scene_handle scene_idempotent scene_expect "scene_default fresh"
  scene_version scene_event_version for fresh
proof unfold_locales
  fix s e
  show "scene_version (scene_apply s e) = scene_event_version e"
    by (cases e) simp_all
next
  fix c es
  assume "scene_expect c = Some EmptyVersion" "scene_handle (scene_default fresh) c = Ok es"
  then show "map scene_event_version es = [INITIAL]"
    by (cases c) (auto simp: handler_defs split: if_splits)
next
  fix c ev s es
  assume "scene_expect c = Some ev" "ev \<noteq> EmptyVersion" "scene_handle s c = Ok es"
  then show "consecutive (scene_version s) (map scene_event_version es)"
    by (cases c) (auto simp: handler_defs version_next_def Let_def split: if_splits option.splits)
next
  fix c es
  assume "scene_expect c = Some AnyVersion" "scene_handle (scene_default fresh) c = Ok es"
  then show "es = []"
    by (cases c) (auto simp: handler_defs scene_default_def)
qed

interpretation scene_tombstone: frozen_aggregate
  scene_apply scene_handle scene_idempotent scene_expect "scene_default fresh" scene_deleted for fresh
proof unfold_locales
  show "\<not> scene_deleted (scene_default fresh)"
    by (simp add: scene_default_def)
next
  fix s c es
  assume "scene_deleted s" "scene_expect c \<noteq> Some EmptyVersion" "scene_handle s c = Ok es"
  then show "es = []"
    by (cases c) (auto simp: handler_defs split: if_splits)
qed

interpretation scene_scope: immutable_attribute
  scene_apply scene_handle scene_idempotent scene_expect "scene_default fresh"
  "\<lambda>_. True" "\<lambda>s. (scene_id s, scene_episode_id s, scene_source s)" for fresh
proof unfold_locales
  fix s c es
  assume "scene_expect c \<noteq> Some EmptyVersion" "scene_handle s c = Ok es"
  then show "True \<and> (\<lambda>s. (scene_id s, scene_episode_id s, scene_source s)) (foldl scene_apply s es) =
      (scene_id s, scene_episode_id s, scene_source s)"
    by (cases c) (auto simp: handler_defs Let_def split: if_splits option.splits)
qed

lemma scene_ok_handle:
  assumes ok: "scene_ok n s" and ev: "scene_expect c \<noteq> Some EmptyVersion"
    and es: "scene_handle s c = Ok es"
  shows "scene_ok (n + length es) (foldl scene_apply s es)"
proof (cases c)
  case (RemoveCharacter i ch project v)
  let ?cleared = "s\<lparr>outfit_beats := filter (\<lambda>b. beat_character_id b \<noteq> ch) (outfit_beats s)\<rparr>"
  have "\<not> has_beats ?cleared ch"
    by (simp add: has_beats_def list_ex_iff)
  then have "scene_ok n (?cleared\<lparr>assigned_characters := retain_ne ch (assigned_characters s)\<rparr>)"
    using scene_ok_remove [OF scene_ok_filter [OF ok]] by simp
  then show ?thesis
    using es RemoveCharacter scene_ok_remove [OF ok, of ch]
    by (auto simp: handler_defs split: if_splits elim!: scene_ok_mono)
next
  case (AddOutfitBeat i ch outfit nt project v)
  then show ?thesis
    using es scene_ok_add_beat [OF ok, of ch outfit nt]
    by (auto simp: handler_defs Let_def split: if_splits option.splits)
next
  case (RemoveOutfitBeat i ch order project v)
  then show ?thesis
    using es by (auto simp: handler_defs split: if_splits option.splits
        intro!: scene_ok_mono [OF scene_ok_filter [OF ok]])
next
  case (UpdateOutfitBeat i ch order outfit nt project v)
  then show ?thesis
    using es by (auto simp: handler_defs split: if_splits
        intro!: scene_ok_mono [OF scene_ok_update_beat [OF ok]])
next
  case (AssignCharacter i ch project v)
  then show ?thesis
    using es by (auto simp: handler_defs split: if_splits
        intro!: scene_ok_mono [OF scene_ok_assign [OF ok]])
next
  case (ScheduleSceneOnShootingDay i day project v)
  moreover have "distinct (shooting_day_ids s)"
    using ok by (simp add: scene_ok_def)
  ultimately show ?thesis
    using es by (auto simp: handler_defs split: if_splits
        intro!: scene_ok_mono [OF scene_ok_days [OF ok]])
next
  case (UnscheduleSceneFromShootingDay i day project v)
  moreover have "distinct (shooting_day_ids s)"
    using ok by (simp add: scene_ok_def)
  ultimately show ?thesis
    using es by (auto simp: handler_defs split: if_splits
        intro!: scene_ok_mono [OF scene_ok_days [OF ok]])
qed (use ev es in \<open>auto simp: handler_defs split: if_splits intro!: scene_ok_mono [OF ok]\<close>)

interpretation scene_consistency: invariant_aggregate
  scene_apply scene_handle scene_idempotent scene_expect "scene_default fresh" scene_ok for fresh
proof unfold_locales
  fix c ev es
  assume "scene_expect c = Some ev" "ev = EmptyVersion \<or> ev = AnyVersion"
    "scene_handle (scene_default fresh) c = Ok es" "es \<noteq> []"
  then show "scene_ok (length es) (foldl scene_apply (scene_default fresh) es)"
    by (cases c) (auto simp: handler_defs scene_default_def scene_ok_def character_beats_def
        split: if_splits)
next
  fix n s c ev es
  assume "scene_ok n s" "scene_expect c = Some ev" "ev \<noteq> EmptyVersion" "scene_handle s c = Ok es"
  then show "scene_ok (n + length es) (foldl scene_apply s es)"
    using scene_ok_handle [of n s c es] by simp
qed

section \<open>Consistency of a scene\<close>

text \<open>C5. However the commands of a scene were interleaved, the state that its stream replays to
  names no character and no shooting day twice, every outfit beat belongs to an assigned character,
  and the orders of a character's beats increase strictly along the list, as long as the stream is
  too short for the 32-bit order to wrap.\<close>

theorem scene_stays_consistent:
  assumes "expected_version_laws sat"
    and "history sat scene_expect scene_idempotent scene_apply scene_handle (scene_default fresh) es"
    and "es \<noteq> []" "length es < 2 ^ 32"
  shows "distinct (assigned_characters (replay scene_apply (scene_default fresh) es)) \<and>
    distinct (shooting_day_ids (replay scene_apply (scene_default fresh) es)) \<and>
    beat_character_id ` set (outfit_beats (replay scene_apply (scene_default fresh) es))
      \<subseteq> set (assigned_characters (replay scene_apply (scene_default fresh) es)) \<and>
    sorted_wrt (<) (map beat_order (character_beats (replay scene_apply (scene_default fresh) es) c))"
  using scene_consistency.history_inv [OF assms(1-3)] assms(4) by (auto simp: scene_ok_def)

definition sample_scene_commands :: "scene_command list" where
  "sample_scene_commands =
     [CreateScene 7 3 None scene_details_default SceneManual, AssignCharacter 7 11 None 1,
      AddOutfitBeat 7 11 21 None None 2, AddOutfitBeat 7 11 22 None None 3,
      RemoveOutfitBeat 7 11 (Some 0) None 4]"

definition sample_scene_events :: "scene_event list" where
  "sample_scene_events =
     [SceneCreated 7 3 scene_details_default [] SceneManual 1, CharacterAssigned 7 11 2,
      OutfitBeatAdded 7 11 21 0 None 3, OutfitBeatAdded 7 11 22 1 None 4, OutfitBeatRemoved 7 11 0 5]"

lemma sample_scene_history:
  "history reference_satisfied scene_expect scene_idempotent scene_apply scene_handle (scene_default 9)
     sample_scene_events"
  by (rule run_commands_history [where cs = sample_scene_commands]) code_simp

theorem scene_stays_consistent_witness:
  "map beat_order (character_beats (replay scene_apply (scene_default 9) sample_scene_events) 11) = [1] \<and>
   sorted_wrt (<) (map beat_order
     (character_beats (replay scene_apply (scene_default 9) sample_scene_events) 11))"
proof (rule conjI)
  show "map beat_order (character_beats (replay scene_apply (scene_default 9) sample_scene_events) 11) = [1]"
    by code_simp
  show "sorted_wrt (<) (map beat_order
      (character_beats (replay scene_apply (scene_default 9) sample_scene_events) 11))"
    using scene_stays_consistent [OF reference_laws sample_scene_history, of 11]
    by (simp add: sample_scene_events_def)
qed

end
