(* ===== verification/Scene_Shoot_Aggregate.thy ===== *)
theory Scene_Shoot_Aggregate
  imports Event_Sourcing
begin

text \<open>
  The SceneShoot aggregate (\<open>backend/crates/core/src/scene_shoot\<close>): the planned
  and the actual execution of one scene on one shooting day, with its status
  life cycle, its notes and its continuity photos.

  The text of one error message prints an identifier; the \<open>Display\<close> of the
  \<open>uuid\<close> crate is the parameter \<open>disp\<close>.
\<close>

section \<open>State, events, commands\<close>

record scene_shoot_note =
  note_id :: uuid
  note_body :: string
  note_author :: "user_id option"

record scene_shoot =
  shoot_id :: scene_shoot_id
  shoot_scene_id :: uuid
  shoot_day_id :: shooting_day_id
  planned_order :: lexical_sort_key
  actual_order :: "lexical_sort_key option"
  shoot_status :: scene_shoot_status
  start_dt :: "datetime option"
  end_dt :: "datetime option"
  shoot_notes :: "scene_shoot_note list"
  continuity_photos :: "photo_id list"
  shoot_deleted :: bool
  shoot_version :: aggregate_version

datatype scene_shoot_event =
    SceneShootPlanned scene_shoot_id uuid shooting_day_id lexical_sort_key scene_shoot_status
      (shoot_event_version: aggregate_version)
  | SceneShootReplanned scene_shoot_id lexical_sort_key (shoot_event_version: aggregate_version)
  | SceneShootStarted scene_shoot_id datetime (shoot_event_version: aggregate_version)
  | SceneShootActualOrderSet scene_shoot_id lexical_sort_key (shoot_event_version: aggregate_version)
  | SceneShootFinished scene_shoot_id datetime (shoot_event_version: aggregate_version)
  | SceneShootSkipped scene_shoot_id (shoot_event_version: aggregate_version)
  | ShootDayNoteAdded scene_shoot_id uuid string "user_id option"
      (shoot_event_version: aggregate_version)
  | ShootDayNoteUpdated scene_shoot_id uuid string (shoot_event_version: aggregate_version)
  | ShootDayNoteRemoved scene_shoot_id uuid (shoot_event_version: aggregate_version)
  | ContinuityPhotoLinked scene_shoot_id photo_id (shoot_event_version: aggregate_version)
  | ContinuityPhotoUnlinked scene_shoot_id photo_id (shoot_event_version: aggregate_version)
  | SceneShootDeleted scene_shoot_id (shoot_event_version: aggregate_version)

datatype scene_shoot_error =
    SceneShootValidationError string
  | SceneShootNotFound scene_shoot_id
  | SceneShootIsDeleted scene_shoot_id
  | PairAlreadyExists
  | SceneShootVersionMismatch string aggregate_version aggregate_version
  | PlannedOrderFrozen
  | NoteNotFound uuid
  | AlreadyLinked photo_id
  | AlreadyStarted
  | TerminalState scene_shoot_status

datatype scene_shoot_command =
    PlanSceneShoot scene_shoot_id uuid shooting_day_id "project_id option" lexical_sort_key
  | ReplanSceneShoot scene_shoot_id lexical_sort_key "project_id option" aggregate_version
  | StartSceneShoot scene_shoot_id shooting_day_id datetime "project_id option" aggregate_version
  | SetActualOrder scene_shoot_id shooting_day_id lexical_sort_key "project_id option" aggregate_version
  | FinishSceneShoot scene_shoot_id shooting_day_id datetime "project_id option" aggregate_version
  | SkipSceneShoot scene_shoot_id shooting_day_id "project_id option" aggregate_version
  | AddSceneShootNote scene_shoot_id shooting_day_id uuid string "project_id option" "user_id option"
  | UpdateSceneShootNote scene_shoot_id shooting_day_id uuid string "project_id option"
      aggregate_version
  | RemoveSceneShootNote scene_shoot_id shooting_day_id uuid "project_id option" aggregate_version
  | LinkContinuityPhoto scene_shoot_id photo_id "project_id option" aggregate_version
  | UnlinkContinuityPhoto scene_shoot_id photo_id "project_id option" aggregate_version
  | DeleteSceneShoot scene_shoot_id

text \<open>\<open>Default\<close>: both newtype identifiers are fresh UUIDv7 values, the scene id is nil.\<close>

definition scene_shoot_default :: "scene_shoot_id \<Rightarrow> shooting_day_id \<Rightarrow> scene_shoot" where
  "scene_shoot_default fresh_id fresh_day =
     \<lparr>shoot_id = fresh_id, shoot_scene_id = nil_uuid, shoot_day_id = fresh_day,
      planned_order = ''0'', actual_order = None, shoot_status = Planned, start_dt = None,
      end_dt = None, shoot_notes = [], continuity_photos = [], shoot_deleted = False,
      shoot_version = INITIAL\<rparr>"

fun scene_shoot_event_type :: "scene_shoot_event \<Rightarrow> string" where
  "scene_shoot_event_type (SceneShootPlanned _ _ _ _ _ _) = ''SceneShootPlanned''"
| "scene_shoot_event_type (SceneShootReplanned _ _ _) = ''SceneShootReplanned''"
| "scene_shoot_event_type (SceneShootStarted _ _ _) = ''SceneShootStarted''"
| "scene_shoot_event_type (SceneShootActualOrderSet _ _ _) = ''SceneShootActualOrderSet''"
| "scene_shoot_event_type (SceneShootFinished _ _ _) = ''SceneShootFinished''"
| "scene_shoot_event_type (SceneShootSkipped _ _) = ''SceneShootSkipped''"
| "scene_shoot_event_type (ShootDayNoteAdded _ _ _ _ _) = ''ShootDayNoteAdded''"
| "scene_shoot_event_type (ShootDayNoteUpdated _ _ _ _) = ''ShootDayNoteUpdated''"
| "scene_shoot_event_type (ShootDayNoteRemoved _ _ _) = ''ShootDayNoteRemoved''"
| "scene_shoot_event_type (ContinuityPhotoLinked _ _ _) = ''ContinuityPhotoLinked''"
| "scene_shoot_event_type (ContinuityPhotoUnlinked _ _ _) = ''ContinuityPhotoUnlinked''"
| "scene_shoot_event_type (SceneShootDeleted _ _) = ''SceneShootDeleted''"

section \<open>Guards\<close>

definition has_execution_data :: "scene_shoot \<Rightarrow> bool" where
  "has_execution_data s \<longleftrightarrow> actual_order s \<noteq> None \<or> start_dt s \<noteq> None"

definition check_day_association ::
  "(uuid \<Rightarrow> string) \<Rightarrow> scene_shoot \<Rightarrow> shooting_day_id \<Rightarrow> scene_shoot_error + unit" where
  [handler_defs]: "check_day_association disp s cmd_day =
     (if shoot_day_id s \<noteq> cmd_day
      then Err (SceneShootValidationError (''shooting_day_id '' @ disp cmd_day @
             '' does not match the scene shoot's associated shooting day''))
      else Ok ())"

definition is_terminal :: "scene_shoot \<Rightarrow> bool" where
  "is_terminal s \<longleftrightarrow> shoot_status s = Shot \<or> shoot_status s = Skipped"

definition check_not_terminal :: "scene_shoot \<Rightarrow> scene_shoot_error + unit" where
  [handler_defs]: "check_not_terminal s =
     (if is_terminal s then Err (TerminalState (shoot_status s)) else Ok ())"

definition check_shoot_version ::
  "scene_shoot \<Rightarrow> aggregate_version \<Rightarrow> scene_shoot_error + unit" where
  [handler_defs]: "check_shoot_version s expected =
     (if expected \<noteq> shoot_version s
      then Err (SceneShootVersionMismatch ''SceneShoot'' expected (shoot_version s)) else Ok ())"

definition transition_on_execution :: "scene_shoot_status \<Rightarrow> scene_shoot_status" where
  "transition_on_execution status =
     (if status = Planned \<or> status = Scheduled then InProgress else status)"

section \<open>Apply\<close>

text \<open>\<open>iter_mut().find(..)\<close>: the first note with the id is edited in place.\<close>

fun update_note :: "uuid \<Rightarrow> string \<Rightarrow> scene_shoot_note list \<Rightarrow> scene_shoot_note list" where
  "update_note i body [] = []"
| "update_note i body (n # ns) =
     (if note_id n = i then n\<lparr>note_body := body\<rparr> # ns else n # update_note i body ns)"

fun scene_shoot_apply :: "scene_shoot \<Rightarrow> scene_shoot_event \<Rightarrow> scene_shoot" where
  "scene_shoot_apply s (SceneShootDeleted i v) = s\<lparr>shoot_deleted := True, shoot_version := v\<rparr>"
| "scene_shoot_apply s (SceneShootPlanned i scene day order status v) =
     s\<lparr>shoot_id := i, shoot_scene_id := scene, shoot_day_id := day, planned_order := order,
       shoot_status := status, actual_order := None, start_dt := None, end_dt := None,
       shoot_notes := [], continuity_photos := [], shoot_version := v\<rparr>"
| "scene_shoot_apply s (SceneShootReplanned i order v) =
     s\<lparr>planned_order := order, shoot_version := v\<rparr>"
| "scene_shoot_apply s (SceneShootStarted i dt v) =
     s\<lparr>start_dt := Some dt, shoot_status := transition_on_execution (shoot_status s),
       shoot_version := v\<rparr>"
| "scene_shoot_apply s (SceneShootActualOrderSet i order v) =
     s\<lparr>actual_order := Some order, shoot_status := transition_on_execution (shoot_status s),
       shoot_version := v\<rparr>"
| "scene_shoot_apply s (SceneShootFinished i dt v) =
     s\<lparr>end_dt := Some dt, shoot_status := Shot, shoot_version := v\<rparr>"
| "scene_shoot_apply s (SceneShootSkipped i v) = s\<lparr>shoot_status := Skipped, shoot_version := v\<rparr>"
| "scene_shoot_apply s (ShootDayNoteAdded i n body author v) =
     s\<lparr>shoot_notes := shoot_notes s @ [\<lparr>note_id = n, note_body = body, note_author = author\<rparr>],
       shoot_version := v\<rparr>"
| "scene_shoot_apply s (ShootDayNoteUpdated i n body v) =
     s\<lparr>shoot_notes := update_note n body (shoot_notes s), shoot_version := v\<rparr>"
| "scene_shoot_apply s (ShootDayNoteRemoved i n v) =
     s\<lparr>shoot_notes := filter (\<lambda>m. note_id m \<noteq> n) (shoot_notes s), shoot_version := v\<rparr>"
| "scene_shoot_apply s (ContinuityPhotoLinked i photo v) =
     s\<lparr>continuity_photos := continuity_photos s @ [photo], shoot_version := v\<rparr>"
| "scene_shoot_apply s (ContinuityPhotoUnlinked i photo v) =
     s\<lparr>continuity_photos := retain_ne photo (continuity_photos s), shoot_version := v\<rparr>"

section \<open>Handlers\<close>

definition handle_PlanSceneShoot ::
  "scene_shoot \<Rightarrow> scene_shoot_id \<Rightarrow> uuid \<Rightarrow> shooting_day_id \<Rightarrow> lexical_sort_key \<Rightarrow>
   scene_shoot_error + scene_shoot_event list" where
  [handler_defs]: "handle_PlanSceneShoot s i scene day order =
     (if shoot_deleted s then Err (SceneShootIsDeleted (shoot_id s))
      else if shoot_scene_id s \<noteq> nil_uuid then Err PairAlreadyExists
      else Ok [SceneShootPlanned i scene day order Planned INITIAL])"

definition handle_ReplanSceneShoot ::
  "scene_shoot \<Rightarrow> lexical_sort_key \<Rightarrow> aggregate_version \<Rightarrow>
   scene_shoot_error + scene_shoot_event list" where
  [handler_defs]: "handle_ReplanSceneShoot s order v =
     (if shoot_deleted s then Err (SceneShootIsDeleted (shoot_id s))
      else and_then (check_not_terminal s) (\<lambda>_. and_then (check_shoot_version s v) (\<lambda>_.
        if has_execution_data s then Err PlannedOrderFrozen
        else Ok [SceneShootReplanned (shoot_id s) order (version_next (shoot_version s))])))"

definition handle_StartSceneShoot ::
  "(uuid \<Rightarrow> string) \<Rightarrow> scene_shoot \<Rightarrow> shooting_day_id \<Rightarrow> datetime \<Rightarrow> aggregate_version \<Rightarrow>
   scene_shoot_error + scene_shoot_event list" where
  [handler_defs]: "handle_StartSceneShoot disp s day dt v =
     (if shoot_deleted s then Err (SceneShootIsDeleted (shoot_id s))
      else and_then (check_day_association disp s day) (\<lambda>_. and_then (check_not_terminal s) (\<lambda>_.
        and_then (check_shoot_version s v) (\<lambda>_.
          if start_dt s = Some dt then Ok []
          else if start_dt s \<noteq> None then Err AlreadyStarted
          else Ok [SceneShootStarted (shoot_id s) dt (version_next (shoot_version s))]))))"

definition handle_SetActualOrder ::
  "(uuid \<Rightarrow> string) \<Rightarrow> scene_shoot \<Rightarrow> shooting_day_id \<Rightarrow> lexical_sort_key \<Rightarrow> aggregate_version \<Rightarrow>
   scene_shoot_error + scene_shoot_event list" where
  [handler_defs]: "handle_SetActualOrder disp s day order v =
     (if shoot_deleted s then Err (SceneShootIsDeleted (shoot_id s))
      else and_then (check_day_association disp s day) (\<lambda>_. and_then (check_not_terminal s) (\<lambda>_.
        and_then (check_shoot_version s v) (\<lambda>_.
          Ok [SceneShootActualOrderSet (shoot_id s) order (version_next (shoot_version s))]))))"

definition handle_FinishSceneShoot ::
  "(uuid \<Rightarrow> string) \<Rightarrow> scene_shoot \<Rightarrow> shooting_day_id \<Rightarrow> datetime \<Rightarrow> aggregate_version \<Rightarrow>
   scene_shoot_error + scene_shoot_event list" where
  [handler_defs]: "handle_FinishSceneShoot disp s day dt v =
     (if shoot_deleted s then Err (SceneShootIsDeleted (shoot_id s))
      else and_then (check_day_association disp s day) (\<lambda>_. and_then (check_not_terminal s) (\<lambda>_.
        and_then (check_shoot_version s v) (\<lambda>_.
          if shoot_status s \<noteq> InProgress
          then Err (SceneShootValidationError ''Can only finish a SceneShoot that is InProgress'')
          else Ok [SceneShootFinished (shoot_id s) dt (version_next (shoot_version s))]))))"

definition handle_SkipSceneShoot ::
  "(uuid \<Rightarrow> string) \<Rightarrow> scene_shoot \<Rightarrow> shooting_day_id \<Rightarrow> aggregate_version \<Rightarrow>
   scene_shoot_error + scene_shoot_event list" where
  [handler_defs]: "handle_SkipSceneShoot disp s day v =
     (if shoot_deleted s then Err (SceneShootIsDeleted (shoot_id s))
      else and_then (check_day_association disp s day) (\<lambda>_. and_then (check_not_terminal s) (\<lambda>_.
        and_then (check_shoot_version s v) (\<lambda>_.
          Ok [SceneShootSkipped (shoot_id s) (version_next (shoot_version s))]))))"

definition handle_AddSceneShootNote ::
  "(uuid \<Rightarrow> string) \<Rightarrow> scene_shoot \<Rightarrow> shooting_day_id \<Rightarrow> uuid \<Rightarrow> string \<Rightarrow> user_id option \<Rightarrow>
   scene_shoot_error + scene_shoot_event list" where
  [handler_defs]: "handle_AddSceneShootNote disp s day n body author =
     (if shoot_deleted s then Err (SceneShootIsDeleted (shoot_id s))
      else and_then (check_day_association disp s day) (\<lambda>_. and_then (check_not_terminal s) (\<lambda>_.
        Ok [ShootDayNoteAdded (shoot_id s) n body author (version_next (shoot_version s))])))"

definition handle_UpdateSceneShootNote ::
  "(uuid \<Rightarrow> string) \<Rightarrow> scene_shoot \<Rightarrow> shooting_day_id \<Rightarrow> uuid \<Rightarrow> string \<Rightarrow> aggregate_version \<Rightarrow>
   scene_shoot_error + scene_shoot_event list" where
  [handler_defs]: "handle_UpdateSceneShootNote disp s day n body v =
     (if shoot_deleted s then Err (SceneShootIsDeleted (shoot_id s))
      else and_then (check_day_association disp s day) (\<lambda>_. and_then (check_not_terminal s) (\<lambda>_.
        and_then (check_shoot_version s v) (\<lambda>_.
          if \<not> list_ex (\<lambda>m. note_id m = n) (shoot_notes s) then Err (NoteNotFound n)
          else Ok [ShootDayNoteUpdated (shoot_id s) n body (version_next (shoot_version s))]))))"

definition handle_RemoveSceneShootNote ::
  "(uuid \<Rightarrow> string) \<Rightarrow> scene_shoot \<Rightarrow> shooting_day_id \<Rightarrow> uuid \<Rightarrow> aggregate_version \<Rightarrow>
   scene_shoot_error + scene_shoot_event list" where
  [handler_defs]: "handle_RemoveSceneShootNote disp s day n v =
     (if shoot_deleted s then Err (SceneShootIsDeleted (shoot_id s))
      else and_then (check_day_association disp s day) (\<lambda>_. and_then (check_not_terminal s) (\<lambda>_.
        and_then (check_shoot_version s v) (\<lambda>_.
          if \<not> list_ex (\<lambda>m. note_id m = n) (shoot_notes s) then Err (NoteNotFound n)
          else Ok [ShootDayNoteRemoved (shoot_id s) n (version_next (shoot_version s))]))))"

definition handle_LinkContinuityPhoto ::
  "scene_shoot \<Rightarrow> photo_id \<Rightarrow> aggregate_version \<Rightarrow> scene_shoot_error + scene_shoot_event list" where
  [handler_defs]: "handle_LinkContinuityPhoto s photo v =
     (if shoot_deleted s then Err (SceneShootIsDeleted (shoot_id s))
      else and_then (check_not_terminal s) (\<lambda>_. and_then (check_shoot_version s v) (\<lambda>_.
        if photo \<in> set (continuity_photos s) then Err (AlreadyLinked photo)
        else Ok [ContinuityPhotoLinked (shoot_id s) photo (version_next (shoot_version s))])))"

definition handle_UnlinkContinuityPhoto ::
  "scene_shoot \<Rightarrow> photo_id \<Rightarrow> aggregate_version \<Rightarrow> scene_shoot_error + scene_shoot_event list" where
  [handler_defs]: "handle_UnlinkContinuityPhoto s photo v =
     (if shoot_deleted s then Err (SceneShootIsDeleted (shoot_id s))
      else and_then (check_not_terminal s) (\<lambda>_. and_then (check_shoot_version s v) (\<lambda>_.
        Ok [ContinuityPhotoUnlinked (shoot_id s) photo (version_next (shoot_version s))])))"

definition handle_DeleteSceneShoot ::
  "scene_shoot \<Rightarrow> scene_shoot_id \<Rightarrow> scene_shoot_error + scene_shoot_event list" where
  [handler_defs]: "handle_DeleteSceneShoot s i =
     (if shoot_deleted s then Ok []
      else if shoot_id s = nil_uuid then Err (SceneShootNotFound i)
      else Ok [SceneShootDeleted (shoot_id s) (version_next (shoot_version s))])"

fun scene_shoot_handle ::
  "(uuid \<Rightarrow> string) \<Rightarrow> scene_shoot \<Rightarrow> scene_shoot_command \<Rightarrow>
   scene_shoot_error + scene_shoot_event list" where
  "scene_shoot_handle disp s (PlanSceneShoot i scene day project order) =
     handle_PlanSceneShoot s i scene day order"
| "scene_shoot_handle disp s (ReplanSceneShoot i order project v) = handle_ReplanSceneShoot s order v"
| "scene_shoot_handle disp s (StartSceneShoot i day dt project v) =
     handle_StartSceneShoot disp s day dt v"
| "scene_shoot_handle disp s (SetActualOrder i day order project v) =
     handle_SetActualOrder disp s day order v"
| "scene_shoot_handle disp s (FinishSceneShoot i day dt project v) =
     handle_FinishSceneShoot disp s day dt v"
| "scene_shoot_handle disp s (SkipSceneShoot i day project v) = handle_SkipSceneShoot disp s day v"
| "scene_shoot_handle disp s (AddSceneShootNote i day n body project author) =
     handle_AddSceneShootNote disp s day n body author"
| "scene_shoot_handle disp s (UpdateSceneShootNote i day n body project v) =
     handle_UpdateSceneShootNote disp s day n body v"
| "scene_shoot_handle disp s (RemoveSceneShootNote i day n project v) =
     handle_RemoveSceneShootNote disp s day n v"
| "scene_shoot_handle disp s (LinkContinuityPhoto i photo project v) =
     handle_LinkContinuityPhoto s photo v"
| "scene_shoot_handle disp s (UnlinkContinuityPhoto i photo project v) =
     handle_UnlinkContinuityPhoto s photo v"
| "scene_shoot_handle disp s (DeleteSceneShoot i) = handle_DeleteSceneShoot s i"

fun scene_shoot_expect :: "scene_shoot_command \<Rightarrow> expected_version option" where
  "scene_shoot_expect (PlanSceneShoot _ _ _ _ _) = Some EmptyVersion"
| "scene_shoot_expect (ReplanSceneShoot _ _ _ v) = exact_version v"
| "scene_shoot_expect (StartSceneShoot _ _ _ _ v) = exact_version v"
| "scene_shoot_expect (SetActualOrder _ _ _ _ v) = exact_version v"
| "scene_shoot_expect (FinishSceneShoot _ _ _ _ v) = exact_version v"
| "scene_shoot_expect (SkipSceneShoot _ _ _ v) = exact_version v"
| "scene_shoot_expect (AddSceneShootNote _ _ _ _ _ _) = Some AnyVersion"
| "scene_shoot_expect (UpdateSceneShootNote _ _ _ _ _ v) = exact_version v"
| "scene_shoot_expect (RemoveSceneShootNote _ _ _ _ v) = exact_version v"
| "scene_shoot_expect (LinkContinuityPhoto _ _ _ v) = exact_version v"
| "scene_shoot_expect (UnlinkContinuityPhoto _ _ _ v) = exact_version v"
| "scene_shoot_expect (DeleteSceneShoot _) = Some AnyVersion"

text \<open>
  The status agrees with the recorded data: a planned shoot has none, a running
  or finished one has some, exactly a shot one has an end, and no photo is
  linked twice. The status \<open>Scheduled\<close> is never taken.
\<close>

definition scene_shoot_ok :: "scene_shoot \<Rightarrow> bool" where
  "scene_shoot_ok s \<longleftrightarrow>
     (case shoot_status s of
        Planned \<Rightarrow> \<not> has_execution_data s \<and> end_dt s = None
      | Scheduled \<Rightarrow> False
      | InProgress \<Rightarrow> has_execution_data s \<and> end_dt s = None
      | Shot \<Rightarrow> has_execution_data s \<and> end_dt s \<noteq> None
      | Skipped \<Rightarrow> end_dt s = None) \<and>
     distinct (continuity_photos s)"

section \<open>Interfaces\<close>

interpretation scene_shoot_versions: versioned_aggregate
  scene_shoot_apply "scene_shoot_handle disp" never_idempotent "on_existing scene_shoot_expect"
  "scene_shoot_default fi fd" shoot_version shoot_event_version for disp fi fd
proof unfold_locales
  fix s e
  show "shoot_version (scene_shoot_apply s e) = shoot_event_version e"
    by (cases e) simp_all
next
  fix c es
  assume "on_existing scene_shoot_expect c = Some EmptyVersion"
    "scene_shoot_handle disp (scene_shoot_default fi fd) c = Ok es"
  then show "map shoot_event_version es = [INITIAL]"
    by (cases c) (auto simp: handler_defs split: if_splits)
next
  fix c ev s es
  assume "on_existing scene_shoot_expect c = Some ev" "ev \<noteq> EmptyVersion"
    "scene_shoot_handle disp s c = Ok es"
  then show "consecutive (shoot_version s) (map shoot_event_version es)"
    by (cases c) (auto simp: handler_defs version_next_def on_existing_def split: if_splits)
qed simp

interpretation scene_shoot_tombstone: frozen_aggregate
  scene_shoot_apply "scene_shoot_handle disp" never_idempotent scene_shoot_expect
  "scene_shoot_default fi fd" shoot_deleted for disp fi fd
proof unfold_locales
  show "\<not> shoot_deleted (scene_shoot_default fi fd)"
    by (simp add: scene_shoot_default_def)
next
  fix s c es
  assume "shoot_deleted s" "scene_shoot_expect c \<noteq> Some EmptyVersion"
    "scene_shoot_handle disp s c = Ok es"
  then show "es = []"
    by (cases c) (auto simp: handler_defs split: if_splits)
qed

interpretation scene_shoot_scope: immutable_attribute
  scene_shoot_apply "scene_shoot_handle disp" never_idempotent scene_shoot_expect
  "scene_shoot_default fi fd" "\<lambda>_. True" "\<lambda>s. (shoot_id s, shoot_scene_id s, shoot_day_id s)"
  for disp fi fd
proof unfold_locales
  fix s c es
  assume "scene_shoot_expect c \<noteq> Some EmptyVersion" "scene_shoot_handle disp s c = Ok es"
  then show "True \<and> (\<lambda>s. (shoot_id s, shoot_scene_id s, shoot_day_id s)) (foldl scene_shoot_apply s es) =
      (shoot_id s, shoot_scene_id s, shoot_day_id s)"
    by (cases c) (auto simp: handler_defs split: if_splits)
qed

text \<open>Once execution data is recorded, it stays and the planned order is frozen.\<close>

interpretation scene_shoot_plan: immutable_attribute
  scene_shoot_apply "scene_shoot_handle disp" never_idempotent scene_shoot_expect
  "scene_shoot_default fi fd" has_execution_data planned_order for disp fi fd
proof unfold_locales
  fix s c es
  assume "has_execution_data s" "scene_shoot_expect c \<noteq> Some EmptyVersion"
    "scene_shoot_handle disp s c = Ok es"
  then show "has_execution_data (foldl scene_shoot_apply s es) \<and>
      planned_order (foldl scene_shoot_apply s es) = planned_order s"
    by (cases c) (auto simp: handler_defs has_execution_data_def split: if_splits)
qed

text \<open>A shot or skipped scene keeps its status and all its data.\<close>

definition shoot_record ::
  "scene_shoot \<Rightarrow> scene_shoot_status \<times> lexical_sort_key \<times> lexical_sort_key option \<times>
   datetime option \<times> datetime option \<times> scene_shoot_note list \<times> photo_id list" where
  "shoot_record s = (shoot_status s, planned_order s, actual_order s, start_dt s, end_dt s,
     shoot_notes s, continuity_photos s)"

interpretation scene_shoot_terminal: immutable_attribute
  scene_shoot_apply "scene_shoot_handle disp" never_idempotent scene_shoot_expect
  "scene_shoot_default fi fd" is_terminal shoot_record for disp fi fd
proof unfold_locales
  fix s c es
  assume "is_terminal s" "scene_shoot_expect c \<noteq> Some EmptyVersion"
    "scene_shoot_handle disp s c = Ok es"
  then show "is_terminal (foldl scene_shoot_apply s es) \<and>
      shoot_record (foldl scene_shoot_apply s es) = shoot_record s"
    by (cases c) (auto simp: handler_defs is_terminal_def shoot_record_def split: if_splits)
qed

lemma scene_shoot_ok_handle:
  assumes "scene_shoot_ok s" "scene_shoot_expect c \<noteq> Some EmptyVersion"
    "scene_shoot_handle disp s c = Ok es"
  shows "scene_shoot_ok (foldl scene_shoot_apply s es)"
  using assms
  by (cases c) (auto simp: handler_defs scene_shoot_ok_def has_execution_data_def is_terminal_def
      transition_on_execution_def split: if_splits scene_shoot_status.splits)

interpretation scene_shoot_consistency: invariant_aggregate
  scene_shoot_apply "scene_shoot_handle disp" never_idempotent scene_shoot_expect
  "scene_shoot_default fi fd" "\<lambda>_. scene_shoot_ok" for disp fi fd
proof unfold_locales
  fix c ev es
  assume "scene_shoot_expect c = Some ev" "ev = EmptyVersion \<or> ev = AnyVersion"
    "scene_shoot_handle disp (scene_shoot_default fi fd) c = Ok es" "es \<noteq> []"
  then show "scene_shoot_ok (foldl scene_shoot_apply (scene_shoot_default fi fd) es)"
    by (cases c) (auto simp: handler_defs scene_shoot_default_def scene_shoot_ok_def
        has_execution_data_def split: if_splits)
next
  fix s c ev es
  assume "scene_shoot_ok s" "scene_shoot_expect c = Some ev" "ev \<noteq> EmptyVersion"
    "scene_shoot_handle disp s c = Ok es"
  then show "scene_shoot_ok (foldl scene_shoot_apply s es)"
    using scene_shoot_ok_handle [of s c disp es] by simp
qed

section \<open>The life cycle of a scene shoot\<close>

text \<open>C6. The status of a scene shoot tells what has happened: while it is planned there is no start
  and no actual order, in progress there is one of them and no end, a shot scene has an end, a
  skipped one has none, and the status \<open>Scheduled\<close> is never reached. Continuity photos are linked
  at most once.\<close>

theorem scene_shoot_status_consistent:
  assumes "expected_version_laws sat"
    and "history sat scene_shoot_expect never_idempotent scene_shoot_apply (scene_shoot_handle disp)
      (scene_shoot_default fi fd) es"
    and "es \<noteq> []" "s = replay scene_shoot_apply (scene_shoot_default fi fd) es"
  shows "(shoot_status s = Planned \<longrightarrow> start_dt s = None \<and> actual_order s = None \<and> end_dt s = None) \<and>
    (shoot_status s = InProgress \<longrightarrow> (start_dt s \<noteq> None \<or> actual_order s \<noteq> None) \<and> end_dt s = None) \<and>
    (shoot_status s = Shot \<longrightarrow> end_dt s \<noteq> None) \<and> (shoot_status s = Skipped \<longrightarrow> end_dt s = None) \<and>
    shoot_status s \<noteq> Scheduled \<and> distinct (continuity_photos s)"
  using scene_shoot_consistency.history_inv [OF assms(1-3)] assms(4)
  by (auto simp: scene_shoot_ok_def has_execution_data_def split: scene_shoot_status.splits)

text \<open>C7. Execution freezes the plan: once a scene shoot has a start or an actual order, no further
  sequence of commands changes its planned order; once it is shot or skipped, none changes its status,
  orders, times, notes or photos.\<close>

theorem scene_shoot_execution_freezes:
  assumes "expected_version_laws sat" "es \<noteq> []"
    and "(dispatch_step sat scene_shoot_expect never_idempotent scene_shoot_apply
      (scene_shoot_handle disp) (scene_shoot_default fi fd))\<^sup>*\<^sup>* es es'"
    and "s = replay scene_shoot_apply (scene_shoot_default fi fd) es"
    and "s' = replay scene_shoot_apply (scene_shoot_default fi fd) es'"
  shows "(has_execution_data s \<longrightarrow> has_execution_data s' \<and> planned_order s' = planned_order s) \<and>
    (is_terminal s \<longrightarrow> is_terminal s' \<and> shoot_record s' = shoot_record s)"
  using scene_shoot_plan.attr_stable [OF assms(1,2) _ assms(3)]
    scene_shoot_terminal.attr_stable [OF assms(1,2) _ assms(3)] assms(4,5) by blast

definition sample_shoot_commands :: "scene_shoot_command list" where
  "sample_shoot_commands =
     [PlanSceneShoot 7 3 5 None ''m'', StartSceneShoot 7 5 100 None 1, FinishSceneShoot 7 5 200 None 2]"

definition sample_shoot_events :: "scene_shoot_event list" where
  "sample_shoot_events =
     [SceneShootPlanned 7 3 5 ''m'' Planned 1, SceneShootStarted 7 100 2, SceneShootFinished 7 200 3]"

lemma sample_shoot_history:
  "history reference_satisfied scene_shoot_expect never_idempotent scene_shoot_apply
     (scene_shoot_handle (\<lambda>_. [])) (scene_shoot_default 1 2) sample_shoot_events"
  by (rule run_commands_history [where cs = sample_shoot_commands]) code_simp

theorem scene_shoot_status_consistent_witness:
  "shoot_status (replay scene_shoot_apply (scene_shoot_default 1 2) sample_shoot_events) = Shot \<and>
   end_dt (replay scene_shoot_apply (scene_shoot_default 1 2) sample_shoot_events) \<noteq> None"
proof -
  have shot: "shoot_status (replay scene_shoot_apply (scene_shoot_default 1 2) sample_shoot_events) = Shot"
    by code_simp
  then show ?thesis
    using scene_shoot_status_consistent [OF reference_laws sample_shoot_history _ refl]
    by (simp add: sample_shoot_events_def)
qed

theorem scene_shoot_execution_freezes_witness:
  "is_terminal (replay scene_shoot_apply (scene_shoot_default 1 2) sample_shoot_events) \<and>
   planned_order (replay scene_shoot_apply (scene_shoot_default 1 2) sample_shoot_events) =
   planned_order (replay scene_shoot_apply (scene_shoot_default 1 2) (take 2 sample_shoot_events))"
proof
  show "is_terminal (replay scene_shoot_apply (scene_shoot_default 1 2) sample_shoot_events)"
    by code_simp
  have step: "(dispatch_step reference_satisfied scene_shoot_expect never_idempotent scene_shoot_apply
      (scene_shoot_handle (\<lambda>_. [])) (scene_shoot_default 1 2))\<^sup>*\<^sup>*
      (take 2 sample_shoot_events) sample_shoot_events"
    by (rule run_commands_steps [where cs = "drop 2 sample_shoot_commands"]) code_simp
  have "take 2 sample_shoot_events \<noteq> []"
    by (simp add: sample_shoot_events_def)
  moreover have "has_execution_data
      (replay scene_shoot_apply (scene_shoot_default 1 2) (take 2 sample_shoot_events))"
    by code_simp
  ultimately show "planned_order (replay scene_shoot_apply (scene_shoot_default 1 2) sample_shoot_events) =
      planned_order (replay scene_shoot_apply (scene_shoot_default 1 2) (take 2 sample_shoot_events))"
    using scene_shoot_execution_freezes [OF reference_laws _ step refl refl] by blast
qed

end
