(* ===== verification/Shooting_Day_Aggregate.thy ===== *)
theory Shooting_Day_Aggregate
  imports Event_Sourcing
begin

text \<open>
  The ShootingDay aggregate (\<open>backend/crates/core/src/shooting_day\<close>): an
  episode-scoped day with a terminal archive, an idempotent wrap and the
  \<open>EnsureShootingDayOpen\<close> probe that execution commands consult. The clock read
  by \<open>WrapShootingDay\<close> (\<open>Utc::now()\<close>) is the parameter \<open>now\<close>.
\<close>

section \<open>State, events, commands\<close>

datatype shooting_day_source =
    DayManual
  | DayAiExtracted uuid "string option" "f32_bits option"

record shooting_day =
  day_id :: shooting_day_id
  day_episode_id :: episode_id
  day_label :: "string option"
  day_order_key :: lexical_sort_key
  day_date :: "naive_date option"
  day_source :: shooting_day_source
  day_archived :: bool
  day_wrapped_at :: "datetime option"
  day_deleted :: bool
  day_version :: aggregate_version

datatype shooting_day_event =
    ShootingDayCreated shooting_day_id episode_id "string option" lexical_sort_key
      "naive_date option" shooting_day_source (day_event_version: aggregate_version)
  | ShootingDayRenamed shooting_day_id "string option" (day_event_version: aggregate_version)
  | ShootingDayRescheduled shooting_day_id "naive_date option" (day_event_version: aggregate_version)
  | ShootingDayReordered shooting_day_id lexical_sort_key (day_event_version: aggregate_version)
  | ShootingDayArchived shooting_day_id (day_event_version: aggregate_version)
  | ShootingDayWrapped shooting_day_id datetime (day_event_version: aggregate_version)
  | ShootingDayDeleted shooting_day_id (day_event_version: aggregate_version)

datatype shooting_day_error =
    DayValidationError string
  | DayNotFound shooting_day_id
  | DayIsDeleted shooting_day_id
  | DayArchivedCannotBeMutated shooting_day_id
  | DayDuplicateOrderKey lexical_sort_key
  | DayWrapped shooting_day_id
  | DayVersionMismatch aggregate_version aggregate_version

datatype shooting_day_command =
    CreateShootingDay shooting_day_id episode_id "project_id option" "string option"
      lexical_sort_key "naive_date option" shooting_day_source
  | RenameShootingDay shooting_day_id "string option" "project_id option" aggregate_version
  | RescheduleShootingDay shooting_day_id "naive_date option" "project_id option" aggregate_version
  | ReorderShootingDay shooting_day_id lexical_sort_key "project_id option" aggregate_version
  | ArchiveShootingDay shooting_day_id "project_id option" aggregate_version
  | WrapShootingDay shooting_day_id "project_id option" aggregate_version
  | EnsureShootingDayOpen shooting_day_id
  | DeleteShootingDay shooting_day_id

definition shooting_day_default :: "shooting_day_id \<Rightarrow> episode_id \<Rightarrow> shooting_day" where
  "shooting_day_default fresh_id fresh_episode =
     \<lparr>day_id = fresh_id, day_episode_id = fresh_episode, day_label = None, day_order_key = ''0'',
      day_date = None, day_source = DayManual, day_archived = False, day_wrapped_at = None,
      day_deleted = False, day_version = INITIAL\<rparr>"

fun shooting_day_event_type :: "shooting_day_event \<Rightarrow> string" where
  "shooting_day_event_type (ShootingDayCreated _ _ _ _ _ _ _) = ''ShootingDayCreated''"
| "shooting_day_event_type (ShootingDayRenamed _ _ _) = ''ShootingDayRenamed''"
| "shooting_day_event_type (ShootingDayRescheduled _ _ _) = ''ShootingDayRescheduled''"
| "shooting_day_event_type (ShootingDayReordered _ _ _) = ''ShootingDayReordered''"
| "shooting_day_event_type (ShootingDayArchived _ _) = ''ShootingDayArchived''"
| "shooting_day_event_type (ShootingDayWrapped _ _ _) = ''ShootingDayWrapped''"
| "shooting_day_event_type (ShootingDayDeleted _ _) = ''ShootingDayDeleted''"

section \<open>Apply and handlers\<close>

fun shooting_day_apply :: "shooting_day \<Rightarrow> shooting_day_event \<Rightarrow> shooting_day" where
  "shooting_day_apply s (ShootingDayDeleted i v) = s\<lparr>day_deleted := True, day_version := v\<rparr>"
| "shooting_day_apply s (ShootingDayCreated i episode label key date source v) =
     s\<lparr>day_id := i, day_episode_id := episode, day_label := label, day_order_key := key,
       day_date := date, day_source := source, day_archived := False, day_version := v\<rparr>"
| "shooting_day_apply s (ShootingDayRenamed i label v) = s\<lparr>day_label := label, day_version := v\<rparr>"
| "shooting_day_apply s (ShootingDayRescheduled i date v) = s\<lparr>day_date := date, day_version := v\<rparr>"
| "shooting_day_apply s (ShootingDayReordered i key v) = s\<lparr>day_order_key := key, day_version := v\<rparr>"
| "shooting_day_apply s (ShootingDayArchived i v) = s\<lparr>day_archived := True, day_version := v\<rparr>"
| "shooting_day_apply s (ShootingDayWrapped i at v) =
     s\<lparr>day_wrapped_at := Some at, day_version := v\<rparr>"

definition handle_CreateShootingDay ::
  "shooting_day \<Rightarrow> shooting_day_id \<Rightarrow> episode_id \<Rightarrow> string option \<Rightarrow> lexical_sort_key \<Rightarrow>
   naive_date option \<Rightarrow> shooting_day_source \<Rightarrow> shooting_day_error + shooting_day_event list" where
  [handler_defs]: "handle_CreateShootingDay s i episode label key date source =
     (if day_deleted s then Err (DayIsDeleted (day_id s))
      else Ok [ShootingDayCreated i episode label key date source INITIAL])"

definition handle_RenameShootingDay ::
  "shooting_day \<Rightarrow> string option \<Rightarrow> aggregate_version \<Rightarrow>
   shooting_day_error + shooting_day_event list" where
  [handler_defs]: "handle_RenameShootingDay s label v =
     (if day_deleted s then Err (DayIsDeleted (day_id s))
      else if day_archived s then Err (DayArchivedCannotBeMutated (day_id s))
      else if v \<noteq> day_version s then Err (DayVersionMismatch v (day_version s))
      else Ok [ShootingDayRenamed (day_id s) label (version_next (day_version s))])"

definition handle_RescheduleShootingDay ::
  "shooting_day \<Rightarrow> naive_date option \<Rightarrow> aggregate_version \<Rightarrow>
   shooting_day_error + shooting_day_event list" where
  [handler_defs]: "handle_RescheduleShootingDay s date v =
     (if day_deleted s then Err (DayIsDeleted (day_id s))
      else if day_archived s then Err (DayArchivedCannotBeMutated (day_id s))
      else if v \<noteq> day_version s then Err (DayVersionMismatch v (day_version s))
      else Ok [ShootingDayRescheduled (day_id s) date (version_next (day_version s))])"

definition handle_ReorderShootingDay ::
  "shooting_day \<Rightarrow> lexical_sort_key \<Rightarrow> aggregate_version \<Rightarrow>
   shooting_day_error + shooting_day_event list" where
  [handler_defs]: "handle_ReorderShootingDay s key v =
     (if day_deleted s then Err (DayIsDeleted (day_id s))
      else if day_archived s then Err (DayArchivedCannotBeMutated (day_id s))
      else if v \<noteq> day_version s then Err (DayVersionMismatch v (day_version s))
      else Ok [ShootingDayReordered (day_id s) key (version_next (day_version s))])"

definition handle_ArchiveShootingDay ::
  "shooting_day \<Rightarrow> aggregate_version \<Rightarrow> shooting_day_error + shooting_day_event list" where
  [handler_defs]: "handle_ArchiveShootingDay s v =
     (if day_deleted s then Err (DayIsDeleted (day_id s))
      else if v \<noteq> day_version s then Err (DayVersionMismatch v (day_version s))
      else if day_archived s then Err (DayArchivedCannotBeMutated (day_id s))
      else Ok [ShootingDayArchived (day_id s) (version_next (day_version s))])"

definition handle_WrapShootingDay ::
  "datetime \<Rightarrow> shooting_day \<Rightarrow> aggregate_version \<Rightarrow>
   shooting_day_error + shooting_day_event list" where
  [handler_defs]: "handle_WrapShootingDay now s v =
     (if day_deleted s then Err (DayIsDeleted (day_id s))
      else if day_wrapped_at s \<noteq> None then Ok []
      else if v \<noteq> day_version s then Err (DayVersionMismatch v (day_version s))
      else Ok [ShootingDayWrapped (day_id s) now (version_next (day_version s))])"

definition handle_EnsureShootingDayOpen ::
  "shooting_day \<Rightarrow> shooting_day_id \<Rightarrow> shooting_day_error + shooting_day_event list" where
  [handler_defs]: "handle_EnsureShootingDayOpen s i =
     (if day_deleted s then Err (DayIsDeleted (day_id s))
      else if day_wrapped_at s \<noteq> None then Err (DayWrapped i)
      else Ok [])"

definition handle_DeleteShootingDay ::
  "shooting_day \<Rightarrow> shooting_day_id \<Rightarrow> shooting_day_error + shooting_day_event list" where
  [handler_defs]: "handle_DeleteShootingDay s i =
     (if day_deleted s then Ok []
      else if day_id s = nil_uuid then Err (DayNotFound i)
      else Ok [ShootingDayDeleted (day_id s) (version_next (day_version s))])"

fun shooting_day_handle ::
  "datetime \<Rightarrow> shooting_day \<Rightarrow> shooting_day_command \<Rightarrow> shooting_day_error + shooting_day_event list" where
  "shooting_day_handle now s (CreateShootingDay i episode project label key date source) =
     handle_CreateShootingDay s i episode label key date source"
| "shooting_day_handle now s (RenameShootingDay i label project v) = handle_RenameShootingDay s label v"
| "shooting_day_handle now s (RescheduleShootingDay i date project v) =
     handle_RescheduleShootingDay s date v"
| "shooting_day_handle now s (ReorderShootingDay i key project v) = handle_ReorderShootingDay s key v"
| "shooting_day_handle now s (ArchiveShootingDay i project v) = handle_ArchiveShootingDay s v"
| "shooting_day_handle now s (WrapShootingDay i project v) = handle_WrapShootingDay now s v"
| "shooting_day_handle now s (EnsureShootingDayOpen i) = handle_EnsureShootingDayOpen s i"
| "shooting_day_handle now s (DeleteShootingDay i) = handle_DeleteShootingDay s i"

fun shooting_day_expect :: "shooting_day_command \<Rightarrow> expected_version option" where
  "shooting_day_expect (CreateShootingDay _ _ _ _ _ _ _) = Some EmptyVersion"
| "shooting_day_expect (RenameShootingDay _ _ _ v) = exact_version v"
| "shooting_day_expect (RescheduleShootingDay _ _ _ v) = exact_version v"
| "shooting_day_expect (ReorderShootingDay _ _ _ v) = exact_version v"
| "shooting_day_expect (ArchiveShootingDay _ _ v) = exact_version v"
| "shooting_day_expect (WrapShootingDay _ _ v) = exact_version v"
| "shooting_day_expect (EnsureShootingDayOpen _) = Some AnyVersion"
| "shooting_day_expect (DeleteShootingDay _) = Some AnyVersion"

section \<open>Interfaces\<close>

interpretation shooting_day_versions: versioned_aggregate
  shooting_day_apply "shooting_day_handle now" never_idempotent "on_existing shooting_day_expect"
  "shooting_day_default fi fe" day_version day_event_version for now fi fe
proof unfold_locales
  fix s e
  show "day_version (shooting_day_apply s e) = day_event_version e"
    by (cases e) simp_all
next
  fix c es
  assume "on_existing shooting_day_expect c = Some EmptyVersion"
    "shooting_day_handle now (shooting_day_default fi fe) c = Ok es"
  then show "map day_event_version es = [INITIAL]"
    by (cases c) (auto simp: handler_defs split: if_splits)
next
  fix c ev s es
  assume "on_existing shooting_day_expect c = Some ev" "ev \<noteq> EmptyVersion"
    "shooting_day_handle now s c = Ok es"
  then show "consecutive (day_version s) (map day_event_version es)"
    by (cases c) (auto simp: handler_defs version_next_def on_existing_def split: if_splits)
qed simp

interpretation shooting_day_tombstone: frozen_aggregate
  shooting_day_apply "shooting_day_handle now" never_idempotent shooting_day_expect
  "shooting_day_default fi fe" day_deleted for now fi fe
proof unfold_locales
  show "\<not> day_deleted (shooting_day_default fi fe)"
    by (simp add: shooting_day_default_def)
next
  fix s c es
  assume "day_deleted s" "shooting_day_expect c \<noteq> Some EmptyVersion"
    "shooting_day_handle now s c = Ok es"
  then show "es = []"
    by (cases c) (auto simp: handler_defs split: if_splits)
qed

interpretation shooting_day_scope: immutable_attribute
  shooting_day_apply "shooting_day_handle now" never_idempotent shooting_day_expect
  "shooting_day_default fi fe" "\<lambda>_. True" "\<lambda>s. (day_id s, day_episode_id s, day_source s)"
  for now fi fe
proof unfold_locales
  fix s c es
  assume "shooting_day_expect c \<noteq> Some EmptyVersion" "shooting_day_handle now s c = Ok es"
  then show "True \<and> (\<lambda>s. (day_id s, day_episode_id s, day_source s)) (foldl shooting_day_apply s es) =
      (day_id s, day_episode_id s, day_source s)"
    by (cases c) (auto simp: handler_defs split: if_splits)
qed

text \<open>The instant of the wrap is recorded once; it never changes and never goes away.\<close>

interpretation shooting_day_wrap: immutable_attribute
  shooting_day_apply "shooting_day_handle now" never_idempotent shooting_day_expect
  "shooting_day_default fi fe" "\<lambda>s. day_wrapped_at s \<noteq> None" day_wrapped_at for now fi fe
proof unfold_locales
  fix s c es
  assume "day_wrapped_at s \<noteq> None" "shooting_day_expect c \<noteq> Some EmptyVersion"
    "shooting_day_handle now s c = Ok es"
  then show "day_wrapped_at (foldl shooting_day_apply s es) \<noteq> None \<and>
      day_wrapped_at (foldl shooting_day_apply s es) = day_wrapped_at s"
    by (cases c) (auto simp: handler_defs split: if_splits)
qed

text \<open>An archived day keeps its label, its place and its date.\<close>

interpretation shooting_day_archive: immutable_attribute
  shooting_day_apply "shooting_day_handle now" never_idempotent shooting_day_expect
  "shooting_day_default fi fe" day_archived "\<lambda>s. (day_label s, day_order_key s, day_date s)"
  for now fi fe
proof unfold_locales
  fix s c es
  assume "day_archived s" "shooting_day_expect c \<noteq> Some EmptyVersion"
    "shooting_day_handle now s c = Ok es"
  then show "day_archived (foldl shooting_day_apply s es) \<and>
      (\<lambda>s. (day_label s, day_order_key s, day_date s)) (foldl shooting_day_apply s es) =
      (day_label s, day_order_key s, day_date s)"
    by (cases c) (auto simp: handler_defs split: if_splits)
qed

section \<open>The life cycle of a shooting day\<close>

text \<open>C25. A wrapped day stays wrapped with the time of its first wrap, and an archived day keeps its
  label, order key and date, whatever commands follow on its stream.\<close>

theorem shooting_day_wrap_permanent:
  assumes "expected_version_laws sat" "es \<noteq> []"
    and "(dispatch_step sat shooting_day_expect never_idempotent shooting_day_apply
      (shooting_day_handle now) (shooting_day_default fi fe))\<^sup>*\<^sup>* es es'"
    and "s = replay shooting_day_apply (shooting_day_default fi fe) es"
    and "s' = replay shooting_day_apply (shooting_day_default fi fe) es'"
  shows "(day_wrapped_at s \<noteq> None \<longrightarrow> day_wrapped_at s' = day_wrapped_at s) \<and>
    (day_archived s \<longrightarrow> day_archived s' \<and> day_label s' = day_label s \<and>
       day_order_key s' = day_order_key s \<and> day_date s' = day_date s)"
  using shooting_day_wrap.attr_stable [OF assms(1,2) _ assms(3)]
    shooting_day_archive.attr_stable [OF assms(1,2) _ assms(3)] assms(4,5) by blast

definition sample_day_commands :: "shooting_day_command list" where
  "sample_day_commands =
     [CreateShootingDay 7 3 None (Some ''D1'') ''m'' None DayManual, WrapShootingDay 7 None 1,
      RenameShootingDay 7 (Some ''D2'') None 2]"

definition sample_day_events :: "shooting_day_event list" where
  "sample_day_events =
     [ShootingDayCreated 7 3 (Some ''D1'') ''m'' None DayManual 1, ShootingDayWrapped 7 500 2,
      ShootingDayRenamed 7 (Some ''D2'') 3]"

theorem shooting_day_wrap_permanent_witness:
  "day_wrapped_at (replay shooting_day_apply (shooting_day_default 1 2) (take 2 sample_day_events)) =
     Some 500 \<and>
   day_wrapped_at (replay shooting_day_apply (shooting_day_default 1 2) sample_day_events) = Some 500"
proof -
  have step: "(dispatch_step reference_satisfied shooting_day_expect never_idempotent shooting_day_apply
      (shooting_day_handle 500) (shooting_day_default 1 2))\<^sup>*\<^sup>*
      (take 2 sample_day_events) sample_day_events"
    by (rule run_commands_steps [where cs = "drop 2 sample_day_commands"]) code_simp
  have wrapped:
    "day_wrapped_at (replay shooting_day_apply (shooting_day_default 1 2) (take 2 sample_day_events)) =
     Some 500"
    by code_simp
  then show ?thesis
    using shooting_day_wrap_permanent [OF reference_laws _ step refl refl]
    by (simp add: sample_day_events_def)
qed

end
