(* ===== verification/Photo_Aggregate.thy ===== *)
theory Photo_Aggregate
  imports Event_Sourcing
begin

text \<open>
  The Photo aggregate (\<open>backend/crates/core/src/photo\<close>) and the commands that the
  thumbnail saga dispatches for an upload
  (\<open>backend/crates/infra/src/photo/sagas/thumbnail.rs\<close>).

  \<open>apply\<close> reads the clock (\<open>Utc::now()\<close>) when it replays a normalisation or a
  deletion; the parameter \<open>now\<close> is the instant of the replay.
\<close>

section \<open>State, events, commands\<close>

datatype photo_binding =
    PieceBinding uuid
  | OutfitBinding uuid
  | ContinuityBinding scene_shoot_id "uuid option"

definition photo_binding_default :: photo_binding where
  "photo_binding_default = PieceBinding nil_uuid"

record photo_variant_record =
  variant_kind :: photo_variant
  variant_status :: variant_status
  variant_size_bytes :: u64

record photo =
  photo_id :: photo_id
  photo_content_type :: string
  photo_size_bytes :: u64
  photo_variants :: "photo_variant_record list"
  exif_stripped_at :: "datetime option"
  photo_deleted_at :: "datetime option"
  photo_binding :: photo_binding
  photo_version :: aggregate_version

datatype photo_event =
    PhotoUploaded photo_id string u64 "(photo_variant \<times> variant_status) list" photo_binding
      (photo_event_version: aggregate_version)
  | OriginalNormalized photo_id u64 bool (photo_event_version: aggregate_version)
  | VariantGenerated photo_id photo_variant u64 (photo_event_version: aggregate_version)
  | VariantFailed photo_id photo_variant string (photo_event_version: aggregate_version)
  | PhotoDeleted photo_id (photo_event_version: aggregate_version)

datatype photo_error =
    PhotoValidationError string
  | PhotoNotFound uuid
  | PhotoAlreadyDeleted
  | PhotoVersionMismatch aggregate_version aggregate_version

datatype photo_command =
    UploadPhoto photo_id string u64 photo_binding "project_id option"
  | NormalizeOriginal photo_id u64 bool "project_id option" aggregate_version
  | GenerateVariant photo_id photo_variant u64 "project_id option" aggregate_version
  | MarkVariantFailed photo_id photo_variant string "project_id option" aggregate_version
  | DeletePhoto photo_id "project_id option" aggregate_version

definition photo_default :: "photo_id \<Rightarrow> photo" where
  "photo_default fresh =
     \<lparr>photo_id = fresh, photo_content_type = [], photo_size_bytes = 0, photo_variants = [],
      exif_stripped_at = None, photo_deleted_at = None, photo_binding = photo_binding_default,
      photo_version = INITIAL\<rparr>"

fun photo_event_type :: "photo_event \<Rightarrow> string" where
  "photo_event_type (PhotoUploaded _ _ _ _ _ _) = ''PhotoUploaded''"
| "photo_event_type (OriginalNormalized _ _ _ _) = ''OriginalNormalized''"
| "photo_event_type (VariantGenerated _ _ _ _) = ''VariantGenerated''"
| "photo_event_type (VariantFailed _ _ _ _) = ''VariantFailed''"
| "photo_event_type (PhotoDeleted _ _) = ''PhotoDeleted''"

section \<open>Apply\<close>

text \<open>\<open>iter_mut().find(|v| v.kind == kind)\<close>: the first record of the kind is edited in place.\<close>

fun update_variant ::
  "photo_variant \<Rightarrow> (photo_variant_record \<Rightarrow> photo_variant_record) \<Rightarrow>
   photo_variant_record list \<Rightarrow> photo_variant_record list" where
  "update_variant kind f [] = []"
| "update_variant kind f (r # rs) =
     (if variant_kind r = kind then f r # rs else r # update_variant kind f rs)"

fun photo_apply :: "datetime \<Rightarrow> photo \<Rightarrow> photo_event \<Rightarrow> photo" where
  "photo_apply now s (PhotoUploaded i content_type sz statuses binding v) =
     s\<lparr>photo_id := i, photo_content_type := content_type, photo_size_bytes := sz,
       photo_variants :=
         map (\<lambda>(kind, status). \<lparr>variant_kind = kind, variant_status = status, variant_size_bytes = 0\<rparr>)
           statuses,
       photo_binding := binding, photo_version := v\<rparr>"
| "photo_apply now s (OriginalNormalized i new_size rotated v) =
     s\<lparr>photo_variants := update_variant Original
         (\<lambda>r. r\<lparr>variant_size_bytes := new_size, variant_status := Ready\<rparr>) (photo_variants s),
       photo_size_bytes := new_size, exif_stripped_at := Some now, photo_version := v\<rparr>"
| "photo_apply now s (VariantGenerated i kind sz v) =
     s\<lparr>photo_variants := update_variant kind
         (\<lambda>r. r\<lparr>variant_status := Ready, variant_size_bytes := sz\<rparr>) (photo_variants s),
       photo_version := v\<rparr>"
| "photo_apply now s (VariantFailed i kind err v) =
     s\<lparr>photo_variants := update_variant kind (\<lambda>r. r\<lparr>variant_status := Failed\<rparr>) (photo_variants s),
       photo_version := v\<rparr>"
| "photo_apply now s (PhotoDeleted i v) = s\<lparr>photo_deleted_at := Some now, photo_version := v\<rparr>"

section \<open>Handlers\<close>

definition photo_check_not_deleted :: "photo \<Rightarrow> photo_error + unit" where
  [handler_defs]: "photo_check_not_deleted s =
     (if photo_deleted_at s \<noteq> None then Err PhotoAlreadyDeleted else Ok ())"

definition photo_check_version :: "photo \<Rightarrow> aggregate_version \<Rightarrow> photo_error + unit" where
  [handler_defs]: "photo_check_version s expected =
     (if expected \<noteq> photo_version s then Err (PhotoVersionMismatch expected (photo_version s))
      else Ok ())"

definition variant_ready :: "photo \<Rightarrow> photo_variant \<Rightarrow> bool" where
  "variant_ready s kind \<longleftrightarrow>
     list_ex (\<lambda>r. variant_kind r = kind \<and> variant_status r = Ready) (photo_variants s)"

definition handle_UploadPhoto ::
  "photo \<Rightarrow> photo_id \<Rightarrow> string \<Rightarrow> u64 \<Rightarrow> photo_binding \<Rightarrow> photo_error + photo_event list" where
  [handler_defs]: "handle_UploadPhoto s i content_type sz binding =
     Ok [PhotoUploaded i content_type sz
           [(Original, Pending), (Thumb, Pending), (Medium, Pending)] binding INITIAL]"

definition handle_NormalizeOriginal :: "photo \<Rightarrow> u64 \<Rightarrow> bool \<Rightarrow> photo_error + photo_event list" where
  [handler_defs]: "handle_NormalizeOriginal s new_size rotated =
     and_then (photo_check_not_deleted s) (\<lambda>_.
       if variant_ready s Original then Ok []
       else Ok [OriginalNormalized (photo_id s) new_size rotated (version_next (photo_version s))])"

definition handle_GenerateVariant ::
  "photo \<Rightarrow> photo_variant \<Rightarrow> u64 \<Rightarrow> photo_error + photo_event list" where
  [handler_defs]: "handle_GenerateVariant s kind sz =
     and_then (photo_check_not_deleted s) (\<lambda>_.
       if variant_ready s kind then Ok []
       else Ok [VariantGenerated (photo_id s) kind sz (version_next (photo_version s))])"

definition handle_MarkVariantFailed ::
  "photo \<Rightarrow> photo_variant \<Rightarrow> string \<Rightarrow> aggregate_version \<Rightarrow> photo_error + photo_event list" where
  [handler_defs]: "handle_MarkVariantFailed s kind err v =
     and_then (photo_check_not_deleted s) (\<lambda>_. and_then (photo_check_version s v) (\<lambda>_.
       Ok [VariantFailed (photo_id s) kind err (version_next (photo_version s))]))"

definition handle_DeletePhoto :: "photo \<Rightarrow> aggregate_version \<Rightarrow> photo_error + photo_event list" where
  [handler_defs]: "handle_DeletePhoto s v =
     and_then (photo_check_not_deleted s) (\<lambda>_. and_then (photo_check_version s v) (\<lambda>_.
       Ok [PhotoDeleted (photo_id s) (version_next (photo_version s))]))"

fun photo_handle :: "photo \<Rightarrow> photo_command \<Rightarrow> photo_error + photo_event list" where
  "photo_handle s (UploadPhoto i content_type sz binding project) =
     handle_UploadPhoto s i content_type sz binding"
| "photo_handle s (NormalizeOriginal i new_size rotated project v) =
     handle_NormalizeOriginal s new_size rotated"
| "photo_handle s (GenerateVariant i kind sz project v) = handle_GenerateVariant s kind sz"
| "photo_handle s (MarkVariantFailed i kind err project v) = handle_MarkVariantFailed s kind err v"
| "photo_handle s (DeletePhoto i project v) = handle_DeletePhoto s v"

text \<open>
  A command reaches the aggregate through \<open>PhotoCommandsImpl\<close> or through a saga;
  the thumbnail saga dispatches without an expected version.
\<close>

datatype photo_dispatch = ViaAdapter photo_command | ViaSaga photo_command

fun photo_dispatch_handle :: "photo \<Rightarrow> photo_dispatch \<Rightarrow> photo_error + photo_event list" where
  "photo_dispatch_handle s (ViaAdapter c) = photo_handle s c"
| "photo_dispatch_handle s (ViaSaga c) = photo_handle s c"

fun photo_expect :: "photo_dispatch \<Rightarrow> expected_version option" where
  "photo_expect (ViaAdapter (UploadPhoto _ _ _ _ _)) = Some EmptyVersion"
| "photo_expect (ViaAdapter (NormalizeOriginal _ _ _ _ v)) = exact_version v"
| "photo_expect (ViaAdapter (GenerateVariant _ _ _ _ v)) = exact_version v"
| "photo_expect (ViaAdapter (MarkVariantFailed _ _ _ _ v)) = exact_version v"
| "photo_expect (ViaAdapter (DeletePhoto _ _ v)) = exact_version v"
| "photo_expect (ViaSaga (UploadPhoto _ _ _ _ _)) = None"
| "photo_expect (ViaSaga (NormalizeOriginal _ _ _ _ _)) = Some AnyVersion"
| "photo_expect (ViaSaga (GenerateVariant _ _ _ _ _)) = Some AnyVersion"
| "photo_expect (ViaSaga (MarkVariantFailed _ _ _ _ _)) = Some AnyVersion"
| "photo_expect (ViaSaga (DeletePhoto _ _ v)) = exact_version v"

text \<open>The three commands of one successful pass of the thumbnail saga.\<close>

definition thumbnail_saga_commands ::
  "photo_id \<Rightarrow> u64 \<Rightarrow> bool \<Rightarrow> u64 \<Rightarrow> u64 \<Rightarrow> project_id option \<Rightarrow> photo_command list" where
  "thumbnail_saga_commands i sz rotated thumb_size medium_size project =
     [NormalizeOriginal i sz rotated project INITIAL,
      GenerateVariant i Thumb thumb_size project INITIAL,
      GenerateVariant i Medium medium_size project INITIAL]"

text \<open>An uploaded photo has exactly one record per variant.\<close>

definition photo_ok :: "photo \<Rightarrow> bool" where
  "photo_ok s \<longleftrightarrow> map variant_kind (photo_variants s) = [Original, Thumb, Medium]"

section \<open>Interfaces\<close>

lemma photo_apply_version: "photo_version (photo_apply now s e) = photo_event_version e"
  by (cases e) simp_all

interpretation photo_versions: versioned_aggregate
  "photo_apply now" photo_dispatch_handle never_idempotent "on_existing photo_expect"
  "photo_default fresh" photo_version photo_event_version for now fresh
proof unfold_locales
  fix c es
  assume "on_existing photo_expect c = Some EmptyVersion"
    "photo_dispatch_handle (photo_default fresh) c = Ok es"
  then show "map photo_event_version es = [INITIAL]"
    by (cases c rule: photo_expect.cases) (auto simp: handler_defs)
next
  fix c ev s es
  assume "on_existing photo_expect c = Some ev" "ev \<noteq> EmptyVersion" "photo_dispatch_handle s c = Ok es"
  then show "consecutive (photo_version s) (map photo_event_version es)"
    by (cases c rule: photo_expect.cases)
      (auto simp: on_existing_def handler_defs version_next_def split: if_splits)
qed (simp_all add: photo_apply_version)

interpretation photo_tombstone: frozen_aggregate
  "photo_apply now" photo_dispatch_handle never_idempotent photo_expect "photo_default fresh"
  "\<lambda>s. photo_deleted_at s \<noteq> None" for now fresh
proof unfold_locales
  show "\<not> photo_deleted_at (photo_default fresh) \<noteq> None"
    by (simp add: photo_default_def)
next
  fix s c es
  assume "photo_deleted_at s \<noteq> None" "photo_expect c \<noteq> None"
    "photo_expect c \<noteq> Some EmptyVersion" "photo_dispatch_handle s c = Ok es"
  then show "es = []"
    by (cases c rule: photo_expect.cases) (auto simp: handler_defs)
qed

interpretation photo_scope: immutable_attribute
  "photo_apply now" photo_dispatch_handle never_idempotent photo_expect "photo_default fresh"
  "\<lambda>_. True" "\<lambda>s. (photo_id s, photo_content_type s, photo_binding s)" for now fresh
proof unfold_locales
  fix s c es
  assume "photo_expect c \<noteq> None" "photo_expect c \<noteq> Some EmptyVersion"
    "photo_dispatch_handle s c = Ok es"
  then show "True \<and> (\<lambda>s. (photo_id s, photo_content_type s, photo_binding s))
      (foldl (photo_apply now) s es) = (photo_id s, photo_content_type s, photo_binding s)"
    by (cases c rule: photo_expect.cases) (auto simp: handler_defs split: if_splits)
qed

lemma update_variant_kinds [simp]:
  "(\<And>r. variant_kind (f r) = variant_kind r) \<Longrightarrow>
     map variant_kind (update_variant kind f rs) = map variant_kind rs"
  by (induction rs) auto

interpretation photo_records: invariant_aggregate
  "photo_apply now" photo_dispatch_handle never_idempotent "on_existing photo_expect"
  "photo_default fresh" "\<lambda>_. photo_ok" for now fresh
proof unfold_locales
  fix c ev es
  assume "on_existing photo_expect c = Some ev" "ev = EmptyVersion \<or> ev = AnyVersion"
    "photo_dispatch_handle (photo_default fresh) c = Ok es" "es \<noteq> []"
  then show "photo_ok (foldl (photo_apply now) (photo_default fresh) es)"
    by (cases c rule: photo_expect.cases)
      (auto simp: handler_defs photo_ok_def on_existing_def split: option.splits expected_version.splits)
next
  fix s c ev es
  assume "photo_ok s" "on_existing photo_expect c = Some ev" "ev \<noteq> EmptyVersion"
    "photo_dispatch_handle s c = Ok es"
  then show "photo_ok (foldl (photo_apply now) s es)"
    by (cases c rule: photo_expect.cases)
      (auto simp: handler_defs photo_ok_def on_existing_def split: if_splits)
qed

section \<open>The thumbnail saga\<close>

lemma variant_ready_update:
  assumes "\<And>r. variant_kind (f r) = variant_kind r" "\<And>r. variant_status (f r) = Ready"
  shows "kind \<in> set (map variant_kind rs) \<Longrightarrow>
      list_ex (\<lambda>r. variant_kind r = kind \<and> variant_status r = Ready) (update_variant kind f rs)"
    and "list_ex (\<lambda>r. variant_kind r = k \<and> variant_status r = Ready) rs \<Longrightarrow>
      list_ex (\<lambda>r. variant_kind r = k \<and> variant_status r = Ready) (update_variant kind f rs)"
  using assms by (induction rs) auto

definition photo_all_ready :: "photo \<Rightarrow> bool" where
  "photo_all_ready s \<longleftrightarrow> variant_ready s Original \<and> variant_ready s Thumb \<and> variant_ready s Medium"

lemma saga_step:
  assumes ok: "photo_ok s" and live: "photo_deleted_at s = None"
    and c: "c = NormalizeOriginal i n rot p v \<and> kind = Original \<or> c = GenerateVariant i kind n p v"
  shows "\<exists>es. photo_handle s c = Ok es \<and> photo_ok (foldl (photo_apply now) s es) \<and>
     photo_deleted_at (foldl (photo_apply now) s es) = None \<and>
     variant_ready (foldl (photo_apply now) s es) kind \<and>
     (\<forall>k. variant_ready s k \<longrightarrow> variant_ready (foldl (photo_apply now) s es) k) \<and>
     (variant_ready s kind \<longrightarrow> es = [])"
proof (cases "variant_ready s kind")
  case True
  then show ?thesis
    using assms by (auto simp: handler_defs)
next
  case False
  have "kind \<in> set (map variant_kind (photo_variants s))"
    using ok by (cases kind) (simp_all add: photo_ok_def)
  then show ?thesis
    using False assms by (auto simp: handler_defs photo_ok_def variant_ready_def
        intro!: variant_ready_update)
qed

lemma saga_pass:
  assumes ok: "photo_ok s" and live: "photo_deleted_at s = None"
  obtains s' es where
    "exec_all (photo_apply now) photo_handle s (thumbnail_saga_commands i sz rot t m p) = Ok (s', es)"
    "photo_ok s'" "photo_deleted_at s' = None" "photo_all_ready s'" "photo_all_ready s \<Longrightarrow> es = []"
proof -
  let ?c1 = "NormalizeOriginal i sz rot p INITIAL"
    and ?c2 = "GenerateVariant i Thumb t p INITIAL"
    and ?c3 = "GenerateVariant i Medium m p INITIAL"
  obtain es1 where 1: "photo_handle s ?c1 = Ok es1" and s1: "photo_ok (foldl (photo_apply now) s es1)"
      "photo_deleted_at (foldl (photo_apply now) s es1) = None"
      "variant_ready (foldl (photo_apply now) s es1) Original"
      "\<And>k. variant_ready s k \<Longrightarrow> variant_ready (foldl (photo_apply now) s es1) k"
      "variant_ready s Original \<Longrightarrow> es1 = []"
    using saga_step [OF ok live, of ?c1 i sz rot p INITIAL Original now] by auto
  let ?s1 = "foldl (photo_apply now) s es1"
  obtain es2 where 2: "photo_handle ?s1 ?c2 = Ok es2" and s2: "photo_ok (foldl (photo_apply now) ?s1 es2)"
      "photo_deleted_at (foldl (photo_apply now) ?s1 es2) = None"
      "variant_ready (foldl (photo_apply now) ?s1 es2) Thumb"
      "\<And>k. variant_ready ?s1 k \<Longrightarrow> variant_ready (foldl (photo_apply now) ?s1 es2) k"
      "variant_ready ?s1 Thumb \<Longrightarrow> es2 = []"
    using saga_step [OF s1(1,2), of ?c2 i t rot p INITIAL Thumb now] by auto
  let ?s2 = "foldl (photo_apply now) ?s1 es2"
  obtain es3 where 3: "photo_handle ?s2 ?c3 = Ok es3" and s3: "photo_ok (foldl (photo_apply now) ?s2 es3)"
      "photo_deleted_at (foldl (photo_apply now) ?s2 es3) = None"
      "variant_ready (foldl (photo_apply now) ?s2 es3) Medium"
      "\<And>k. variant_ready ?s2 k \<Longrightarrow> variant_ready (foldl (photo_apply now) ?s2 es3) k"
      "variant_ready ?s2 Medium \<Longrightarrow> es3 = []"
    using saga_step [OF s2(1,2), of ?c3 i m rot p INITIAL Medium now] by auto
  show thesis
  proof (rule that)
    show "exec_all (photo_apply now) photo_handle s (thumbnail_saga_commands i sz rot t m p) =
        Ok (foldl (photo_apply now) ?s2 es3, es1 @ es2 @ es3)"
      using 1 2 3 by (simp add: thumbnail_saga_commands_def del: photo_handle.simps)
    show "photo_all_ready (foldl (photo_apply now) ?s2 es3)"
      using s1 s2 s3 by (simp add: photo_all_ready_def)
    show "es1 @ es2 @ es3 = []" if "photo_all_ready s"
      using that s1 s2 s3 by (simp add: photo_all_ready_def)
  qed (use s3 in simp_all)
qed

section \<open>Properties\<close>



end
