(* ===== verification/Membership_Aggregate.thy ===== *)
theory Membership_Aggregate
  imports Event_Sourcing
begin

text \<open>
  The BlockMembership aggregate (\<open>backend/crates/core/src/membership\<close>): roles and
  their storage tokens, invitations, active members and the owner bootstrap.
  All its commands are dispatched without an expected version.

  \<open>member_step\<close> is the specification of one user's membership; the lemmas show
  that every accepted command is such a step of exactly one user.
\<close>

section \<open>Roles and states\<close>

datatype role = CostumeDesigner | WardrobeSupervisor | CostumeAssistant | OpsAdmin

fun role_as_str :: "role \<Rightarrow> string" where
  "role_as_str CostumeDesigner = ''costume_designer''"
| "role_as_str WardrobeSupervisor = ''wardrobe_supervisor''"
| "role_as_str CostumeAssistant = ''costume_assistant''"
| "role_as_str OpsAdmin = ''ops_admin''"

definition role_from_token :: "string \<Rightarrow> role option" where
  "role_from_token token =
     (if token = ''costume_designer'' then Some CostumeDesigner
      else if token = ''wardrobe_supervisor'' then Some WardrobeSupervisor
      else if token = ''costume_assistant'' then Some CostumeAssistant
      else if token = ''ops_admin'' then Some OpsAdmin
      else None)"

datatype membership_state_kind = StatePending | StateActive

fun state_kind_as_str :: "membership_state_kind \<Rightarrow> string" where
  "state_kind_as_str StatePending = ''pending''"
| "state_kind_as_str StateActive = ''active''"

definition state_kind_from_token :: "string \<Rightarrow> membership_state_kind option" where
  "state_kind_from_token token =
     (if token = ''pending'' then Some StatePending
      else if token = ''active'' then Some StateActive
      else None)"

section \<open>State, events, commands\<close>

datatype membership_state = MemberPending role | MemberActive role

record block_membership =
  membership_block_id :: block_id
  members :: "user_id \<rightharpoonup> membership_state"

datatype membership_event =
    MemberInvited block_id user_id role
  | InvitationAccepted block_id user_id role
  | RoleGranted block_id user_id role
  | MemberRemoved block_id user_id
  | OwnerBootstrapped block_id user_id role

datatype membership_error =
    MembershipValidationError string
  | AlreadyInvited user_id
  | NoPendingInvitation user_id
  | NotActiveMember user_id
  | MissingActor
  | BootstrapNotAllowed block_id
  | MembershipNotFound block_id

datatype membership_command =
    InviteMember block_id project_id user_id role
  | AcceptInvitation block_id project_id user_id
  | GrantRole block_id project_id user_id role
  | RemoveMember block_id project_id user_id
  | LeaveBlock block_id project_id
  | BootstrapOwner block_id project_id user_id role

definition block_membership_default :: "block_id \<Rightarrow> block_membership" where
  "block_membership_default fresh = \<lparr>membership_block_id = fresh, members = Map.empty\<rparr>"

fun membership_event_type :: "membership_event \<Rightarrow> string" where
  "membership_event_type (MemberInvited _ _ _) = ''MemberInvited''"
| "membership_event_type (InvitationAccepted _ _ _) = ''InvitationAccepted''"
| "membership_event_type (RoleGranted _ _ _) = ''RoleGranted''"
| "membership_event_type (MemberRemoved _ _) = ''MemberRemoved''"
| "membership_event_type (OwnerBootstrapped _ _ _) = ''OwnerBootstrapped''"

section \<open>Apply and handlers\<close>

fun membership_apply :: "block_membership \<Rightarrow> membership_event \<Rightarrow> block_membership" where
  "membership_apply s (MemberInvited b u r) =
     s\<lparr>membership_block_id := b, members := (members s)(u \<mapsto> MemberPending r)\<rparr>"
| "membership_apply s (InvitationAccepted b u r) =
     s\<lparr>membership_block_id := b, members := (members s)(u \<mapsto> MemberActive r)\<rparr>"
| "membership_apply s (RoleGranted b u r) =
     s\<lparr>membership_block_id := b,
       members := (case members s u of
           Some (MemberActive _) \<Rightarrow> (members s)(u \<mapsto> MemberActive r)
         | _ \<Rightarrow> members s)\<rparr>"
| "membership_apply s (MemberRemoved b u) =
     s\<lparr>membership_block_id := b, members := (members s)(u := None)\<rparr>"
| "membership_apply s (OwnerBootstrapped b u r) =
     s\<lparr>membership_block_id := b, members := (members s)(u \<mapsto> MemberActive r)\<rparr>"

definition handle_InviteMember ::
  "block_membership \<Rightarrow> block_id \<Rightarrow> user_id \<Rightarrow> role \<Rightarrow> membership_error + membership_event list" where
  [handler_defs]: "handle_InviteMember s b u r =
     (if members s u \<noteq> None then Err (AlreadyInvited u) else Ok [MemberInvited b u r])"

definition handle_AcceptInvitation ::
  "block_membership \<Rightarrow> block_id \<Rightarrow> user_id \<Rightarrow> membership_error + membership_event list" where
  [handler_defs]: "handle_AcceptInvitation s b u =
     (case members s u of
        Some (MemberPending r) \<Rightarrow> Ok [InvitationAccepted b u r]
      | _ \<Rightarrow> Err (NoPendingInvitation u))"

definition handle_GrantRole ::
  "block_membership \<Rightarrow> block_id \<Rightarrow> user_id \<Rightarrow> role \<Rightarrow> membership_error + membership_event list" where
  [handler_defs]: "handle_GrantRole s b u r =
     (case members s u of
        Some (MemberActive _) \<Rightarrow> Ok [RoleGranted b u r]
      | _ \<Rightarrow> Err (NotActiveMember u))"

definition handle_RemoveMember ::
  "block_membership \<Rightarrow> block_id \<Rightarrow> user_id \<Rightarrow> membership_error + membership_event list" where
  [handler_defs]: "handle_RemoveMember s b u =
     (case members s u of
        Some (MemberActive _) \<Rightarrow> Ok [MemberRemoved b u]
      | _ \<Rightarrow> Err (NotActiveMember u))"

text \<open>\<open>LeaveBlock\<close> reads the leaving member from the command metadata.\<close>

definition handle_LeaveBlock ::
  "event_metadata option \<Rightarrow> block_membership \<Rightarrow> block_id \<Rightarrow>
   membership_error + membership_event list" where
  [handler_defs]: "handle_LeaveBlock metadata s b =
     (case Option.bind metadata em_actor of
        None \<Rightarrow> Err MissingActor
      | Some u \<Rightarrow>
          (case members s u of
             Some (MemberActive _) \<Rightarrow> Ok [MemberRemoved b u]
           | _ \<Rightarrow> Err (NotActiveMember u)))"

definition handle_BootstrapOwner ::
  "block_membership \<Rightarrow> block_id \<Rightarrow> user_id \<Rightarrow> role \<Rightarrow> membership_error + membership_event list" where
  [handler_defs]: "handle_BootstrapOwner s b u r =
     (if dom (members s) \<noteq> {} then Err (BootstrapNotAllowed b) else Ok [OwnerBootstrapped b u r])"

fun membership_handle ::
  "event_metadata option \<Rightarrow> block_membership \<Rightarrow> membership_command \<Rightarrow>
   membership_error + membership_event list" where
  "membership_handle metadata s (InviteMember b project u r) = handle_InviteMember s b u r"
| "membership_handle metadata s (AcceptInvitation b project u) = handle_AcceptInvitation s b u"
| "membership_handle metadata s (GrantRole b project u r) = handle_GrantRole s b u r"
| "membership_handle metadata s (RemoveMember b project u) = handle_RemoveMember s b u"
| "membership_handle metadata s (LeaveBlock b project) = handle_LeaveBlock metadata s b"
| "membership_handle metadata s (BootstrapOwner b project u r) = handle_BootstrapOwner s b u r"

section \<open>Specification of one member\<close>

inductive member_step ::
  "bool \<Rightarrow> membership_state option \<Rightarrow> membership_state option \<Rightarrow> bool" for empty_block where
  invited: "member_step empty_block None (Some (MemberPending r))"
| accepted: "member_step empty_block (Some (MemberPending r)) (Some (MemberActive r))"
| granted: "member_step empty_block (Some (MemberActive r)) (Some (MemberActive r'))"
| removed: "member_step empty_block (Some (MemberActive r)) None"
| bootstrapped: "empty_block \<Longrightarrow> member_step empty_block None (Some (MemberActive r))"

inductive_cases member_step_active: "member_step empty_block m (Some (MemberActive r))"

inductive_simps member_step_simps:
  "member_step empty_block None (Some (MemberPending r))"
  "member_step empty_block (Some (MemberPending r)) (Some (MemberActive r'))"
  "member_step empty_block (Some (MemberActive r)) (Some (MemberActive r'))"
  "member_step empty_block (Some (MemberActive r)) None"
  "member_step empty_block None (Some (MemberActive r))"

text \<open>The user a command is about: the one it names, or the actor who leaves.\<close>

fun command_user :: "event_metadata option \<Rightarrow> membership_command \<Rightarrow> user_id option" where
  "command_user metadata (InviteMember b project u r) = Some u"
| "command_user metadata (AcceptInvitation b project u) = Some u"
| "command_user metadata (GrantRole b project u r) = Some u"
| "command_user metadata (RemoveMember b project u) = Some u"
| "command_user metadata (LeaveBlock b project) = Option.bind metadata em_actor"
| "command_user metadata (BootstrapOwner b project u r) = Some u"

section \<open>Properties\<close>

text \<open>
  Applying a membership event is idempotent, as the redelivery of events
  to the aggregate requires.
\<close>

theorem membership_apply_idempotent:
  "membership_apply (membership_apply s e) e = membership_apply s e"
  by (cases e) (auto split: option.splits membership_state.splits)

text \<open>
  C23. Every accepted membership command moves exactly one user along the
  specified life cycle (invited, accepted with the invited role, re-roled,
  removed, or bootstrapped when nobody is in the block) and leaves the
  membership of all other users alone.
\<close>

theorem membership_lifecycle:
  assumes "membership_handle metadata s c = Ok es"
  shows "\<exists>u. command_user metadata c = Some u \<and>
    member_step (dom (members s) = {}) (members s u) (members (foldl membership_apply s es) u) \<and>
    (\<forall>w. w \<noteq> u \<longrightarrow> members (foldl membership_apply s es) w = members s w)"
  using assms
  by (cases c) (auto simp: handler_defs member_step_simps
      split: if_splits option.splits membership_state.splits)

theorem membership_lifecycle_witness:
  "\<exists>u. command_user None (BootstrapOwner 1 2 ''anna'' CostumeAssistant) = Some u \<and>
    member_step (dom (members (block_membership_default 1)) = {})
      (members (block_membership_default 1) u)
      (members (foldl membership_apply (block_membership_default 1)
        [OwnerBootstrapped 1 ''anna'' CostumeAssistant]) u) \<and>
    (\<forall>w. w \<noteq> u \<longrightarrow> members (foldl membership_apply (block_membership_default 1)
        [OwnerBootstrapped 1 ''anna'' CostumeAssistant]) w = members (block_membership_default 1) w)"
  by (rule membership_lifecycle) (simp add: handler_defs block_membership_default_def)

text \<open>
  The storage tokens of roles and membership states round-trip, and no
  other token is accepted.
\<close>

theorem membership_tokens_roundtrip:
  "(role_from_token token = Some r \<longleftrightarrow> token = role_as_str r) \<and>
   (state_kind_from_token token = Some k \<longleftrightarrow> token = state_kind_as_str k)"
  by (cases r; cases k) (auto simp: role_from_token_def state_kind_from_token_def)

end
