(* ===== verification/Piece_Aggregate.thy ===== *)
theory Piece_Aggregate
  imports Event_Sourcing
begin

text \<open>
  The Piece aggregate (\<open>backend/crates/core/src/piece\<close>): a garment of the wardrobe
  fundus with a season repertoire, one optional category, free-form details and
  linked photos. The state is the fold of \<open>piece_apply\<close>; one definition per
  command handler. \<open>piece_ok\<close> is what every stored piece satisfies: a trimmed,
  non-blank name, a repertoire and a photo list without duplicates.
\<close>

section \<open>State, events, commands\<close>

record piece_detail =
  detail_id :: uuid
  detail_subject :: "string option"
  detail_text :: string

record piece =
  piece_id :: uuid
  piece_name :: string
  piece_category_id :: "costume_category_id option"
  piece_seasons :: "season_id list"
  piece_notes :: string
  piece_details :: "piece_detail list"
  piece_photos :: "uuid list"
  piece_deleted :: bool
  piece_version :: aggregate_version

datatype piece_event =
    PieceCreated uuid string "costume_category_id option" "uuid option" string "piece_detail list"
      "uuid list" (piece_event_version: aggregate_version)
  | PieceRenamed uuid string (piece_event_version: aggregate_version)
  | PieceNotesUpdated uuid string (piece_event_version: aggregate_version)
  | PieceAddedToSeason uuid uuid (piece_event_version: aggregate_version)
  | PieceRemovedFromSeason uuid uuid (piece_event_version: aggregate_version)
  | PieceDetailAdded uuid piece_detail (piece_event_version: aggregate_version)
  | PieceDetailUpdated uuid piece_detail (piece_event_version: aggregate_version)
  | PieceDetailRemoved uuid uuid (piece_event_version: aggregate_version)
  | PieceCategorySet uuid "costume_category_id option" (piece_event_version: aggregate_version)
  | PiecePhotoLinked uuid uuid (piece_event_version: aggregate_version)
  | PiecePhotoUnlinked uuid uuid (piece_event_version: aggregate_version)
  | PieceDeleted uuid (piece_event_version: aggregate_version)

datatype piece_error =
    PieceEmptyName
  | PieceValidationError string
  | PieceNotFound uuid
  | PieceIsDeleted uuid
  | PieceDetailNotFound uuid
  | PieceVersionMismatch aggregate_version aggregate_version

datatype piece_command =
    CreatePiece uuid string "costume_category_id option" "season_id option" "project_id option"
  | RenamePiece uuid string "project_id option" aggregate_version
  | UpdatePieceNotes uuid string "project_id option" aggregate_version
  | AddPieceToSeason uuid season_id "project_id option" aggregate_version
  | RemovePieceFromSeason uuid season_id "project_id option" aggregate_version
  | AddPieceDetail uuid piece_detail "project_id option" aggregate_version
  | UpdatePieceDetail uuid piece_detail "project_id option" aggregate_version
  | RemovePieceDetail uuid uuid "project_id option" aggregate_version
  | SetPieceCategory uuid "costume_category_id option" "project_id option" aggregate_version
  | LinkPiecePhoto uuid uuid "project_id option" aggregate_version
  | UnlinkPiecePhoto uuid uuid "project_id option" aggregate_version
  | DeletePiece uuid

definition piece_default :: piece where
  "piece_default =
     \<lparr>piece_id = nil_uuid, piece_name = [], piece_category_id = None, piece_seasons = [],
      piece_notes = [], piece_details = [], piece_photos = [], piece_deleted = False,
      piece_version = INITIAL\<rparr>"

fun piece_event_type :: "piece_event \<Rightarrow> string" where
  "piece_event_type (PieceCreated _ _ _ _ _ _ _ _) = ''PieceCreated''"
| "piece_event_type (PieceRenamed _ _ _) = ''PieceRenamed''"
| "piece_event_type (PieceNotesUpdated _ _ _) = ''PieceNotesUpdated''"
| "piece_event_type (PieceAddedToSeason _ _ _) = ''PieceAddedToSeason''"
| "piece_event_type (PieceRemovedFromSeason _ _ _) = ''PieceRemovedFromSeason''"
| "piece_event_type (PieceDetailAdded _ _ _) = ''PieceDetailAdded''"
| "piece_event_type (PieceDetailUpdated _ _ _) = ''PieceDetailUpdated''"
| "piece_event_type (PieceDetailRemoved _ _ _) = ''PieceDetailRemoved''"
| "piece_event_type (PieceCategorySet _ _ _) = ''PieceCategorySet''"
| "piece_event_type (PiecePhotoLinked _ _ _) = ''PiecePhotoLinked''"
| "piece_event_type (PiecePhotoUnlinked _ _ _) = ''PiecePhotoUnlinked''"
| "piece_event_type (PieceDeleted _ _) = ''PieceDeleted''"

definition piece_normalize_name :: "string \<Rightarrow> piece_error + string" where
  [handler_defs]: "piece_normalize_name raw =
     (let trimmed = trim raw in if trimmed = [] then Err PieceEmptyName else Ok trimmed)"

section \<open>Apply\<close>

text \<open>\<open>details.iter_mut().find(..)\<close>: the first detail with the id is replaced, else pushed.\<close>

fun replace_detail :: "piece_detail list \<Rightarrow> piece_detail \<Rightarrow> piece_detail list" where
  "replace_detail [] d = [d]"
| "replace_detail (x # xs) d = (if detail_id x = detail_id d then d # xs else x # replace_detail xs d)"

fun piece_apply :: "piece \<Rightarrow> piece_event \<Rightarrow> piece" where
  "piece_apply s (PieceDeleted i v) = s\<lparr>piece_deleted := True, piece_version := v\<rparr>"
| "piece_apply s (PieceCreated i name category season notes details photos v) =
     s\<lparr>piece_id := i, piece_name := name, piece_category_id := category,
       piece_seasons := (case season of None \<Rightarrow> [] | Some x \<Rightarrow> [x]), piece_notes := notes,
       piece_details := details, piece_photos := photos, piece_version := v\<rparr>"
| "piece_apply s (PieceRenamed i name v) = s\<lparr>piece_name := name, piece_version := v\<rparr>"
| "piece_apply s (PieceNotesUpdated i notes v) = s\<lparr>piece_notes := notes, piece_version := v\<rparr>"
| "piece_apply s (PieceAddedToSeason i season v) =
     s\<lparr>piece_seasons := (if season \<in> set (piece_seasons s) then piece_seasons s
                         else piece_seasons s @ [season]),
       piece_version := v\<rparr>"
| "piece_apply s (PieceRemovedFromSeason i season v) =
     s\<lparr>piece_seasons := retain_ne season (piece_seasons s), piece_version := v\<rparr>"
| "piece_apply s (PieceDetailAdded i d v) =
     s\<lparr>piece_details := piece_details s @ [d], piece_version := v\<rparr>"
| "piece_apply s (PieceDetailUpdated i d v) =
     s\<lparr>piece_details := replace_detail (piece_details s) d, piece_version := v\<rparr>"
| "piece_apply s (PieceDetailRemoved i did v) =
     s\<lparr>piece_details := filter (\<lambda>d. detail_id d \<noteq> did) (piece_details s), piece_version := v\<rparr>"
| "piece_apply s (PieceCategorySet i category v) =
     s\<lparr>piece_category_id := category, piece_version := v\<rparr>"
| "piece_apply s (PiecePhotoLinked i photo v) =
     s\<lparr>piece_photos := (if photo \<in> set (piece_photos s) then piece_photos s
                        else piece_photos s @ [photo]),
       piece_version := v\<rparr>"
| "piece_apply s (PiecePhotoUnlinked i photo v) =
     s\<lparr>piece_photos := retain_ne photo (piece_photos s), piece_version := v\<rparr>"

section \<open>Handlers\<close>

definition handle_CreatePiece ::
  "piece \<Rightarrow> uuid \<Rightarrow> string \<Rightarrow> costume_category_id option \<Rightarrow> season_id option \<Rightarrow>
   piece_error + piece_event list" where
  [handler_defs]: "handle_CreatePiece s i raw category season =
     (if piece_deleted s then Err (PieceIsDeleted (piece_id s))
      else and_then (piece_normalize_name raw) (\<lambda>name.
        Ok [PieceCreated i name category season [] [] [] INITIAL]))"

definition handle_RenamePiece ::
  "piece \<Rightarrow> string \<Rightarrow> aggregate_version \<Rightarrow> piece_error + piece_event list" where
  [handler_defs]: "handle_RenamePiece s raw v =
     (if piece_deleted s then Err (PieceIsDeleted (piece_id s))
      else if v \<noteq> piece_version s then Err (PieceVersionMismatch v (piece_version s))
      else and_then (piece_normalize_name raw) (\<lambda>name.
        if name = piece_name s then Ok []
        else Ok [PieceRenamed (piece_id s) name (version_next (piece_version s))]))"

definition handle_UpdatePieceNotes ::
  "piece \<Rightarrow> string \<Rightarrow> aggregate_version \<Rightarrow> piece_error + piece_event list" where
  [handler_defs]: "handle_UpdatePieceNotes s notes v =
     (if piece_deleted s then Err (PieceIsDeleted (piece_id s))
      else if v \<noteq> piece_version s then Err (PieceVersionMismatch v (piece_version s))
      else if notes = piece_notes s then Err (PieceValidationError ''Notes unchanged'')
      else Ok [PieceNotesUpdated (piece_id s) notes (version_next (piece_version s))])"

definition handle_AddPieceToSeason ::
  "piece \<Rightarrow> season_id \<Rightarrow> aggregate_version \<Rightarrow> piece_error + piece_event list" where
  [handler_defs]: "handle_AddPieceToSeason s season v =
     (if piece_deleted s then Err (PieceIsDeleted (piece_id s))
      else if v \<noteq> piece_version s then Err (PieceVersionMismatch v (piece_version s))
      else if season \<in> set (piece_seasons s) then Ok []
      else Ok [PieceAddedToSeason (piece_id s) season (version_next (piece_version s))])"

definition handle_RemovePieceFromSeason ::
  "piece \<Rightarrow> season_id \<Rightarrow> aggregate_version \<Rightarrow> piece_error + piece_event list" where
  [handler_defs]: "handle_RemovePieceFromSeason s season v =
     (if piece_deleted s then Err (PieceIsDeleted (piece_id s))
      else if v \<noteq> piece_version s then Err (PieceVersionMismatch v (piece_version s))
      else if season \<notin> set (piece_seasons s) then Ok []
      else Ok [PieceRemovedFromSeason (piece_id s) season (version_next (piece_version s))])"

definition handle_AddPieceDetail ::
  "piece \<Rightarrow> piece_detail \<Rightarrow> aggregate_version \<Rightarrow> piece_error + piece_event list" where
  [handler_defs]: "handle_AddPieceDetail s d v =
     (if piece_deleted s then Err (PieceIsDeleted (piece_id s))
      else if v \<noteq> piece_version s then Err (PieceVersionMismatch v (piece_version s))
      else Ok [PieceDetailAdded (piece_id s) d (version_next (piece_version s))])"

definition handle_UpdatePieceDetail ::
  "piece \<Rightarrow> piece_detail \<Rightarrow> aggregate_version \<Rightarrow> piece_error + piece_event list" where
  [handler_defs]: "handle_UpdatePieceDetail s d v =
     (if piece_deleted s then Err (PieceIsDeleted (piece_id s))
      else if v \<noteq> piece_version s then Err (PieceVersionMismatch v (piece_version s))
      else if \<not> list_ex (\<lambda>x. detail_id x = detail_id d) (piece_details s)
        then Err (PieceDetailNotFound (detail_id d))
      else Ok [PieceDetailUpdated (piece_id s) d (version_next (piece_version s))])"

definition handle_RemovePieceDetail ::
  "piece \<Rightarrow> uuid \<Rightarrow> aggregate_version \<Rightarrow> piece_error + piece_event list" where
  [handler_defs]: "handle_RemovePieceDetail s did v =
     (if piece_deleted s then Err (PieceIsDeleted (piece_id s))
      else if v \<noteq> piece_version s then Err (PieceVersionMismatch v (piece_version s))
      else if \<not> list_ex (\<lambda>x. detail_id x = did) (piece_details s) then Err (PieceDetailNotFound did)
      else Ok [PieceDetailRemoved (piece_id s) did (version_next (piece_version s))])"

definition handle_SetPieceCategory ::
  "piece \<Rightarrow> costume_category_id option \<Rightarrow> aggregate_version \<Rightarrow> piece_error + piece_event list" where
  [handler_defs]: "handle_SetPieceCategory s category v =
     (if piece_deleted s then Err (PieceIsDeleted (piece_id s))
      else if v \<noteq> piece_version s then Err (PieceVersionMismatch v (piece_version s))
      else if piece_category_id s = category then Ok []
      else Ok [PieceCategorySet (piece_id s) category (version_next (piece_version s))])"

definition handle_LinkPiecePhoto ::
  "piece \<Rightarrow> uuid \<Rightarrow> aggregate_version \<Rightarrow> piece_error + piece_event list" where
  [handler_defs]: "handle_LinkPiecePhoto s photo v =
     (if piece_deleted s then Err (PieceIsDeleted (piece_id s))
      else if v \<noteq> piece_version s then Err (PieceVersionMismatch v (piece_version s))
      else if photo \<in> set (piece_photos s) then Err (PieceValidationError ''Photo already linked'')
      else Ok [PiecePhotoLinked (piece_id s) photo (version_next (piece_version s))])"

definition handle_UnlinkPiecePhoto ::
  "piece \<Rightarrow> uuid \<Rightarrow> aggregate_version \<Rightarrow> piece_error + piece_event list" where
  [handler_defs]: "handle_UnlinkPiecePhoto s photo v =
     (if piece_deleted s then Err (PieceIsDeleted (piece_id s))
      else if v \<noteq> piece_version s then Err (PieceVersionMismatch v (piece_version s))
      else if photo \<notin> set (piece_photos s) then Err (PieceValidationError ''Photo is not linked'')
      else Ok [PiecePhotoUnlinked (piece_id s) photo (version_next (piece_version s))])"

definition handle_DeletePiece :: "piece \<Rightarrow> uuid \<Rightarrow> piece_error + piece_event list" where
  [handler_defs]: "handle_DeletePiece s i =
     (if piece_deleted s then Ok []
      else if piece_id s = nil_uuid then Err (PieceNotFound i)
      else Ok [PieceDeleted (piece_id s) (version_next (piece_version s))])"

fun piece_handle :: "piece \<Rightarrow> piece_command \<Rightarrow> piece_error + piece_event list" where
  "piece_handle s (CreatePiece i raw category season project) =
     handle_CreatePiece s i raw category season"
| "piece_handle s (RenamePiece i raw project v) = handle_RenamePiece s raw v"
| "piece_handle s (UpdatePieceNotes i notes project v) = handle_UpdatePieceNotes s notes v"
| "piece_handle s (AddPieceToSeason i season project v) = handle_AddPieceToSeason s season v"
| "piece_handle s (RemovePieceFromSeason i season project v) = handle_RemovePieceFromSeason s season v"
| "piece_handle s (AddPieceDetail i d project v) = handle_AddPieceDetail s d v"
| "piece_handle s (UpdatePieceDetail i d project v) = handle_UpdatePieceDetail s d v"
| "piece_handle s (RemovePieceDetail i did project v) = handle_RemovePieceDetail s did v"
| "piece_handle s (SetPieceCategory i category project v) = handle_SetPieceCategory s category v"
| "piece_handle s (LinkPiecePhoto i photo project v) = handle_LinkPiecePhoto s photo v"
| "piece_handle s (UnlinkPiecePhoto i photo project v) = handle_UnlinkPiecePhoto s photo v"
| "piece_handle s (DeletePiece i) = handle_DeletePiece s i"

fun piece_expect :: "piece_command \<Rightarrow> expected_version option" where
  "piece_expect (CreatePiece _ _ _ _ _) = Some EmptyVersion"
| "piece_expect (RenamePiece _ _ _ v) = exact_version v"
| "piece_expect (UpdatePieceNotes _ _ _ v) = exact_version v"
| "piece_expect (AddPieceToSeason _ _ _ v) = exact_version v"
| "piece_expect (RemovePieceFromSeason _ _ _ v) = exact_version v"
| "piece_expect (AddPieceDetail _ _ _ v) = exact_version v"
| "piece_expect (UpdatePieceDetail _ _ _ v) = exact_version v"
| "piece_expect (RemovePieceDetail _ _ _ v) = exact_version v"
| "piece_expect (SetPieceCategory _ _ _ v) = exact_version v"
| "piece_expect (LinkPiecePhoto _ _ _ v) = exact_version v"
| "piece_expect (UnlinkPiecePhoto _ _ _ v) = exact_version v"
| "piece_expect (DeletePiece _) = Some AnyVersion"

definition piece_ok :: "piece \<Rightarrow> bool" where
  "piece_ok s \<longleftrightarrow> piece_name s \<noteq> [] \<and> trim (piece_name s) = piece_name s \<and>
     distinct (piece_seasons s) \<and> distinct (piece_photos s)"

section \<open>Interfaces\<close>

lemma replace_detail_ids:
  "list_ex (\<lambda>x. detail_id x = detail_id d) ds \<Longrightarrow>
   map detail_id (replace_detail ds d) = map detail_id ds"
  by (induction ds) auto

interpretation piece_versions: versioned_aggregate
  piece_apply piece_handle never_idempotent piece_expect piece_default
  piece_version piece_event_version
proof unfold_locales
  fix s e
  show "piece_version (piece_apply s e) = piece_event_version e"
    by (cases e) simp_all
next
  fix c es
  assume "piece_expect c = Some EmptyVersion" "piece_handle piece_default c = Ok es"
  then show "map piece_event_version es = [INITIAL]"
    by (cases c) (auto simp: handler_defs Let_def split: if_splits)
next
  fix c ev s es
  assume "piece_expect c = Some ev" "ev \<noteq> EmptyVersion" "piece_handle s c = Ok es"
  then show "consecutive (piece_version s) (map piece_event_version es)"
    by (cases c) (auto simp: handler_defs version_next_def split: if_splits)
next
  fix c es
  assume "piece_expect c = Some AnyVersion" "piece_handle piece_default c = Ok es"
  then show "es = []"
    by (cases c) (auto simp: handler_defs piece_default_def)
qed

interpretation piece_tombstone: frozen_aggregate
  piece_apply piece_handle never_idempotent piece_expect piece_default piece_deleted
proof unfold_locales
  show "\<not> piece_deleted piece_default"
    by (simp add: piece_default_def)
next
  fix s c es
  assume "piece_deleted s" "piece_expect c \<noteq> Some EmptyVersion" "piece_handle s c = Ok es"
  then show "es = []"
    by (cases c) (auto simp: handler_defs split: if_splits)
qed

interpretation piece_identity: immutable_attribute
  piece_apply piece_handle never_idempotent piece_expect piece_default "\<lambda>_. True" piece_id
proof unfold_locales
  fix s c es
  assume "piece_expect c \<noteq> Some EmptyVersion" "piece_handle s c = Ok es"
  then show "True \<and> piece_id (foldl piece_apply s es) = piece_id s"
    by (cases c) (auto simp: handler_defs split: if_splits)
qed

interpretation piece_consistency: invariant_aggregate
  piece_apply piece_handle never_idempotent piece_expect piece_default "\<lambda>_. piece_ok"
proof unfold_locales
  fix c ev es
  assume "piece_expect c = Some ev" "ev = EmptyVersion \<or> ev = AnyVersion"
    "piece_handle piece_default c = Ok es" "es \<noteq> []"
  then show "piece_ok (foldl piece_apply piece_default es)"
    by (cases c) (auto simp: handler_defs piece_ok_def piece_default_def Let_def
      split: if_splits option.splits)
next
  fix s c ev es
  assume "piece_ok s" "piece_expect c = Some ev" "ev \<noteq> EmptyVersion" "piece_handle s c = Ok es"
  then show "piece_ok (foldl piece_apply s es)"
    by (cases c) (auto simp: handler_defs piece_ok_def Let_def split: if_splits)
qed

section \<open>Properties\<close>

text \<open>
  Detail edits of a piece that hold by construction of the handlers: an update of a known
  detail keeps the ids and the number of the details in order, the updated detail is the first
  one found under its id, and a removal leaves no detail with that id; an unknown id is rejected
  with \<open>DetailNotFound\<close> and no event.
\<close>

theorem piece_detail_edits:
  assumes "piece_deleted s = False"
  shows "(if detail_id d \<in> detail_id ` set (piece_details s)
     then (\<exists>es. handle_UpdatePieceDetail s d (piece_version s) = Ok es \<and>
        map detail_id (piece_details (foldl piece_apply s es)) = map detail_id (piece_details s) \<and>
        find (\<lambda>x. detail_id x = detail_id d) (piece_details (foldl piece_apply s es)) = Some d) \<and>
       (\<exists>es. handle_RemovePieceDetail s (detail_id d) (piece_version s) = Ok es \<and>
        detail_id d \<notin> detail_id ` set (piece_details (foldl piece_apply s es)))
     else handle_UpdatePieceDetail s d (piece_version s) = Err (PieceDetailNotFound (detail_id d)) \<and>
       handle_RemovePieceDetail s (detail_id d) (piece_version s) =
         Err (PieceDetailNotFound (detail_id d)))"
proof -
  have ex: "list_ex (\<lambda>x. detail_id x = detail_id d) ds \<longleftrightarrow> detail_id d \<in> detail_id ` set ds" for ds
    by (auto simp: list_ex_iff intro: rev_image_eqI)
  have "find (\<lambda>x. detail_id x = detail_id d) (replace_detail ds d) = Some d" for ds
    by (induction ds) auto
  then show ?thesis
    using assms by (auto simp: handler_defs ex replace_detail_ids)
qed

theorem piece_detail_edits_witness:
  "\<exists>es. handle_UpdatePieceDetail
      (piece_default\<lparr>piece_details := [\<lparr>detail_id = 1, detail_subject = None, detail_text = ''a''\<rparr>]\<rparr>)
      \<lparr>detail_id = 1, detail_subject = None, detail_text = ''b''\<rparr> INITIAL = Ok es"
  using piece_detail_edits [of
      "piece_default\<lparr>piece_details := [\<lparr>detail_id = 1, detail_subject = None, detail_text = ''a''\<rparr>]\<rparr>"
      "\<lparr>detail_id = 1, detail_subject = None, detail_text = ''b''\<rparr>"]
  by (auto simp: piece_default_def)

end
