(* ===== verification/Outfit_Aggregate.thy ===== *)
theory Outfit_Aggregate
  imports Event_Sourcing
begin

text \<open>
  The Outfit aggregate (\<open>backend/crates/core/src/outfit\<close>): a look of one character,
  composed of an ordered, duplicate-free list of pieces, possibly forked from
  another outfit as a variant. \<open>outfit_ok\<close> is what every stored outfit satisfies.
\<close>

section \<open>State, events, commands\<close>

record outfit =
  outfit_id :: uuid
  outfit_character_id :: uuid
  outfit_name :: string
  outfit_piece_ids :: "uuid list"
  outfit_variant_of :: "uuid option"
  outfit_photos :: "uuid list"
  outfit_notes :: string
  outfit_deleted :: bool
  outfit_version :: aggregate_version

datatype outfit_event =
    OutfitCreated uuid uuid string "uuid list" "uuid list" string
      (outfit_event_version: aggregate_version)
  | OutfitVariantCreated uuid uuid uuid string "uuid list" "uuid list" string
      (outfit_event_version: aggregate_version)
  | OutfitRenamed uuid string (outfit_event_version: aggregate_version)
  | OutfitNotesUpdated uuid string (outfit_event_version: aggregate_version)
  | OutfitPieceAdded uuid uuid u32 (outfit_event_version: aggregate_version)
  | OutfitPieceRemoved uuid uuid (outfit_event_version: aggregate_version)
  | OutfitPhotoLinked uuid uuid (outfit_event_version: aggregate_version)
  | OutfitPhotoUnlinked uuid uuid (outfit_event_version: aggregate_version)
  | OutfitDeleted uuid (outfit_event_version: aggregate_version)

datatype outfit_error =
    OutfitEmptyName
  | OutfitValidationError string
  | OutfitNotFound uuid
  | OutfitIsDeleted uuid
  | OutfitVersionMismatch aggregate_version aggregate_version

datatype outfit_command =
    CreateOutfit uuid uuid string "uuid list" "project_id option"
  | CreateOutfitVariant uuid uuid uuid string "uuid list" string "project_id option"
  | RenameOutfit uuid string "project_id option" aggregate_version
  | UpdateOutfitNotes uuid string "project_id option" aggregate_version
  | AddPieceToOutfit uuid uuid "project_id option" aggregate_version
  | RemovePieceFromOutfit uuid uuid "project_id option" aggregate_version
  | LinkOutfitPhoto uuid uuid "project_id option" aggregate_version
  | UnlinkOutfitPhoto uuid uuid "project_id option" aggregate_version
  | DeleteOutfit uuid

definition outfit_default :: outfit where
  "outfit_default =
     \<lparr>outfit_id = nil_uuid, outfit_character_id = nil_uuid, outfit_name = [],
      outfit_piece_ids = [], outfit_variant_of = None, outfit_photos = [], outfit_notes = [],
      outfit_deleted = False, outfit_version = INITIAL\<rparr>"

fun outfit_event_type :: "outfit_event \<Rightarrow> string" where
  "outfit_event_type (OutfitCreated _ _ _ _ _ _ _) = ''OutfitCreated''"
| "outfit_event_type (OutfitVariantCreated _ _ _ _ _ _ _ _) = ''OutfitVariantCreated''"
| "outfit_event_type (OutfitRenamed _ _ _) = ''OutfitRenamed''"
| "outfit_event_type (OutfitNotesUpdated _ _ _) = ''OutfitNotesUpdated''"
| "outfit_event_type (OutfitPieceAdded _ _ _ _) = ''OutfitPieceAdded''"
| "outfit_event_type (OutfitPieceRemoved _ _ _) = ''OutfitPieceRemoved''"
| "outfit_event_type (OutfitPhotoLinked _ _ _) = ''OutfitPhotoLinked''"
| "outfit_event_type (OutfitPhotoUnlinked _ _ _) = ''OutfitPhotoUnlinked''"
| "outfit_event_type (OutfitDeleted _ _) = ''OutfitDeleted''"

definition outfit_normalize_name :: "string \<Rightarrow> outfit_error + string" where
  [handler_defs]: "outfit_normalize_name raw =
     (let trimmed = trim raw in if trimmed = [] then Err OutfitEmptyName else Ok trimmed)"

text \<open>The loop of \<open>dedup_pieces\<close>: an accumulator to which unseen ids are pushed.\<close>

definition dedup_pieces :: "uuid list \<Rightarrow> uuid list" where
  "dedup_pieces piece_ids = foldl (\<lambda>out p. if p \<in> set out then out else out @ [p]) [] piece_ids"

section \<open>Apply\<close>

fun outfit_apply :: "outfit \<Rightarrow> outfit_event \<Rightarrow> outfit" where
  "outfit_apply s (OutfitDeleted i v) = s\<lparr>outfit_deleted := True, outfit_version := v\<rparr>"
| "outfit_apply s (OutfitCreated i character name pieces photos notes v) =
     s\<lparr>outfit_id := i, outfit_character_id := character, outfit_name := name,
       outfit_piece_ids := pieces, outfit_variant_of := None, outfit_photos := photos,
       outfit_notes := notes, outfit_version := v\<rparr>"
| "outfit_apply s (OutfitVariantCreated i source character name pieces photos notes v) =
     s\<lparr>outfit_id := i, outfit_character_id := character, outfit_name := name,
       outfit_piece_ids := pieces, outfit_variant_of := Some source, outfit_photos := photos,
       outfit_notes := notes, outfit_version := v\<rparr>"
| "outfit_apply s (OutfitRenamed i name v) = s\<lparr>outfit_name := name, outfit_version := v\<rparr>"
| "outfit_apply s (OutfitNotesUpdated i notes v) = s\<lparr>outfit_notes := notes, outfit_version := v\<rparr>"
| "outfit_apply s (OutfitPieceAdded i piece position v) =
     s\<lparr>outfit_piece_ids := (if piece \<in> set (outfit_piece_ids s) then outfit_piece_ids s
                            else outfit_piece_ids s @ [piece]),
       outfit_version := v\<rparr>"
| "outfit_apply s (OutfitPieceRemoved i piece v) =
     s\<lparr>outfit_piece_ids := retain_ne piece (outfit_piece_ids s), outfit_version := v\<rparr>"
| "outfit_apply s (OutfitPhotoLinked i photo v) =
     s\<lparr>outfit_photos := (if photo \<in> set (outfit_photos s) then outfit_photos s
                         else outfit_photos s @ [photo]),
       outfit_version := v\<rparr>"
| "outfit_apply s (OutfitPhotoUnlinked i photo v) =
     s\<lparr>outfit_photos := retain_ne photo (outfit_photos s), outfit_version := v\<rparr>"

section \<open>Handlers\<close>

definition handle_CreateOutfit ::
  "outfit \<Rightarrow> uuid \<Rightarrow> uuid \<Rightarrow> string \<Rightarrow> uuid list \<Rightarrow> outfit_error + outfit_event list" where
  [handler_defs]: "handle_CreateOutfit s i character raw pieces =
     (if outfit_deleted s then Err (OutfitIsDeleted (outfit_id s))
      else and_then (outfit_normalize_name raw) (\<lambda>name.
        Ok [OutfitCreated i character name (dedup_pieces pieces) [] [] INITIAL]))"

definition handle_CreateOutfitVariant ::
  "outfit \<Rightarrow> uuid \<Rightarrow> uuid \<Rightarrow> uuid \<Rightarrow> string \<Rightarrow> uuid list \<Rightarrow> string \<Rightarrow>
   outfit_error + outfit_event list" where
  [handler_defs]: "handle_CreateOutfitVariant s i source character raw pieces notes =
     (if outfit_deleted s then Err (OutfitIsDeleted (outfit_id s))
      else and_then (outfit_normalize_name raw) (\<lambda>name.
        Ok [OutfitVariantCreated i source character name (dedup_pieces pieces) [] notes INITIAL]))"

definition handle_RenameOutfit ::
  "outfit \<Rightarrow> string \<Rightarrow> aggregate_version \<Rightarrow> outfit_error + outfit_event list" where
  [handler_defs]: "handle_RenameOutfit s raw v =
     (if outfit_deleted s then Err (OutfitIsDeleted (outfit_id s))
      else if v \<noteq> outfit_version s then Err (OutfitVersionMismatch v (outfit_version s))
      else and_then (outfit_normalize_name raw) (\<lambda>name.
        if name = outfit_name s then Ok []
        else Ok [OutfitRenamed (outfit_id s) name (version_next (outfit_version s))]))"

definition handle_UpdateOutfitNotes ::
  "outfit \<Rightarrow> string \<Rightarrow> aggregate_version \<Rightarrow> outfit_error + outfit_event list" where
  [handler_defs]: "handle_UpdateOutfitNotes s notes v =
     (if outfit_deleted s then Err (OutfitIsDeleted (outfit_id s))
      else if v \<noteq> outfit_version s then Err (OutfitVersionMismatch v (outfit_version s))
      else if notes = outfit_notes s then Err (OutfitValidationError ''Notes unchanged'')
      else Ok [OutfitNotesUpdated (outfit_id s) notes (version_next (outfit_version s))])"

text \<open>\<open>u32::try_from(self.piece_ids.len())\<close> fails from \<open>2^32\<close> pieces on.\<close>

definition handle_AddPieceToOutfit ::
  "outfit \<Rightarrow> uuid \<Rightarrow> aggregate_version \<Rightarrow> outfit_error + outfit_event list" where
  [handler_defs]: "handle_AddPieceToOutfit s piece v =
     (if outfit_deleted s then Err (OutfitIsDeleted (outfit_id s))
      else if v \<noteq> outfit_version s then Err (OutfitVersionMismatch v (outfit_version s))
      else if piece \<in> set (outfit_piece_ids s) then Ok []
      else if 2 ^ 32 \<le> length (outfit_piece_ids s)
        then Err (OutfitValidationError ''Outfit holds too many pieces'')
      else Ok [OutfitPieceAdded (outfit_id s) piece (of_nat (length (outfit_piece_ids s)))
                 (version_next (outfit_version s))])"

definition handle_RemovePieceFromOutfit ::
  "outfit \<Rightarrow> uuid \<Rightarrow> aggregate_version \<Rightarrow> outfit_error + outfit_event list" where
  [handler_defs]: "handle_RemovePieceFromOutfit s piece v =
     (if outfit_deleted s then Err (OutfitIsDeleted (outfit_id s))
      else if v \<noteq> outfit_version s then Err (OutfitVersionMismatch v (outfit_version s))
      else if piece \<notin> set (outfit_piece_ids s) then Ok []
      else Ok [OutfitPieceRemoved (outfit_id s) piece (version_next (outfit_version s))])"

definition handle_LinkOutfitPhoto ::
  "outfit \<Rightarrow> uuid \<Rightarrow> aggregate_version \<Rightarrow> outfit_error + outfit_event list" where
  [handler_defs]: "handle_LinkOutfitPhoto s photo v =
     (if outfit_deleted s then Err (OutfitIsDeleted (outfit_id s))
      else if v \<noteq> outfit_version s then Err (OutfitVersionMismatch v (outfit_version s))
      else if photo \<in> set (outfit_photos s) then Ok []
      else Ok [OutfitPhotoLinked (outfit_id s) photo (version_next (outfit_version s))])"

definition handle_UnlinkOutfitPhoto ::
  "outfit \<Rightarrow> uuid \<Rightarrow> aggregate_version \<Rightarrow> outfit_error + outfit_event list" where
  [handler_defs]: "handle_UnlinkOutfitPhoto s photo v =
     (if outfit_deleted s then Err (OutfitIsDeleted (outfit_id s))
      else if v \<noteq> outfit_version s then Err (OutfitVersionMismatch v (outfit_version s))
      else if photo \<notin> set (outfit_photos s) then Ok []
      else Ok [OutfitPhotoUnlinked (outfit_id s) photo (version_next (outfit_version s))])"

definition handle_DeleteOutfit :: "outfit \<Rightarrow> uuid \<Rightarrow> outfit_error + outfit_event list" where
  [handler_defs]: "handle_DeleteOutfit s i =
     (if outfit_deleted s then Ok []
      else if outfit_id s = nil_uuid then Err (OutfitNotFound i)
      else Ok [OutfitDeleted (outfit_id s) (version_next (outfit_version s))])"

fun outfit_handle :: "outfit \<Rightarrow> outfit_command \<Rightarrow> outfit_error + outfit_event list" where
  "outfit_handle s (CreateOutfit i character raw pieces project) =
     handle_CreateOutfit s i character raw pieces"
| "outfit_handle s (CreateOutfitVariant i source character raw pieces notes project) =
     handle_CreateOutfitVariant s i source character raw pieces notes"
| "outfit_handle s (RenameOutfit i raw project v) = handle_RenameOutfit s raw v"
| "outfit_handle s (UpdateOutfitNotes i notes project v) = handle_UpdateOutfitNotes s notes v"
| "outfit_handle s (AddPieceToOutfit i piece project v) = handle_AddPieceToOutfit s piece v"
| "outfit_handle s (RemovePieceFromOutfit i piece project v) = handle_RemovePieceFromOutfit s piece v"
| "outfit_handle s (LinkOutfitPhoto i photo project v) = handle_LinkOutfitPhoto s photo v"
| "outfit_handle s (UnlinkOutfitPhoto i photo project v) = handle_UnlinkOutfitPhoto s photo v"
| "outfit_handle s (DeleteOutfit i) = handle_DeleteOutfit s i"

fun outfit_expect :: "outfit_command \<Rightarrow> expected_version option" where
  "outfit_expect (CreateOutfit _ _ _ _ _) = Some EmptyVersion"
| "outfit_expect (CreateOutfitVariant _ _ _ _ _ _ _) = Some EmptyVersion"
| "outfit_expect (RenameOutfit _ _ _ v) = exact_version v"
| "outfit_expect (UpdateOutfitNotes _ _ _ v) = exact_version v"
| "outfit_expect (AddPieceToOutfit _ _ _ v) = exact_version v"
| "outfit_expect (RemovePieceFromOutfit _ _ _ v) = exact_version v"
| "outfit_expect (LinkOutfitPhoto _ _ _ v) = exact_version v"
| "outfit_expect (UnlinkOutfitPhoto _ _ _ v) = exact_version v"
| "outfit_expect (DeleteOutfit _) = Some AnyVersion"

definition outfit_ok :: "outfit \<Rightarrow> bool" where
  "outfit_ok s \<longleftrightarrow> outfit_name s \<noteq> [] \<and> trim (outfit_name s) = outfit_name s \<and>
     distinct (outfit_piece_ids s) \<and> distinct (outfit_photos s)"

section \<open>Interfaces\<close>

lemma dedup_pieces_step:
  "foldl (\<lambda>out p. if p \<in> set out then out else out @ [p]) out xs =
     out @ rev (remdups (rev (filter (\<lambda>x. x \<notin> set out) xs)))"
proof (induction xs arbitrary: out)
  case (Cons x xs)
  have "remdups (ys @ [x]) = remdups (filter (\<lambda>y. y \<noteq> x) ys) @ [x]" for ys :: "'a list"
    by (induction ys) auto
  moreover have "filter (\<lambda>y. y \<noteq> x) (rev (filter P xs)) = rev (filter (\<lambda>y. P y \<and> y \<noteq> x) xs)" for P
    by (simp add: rev_filter conj_commute)
  ultimately show ?case
    using Cons by (auto intro!: arg_cong [where f = remdups] arg_cong [where f = rev] filter_cong)
qed simp

lemma dedup_pieces_remdups: "dedup_pieces xs = rev (remdups (rev xs))"
  by (simp add: dedup_pieces_def dedup_pieces_step)

lemma distinct_dedup_pieces [simp]: "distinct (dedup_pieces xs)"
  by (simp add: dedup_pieces_remdups)

lemma set_dedup_pieces [simp]: "set (dedup_pieces xs) = set xs"
  by (simp add: dedup_pieces_remdups)

interpretation outfit_versions: versioned_aggregate
  outfit_apply outfit_handle never_idempotent outfit_expect outfit_default
  outfit_version outfit_event_version
proof unfold_locales
  fix s e
  show "outfit_version (outfit_apply s e) = outfit_event_version e"
    by (cases e) simp_all
next
  fix c es
  assume "outfit_expect c = Some EmptyVersion" "outfit_handle outfit_default c = Ok es"
  then show "map outfit_event_version es = [INITIAL]"
    by (cases c) (auto simp: handler_defs Let_def split: if_splits)
next
  fix c ev s es
  assume "outfit_expect c = Some ev" "ev \<noteq> EmptyVersion" "outfit_handle s c = Ok es"
  then show "consecutive (outfit_version s) (map outfit_event_version es)"
    by (cases c) (auto simp: handler_defs version_next_def split: if_splits)
next
  fix c es
  assume "outfit_expect c = Some AnyVersion" "outfit_handle outfit_default c = Ok es"
  then show "es = []"
    by (cases c) (auto simp: handler_defs outfit_default_def)
qed

interpretation outfit_tombstone: frozen_aggregate
  outfit_apply outfit_handle never_idempotent outfit_expect outfit_default outfit_deleted
proof unfold_locales
  show "\<not> outfit_deleted outfit_default"
    by (simp add: outfit_default_def)
next
  fix s c es
  assume "outfit_deleted s" "outfit_expect c \<noteq> Some EmptyVersion" "outfit_handle s c = Ok es"
  then show "es = []"
    by (cases c) (auto simp: handler_defs split: if_splits)
qed

text \<open>The character binding and the variant link are set by the create and never change.\<close>

interpretation outfit_scope: immutable_attribute
  outfit_apply outfit_handle never_idempotent outfit_expect outfit_default "\<lambda>_. True"
  "\<lambda>s. (outfit_id s, outfit_character_id s, outfit_variant_of s)"
proof unfold_locales
  fix s c es
  assume "outfit_expect c \<noteq> Some EmptyVersion" "outfit_handle s c = Ok es"
  then show "True \<and> (\<lambda>s. (outfit_id s, outfit_character_id s, outfit_variant_of s))
      (foldl outfit_apply s es) = (outfit_id s, outfit_character_id s, outfit_variant_of s)"
    by (cases c) (auto simp: handler_defs split: if_splits)
qed

interpretation outfit_consistency: invariant_aggregate
  outfit_apply outfit_handle never_idempotent outfit_expect outfit_default "\<lambda>_. outfit_ok"
proof unfold_locales
  fix c ev es
  assume "outfit_expect c = Some ev" "ev = EmptyVersion \<or> ev = AnyVersion"
    "outfit_handle outfit_default c = Ok es" "es \<noteq> []"
  then show "outfit_ok (foldl outfit_apply outfit_default es)"
    by (cases c) (auto simp: handler_defs outfit_ok_def outfit_default_def Let_def
      split: if_splits option.splits)
next
  fix s c ev es
  assume "outfit_ok s" "outfit_expect c = Some ev" "ev \<noteq> EmptyVersion" "outfit_handle s c = Ok es"
  then show "outfit_ok (foldl outfit_apply s es)"
    by (cases c) (auto simp: handler_defs outfit_ok_def Let_def split: if_splits)
qed

end
