(* ===== verification/Ai_Config_Aggregate.thy ===== *)
theory Ai_Config_Aggregate
  imports Event_Sourcing
begin

text \<open>
  The AiConfig aggregate (\<open>backend/crates/core/src/ai\<close>: \<open>aggregate.rs\<close>, \<open>commands.rs\<close>,
  \<open>events.rs\<close>, \<open>error.rs\<close>) with the provider enum of \<open>ports.rs\<close> and the catalog of
  decision models of \<open>decision.rs\<close>. \<open>ai_config_ok\<close> is what every stored
  configuration satisfies: the assistant fields are non-blank and the decision
  slot is either unset or a curated model of a decision-capable provider with a
  vault key. A \<open>HashMap\<close> keyed by \<open>DocumentKind\<close> is a map; its values are read off
  the two document kinds.
\<close>

section \<open>Providers and catalog\<close>

datatype llm_provider =
  OpenAI | Gemini | OpenRouter | EURouter | Neuralwatt | OpenCodeGo | OpenCode | Ollama

fun llm_provider_as_str :: "llm_provider \<Rightarrow> string" where
  "llm_provider_as_str OpenAI = ''openai''"
| "llm_provider_as_str Gemini = ''gemini''"
| "llm_provider_as_str OpenRouter = ''openrouter''"
| "llm_provider_as_str EURouter = ''eurouter''"
| "llm_provider_as_str Neuralwatt = ''neuralwatt''"
| "llm_provider_as_str OpenCodeGo = ''opencode-go''"
| "llm_provider_as_str OpenCode = ''opencode''"
| "llm_provider_as_str Ollama = ''ollama''"

definition CURATED_PROVIDERS :: "llm_provider list" where
  "CURATED_PROVIDERS =
     [OpenAI, Gemini, OpenRouter, EURouter, Neuralwatt, OpenCodeGo, OpenCode, Ollama]"

datatype document_kind = Script | Schedule

instantiation document_kind :: enum
begin

definition enum_document_kind :: "document_kind list" where
  "enum_document_kind = [Script, Schedule]"

definition enum_all_document_kind :: "(document_kind \<Rightarrow> bool) \<Rightarrow> bool" where
  "enum_all_document_kind P \<longleftrightarrow> P Script \<and> P Schedule"

definition enum_ex_document_kind :: "(document_kind \<Rightarrow> bool) \<Rightarrow> bool" where
  "enum_ex_document_kind P \<longleftrightarrow> P Script \<or> P Schedule"

instance
proof
  have "k \<in> {Script, Schedule}" for k
    by (cases k) simp_all
  then show "(UNIV :: document_kind set) = set enum_class.enum"
    unfolding enum_document_kind_def by auto
  show "distinct (enum_class.enum :: document_kind list)"
    by (simp add: enum_document_kind_def)
  show "enum_class.enum_all P \<longleftrightarrow> Ball UNIV P" "enum_class.enum_ex P \<longleftrightarrow> Bex UNIV P"
    for P :: "document_kind \<Rightarrow> bool"
    unfolding enum_all_document_kind_def enum_ex_document_kind_def
    by (metis UNIV_I document_kind.exhaust)+
qed

end

datatype cost_display_preference = Token | Energy

fun is_decision_capable :: "llm_provider \<Rightarrow> bool" where
  "is_decision_capable Neuralwatt = True"
| "is_decision_capable EURouter = True"
| "is_decision_capable OpenRouter = True"
| "is_decision_capable _ = False"

fun curated_decision_model_ids :: "llm_provider \<Rightarrow> string list" where
  "curated_decision_model_ids Neuralwatt = [''clef-flash'', ''clef'']"
| "curated_decision_model_ids EURouter = [''clef-flash'', ''metis'']"
| "curated_decision_model_ids OpenRouter =
     [''cloudflare/clef-flash'', ''cloudflare/clef'', ''typesafe/jev-1.14'',
      ''perplexity/pplx-decider-flash-v1.2'', ''liquid/d1'']"
| "curated_decision_model_ids _ = []"

definition is_curated_decision_model :: "llm_provider \<Rightarrow> string \<Rightarrow> bool" where
  "is_curated_decision_model provider model \<longleftrightarrow> model \<in> set (curated_decision_model_ids provider)"

section \<open>State, events, commands\<close>

type_synonym prompts = "document_kind \<rightharpoonup> string"

record ai_config =
  ai_id :: uuid
  ai_user_id :: user_id
  ai_provider :: "llm_provider option"
  ai_assistant_model :: string
  ai_image_model :: "string option"
  ai_prompts :: prompts
  ai_vault_key_id :: string
  ai_cost_display_preference :: cost_display_preference
  ai_decision_provider :: "llm_provider option"
  ai_decision_model :: "string option"
  ai_decision_vault_key_id :: "string option"
  ai_revoked :: bool
  ai_version :: aggregate_version

datatype ai_config_event =
    AiConfigCreated uuid user_id llm_provider string "string option" prompts string
      cost_display_preference "llm_provider option" "string option" "string option"
      (ai_event_version: aggregate_version)
  | AiConfigUpdated uuid llm_provider string "string option" prompts string
      "cost_display_preference option" "llm_provider option" "string option" "string option"
      (ai_event_version: aggregate_version)
  | AiConfigRevoked uuid (ai_event_version: aggregate_version)

datatype ai_config_error =
    AiEmptyProvider
  | AiEmptyModel
  | AiEmptyPrompt
  | AiEmptyVaultKey
  | AiProviderMismatch
  | AiDecisionProviderUnsupported
  | AiDecisionProviderRequired
  | AiEmptyDecisionModel
  | AiDecisionModelUnknown
  | AiEmptyDecisionVaultKey
  | AiNotFound
  | AiAlreadyRevoked
  | AiVersionMismatch aggregate_version aggregate_version

datatype ai_config_command =
    CreateAiConfig uuid user_id llm_provider string "string option" prompts string
      cost_display_preference "llm_provider option" "string option" "string option"
  | UpdateAiConfig uuid llm_provider string "string option" prompts string
      "cost_display_preference option" "llm_provider option option" "string option option"
      "string option option" aggregate_version
  | RevokeAiConfig uuid aggregate_version

definition ai_config_default :: ai_config where
  "ai_config_default =
     \<lparr>ai_id = nil_uuid, ai_user_id = [], ai_provider = None, ai_assistant_model = [],
      ai_image_model = None, ai_prompts = Map.empty, ai_vault_key_id = [],
      ai_cost_display_preference = Token, ai_decision_provider = None, ai_decision_model = None,
      ai_decision_vault_key_id = None, ai_revoked = False, ai_version = INITIAL\<rparr>"

fun ai_config_event_type :: "ai_config_event \<Rightarrow> string" where
  "ai_config_event_type (AiConfigCreated _ _ _ _ _ _ _ _ _ _ _ _) = ''AiConfigCreated''"
| "ai_config_event_type (AiConfigUpdated _ _ _ _ _ _ _ _ _ _ _) = ''AiConfigUpdated''"
| "ai_config_event_type (AiConfigRevoked _ _) = ''AiConfigRevoked''"

section \<open>Apply\<close>

fun ai_config_apply :: "ai_config \<Rightarrow> ai_config_event \<Rightarrow> ai_config" where
  "ai_config_apply s (AiConfigCreated i user provider model img prompts vault pref dp dm dv v) =
     s\<lparr>ai_id := i, ai_user_id := user, ai_provider := Some provider, ai_assistant_model := model,
       ai_image_model := img, ai_prompts := prompts, ai_vault_key_id := vault,
       ai_cost_display_preference := pref, ai_decision_provider := dp, ai_decision_model := dm,
       ai_decision_vault_key_id := dv, ai_revoked := False, ai_version := v\<rparr>"
| "ai_config_apply s (AiConfigUpdated i provider model img prompts vault pref dp dm dv v) =
     s\<lparr>ai_provider := Some provider, ai_assistant_model := model, ai_image_model := img,
       ai_prompts := prompts, ai_vault_key_id := vault,
       ai_cost_display_preference :=
         (case pref of Some p \<Rightarrow> p | None \<Rightarrow> ai_cost_display_preference s),
       ai_decision_provider := dp, ai_decision_model := dm, ai_decision_vault_key_id := dv,
       ai_revoked := False, ai_version := v\<rparr>"
| "ai_config_apply s (AiConfigRevoked i v) = s\<lparr>ai_revoked := True, ai_version := v\<rparr>"

section \<open>Handlers\<close>

definition blank_prompt :: "prompts \<Rightarrow> bool" where
  "blank_prompt prompts \<longleftrightarrow>
     list_ex (\<lambda>k. case prompts k of None \<Rightarrow> False | Some p \<Rightarrow> trim p = []) enum_class.enum"

definition validate_fields :: "string \<Rightarrow> string \<Rightarrow> prompts \<Rightarrow> ai_config_error + unit" where
  [handler_defs]: "validate_fields model vault prompts =
     (if trim model = [] then Err AiEmptyModel
      else if trim vault = [] then Err AiEmptyVaultKey
      else if blank_prompt prompts then Err AiEmptyPrompt
      else Ok ())"

fun validate_decision_config ::
  "llm_provider option \<Rightarrow> string option \<Rightarrow> string option \<Rightarrow> bool \<Rightarrow> ai_config_error + unit" where
  "validate_decision_config (Some provider) (Some model) (Some vault) model_unchanged =
     (if \<not> is_decision_capable provider then Err AiDecisionProviderUnsupported
      else if trim model = [] then Err AiEmptyDecisionModel
      else if \<not> model_unchanged \<and> \<not> is_curated_decision_model provider model
        then Err AiDecisionModelUnknown
      else if trim vault = [] then Err AiEmptyDecisionVaultKey
      else Ok ())"
| "validate_decision_config provider model vault model_unchanged =
     (if provider \<noteq> None \<or> model \<noteq> None \<or> vault \<noteq> None then Err AiDecisionProviderRequired
      else Ok ())"

definition handle_CreateAiConfig ::
  "ai_config \<Rightarrow> uuid \<Rightarrow> user_id \<Rightarrow> llm_provider \<Rightarrow> string \<Rightarrow> string option \<Rightarrow> prompts \<Rightarrow> string \<Rightarrow>
   cost_display_preference \<Rightarrow> llm_provider option \<Rightarrow> string option \<Rightarrow> string option \<Rightarrow>
   ai_config_error + ai_config_event list" where
  [handler_defs]:
  "handle_CreateAiConfig s i user provider model img prompts vault pref dp dm dv =
     and_then (validate_fields model vault prompts) (\<lambda>_.
     and_then (validate_decision_config dp dm dv False) (\<lambda>_.
       Ok [AiConfigCreated i user provider model img prompts vault pref dp dm dv INITIAL]))"

text \<open>\<open>cmd.x.unwrap_or(self.x)\<close> of a tri-state field: omitted keeps the stored value.\<close>

definition resolve_slot :: "'a option option \<Rightarrow> 'a option \<Rightarrow> 'a option" where
  "resolve_slot cmd stored = (case cmd of None \<Rightarrow> stored | Some x \<Rightarrow> x)"

definition handle_UpdateAiConfig ::
  "ai_config \<Rightarrow> llm_provider \<Rightarrow> string \<Rightarrow> string option \<Rightarrow> prompts \<Rightarrow> string \<Rightarrow>
   cost_display_preference option \<Rightarrow> llm_provider option option \<Rightarrow> string option option \<Rightarrow>
   string option option \<Rightarrow> aggregate_version \<Rightarrow> ai_config_error + ai_config_event list" where
  [handler_defs]:
  "handle_UpdateAiConfig s provider model img prompts vault pref dp dm dv v =
     (case ai_provider s of
        None \<Rightarrow> Err AiNotFound
      | Some current_provider \<Rightarrow>
          if ai_revoked s then Err AiAlreadyRevoked
          else if current_provider \<noteq> provider \<and> vault = ai_vault_key_id s
            then Err AiProviderMismatch
          else if v \<noteq> ai_version s then Err (AiVersionMismatch v (ai_version s))
          else and_then (validate_fields model vault prompts) (\<lambda>_.
            let decision_provider = resolve_slot dp (ai_decision_provider s);
                decision_model = resolve_slot dm (ai_decision_model s);
                decision_vault = resolve_slot dv (ai_decision_vault_key_id s);
                model_unchanged = (ai_decision_provider s = decision_provider \<and>
                                   ai_decision_model s = decision_model)
            in and_then
                 (validate_decision_config decision_provider decision_model decision_vault
                    model_unchanged) (\<lambda>_.
                 Ok [AiConfigUpdated (ai_id s) provider model img prompts vault pref
                       decision_provider decision_model decision_vault
                       (version_next (ai_version s))])))"

definition handle_RevokeAiConfig ::
  "ai_config \<Rightarrow> aggregate_version \<Rightarrow> ai_config_error + ai_config_event list" where
  [handler_defs]: "handle_RevokeAiConfig s v =
     (if ai_provider s = None then Err AiNotFound
      else if ai_revoked s then Err AiAlreadyRevoked
      else if v \<noteq> ai_version s then Err (AiVersionMismatch v (ai_version s))
      else Ok [AiConfigRevoked (ai_id s) (version_next (ai_version s))])"

fun ai_config_handle ::
  "ai_config \<Rightarrow> ai_config_command \<Rightarrow> ai_config_error + ai_config_event list" where
  "ai_config_handle s (CreateAiConfig i user provider model img prompts vault pref dp dm dv) =
     handle_CreateAiConfig s i user provider model img prompts vault pref dp dm dv"
| "ai_config_handle s (UpdateAiConfig i provider model img prompts vault pref dp dm dv v) =
     handle_UpdateAiConfig s provider model img prompts vault pref dp dm dv v"
| "ai_config_handle s (RevokeAiConfig i v) = handle_RevokeAiConfig s v"

fun ai_config_expect :: "ai_config_command \<Rightarrow> expected_version option" where
  "ai_config_expect (CreateAiConfig _ _ _ _ _ _ _ _ _ _ _) = Some EmptyVersion"
| "ai_config_expect (UpdateAiConfig _ _ _ _ _ _ _ _ _ _ v) = exact_version v"
| "ai_config_expect (RevokeAiConfig _ v) = exact_version v"

text \<open>The decision slot as a whole, and the fields of a stored configuration.\<close>

fun decision_slot_ok :: "llm_provider option \<Rightarrow> string option \<Rightarrow> string option \<Rightarrow> bool" where
  "decision_slot_ok None None None = True"
| "decision_slot_ok (Some p) (Some m) (Some k) =
     (is_decision_capable p \<and> is_curated_decision_model p m \<and> trim k \<noteq> [])"
| "decision_slot_ok _ _ _ = False"

definition ai_config_ok :: "ai_config \<Rightarrow> bool" where
  "ai_config_ok s \<longleftrightarrow> ai_provider s \<noteq> None \<and> trim (ai_assistant_model s) \<noteq> [] \<and>
     trim (ai_vault_key_id s) \<noteq> [] \<and> \<not> blank_prompt (ai_prompts s) \<and>
     decision_slot_ok (ai_decision_provider s) (ai_decision_model s) (ai_decision_vault_key_id s)"

section \<open>Interfaces\<close>

lemma validate_decision_new:
  "validate_decision_config dp dm dv False = Ok u \<Longrightarrow> decision_slot_ok dp dm dv"
  by (cases dp; cases dm; cases dv) (auto split: if_splits)

lemma validate_decision_kept:
  "decision_slot_ok p m k \<Longrightarrow>
   validate_decision_config dp dm dv (p = dp \<and> m = dm) = Ok u \<Longrightarrow> decision_slot_ok dp dm dv"
  by (cases dp; cases dm; cases dv; cases k) (auto split: if_splits)

interpretation ai_config_versions: versioned_aggregate
  ai_config_apply ai_config_handle never_idempotent ai_config_expect ai_config_default
  ai_version ai_event_version
proof unfold_locales
  fix s e
  show "ai_version (ai_config_apply s e) = ai_event_version e"
    by (cases e) simp_all
next
  fix c es
  assume "ai_config_expect c = Some EmptyVersion" "ai_config_handle ai_config_default c = Ok es"
  then show "map ai_event_version es = [INITIAL]"
    by (cases c) (auto simp: handler_defs split: if_splits)
next
  fix c ev s es
  assume "ai_config_expect c = Some ev" "ev \<noteq> EmptyVersion" "ai_config_handle s c = Ok es"
  then show "consecutive (ai_version s) (map ai_event_version es)"
    by (cases c) (auto simp: handler_defs version_next_def Let_def split: if_splits option.splits)
next
  fix c es
  assume "ai_config_expect c = Some AnyVersion" "ai_config_handle ai_config_default c = Ok es"
  then show "es = []"
    by (cases c) auto
qed

interpretation ai_config_revocation: frozen_aggregate
  ai_config_apply ai_config_handle never_idempotent ai_config_expect ai_config_default ai_revoked
proof unfold_locales
  show "\<not> ai_revoked ai_config_default"
    by (simp add: ai_config_default_def)
next
  fix s c es
  assume "ai_revoked s" "ai_config_expect c \<noteq> Some EmptyVersion" "ai_config_handle s c = Ok es"
  then show "es = []"
    by (cases c) (auto simp: handler_defs split: if_splits option.splits)
qed

interpretation ai_config_scope: immutable_attribute
  ai_config_apply ai_config_handle never_idempotent ai_config_expect ai_config_default "\<lambda>_. True"
  "\<lambda>s. (ai_id s, ai_user_id s)"
proof unfold_locales
  fix s c es
  assume "ai_config_expect c \<noteq> Some EmptyVersion" "ai_config_handle s c = Ok es"
  then show "True \<and> (\<lambda>s. (ai_id s, ai_user_id s)) (foldl ai_config_apply s es) =
      (ai_id s, ai_user_id s)"
    by (cases c) (auto simp: handler_defs Let_def split: if_splits option.splits)
qed

interpretation ai_config_consistency: invariant_aggregate
  ai_config_apply ai_config_handle never_idempotent ai_config_expect ai_config_default
  "\<lambda>_. ai_config_ok"
proof unfold_locales
  fix c ev es
  assume "ai_config_expect c = Some ev" "ev = EmptyVersion \<or> ev = AnyVersion"
    "ai_config_handle ai_config_default c = Ok es" "es \<noteq> []"
  then show "ai_config_ok (foldl ai_config_apply ai_config_default es)"
    by (cases c) (auto simp: handler_defs ai_config_ok_def split: if_splits
      dest: validate_decision_new)
next
  fix s c ev es
  assume "ai_config_ok s" "ai_config_expect c = Some ev" "ev \<noteq> EmptyVersion"
    "ai_config_handle s c = Ok es"
  then show "ai_config_ok (foldl ai_config_apply s es)"
    by (cases c) (auto simp: handler_defs ai_config_ok_def Let_def split: if_splits
      dest: validate_decision_kept)
qed

section \<open>Properties\<close>

text \<open>
  A provider change is a credential hand-off: an accepted command that changes the provider of
  a stored AI configuration also binds a different vault key, so the key of one provider is never
  sent to another.
\<close>

theorem provider_change_rebinds_key:
  assumes "ai_config_expect c \<noteq> Some EmptyVersion" "ai_config_handle s c = Ok es"
    and "ai_provider (foldl ai_config_apply s es) \<noteq> ai_provider s"
  shows "ai_vault_key_id (foldl ai_config_apply s es) \<noteq> ai_vault_key_id s"
  using assms by (cases c) (auto simp: handler_defs Let_def split: if_splits option.splits)

theorem provider_change_rebinds_key_witness:
  "ai_vault_key_id (foldl ai_config_apply
      (ai_config_default\<lparr>ai_provider := Some OpenAI, ai_vault_key_id := ''k1''\<rparr>)
      [AiConfigUpdated 0 Gemini ''m'' None Map.empty ''k2'' None None None None 2]) \<noteq>
   ai_vault_key_id (ai_config_default\<lparr>ai_provider := Some OpenAI, ai_vault_key_id := ''k1''\<rparr>)"
proof (rule provider_change_rebinds_key)
  show "ai_config_expect
      (UpdateAiConfig 0 Gemini ''m'' None Map.empty ''k2'' None None None None 1) \<noteq> Some EmptyVersion"
    by simp
  show "ai_config_handle (ai_config_default\<lparr>ai_provider := Some OpenAI, ai_vault_key_id := ''k1''\<rparr>)
      (UpdateAiConfig 0 Gemini ''m'' None Map.empty ''k2'' None None None None 1) =
    Ok [AiConfigUpdated 0 Gemini ''m'' None Map.empty ''k2'' None None None None 2]"
    by code_simp
  show "ai_provider (foldl ai_config_apply
      (ai_config_default\<lparr>ai_provider := Some OpenAI, ai_vault_key_id := ''k1''\<rparr>)
      [AiConfigUpdated 0 Gemini ''m'' None Map.empty ''k2'' None None None None 2]) \<noteq>
    ai_provider (ai_config_default\<lparr>ai_provider := Some OpenAI, ai_vault_key_id := ''k1''\<rparr>)"
    by simp
qed

end
