(* ===== verification/Domain_Error.thy ===== *)
theory Domain_Error
  imports
    Error_Registry Season_Aggregate Block_Aggregate Episode_Aggregate Character_Aggregate
    Costume_Category_Aggregate Settings_Aggregate Scene_Aggregate Scene_Shoot_Aggregate
    Shooting_Day_Aggregate Photo_Aggregate Membership_Aggregate Piece_Aggregate
    Outfit_Aggregate Ai_Config_Aggregate
begin

text \<open>
  The shared error surface of \<open>backend/crates/core/src/error.rs\<close>: \<open>DomainError\<close>, its
  constructors, its registry code, and the \<open>From\<close> conversion of every aggregate's
  error. The \<open>Display\<close> text of a \<open>Uuid\<close> is a parameter \<open>disp\<close>; the text of an
  integer is its decimal notation.
\<close>

section \<open>DomainError\<close>

datatype domain_error =
    DomainNotFound problem_code string uuid
  | DomainForbidden problem_code string
  | DomainValidation problem_code string
  | DomainConflict problem_code string
  | DomainServiceUnavailable problem_code string
  | DomainDependencyAuthFailed problem_code string
  | DomainInternal string
  | VersionConflict aggregate_version aggregate_version
  | DomainAlreadyScheduled uuid
  | DomainNotScheduled uuid
  | DomainAlreadyLinked uuid
  | DomainShootingDayWrapped uuid
  | DomainShootingDayTargetWrapped uuid
  | DomainCategorySeasonMismatch uuid

fun domain_error_code :: "domain_error \<Rightarrow> problem_code" where
  "domain_error_code (DomainNotFound code _ _) = code"
| "domain_error_code (DomainForbidden code _) = code"
| "domain_error_code (DomainValidation code _) = code"
| "domain_error_code (DomainConflict code _) = code"
| "domain_error_code (DomainServiceUnavailable code _) = code"
| "domain_error_code (DomainDependencyAuthFailed code _) = code"
| "domain_error_code (DomainInternal _) = HTTP_INTERNAL_ERROR"
| "domain_error_code (VersionConflict _ _) = CONCURRENCY_VERSION_MISMATCH"
| "domain_error_code (DomainAlreadyScheduled _) = SCENE_ALREADY_SCHEDULED"
| "domain_error_code (DomainNotScheduled _) = SCENE_NOT_SCHEDULED"
| "domain_error_code (DomainAlreadyLinked _) = SCENE_SHOOT_ALREADY_LINKED"
| "domain_error_code (DomainShootingDayWrapped _) = SCENE_SHOOT_SHOOTING_DAY_WRAPPED"
| "domain_error_code (DomainShootingDayTargetWrapped _) = SHOOTING_DAY_TARGET_WRAPPED"
| "domain_error_code (DomainCategorySeasonMismatch _) = COSTUME_CATEGORY_SEASON_MISMATCH"

fun is_retryable :: "domain_error \<Rightarrow> bool" where
  "is_retryable (DomainServiceUnavailable _ _) = True"
| "is_retryable _ = False"

definition domain_not_found :: "string \<Rightarrow> domain_error" where
  "domain_not_found resource = DomainNotFound DOMAIN_NOT_FOUND resource nil_uuid"

definition domain_conflict :: "string \<Rightarrow> domain_error" where
  "domain_conflict reason = DomainConflict DOMAIN_CONFLICT reason"

definition domain_service_unavailable :: "string \<Rightarrow> domain_error" where
  "domain_service_unavailable reason = DomainServiceUnavailable DOMAIN_SERVICE_UNAVAILABLE reason"

definition domain_dependency_auth_failed :: "string \<Rightarrow> domain_error" where
  "domain_dependency_auth_failed reason = DomainDependencyAuthFailed DEPENDENCY_AUTH_FAILED reason"

definition domain_validation :: "string \<Rightarrow> domain_error" where
  "domain_validation reason = DomainValidation DOMAIN_VALIDATION reason"

definition domain_forbidden :: "string \<Rightarrow> domain_error" where
  "domain_forbidden reason = DomainForbidden DOMAIN_FORBIDDEN reason"

section \<open>Conversions\<close>

fun decimal :: "nat \<Rightarrow> string" where
  "decimal n = (if n < 10 then [] else decimal (n div 10)) @ [char_of (48 + n mod 10)]"

fun from_ai_config_error :: "ai_config_error \<Rightarrow> domain_error" where
  "from_ai_config_error AiNotFound = DomainNotFound AI_CONFIG_NOT_FOUND ''ai-config'' nil_uuid"
| "from_ai_config_error (AiVersionMismatch expected actual) = VersionConflict expected actual"
| "from_ai_config_error AiProviderMismatch =
     DomainConflict AI_CONFIG_PROVIDER_MISMATCH ''provider cannot change''"
| "from_ai_config_error AiAlreadyRevoked = DomainConflict AI_CONFIG_ALREADY_REVOKED ''already revoked''"
| "from_ai_config_error AiEmptyProvider =
     DomainValidation AI_CONFIG_EMPTY_PROVIDER ''provider must not be empty''"
| "from_ai_config_error AiEmptyModel =
     DomainValidation AI_CONFIG_EMPTY_MODEL ''assistant model must not be empty''"
| "from_ai_config_error AiEmptyPrompt =
     DomainValidation AI_CONFIG_EMPTY_PROMPT ''prompt must not be empty''"
| "from_ai_config_error AiEmptyVaultKey =
     DomainValidation AI_CONFIG_EMPTY_VAULT_KEY ''vault key reference must not be empty''"
| "from_ai_config_error AiDecisionProviderUnsupported =
     DomainValidation AI_CONFIG_DECISION_PROVIDER_UNSUPPORTED
       ''provider does not host decision models''"
| "from_ai_config_error AiDecisionProviderRequired =
     DomainValidation AI_CONFIG_DECISION_INCOMPLETE ''decision model configuration is incomplete''"
| "from_ai_config_error AiEmptyDecisionModel =
     DomainValidation AI_CONFIG_DECISION_MODEL_EMPTY ''decision model must not be empty''"
| "from_ai_config_error AiDecisionModelUnknown =
     DomainValidation AI_CONFIG_DECISION_MODEL_UNKNOWN
       ''decision model is not curated for the provider''"
| "from_ai_config_error AiEmptyDecisionVaultKey =
     DomainValidation AI_CONFIG_DECISION_VAULT_KEY_EMPTY
       ''decision vault key reference must not be empty''"

fun from_scene_error :: "(uuid \<Rightarrow> string) \<Rightarrow> scene_error \<Rightarrow> domain_error" where
  "from_scene_error disp (SceneValidationError msg) = DomainValidation SCENE_VALIDATION msg"
| "from_scene_error disp (SceneCharacterNotFound i) =
     DomainNotFound SCENE_CHARACTER_NOT_FOUND ''scene-character'' i"
| "from_scene_error disp (SceneNotFound i) = DomainNotFound SCENE_NOT_FOUND ''scene'' i"
| "from_scene_error disp (SceneIsDeleted i) = DomainNotFound SCENE_NOT_FOUND ''scene'' i"
| "from_scene_error disp CharacterAlreadyAssigned =
     DomainConflict SCENE_CHARACTER_ALREADY_ASSIGNED ''character already assigned to this scene''"
| "from_scene_error disp (CharacterNotInScene c) =
     DomainValidation SCENE_CHARACTER_NOT_IN_SCENE
       (''character '' @ disp c @ '' is not assigned to this scene'')"
| "from_scene_error disp (BeatNotFound c ord) =
     DomainValidation SCENE_BEAT_NOT_FOUND
       (''no outfit beat for character '' @ disp c @ '' at order '' @ decimal (unat ord))"
| "from_scene_error disp (NoOutfitBeats c) =
     DomainValidation SCENE_BEAT_NOT_FOUND (''no outfit beats for character '' @ disp c)"
| "from_scene_error disp (SceneAlreadyScheduled d) = DomainAlreadyScheduled d"
| "from_scene_error disp (SceneNotScheduled d) = DomainNotScheduled d"
| "from_scene_error disp (SceneVersionMismatch expected actual) = VersionConflict expected actual"

fun from_character_error :: "character_error \<Rightarrow> domain_error" where
  "from_character_error (CharacterValidationError msg) = DomainValidation CHARACTER_VALIDATION msg"
| "from_character_error (CharacterNotFound i) = DomainNotFound CHARACTER_NOT_FOUND ''character'' i"
| "from_character_error (CharacterIsDeleted i) = DomainNotFound CHARACTER_NOT_FOUND ''character'' i"
| "from_character_error (CharacterVersionMismatch expected actual) = VersionConflict expected actual"

fun from_piece_error :: "piece_error \<Rightarrow> domain_error" where
  "from_piece_error PieceEmptyName = DomainValidation PIECE_VALIDATION ''piece name must not be empty''"
| "from_piece_error (PieceValidationError msg) = DomainValidation PIECE_VALIDATION msg"
| "from_piece_error (PieceNotFound i) = DomainNotFound PIECE_NOT_FOUND ''piece'' i"
| "from_piece_error (PieceIsDeleted i) = DomainNotFound PIECE_NOT_FOUND ''piece'' i"
| "from_piece_error (PieceDetailNotFound i) = DomainNotFound PIECE_DETAIL_NOT_FOUND ''piece-detail'' i"
| "from_piece_error (PieceVersionMismatch expected actual) = VersionConflict expected actual"

fun from_outfit_error :: "outfit_error \<Rightarrow> domain_error" where
  "from_outfit_error OutfitEmptyName =
     DomainValidation OUTFIT_VALIDATION ''outfit name must not be empty''"
| "from_outfit_error (OutfitValidationError msg) = DomainValidation OUTFIT_VALIDATION msg"
| "from_outfit_error (OutfitNotFound i) = DomainNotFound OUTFIT_NOT_FOUND ''outfit'' i"
| "from_outfit_error (OutfitIsDeleted i) = DomainNotFound OUTFIT_NOT_FOUND ''outfit'' i"
| "from_outfit_error (OutfitVersionMismatch expected actual) = VersionConflict expected actual"

fun from_shooting_day_error :: "shooting_day_error \<Rightarrow> domain_error" where
  "from_shooting_day_error (DayValidationError msg) = DomainValidation SHOOTING_DAY_VALIDATION msg"
| "from_shooting_day_error (DayNotFound i) = DomainNotFound SHOOTING_DAY_NOT_FOUND ''shooting-day'' i"
| "from_shooting_day_error (DayIsDeleted i) = DomainNotFound SHOOTING_DAY_NOT_FOUND ''shooting-day'' i"
| "from_shooting_day_error (DayArchivedCannotBeMutated i) =
     DomainConflict SHOOTING_DAY_ARCHIVED ''shooting day is archived and cannot be mutated''"
| "from_shooting_day_error (DayDuplicateOrderKey key) =
     DomainConflict SHOOTING_DAY_DUPLICATE_ORDER_KEY
       (''order key '' @ key @ '' already exists for this episode'')"
| "from_shooting_day_error (DayWrapped i) = DomainShootingDayWrapped i"
| "from_shooting_day_error (DayVersionMismatch expected actual) = VersionConflict expected actual"

fun from_season_error :: "(uuid \<Rightarrow> string) \<Rightarrow> season_error \<Rightarrow> domain_error" where
  "from_season_error disp (SeasonValidationError msg) = DomainValidation SEASON_VALIDATION msg"
| "from_season_error disp (SeasonNotFound i) = DomainNotFound SEASON_NOT_FOUND ''season'' i"
| "from_season_error disp (SeasonArchivedCannotBeMutated i) =
     DomainConflict SEASON_ARCHIVED (''season '' @ disp i @ '' is archived and cannot be mutated'')"
| "from_season_error disp (SeasonVersionMismatch expected actual) = VersionConflict expected actual"

fun from_block_error :: "block_error \<Rightarrow> domain_error" where
  "from_block_error (BlockValidationError msg) = DomainValidation BLOCK_VALIDATION msg"
| "from_block_error (BlockNotFound i) = DomainNotFound BLOCK_NOT_FOUND ''block'' i"
| "from_block_error (BlockVersionMismatch expected actual) = VersionConflict expected actual"

fun from_costume_category_error :: "costume_category_error \<Rightarrow> domain_error" where
  "from_costume_category_error (CostumeCategoryValidationError msg) =
     DomainValidation COSTUME_CATEGORY_VALIDATION msg"
| "from_costume_category_error (CostumeCategoryArchivedCannotBeMutated i) =
     DomainConflict COSTUME_CATEGORY_ARCHIVED ''costume category is archived and cannot be mutated''"
| "from_costume_category_error (CostumeCategoryVersionMismatch expected actual) =
     VersionConflict expected actual"

fun from_episode_error :: "episode_error \<Rightarrow> domain_error" where
  "from_episode_error (EpisodeValidationError msg) = DomainValidation EPISODE_VALIDATION msg"
| "from_episode_error (EpisodeNotFound i) = DomainNotFound EPISODE_NOT_FOUND ''episode'' i"
| "from_episode_error (EpisodeIsDeleted i) = DomainNotFound EPISODE_NOT_FOUND ''episode'' i"
| "from_episode_error (EpisodeVersionMismatch expected actual) = VersionConflict expected actual"

fun from_membership_error :: "membership_error \<Rightarrow> domain_error" where
  "from_membership_error (MembershipValidationError msg) = DomainValidation MEMBERSHIP_VALIDATION msg"
| "from_membership_error (AlreadyInvited u) =
     DomainConflict MEMBERSHIP_ALREADY_INVITED ''user already has a pending invitation''"
| "from_membership_error (NoPendingInvitation u) =
     DomainConflict MEMBERSHIP_NO_PENDING_INVITATION ''no pending invitation''"
| "from_membership_error (NotActiveMember u) =
     DomainConflict MEMBERSHIP_NOT_ACTIVE_MEMBER ''user is not an active member''"
| "from_membership_error MissingActor =
     DomainValidation MEMBERSHIP_MISSING_ACTOR ''leave requires an authenticated actor''"
| "from_membership_error (BootstrapNotAllowed b) =
     DomainConflict MEMBERSHIP_BOOTSTRAP_NOT_ALLOWED ''bootstrap is only allowed on an empty block''"
| "from_membership_error (MembershipNotFound i) = DomainNotFound MEMBERSHIP_NOT_FOUND ''membership'' i"

text \<open>\<open>{status:?}\<close> prints the variant name, which is also the \<open>as_str\<close> of the status.\<close>

fun from_scene_shoot_error :: "scene_shoot_error \<Rightarrow> domain_error" where
  "from_scene_shoot_error (SceneShootValidationError msg) = DomainValidation SCENE_SHOOT_VALIDATION msg"
| "from_scene_shoot_error (SceneShootNotFound i) = DomainNotFound SCENE_SHOOT_NOT_FOUND ''scene-shoot'' i"
| "from_scene_shoot_error (SceneShootIsDeleted i) =
     DomainNotFound SCENE_SHOOT_NOT_FOUND ''scene-shoot'' i"
| "from_scene_shoot_error PairAlreadyExists =
     DomainConflict SCENE_SHOOT_PAIR_ALREADY_EXISTS
       ''a scene shoot already exists for this (scene, shooting_day) pair''"
| "from_scene_shoot_error (SceneShootVersionMismatch what expected actual) =
     VersionConflict expected actual"
| "from_scene_shoot_error PlannedOrderFrozen =
     DomainConflict SCENE_SHOOT_PLANNED_ORDER_FROZEN ''planned order is frozen''"
| "from_scene_shoot_error (NoteNotFound i) =
     DomainNotFound SCENE_SHOOT_NOTE_NOT_FOUND ''scene-shoot-note'' i"
| "from_scene_shoot_error (AlreadyLinked p) = DomainAlreadyLinked p"
| "from_scene_shoot_error AlreadyStarted =
     DomainConflict SCENE_SHOOT_ALREADY_STARTED ''scene shoot is already started''"
| "from_scene_shoot_error (TerminalState status) =
     DomainConflict SCENE_SHOOT_TERMINAL_STATE
       (''scene shoot is in terminal state '' @ scene_shoot_status_as_str status)"

fun from_settings_error :: "settings_error \<Rightarrow> domain_error" where
  "from_settings_error SettingsEmptyProvider =
     DomainValidation SETTINGS_EMPTY_PROVIDER ''credential provider must not be empty''"
| "from_settings_error SettingsEmptyVaultKey =
     DomainValidation SETTINGS_EMPTY_VAULT_KEY ''vault key reference must not be empty''"
| "from_settings_error SettingsProviderMismatch =
     DomainConflict SETTINGS_PROVIDER_MISMATCH ''credential provider cannot change during rotation''"
| "from_settings_error SettingsNotFound =
     DomainNotFound SETTINGS_NOT_FOUND ''settings-credential'' nil_uuid"
| "from_settings_error SettingsAlreadyRevoked =
     DomainConflict SETTINGS_ALREADY_REVOKED ''credential binding is already revoked''"
| "from_settings_error (SettingsVersionMismatch expected actual) = VersionConflict expected actual"

fun from_photo_error :: "photo_error \<Rightarrow> domain_error" where
  "from_photo_error (PhotoValidationError msg) = DomainValidation PHOTO_VALIDATION msg"
| "from_photo_error (PhotoNotFound i) = DomainNotFound PHOTO_NOT_FOUND ''photo'' i"
| "from_photo_error PhotoAlreadyDeleted = DomainConflict PHOTO_ALREADY_DELETED ''photo is already deleted''"
| "from_photo_error (PhotoVersionMismatch expected actual) = VersionConflict expected actual"

section \<open>The HTTP contract of an error\<close>

text \<open>The status the variants document, and what it means for an error to keep the contract:
  its code is registered and carries that status.\<close>

fun documented_status :: "domain_error \<Rightarrow> nat" where
  "documented_status (DomainNotFound _ _ _) = 404"
| "documented_status (DomainForbidden _ _) = 403"
| "documented_status (DomainValidation _ _) = 422"
| "documented_status (DomainServiceUnavailable _ _) = 503"
| "documented_status (DomainDependencyAuthFailed _ _) = 503"
| "documented_status (DomainInternal _) = 500"
| "documented_status _ = 409"

definition keeps_contract :: "domain_error \<Rightarrow> bool" where
  "keeps_contract e \<longleftrightarrow>
     domain_error_code e \<in> set PROBLEM_CODES \<and> pc_status (domain_error_code e) = documented_status e"

text \<open>The codes that errors carry: registered, with these statuses.\<close>

lemma codes_registered [simp]:
  "HTTP_INTERNAL_ERROR \<in> set PROBLEM_CODES"
  "CONCURRENCY_VERSION_MISMATCH \<in> set PROBLEM_CODES"
  "SCENE_ALREADY_SCHEDULED \<in> set PROBLEM_CODES" "SCENE_NOT_SCHEDULED \<in> set PROBLEM_CODES"
  "SCENE_SHOOT_ALREADY_LINKED \<in> set PROBLEM_CODES"
  "SCENE_SHOOT_SHOOTING_DAY_WRAPPED \<in> set PROBLEM_CODES"
  "SHOOTING_DAY_TARGET_WRAPPED \<in> set PROBLEM_CODES"
  "COSTUME_CATEGORY_SEASON_MISMATCH \<in> set PROBLEM_CODES"
  "DOMAIN_NOT_FOUND \<in> set PROBLEM_CODES" "DOMAIN_CONFLICT \<in> set PROBLEM_CODES"
  "DOMAIN_SERVICE_UNAVAILABLE \<in> set PROBLEM_CODES"
  "DEPENDENCY_AUTH_FAILED \<in> set PROBLEM_CODES" "DOMAIN_VALIDATION \<in> set PROBLEM_CODES"
  "DOMAIN_FORBIDDEN \<in> set PROBLEM_CODES" "AI_CONFIG_NOT_FOUND \<in> set PROBLEM_CODES"
  "AI_CONFIG_PROVIDER_MISMATCH \<in> set PROBLEM_CODES"
  "AI_CONFIG_ALREADY_REVOKED \<in> set PROBLEM_CODES"
  "AI_CONFIG_EMPTY_PROVIDER \<in> set PROBLEM_CODES"
  "AI_CONFIG_EMPTY_MODEL \<in> set PROBLEM_CODES" "AI_CONFIG_EMPTY_PROMPT \<in> set PROBLEM_CODES"
  "AI_CONFIG_EMPTY_VAULT_KEY \<in> set PROBLEM_CODES"
  "AI_CONFIG_DECISION_PROVIDER_UNSUPPORTED \<in> set PROBLEM_CODES"
  "AI_CONFIG_DECISION_INCOMPLETE \<in> set PROBLEM_CODES"
  "AI_CONFIG_DECISION_MODEL_EMPTY \<in> set PROBLEM_CODES"
  "AI_CONFIG_DECISION_MODEL_UNKNOWN \<in> set PROBLEM_CODES"
  "AI_CONFIG_DECISION_VAULT_KEY_EMPTY \<in> set PROBLEM_CODES"
  "SCENE_VALIDATION \<in> set PROBLEM_CODES" "SCENE_CHARACTER_NOT_FOUND \<in> set PROBLEM_CODES"
  "SCENE_NOT_FOUND \<in> set PROBLEM_CODES"
  "SCENE_CHARACTER_ALREADY_ASSIGNED \<in> set PROBLEM_CODES"
  "SCENE_CHARACTER_NOT_IN_SCENE \<in> set PROBLEM_CODES"
  "SCENE_BEAT_NOT_FOUND \<in> set PROBLEM_CODES" "CHARACTER_VALIDATION \<in> set PROBLEM_CODES"
  "CHARACTER_NOT_FOUND \<in> set PROBLEM_CODES" "PIECE_VALIDATION \<in> set PROBLEM_CODES"
  "PIECE_NOT_FOUND \<in> set PROBLEM_CODES" "PIECE_DETAIL_NOT_FOUND \<in> set PROBLEM_CODES"
  "OUTFIT_VALIDATION \<in> set PROBLEM_CODES" "OUTFIT_NOT_FOUND \<in> set PROBLEM_CODES"
  "SHOOTING_DAY_VALIDATION \<in> set PROBLEM_CODES"
  "SHOOTING_DAY_NOT_FOUND \<in> set PROBLEM_CODES" "SHOOTING_DAY_ARCHIVED \<in> set PROBLEM_CODES"
  "SHOOTING_DAY_DUPLICATE_ORDER_KEY \<in> set PROBLEM_CODES"
  "SEASON_VALIDATION \<in> set PROBLEM_CODES" "SEASON_NOT_FOUND \<in> set PROBLEM_CODES"
  "SEASON_ARCHIVED \<in> set PROBLEM_CODES" "BLOCK_VALIDATION \<in> set PROBLEM_CODES"
  "BLOCK_NOT_FOUND \<in> set PROBLEM_CODES" "COSTUME_CATEGORY_VALIDATION \<in> set PROBLEM_CODES"
  "COSTUME_CATEGORY_ARCHIVED \<in> set PROBLEM_CODES" "EPISODE_VALIDATION \<in> set PROBLEM_CODES"
  "EPISODE_NOT_FOUND \<in> set PROBLEM_CODES" "MEMBERSHIP_VALIDATION \<in> set PROBLEM_CODES"
  "MEMBERSHIP_ALREADY_INVITED \<in> set PROBLEM_CODES"
  "MEMBERSHIP_NO_PENDING_INVITATION \<in> set PROBLEM_CODES"
  "MEMBERSHIP_NOT_ACTIVE_MEMBER \<in> set PROBLEM_CODES"
  "MEMBERSHIP_MISSING_ACTOR \<in> set PROBLEM_CODES"
  "MEMBERSHIP_BOOTSTRAP_NOT_ALLOWED \<in> set PROBLEM_CODES"
  "MEMBERSHIP_NOT_FOUND \<in> set PROBLEM_CODES" "SCENE_SHOOT_VALIDATION \<in> set PROBLEM_CODES"
  "SCENE_SHOOT_NOT_FOUND \<in> set PROBLEM_CODES"
  "SCENE_SHOOT_PAIR_ALREADY_EXISTS \<in> set PROBLEM_CODES"
  "SCENE_SHOOT_PLANNED_ORDER_FROZEN \<in> set PROBLEM_CODES"
  "SCENE_SHOOT_NOTE_NOT_FOUND \<in> set PROBLEM_CODES"
  "SCENE_SHOOT_ALREADY_STARTED \<in> set PROBLEM_CODES"
  "SCENE_SHOOT_TERMINAL_STATE \<in> set PROBLEM_CODES"
  "SETTINGS_EMPTY_PROVIDER \<in> set PROBLEM_CODES"
  "SETTINGS_EMPTY_VAULT_KEY \<in> set PROBLEM_CODES"
  "SETTINGS_PROVIDER_MISMATCH \<in> set PROBLEM_CODES"
  "SETTINGS_NOT_FOUND \<in> set PROBLEM_CODES" "SETTINGS_ALREADY_REVOKED \<in> set PROBLEM_CODES"
  "PHOTO_VALIDATION \<in> set PROBLEM_CODES" "PHOTO_NOT_FOUND \<in> set PROBLEM_CODES"
  "PHOTO_ALREADY_DELETED \<in> set PROBLEM_CODES"
  by (simp_all add: PROBLEM_CODES_def)

lemma codes_status [simp]:
  "pc_status HTTP_INTERNAL_ERROR = 500" "pc_status CONCURRENCY_VERSION_MISMATCH = 409"
  "pc_status SCENE_ALREADY_SCHEDULED = 409" "pc_status SCENE_NOT_SCHEDULED = 409"
  "pc_status SCENE_SHOOT_ALREADY_LINKED = 409" "pc_status SCENE_SHOOT_SHOOTING_DAY_WRAPPED = 409"
  "pc_status SHOOTING_DAY_TARGET_WRAPPED = 409" "pc_status COSTUME_CATEGORY_SEASON_MISMATCH = 409"
  "pc_status DOMAIN_NOT_FOUND = 404" "pc_status DOMAIN_CONFLICT = 409"
  "pc_status DOMAIN_SERVICE_UNAVAILABLE = 503" "pc_status DEPENDENCY_AUTH_FAILED = 503"
  "pc_status DOMAIN_VALIDATION = 422" "pc_status DOMAIN_FORBIDDEN = 403"
  "pc_status AI_CONFIG_NOT_FOUND = 404" "pc_status AI_CONFIG_PROVIDER_MISMATCH = 409"
  "pc_status AI_CONFIG_ALREADY_REVOKED = 409" "pc_status AI_CONFIG_EMPTY_PROVIDER = 422"
  "pc_status AI_CONFIG_EMPTY_MODEL = 422" "pc_status AI_CONFIG_EMPTY_PROMPT = 422"
  "pc_status AI_CONFIG_EMPTY_VAULT_KEY = 422"
  "pc_status AI_CONFIG_DECISION_PROVIDER_UNSUPPORTED = 422"
  "pc_status AI_CONFIG_DECISION_INCOMPLETE = 422" "pc_status AI_CONFIG_DECISION_MODEL_EMPTY = 422"
  "pc_status AI_CONFIG_DECISION_MODEL_UNKNOWN = 422"
  "pc_status AI_CONFIG_DECISION_VAULT_KEY_EMPTY = 422" "pc_status SCENE_VALIDATION = 422"
  "pc_status SCENE_CHARACTER_NOT_FOUND = 404" "pc_status SCENE_NOT_FOUND = 404"
  "pc_status SCENE_CHARACTER_ALREADY_ASSIGNED = 409"
  "pc_status SCENE_CHARACTER_NOT_IN_SCENE = 422" "pc_status SCENE_BEAT_NOT_FOUND = 422"
  "pc_status CHARACTER_VALIDATION = 422" "pc_status CHARACTER_NOT_FOUND = 404"
  "pc_status PIECE_VALIDATION = 422" "pc_status PIECE_NOT_FOUND = 404"
  "pc_status PIECE_DETAIL_NOT_FOUND = 404" "pc_status OUTFIT_VALIDATION = 422"
  "pc_status OUTFIT_NOT_FOUND = 404" "pc_status SHOOTING_DAY_VALIDATION = 422"
  "pc_status SHOOTING_DAY_NOT_FOUND = 404" "pc_status SHOOTING_DAY_ARCHIVED = 409"
  "pc_status SHOOTING_DAY_DUPLICATE_ORDER_KEY = 409" "pc_status SEASON_VALIDATION = 422"
  "pc_status SEASON_NOT_FOUND = 404" "pc_status SEASON_ARCHIVED = 409"
  "pc_status BLOCK_VALIDATION = 422" "pc_status BLOCK_NOT_FOUND = 404"
  "pc_status COSTUME_CATEGORY_VALIDATION = 422" "pc_status COSTUME_CATEGORY_ARCHIVED = 409"
  "pc_status EPISODE_VALIDATION = 422" "pc_status EPISODE_NOT_FOUND = 404"
  "pc_status MEMBERSHIP_VALIDATION = 422" "pc_status MEMBERSHIP_ALREADY_INVITED = 409"
  "pc_status MEMBERSHIP_NO_PENDING_INVITATION = 409"
  "pc_status MEMBERSHIP_NOT_ACTIVE_MEMBER = 409" "pc_status MEMBERSHIP_MISSING_ACTOR = 422"
  "pc_status MEMBERSHIP_BOOTSTRAP_NOT_ALLOWED = 409" "pc_status MEMBERSHIP_NOT_FOUND = 404"
  "pc_status SCENE_SHOOT_VALIDATION = 422" "pc_status SCENE_SHOOT_NOT_FOUND = 404"
  "pc_status SCENE_SHOOT_PAIR_ALREADY_EXISTS = 409"
  "pc_status SCENE_SHOOT_PLANNED_ORDER_FROZEN = 409" "pc_status SCENE_SHOOT_NOTE_NOT_FOUND = 404"
  "pc_status SCENE_SHOOT_ALREADY_STARTED = 409" "pc_status SCENE_SHOOT_TERMINAL_STATE = 409"
  "pc_status SETTINGS_EMPTY_PROVIDER = 422" "pc_status SETTINGS_EMPTY_VAULT_KEY = 422"
  "pc_status SETTINGS_PROVIDER_MISMATCH = 409" "pc_status SETTINGS_NOT_FOUND = 404"
  "pc_status SETTINGS_ALREADY_REVOKED = 409" "pc_status PHOTO_VALIDATION = 422"
  "pc_status PHOTO_NOT_FOUND = 404" "pc_status PHOTO_ALREADY_DELETED = 409"
  by (simp_all add: registry_defs)

lemma ai_config_error_contract: "keeps_contract (from_ai_config_error e)"
  by (cases e) (simp_all add: keeps_contract_def)

lemma scene_error_contract: "keeps_contract (from_scene_error disp e)"
  by (cases e) (simp_all add: keeps_contract_def)

lemma character_error_contract: "keeps_contract (from_character_error e)"
  by (cases e) (simp_all add: keeps_contract_def)

lemma piece_error_contract: "keeps_contract (from_piece_error e)"
  by (cases e) (simp_all add: keeps_contract_def)

lemma outfit_error_contract: "keeps_contract (from_outfit_error e)"
  by (cases e) (simp_all add: keeps_contract_def)

lemma shooting_day_error_contract: "keeps_contract (from_shooting_day_error e)"
  by (cases e) (simp_all add: keeps_contract_def)

lemma season_error_contract: "keeps_contract (from_season_error disp e)"
  by (cases e) (simp_all add: keeps_contract_def)

lemma block_error_contract: "keeps_contract (from_block_error e)"
  by (cases e) (simp_all add: keeps_contract_def)

lemma costume_category_error_contract: "keeps_contract (from_costume_category_error e)"
  by (cases e) (simp_all add: keeps_contract_def)

lemma episode_error_contract: "keeps_contract (from_episode_error e)"
  by (cases e) (simp_all add: keeps_contract_def)

lemma membership_error_contract: "keeps_contract (from_membership_error e)"
  by (cases e) (simp_all add: keeps_contract_def)

lemma scene_shoot_error_contract: "keeps_contract (from_scene_shoot_error e)"
  by (cases e) (simp_all add: keeps_contract_def)

lemma settings_error_contract: "keeps_contract (from_settings_error e)"
  by (cases e) (simp_all add: keeps_contract_def)

lemma photo_error_contract: "keeps_contract (from_photo_error e)"
  by (cases e) (simp_all add: keeps_contract_def)

lemmas conversion_contracts =
  ai_config_error_contract scene_error_contract character_error_contract piece_error_contract
  outfit_error_contract shooting_day_error_contract season_error_contract block_error_contract
  costume_category_error_contract episode_error_contract membership_error_contract
  scene_shoot_error_contract settings_error_contract photo_error_contract

section \<open>Properties\<close>


text \<open>
  Membership errors never expose the person they are about: two membership errors of the same
  kind convert to the same \<open>DomainError\<close> whatever user they name. No error of an aggregate is
  treated as transient, so a background worker never retries a rejected command.
\<close>

theorem membership_errors_anonymous:
  "from_membership_error (AlreadyInvited u) = from_membership_error (AlreadyInvited w) \<and>
   from_membership_error (NoPendingInvitation u) = from_membership_error (NoPendingInvitation w) \<and>
   from_membership_error (NotActiveMember u) = from_membership_error (NotActiveMember w) \<and>
   \<not> is_retryable (from_membership_error e)"
  by (cases e) simp_all

end
