(* ===== verification/Entity_Actor.thy ===== *)
theory Entity_Actor
  imports Event_Sourcing
begin

text \<open>
  The command dispatch of \<open>backend/.patches/kameo_es\<close>: the state an entity actor
  keeps of a stream (\<open>EntityActorState\<close>), \<open>apply\<close>, \<open>execute\<close>, the resynchronisation
  loop and the optimistic append with retries of \<open>src/entity_actor.rs\<close>, and the
  causation check of \<open>core/src/lib.rs\<close>.

  SierraDB is reached through the \<open>sierradb_client\<close> crate, which is not part of
  the repository. A record of its operations is a parameter \<open>sc\<close>; what the actor
  relies on is \<open>sierra_laws\<close>: expected versions, the two helpers on current
  versions, an append that is atomic and conditional, and a scan that returns
  the stream in batches. Other processes append to the same stream: their
  writes are a parameter \<open>env\<close> that is consulted before every append and before
  every resynchronisation, so that the theorems hold for every interleaving.

  A failed \<open>assert_eq!\<close> is the value \<open>ActorPanicked\<close>; a loop that does not end is
  \<open>None\<close>.
\<close>

section \<open>Metadata and stored events\<close>

type_synonym stream_id = string

record event_causation =
  ec_event_id :: uuid
  ec_stream_id :: stream_id
  ec_stream_version :: u64

record 'm metadata =
  md_causation_command :: "string option"
  md_causation_event :: "event_causation option"
  md_data :: "'m option"

record ('e, 'm) stored_event =
  se_event :: 'e
  se_metadata :: "'m metadata"
  se_stream_version :: u64
  se_timestamp :: int

type_synonym ('e, 'm) append_entry = "expected_version \<times> 'e \<times> 'm metadata \<times> int"

text \<open>The events as the server stores them: numbered on from the length of the stream.\<close>

fun number_from :: "u64 \<Rightarrow> ('e, 'm) append_entry list \<Rightarrow> ('e, 'm) stored_event list" where
  "number_from n [] = []"
| "number_from n ((x, e, m, t) # es) =
     \<lparr>se_event = e, se_metadata = m, se_stream_version = n, se_timestamp = t\<rparr> # number_from (n + 1) es"

definition wf_stream :: "('e, 'm) stored_event list \<Rightarrow> bool" where
  "wf_stream db \<longleftrightarrow> length db < 2 ^ 64 \<and>
     map se_stream_version db = map of_nat [0..<length db]"

section \<open>The SierraDB client\<close>

datatype sierra_error = WrongVer current_version expected_version | SierraOther string

record ('e, 'm) sierra_client =
  sc_satisfied :: "expected_version \<Rightarrow> current_version \<Rightarrow> bool"
  sc_next :: "current_version \<Rightarrow> u64"
  sc_as_expected :: "current_version \<Rightarrow> expected_version"
  sc_append :: "('e, 'm) stored_event list \<Rightarrow> ('e, 'm) append_entry list \<Rightarrow>
    (sierra_error + u64 list) \<times> ('e, 'm) stored_event list"
  sc_scan :: "('e, 'm) stored_event list \<Rightarrow> u64 \<Rightarrow> nat \<Rightarrow>
    sierra_error + ('e, 'm) stored_event list \<times> bool"

fun all_satisfied ::
  "(expected_version \<Rightarrow> current_version \<Rightarrow> bool) \<Rightarrow> ('e, 'm) stored_event list \<Rightarrow>
   ('e, 'm) append_entry list \<Rightarrow> bool" where
  "all_satisfied sat db [] \<longleftrightarrow> True"
| "all_satisfied sat db ((x, e, m, t) # es) \<longleftrightarrow>
     sat x (stream_current db) \<and>
     all_satisfied sat (db @ number_from (of_nat (length db)) [(x, e, m, t)]) es"

definition append_law :: "('e, 'm) sierra_client \<Rightarrow> bool" where
  "append_law sc \<longleftrightarrow> (\<forall>db new. wf_stream db \<longrightarrow>
     (let stored = number_from (of_nat (length db)) new in
      case sc_append sc db new of
        (Inr infos, db') \<Rightarrow>
          all_satisfied (sc_satisfied sc) db new \<and> db' = db @ stored \<and> wf_stream db' \<and>
          infos = map se_stream_version stored
      | (Inl (WrongVer current expected), db') \<Rightarrow>
          \<not> all_satisfied (sc_satisfied sc) db new \<and> db' = db
      | (Inl (SierraOther msg), db') \<Rightarrow>
          db' = db \<or>
          all_satisfied (sc_satisfied sc) db new \<and> db' = db @ stored \<and> wf_stream db'))"

definition scan_law :: "('e, 'm) sierra_client \<Rightarrow> bool" where
  "scan_law sc \<longleftrightarrow> (\<forall>db from limit events has_more. wf_stream db \<longrightarrow>
     sc_scan sc db from limit = Inr (events, has_more) \<longrightarrow>
     events = take (length events) (drop (unat from) db) \<and>
     (has_more \<longleftrightarrow> unat from + length events < length db) \<and> (has_more \<longrightarrow> events \<noteq> []))"

definition sierra_laws :: "('e, 'm) sierra_client \<Rightarrow> bool" where
  "sierra_laws sc \<longleftrightarrow>
     expected_version_laws (sc_satisfied sc) \<and>
     sc_next sc CurrentEmpty = 0 \<and> (\<forall>v. sc_next sc (Current v) = v + 1) \<and>
     sc_as_expected sc CurrentEmpty = EmptyVersion \<and>
     (\<forall>v. sc_as_expected sc (Current v) = Exact v) \<and>
     append_law sc \<and> scan_law sc"

section \<open>The state of an actor\<close>

type_synonym causation_tracking = "stream_id \<rightharpoonup> u64 \<times> string list"

record 's actor_state =
  as_entity :: 's
  as_version :: current_version
  as_causation_tracking :: causation_tracking
  as_command_history :: "(string \<times> int) option list"

definition actor_init :: "'s \<Rightarrow> 's actor_state" where
  "actor_init s0 =
     \<lparr>as_entity = s0, as_version = CurrentEmpty, as_causation_tracking = Map.empty,
      as_command_history = []\<rparr>"

definition track_causation ::
  "string option \<Rightarrow> event_causation option \<Rightarrow> causation_tracking \<Rightarrow> causation_tracking" where
  "track_causation command cause tracking =
     (case (command, cause) of
        (Some cmd, Some ev) \<Rightarrow>
          (case tracking (ec_stream_id ev) of
             Some (max_ver, commands) \<Rightarrow>
               if ec_stream_version ev > max_ver
                 then tracking(ec_stream_id ev \<mapsto> (ec_stream_version ev, [cmd]))
               else if ec_stream_version ev = max_ver
                 then tracking(ec_stream_id ev \<mapsto> (max_ver, List.insert cmd commands))
               else tracking
           | None \<Rightarrow> tracking(ec_stream_id ev \<mapsto> (ec_stream_version ev, [cmd])))
      | _ \<Rightarrow> tracking)"

definition actor_push ::
  "('s \<Rightarrow> 'e \<Rightarrow> 's) \<Rightarrow> 's actor_state \<Rightarrow> ('e, 'm) stored_event \<Rightarrow> 's actor_state" where
  "actor_push ap st e =
     \<lparr>as_entity = ap (as_entity st) (se_event e),
      as_version = Current (se_stream_version e),
      as_causation_tracking =
        track_causation (md_causation_command (se_metadata e)) (md_causation_event (se_metadata e))
          (as_causation_tracking st),
      as_command_history =
        as_command_history st @
          [map_option (\<lambda>cmd. (cmd, se_timestamp e)) (md_causation_command (se_metadata e))]\<rparr>"

text \<open>\<open>EntityActorState::apply\<close>: the assertion on the stream version, then the update.\<close>

definition actor_apply ::
  "('e, 'm) sierra_client \<Rightarrow> ('s \<Rightarrow> 'e \<Rightarrow> 's) \<Rightarrow> 's actor_state \<Rightarrow> ('e, 'm) stored_event \<Rightarrow>
   's actor_state option" where
  "actor_apply sc ap st e =
     (if sc_next sc (as_version st) = se_stream_version e then Some (actor_push ap st e) else None)"

fun actor_apply_all ::
  "('e, 'm) sierra_client \<Rightarrow> ('s \<Rightarrow> 'e \<Rightarrow> 's) \<Rightarrow> 's actor_state \<Rightarrow> ('e, 'm) stored_event list \<Rightarrow>
   's actor_state option" where
  "actor_apply_all sc ap st [] = Some st"
| "actor_apply_all sc ap st (e # es) =
     Option.bind (actor_apply sc ap st e) (\<lambda>st'. actor_apply_all sc ap st' es)"

section \<open>Execute\<close>

datatype causation_check =
  CausationOk | NoCausation | AlreadyProcessed | OutOfOrder u64 u64

definition check_causation :: "'m metadata \<Rightarrow> causation_tracking \<Rightarrow> causation_check" where
  "check_causation metadata tracking =
     (case md_causation_event metadata of
        None \<Rightarrow> NoCausation
      | Some ev \<Rightarrow>
          (case tracking (ec_stream_id ev) of
             None \<Rightarrow> CausationOk
           | Some (max_version, commands_at_max) \<Rightarrow>
               if ec_stream_version ev < max_version
                 then OutOfOrder (ec_stream_version ev) max_version
               else if ec_stream_version ev = max_version
                 then (case md_causation_command metadata of
                         Some cmd \<Rightarrow>
                           if cmd \<in> set commands_at_max then AlreadyProcessed else CausationOk
                       | None \<Rightarrow> CausationOk)
               else CausationOk))"

definition should_skip :: "'m metadata \<Rightarrow> causation_tracking \<Rightarrow> bool" where
  "should_skip metadata tracking =
     (case check_causation metadata tracking of
        CausationOk \<Rightarrow> False | NoCausation \<Rightarrow> False | AlreadyProcessed \<Rightarrow> True | OutOfOrder _ _ \<Rightarrow> True)"

datatype 'err execute_error =
    HandleError 'err
  | IncorrectExpectedVersion current_version expected_version
  | RateLimitExceeded u32 int
  | TooManyConflicts
  | DatabaseError sierra_error
  | PartitionKeyMismatch uuid uuid
  | ActorPanicked

datatype 'e execute_result =
    Executed "('e \<times> u64) list"
  | PendingTransaction "'e list" expected_version
  | Idempotent current_version

text \<open>
  A message \<open>Execute\<close> with what its command type fixes: \<open>handle\<close>,
  \<open>is_state_idempotent\<close>, the name and the rate limit of the command.
\<close>

record ('s, 'e, 'm, 'err) execute_msg =
  ex_partition_key :: uuid
  ex_metadata :: "'m metadata"
  ex_expected_version :: expected_version
  ex_time :: int
  ex_now :: int
  ex_dry_run :: bool
  ex_command_name :: string
  ex_rate_limit :: "(u32 \<times> int) option"
  ex_state_idempotent :: "'s \<Rightarrow> bool"
  ex_handle :: "'s \<Rightarrow> 'err + 'e list"

definition rate_limited :: "('s, 'e, 'm, 'err) execute_msg \<Rightarrow> 's actor_state \<Rightarrow> bool" where
  "rate_limited exec st =
     (case ex_rate_limit exec of
        None \<Rightarrow> False
      | Some (max_requests, window_duration) \<Rightarrow>
          unat max_requests \<le>
            length (filter (\<lambda>entry. case entry of None \<Rightarrow> False
              | Some (name, timestamp) \<Rightarrow>
                  name = ex_command_name exec \<and> timestamp > ex_now exec - window_duration)
              (as_command_history st)))"

definition actor_execute ::
  "('e, 'm) sierra_client \<Rightarrow> ('s, 'e, 'm, 'err) execute_msg \<Rightarrow> 's actor_state \<Rightarrow>
   'err execute_error + 'e list option" where
  "actor_execute sc exec st =
     (if \<not> sc_satisfied sc (ex_expected_version exec) (as_version st)
        then Err (IncorrectExpectedVersion (as_version st) (ex_expected_version exec))
      else if rate_limited exec st
        then Err (case ex_rate_limit exec of Some (n, w) \<Rightarrow> RateLimitExceeded n w
                  | None \<Rightarrow> RateLimitExceeded 0 0)
      else if should_skip (ex_metadata exec) (as_causation_tracking st) \<or>
              ex_state_idempotent exec (as_entity st)
        then Ok None
      else (case ex_handle exec (as_entity st) of
              Inl err \<Rightarrow> Err (HandleError err)
            | Inr events \<Rightarrow> Ok (Some events)))"

section \<open>Resynchronisation\<close>

text \<open>\<open>resync_with_db\<close>; the state that a failed scan leaves behind is returned with the error.\<close>

partial_function (option) actor_resync ::
  "('e, 'm) sierra_client \<Rightarrow> ('s \<Rightarrow> 'e \<Rightarrow> 's) \<Rightarrow> ('e, 'm) stored_event list \<Rightarrow> 's actor_state \<Rightarrow>
   ('err execute_error option \<times> 's actor_state) option" where
  "actor_resync sc ap db st =
     (case sc_scan sc db (sc_next sc (as_version st)) 10000 of
        Inl err \<Rightarrow> Some (Some (DatabaseError err), st)
      | Inr (events, has_more) \<Rightarrow>
          (case actor_apply_all sc ap st events of
             None \<Rightarrow> Some (Some ActorPanicked, st)
           | Some st' \<Rightarrow>
               if \<not> has_more then Some (None, st')
               else if as_version st' = as_version st then Some (None, st')
               else actor_resync sc ap db st'))"

section \<open>Append\<close>

definition nth_expected :: "expected_version \<Rightarrow> nat \<Rightarrow> expected_version" where
  "nth_expected expected i =
     (case expected of
        AnyVersion \<Rightarrow> AnyVersion
      | ExistsVersion \<Rightarrow> ExistsVersion
      | EmptyVersion \<Rightarrow> (case i of 0 \<Rightarrow> EmptyVersion | n \<Rightarrow> Exact (of_nat n - 1))
      | Exact version \<Rightarrow> Exact (version + of_nat i))"

definition new_events ::
  "expected_version \<Rightarrow> 'e list \<Rightarrow> 'm metadata \<Rightarrow> int \<Rightarrow> ('e, 'm) append_entry list" where
  "new_events expected events metadata timestamp =
     map (\<lambda>(i, event). (nth_expected expected i, event, metadata, timestamp))
       (List.enumerate 0 events)"

text \<open>\<open>append_events\<close>: \<open>Inl None\<close> is a failed assertion of \<open>apply\<close>.\<close>

definition append_events ::
  "('e, 'm) sierra_client \<Rightarrow> ('s \<Rightarrow> 'e \<Rightarrow> 's) \<Rightarrow> 's actor_state \<Rightarrow> ('e, 'm) stored_event list \<Rightarrow>
   'e list \<Rightarrow> 'm metadata \<Rightarrow> int \<Rightarrow>
   (sierra_error option + ('e \<times> u64) list) \<times> 's actor_state \<times> ('e, 'm) stored_event list" where
  "append_events sc ap st db events metadata timestamp =
     (let new = new_events (sc_as_expected sc (as_version st)) events metadata timestamp in
      case sc_append sc db new of
        (Inl err, db') \<Rightarrow> (Inl (Some err), st, db')
      | (Inr infos, db') \<Rightarrow>
          (case actor_apply_all sc ap st (number_from (sc_next sc (as_version st)) new) of
             None \<Rightarrow> (Inl None, st, db')
           | Some st' \<Rightarrow> (Inr (zip events infos), st', db')))"

section \<open>The message handler\<close>

text \<open>
  The retry loop of \<open>handle\<close> with \<open>n\<close> retries left. \<open>env\<close> is what the other
  writers have appended by the time of the append (\<open>env (2 * n)\<close>) and of the
  resynchronisation (\<open>env (2 * n + 1)\<close>) of this attempt.
\<close>

fun actor_attempt ::
  "('e, 'm) sierra_client \<Rightarrow> ('s \<Rightarrow> 'e \<Rightarrow> 's) \<Rightarrow>
   (nat \<Rightarrow> ('e, 'm) stored_event list \<Rightarrow> ('e, 'm) stored_event list) \<Rightarrow>
   ('s, 'e, 'm, 'err) execute_msg \<Rightarrow> nat \<Rightarrow> 's actor_state \<Rightarrow> ('e, 'm) stored_event list \<Rightarrow>
   (('err execute_error + 'e execute_result) \<times> 's actor_state \<times> ('e, 'm) stored_event list) option" where
  "actor_attempt sc ap env exec n st db =
     (case actor_execute sc exec st of
        Inl err \<Rightarrow> Some (Err err, st, db)
      | Inr None \<Rightarrow> Some (Ok (Idempotent (as_version st)), st, db)
      | Inr (Some events) \<Rightarrow>
          if events = [] then Some (Ok (Executed []), st, db)
          else if ex_dry_run exec
            then Some (Ok (Executed (map (\<lambda>(i, event). (event, sc_next sc (as_version st) + of_nat i))
                   (List.enumerate 0 events))), st, db)
          else (case append_events sc ap st (env (2 * n) db) events (ex_metadata exec) (ex_time exec) of
                  (Inr appended, st', db') \<Rightarrow> Some (Ok (Executed appended), st', db')
                | (Inl None, st', db') \<Rightarrow> Some (Err ActorPanicked, st', db')
                | (Inl (Some (SierraOther msg)), st', db') \<Rightarrow>
                    Some (Err (DatabaseError (SierraOther msg)), st', db')
                | (Inl (Some (WrongVer current expected)), st', db') \<Rightarrow>
                    (case n of
                       0 \<Rightarrow> Some (Err TooManyConflicts, st', db')
                     | Suc k \<Rightarrow>
                         (case actor_resync sc ap (env (2 * n + 1) db') st' of
                            None \<Rightarrow> None
                          | Some (Some err, st'') \<Rightarrow> Some (Err err, st'', env (2 * n + 1) db')
                          | Some (None, st'') \<Rightarrow>
                              actor_attempt sc ap env exec k st'' (env (2 * n + 1) db')))))"

declare actor_attempt.simps [simp del]

definition conflict_retries :: nat where
  "conflict_retries = 5"

definition actor_handle ::
  "('e, 'm) sierra_client \<Rightarrow> ('s \<Rightarrow> 'e \<Rightarrow> 's) \<Rightarrow>
   (nat \<Rightarrow> ('e, 'm) stored_event list \<Rightarrow> ('e, 'm) stored_event list) \<Rightarrow> uuid \<Rightarrow>
   ('s, 'e, 'm, 'err) execute_msg \<Rightarrow> 's actor_state \<Rightarrow> ('e, 'm) stored_event list \<Rightarrow>
   (('err execute_error + 'e execute_result) \<times> 's actor_state \<times> ('e, 'm) stored_event list) option" where
  "actor_handle sc ap env partition_key exec st db =
     (if ex_partition_key exec \<noteq> partition_key
        then Some (Err (PartitionKeyMismatch partition_key (ex_partition_key exec)), st, db)
      else actor_attempt sc ap env exec conflict_retries st db)"

text \<open>What an actor knows after reading a stream, and that it knows a prefix of it.\<close>

definition actor_of ::
  "('s \<Rightarrow> 'e \<Rightarrow> 's) \<Rightarrow> 's \<Rightarrow> ('e, 'm) stored_event list \<Rightarrow> 's actor_state" where
  "actor_of ap s0 db = foldl (actor_push ap) (actor_init s0) db"

definition actor_knows ::
  "('s \<Rightarrow> 'e \<Rightarrow> 's) \<Rightarrow> 's \<Rightarrow> ('e, 'm) stored_event list \<Rightarrow> 's actor_state \<Rightarrow> bool" where
  "actor_knows ap s0 db st \<longleftrightarrow> (\<exists>k \<le> length db. st = actor_of ap s0 (take k db))"

abbreviation stream_events :: "('e, 'm) stored_event list \<Rightarrow> 'e list" where
  "stream_events db \<equiv> map se_event db"

text \<open>A message that carries command \<open>c\<close> of an aggregate, and writers that only dispatch commands.\<close>

definition dispatches ::
  "('s, 'e, 'm, 'err) execute_msg \<Rightarrow> ('c \<Rightarrow> expected_version option) \<Rightarrow> ('s \<Rightarrow> 'c \<Rightarrow> bool) \<Rightarrow>
   ('s \<Rightarrow> 'c \<Rightarrow> 'err + 'e list) \<Rightarrow> 'c \<Rightarrow> bool" where
  "dispatches exec expect idem hnd c \<longleftrightarrow>
     expect c = Some (ex_expected_version exec) \<and> ex_state_idempotent exec = (\<lambda>s. idem s c) \<and>
     ex_handle exec = (\<lambda>s. hnd s c)"

definition env_dispatches ::
  "(nat \<Rightarrow> ('e, 'm) stored_event list \<Rightarrow> ('e, 'm) stored_event list) \<Rightarrow>
   ('e list \<Rightarrow> 'e list \<Rightarrow> bool) \<Rightarrow> bool" where
  "env_dispatches env step \<longleftrightarrow> (\<forall>k db. wf_stream db \<longrightarrow>
     wf_stream (env k db) \<and> (\<exists>zs. env k db = db @ zs) \<and>
     step\<^sup>*\<^sup>* (stream_events db) (stream_events (env k db)))"

text \<open>The linearisation point of an accepted command: the stream that its append found.\<close>

definition committed ::
  "(expected_version \<Rightarrow> current_version \<Rightarrow> bool) \<Rightarrow> ('s \<Rightarrow> 'e \<Rightarrow> 's) \<Rightarrow> 's \<Rightarrow>
   ('s, 'e, 'm, 'err) execute_msg \<Rightarrow> ('e, 'm) stored_event list \<Rightarrow> ('e \<times> u64) list \<Rightarrow>
   ('e, 'm) stored_event list \<Rightarrow> bool" where
  "committed sat ap s0 exec db1 appended db' \<longleftrightarrow>
     sat (ex_expected_version exec) (stream_current db1) \<and>
     \<not> ex_state_idempotent exec (replay ap s0 (stream_events db1)) \<and>
     ex_handle exec (replay ap s0 (stream_events db1)) = Ok (map fst appended) \<and>
     stream_events db' = stream_events db1 @ map fst appended \<and>
     map snd appended = map of_nat [length db1..<length db']"

text \<open>An answer without events was decided on a state with the expected version.\<close>

fun decided_on ::
  "(expected_version \<Rightarrow> current_version \<Rightarrow> bool) \<Rightarrow> expected_version \<Rightarrow>
   'err execute_error + 'e execute_result \<Rightarrow> 's actor_state \<Rightarrow> bool" where
  "decided_on sat expected (Inr (Executed [])) st \<longleftrightarrow> sat expected (as_version st)"
| "decided_on sat expected (Inr (Idempotent current)) st \<longleftrightarrow>
     current = as_version st \<and> sat expected (as_version st)"
| "decided_on sat expected _ st \<longleftrightarrow> True"

text \<open>
  What holds of every outcome: the handler returns without a failed assertion, the stream only
  grew by dispatched commands, the actor still knows a prefix of it, and an accepted command has
  a linearisation point and leaves the actor up to date.
\<close>

definition sound_outcome ::
  "(expected_version \<Rightarrow> current_version \<Rightarrow> bool) \<Rightarrow> ('s \<Rightarrow> 'e \<Rightarrow> 's) \<Rightarrow> 's \<Rightarrow>
   ('e list \<Rightarrow> 'e list \<Rightarrow> bool) \<Rightarrow> ('s, 'e, 'm, 'err) execute_msg \<Rightarrow>
   ('e, 'm) stored_event list \<Rightarrow>
   (('err execute_error + 'e execute_result) \<times> 's actor_state \<times> ('e, 'm) stored_event list) option \<Rightarrow>
   bool" where
  "sound_outcome sat ap s0 step exec db outcome \<longleftrightarrow>
     (\<exists>r st' db'. outcome = Some (r, st', db') \<and> r \<noteq> Err ActorPanicked \<and>
        wf_stream db' \<and> actor_knows ap s0 db' st' \<and>
        decided_on sat (ex_expected_version exec) r st' \<and>
        step\<^sup>*\<^sup>* (stream_events db) (stream_events db') \<and>
        (\<forall>appended. r = Ok (Executed appended) \<and> appended \<noteq> [] \<and> \<not> ex_dry_run exec \<longrightarrow>
           st' = actor_of ap s0 db' \<and>
           (\<exists>db1. step\<^sup>*\<^sup>* (stream_events db) (stream_events db1) \<and>
              committed sat ap s0 exec db1 appended db')))"

section \<open>Lemmas on streams and actor states\<close>

lemma stream_current_map [simp]: "stream_current (map f xs) = stream_current xs"
  by (simp add: stream_current_def)

lemma stream_current_empty [simp]: "stream_current [] = CurrentEmpty"
  by simp

lemma unat_of_nat_u64: "a < 2 ^ 64 \<Longrightarrow> unat (of_nat a :: u64) = a"
  by (simp add: unsigned_of_nat take_bit_nat_eq_self)

lemma of_nat_u64_inj:
  "a < 2 ^ 64 \<Longrightarrow> b < 2 ^ 64 \<Longrightarrow> (of_nat a :: u64) = of_nat b \<longleftrightarrow> a = b"
  by (metis unat_of_nat_u64)

lemma stream_current_inj:
  assumes "length xs < 2 ^ 64" "length ys < 2 ^ 64"
  shows "stream_current xs = stream_current ys \<longleftrightarrow> length xs = length ys"
proof (cases "xs = [] \<or> ys = []")
  case True
  then show ?thesis
    by (auto simp: stream_current_def)
next
  case False
  then have "stream_current xs = stream_current ys \<longleftrightarrow> length xs - 1 = length ys - 1"
    using assms by (simp add: stream_current_def of_nat_u64_inj less_imp_diff_less)
  then show ?thesis
    using False by (cases xs; cases ys) simp_all
qed

lemma map_eq_map_upt:
  "map f xs = map g [0..<length xs] \<longleftrightarrow> (\<forall>i < length xs. f (xs ! i) = g i)"
  unfolding list_eq_iff_nth_eq length_map length_upt by simp

lemma wf_stream_iff:
  "wf_stream db \<longleftrightarrow>
     length db < 2 ^ 64 \<and> (\<forall>i < length db. se_stream_version (db ! i) = of_nat i)"
  by (simp only: wf_stream_def map_eq_map_upt)

lemma number_from_simps [simp]:
  "length (number_from n new) = length new"
  "map se_event (number_from n new) = map (\<lambda>(x, e, m, t). e) new"
  "map se_stream_version (number_from n new) = map (\<lambda>i. n + of_nat i) [0..<length new]"
  by (induction n new rule: number_from.induct)
    (simp_all add: upt_conv_Cons map_Suc_upt [symmetric] add_ac del: upt_Suc)

lemma new_events_simps [simp]:
  "length (new_events x events m t) = length events"
  "map (\<lambda>(x, e, m, t). e) (new_events x events m t) = events"
  by (simp_all add: new_events_def case_prod_beta comp_def)

lemma wf_stream_take: "wf_stream db \<Longrightarrow> wf_stream (take k db)"
  by (auto simp: wf_stream_iff)

lemma actor_of_entity: "as_entity (actor_of ap s0 db) = replay ap s0 (stream_events db)"
  by (induction db rule: rev_induct)
    (simp_all add: actor_of_def actor_init_def actor_push_def replay_def)

lemma actor_of_version:
  assumes "wf_stream db"
  shows "as_version (actor_of ap s0 db) = stream_current db"
proof (cases db rule: rev_cases)
  case Nil
  then show ?thesis
    by (simp add: actor_of_def actor_init_def)
next
  case (snoc es e)
  then have "se_stream_version e = of_nat (length es)"
    using assms by (auto simp: wf_stream_iff nth_append)
  then show ?thesis
    using snoc by (simp add: actor_of_def actor_push_def stream_current_def)
qed

lemma sc_next_current:
  assumes "sierra_laws sc"
  shows "sc_next sc (stream_current db) = of_nat (length db)"
  using assms by (cases db) (simp_all add: sierra_laws_def stream_current_def)

lemma actor_apply_all_prefix:
  assumes "sierra_laws sc" "wf_stream (xs @ ys)"
  shows "actor_apply_all sc ap (actor_of ap s0 xs) ys = Some (actor_of ap s0 (xs @ ys))"
  using assms(2)
proof (induction ys arbitrary: xs)
  case (Cons y ys)
  have "wf_stream xs"
    using Cons.prems wf_stream_take [of "xs @ y # ys" "length xs"] by simp
  have "se_stream_version y = of_nat (length xs)"
    using Cons.prems unfolding wf_stream_iff by (metis append_Cons length_append_singleton
      length_append less_add_same_cancel1 length_greater_0_conv list.distinct(1) nth_append_length)
  with \<open>wf_stream xs\<close> have "actor_apply sc ap (actor_of ap s0 xs) y = Some (actor_of ap s0 (xs @ [y]))"
    using assms(1) actor_of_version [of xs ap s0]
    by (simp add: actor_apply_def sc_next_current) (simp add: actor_of_def)
  then show ?case
    using Cons.IH [of "xs @ [y]"] Cons.prems by simp
qed simp

lemma actor_knows_take: "k \<le> length db \<Longrightarrow> actor_knows ap s0 db (actor_of ap s0 (take k db))"
  by (auto simp: actor_knows_def)

lemma actor_knows_append: "actor_knows ap s0 db st \<Longrightarrow> actor_knows ap s0 (db @ zs) st"
  unfolding actor_knows_def by (metis le_add1 length_append order.trans take_append
    append_Nil2 diff_is_0_eq take_0)

section \<open>Resynchronisation ends at the end of the stream\<close>

lemma actor_resync_result:
  fixes sc :: "('e, 'm) sierra_client"
  assumes laws: "sierra_laws sc" and wf: "wf_stream db" and "k \<le> length db"
  shows "\<exists>r st. actor_resync sc ap db (actor_of ap s0 (take k db)) = Some (r, st) \<and>
     actor_knows ap s0 db st \<and> (case r of None \<Rightarrow> st = actor_of ap s0 db
       | Some err \<Rightarrow> \<exists>e. err = DatabaseError e)"
  using assms(3)
proof (induction "length db - k" arbitrary: k rule: less_induct)
  case less
  let ?st = "actor_of ap s0 (take k db)"
  have version: "as_version ?st = stream_current (take k db)"
    using wf by (simp add: actor_of_version wf_stream_take)
  then have nxt: "sc_next sc (as_version ?st) = of_nat k" "unat (of_nat k :: u64) = k"
    using laws less.prems wf
    by (simp_all add: sc_next_current wf_stream_iff unat_of_nat_u64)
  show ?case
  proof (cases "sc_scan sc db (of_nat k) 10000")
    case (Inl err)
    then show ?thesis
      using less.prems nxt by (subst actor_resync.simps) (auto intro: actor_knows_take)
  next
    case (Inr batch)
    obtain events has_more where batch: "batch = (events, has_more)"
      by (cases batch)
    define m where "m = k + length events"
    have law: "events = take (length events) (drop k db)" "has_more \<longleftrightarrow> m < length db"
      "has_more \<longrightarrow> events \<noteq> []"
      using laws wf Inr batch nxt(2) unfolding sierra_laws_def scan_law_def m_def by metis+
    then have m: "m \<le> length db" "take k db @ events = take m db"
      using less.prems by (auto simp: m_def take_add) (metis length_take min.cobounded1 length_drop
        le_diff_conv2 add.commute)?
    have applied: "actor_apply_all sc ap ?st events = Some (actor_of ap s0 (take m db))"
      using actor_apply_all_prefix [OF laws, of "take k db" events] m(2) wf
      by (simp add: wf_stream_take)
    show ?thesis
    proof (cases has_more)
      case False
      then have "take m db = db"
        using law m by simp
      then show ?thesis
        using False applied Inr batch nxt m actor_knows_take [OF m(1), of ap s0]
        by (subst actor_resync.simps) auto
    next
      case True
      then have "m < length db" "k < m"
        using law by (auto simp: m_def)
      then have "as_version (actor_of ap s0 (take m db)) \<noteq> as_version ?st"
        using wf by (simp add: actor_of_version wf_stream_take stream_current_inj wf_stream_iff)
      then show ?thesis
        using less.hyps [of m] \<open>k < m\<close> \<open>m < length db\<close> True applied Inr batch nxt
        by (subst actor_resync.simps) auto
    qed
  qed
qed

section \<open>One append\<close>

lemma append_events_result:
  fixes sc :: "('e, 'm) sierra_client"
  assumes laws: "sierra_laws sc" and wf: "wf_stream db" and k: "k \<le> length db"
    and "events \<noteq> []"
    and result: "append_events sc ap (actor_of ap s0 (take k db)) db events metadata t = (r, st', db')"
  defines "st \<equiv> actor_of ap s0 (take k db)"
  defines "appended_all \<equiv> k = length db \<and> wf_stream db' \<and> (\<exists>zs. db' = db @ zs) \<and>
    stream_events db' = stream_events db @ events"
  shows "case r of
      Inr appended \<Rightarrow> appended_all \<and> st' = actor_of ap s0 db' \<and>
        appended = zip events (map of_nat [length db..<length db'])
    | Inl None \<Rightarrow> False
    | Inl (Some (WrongVer c x)) \<Rightarrow> st' = st \<and> db' = db
    | Inl (Some (SierraOther msg)) \<Rightarrow> st' = st \<and> (db' = db \<or> appended_all)"
proof -
  let ?x = "sc_as_expected sc (stream_current (take k db))"
  define new where "new = new_events ?x events metadata t"
  define stored where "stored = number_from (of_nat (length db)) new"
  have version: "as_version st = stream_current (take k db)"
    using wf by (simp add: st_def actor_of_version wf_stream_take)
  have nxt: "sc_next sc (stream_current (take k db)) = of_nat k"
    using laws k by (simp add: sc_next_current)
  have sat_first: "sc_satisfied sc ?x (stream_current db)" if "all_satisfied (sc_satisfied sc) db new"
  proof -
    obtain e es where "events = e # es"
      using \<open>events \<noteq> []\<close> by (cases events) auto
    moreover have "nth_expected ?x 0 = ?x"
      by (simp add: nth_expected_def split: expected_version.split)
    ultimately show ?thesis
      using that by (simp add: new_def new_events_def)
  qed
  have full: "k = length db" if "all_satisfied (sc_satisfied sc) db new"
  proof -
    have "stream_current (take k db) = stream_current db"
      using sat_first [OF that] laws unfolding sierra_laws_def
      by (cases "stream_current (take k db)") (simp_all add: sat_simps)
    then show ?thesis
      using wf k by (simp add: stream_current_inj wf_stream_iff)
  qed
  have events: "stream_events (db @ stored) = stream_events db @ events"
    by (simp add: stored_def new_def)
  have law: "case sc_append sc db new of
        (Inr infos, db2) \<Rightarrow>
          all_satisfied (sc_satisfied sc) db new \<and> db2 = db @ stored \<and> wf_stream db2 \<and>
          infos = map se_stream_version stored
      | (Inl (WrongVer current expected), db2) \<Rightarrow>
          \<not> all_satisfied (sc_satisfied sc) db new \<and> db2 = db
      | (Inl (SierraOther msg), db2) \<Rightarrow>
          db2 = db \<or> all_satisfied (sc_satisfied sc) db new \<and> db2 = db @ stored \<and> wf_stream db2"
    unfolding stored_def
    using laws wf append_law_def [THEN iffD1, THEN spec, THEN spec, THEN mp, of sc db new]
    by (simp add: sierra_laws_def Let_def)
  obtain out db2 where out: "sc_append sc db new = (out, db2)"
    by (cases "sc_append sc db new")
  have unfolded: "(r, st', db') =
      (case out of Inl err \<Rightarrow> (Inl (Some err), st, db2)
       | Inr infos \<Rightarrow>
          (case actor_apply_all sc ap st (number_from (of_nat k) new) of
             None \<Rightarrow> (Inl None, st, db2)
           | Some st2 \<Rightarrow> (Inr (zip events infos), st2, db2)))"
    using result unfolding st_def [symmetric] append_events_def Let_def version nxt
      new_def [symmetric] out by simp
  show ?thesis
  proof (cases out)
    case (Inl err)
    then show ?thesis
      using unfolded law out full events
      by (cases err) (auto simp: appended_all_def)
  next
    case (Inr infos)
    then have ok: "k = length db" "db2 = db @ stored" "wf_stream db2" "infos = map se_stream_version stored"
      using law out full by auto
    have "number_from (of_nat k) new = stored"
      using ok by (simp add: stored_def)
    then have "actor_apply_all sc ap st (number_from (of_nat k) new) = Some (actor_of ap s0 db2)"
      using actor_apply_all_prefix [OF laws, of db stored ap s0] ok by (simp add: st_def)
    moreover have "infos = map of_nat [length db..<length db2]"
      using ok(2,4) by (simp add: stored_def map_add_upt [symmetric] comp_def add.commute)
    ultimately show ?thesis
      using unfolded Inr ok events by (auto simp: appended_all_def)
  qed
qed

section \<open>The retry loop\<close>

lemma actor_execute_Some:
  assumes "actor_execute sc exec st = Inr (Some events)"
  shows "sc_satisfied sc (ex_expected_version exec) (as_version st)"
    "\<not> ex_state_idempotent exec (as_entity st)" "ex_handle exec (as_entity st) = Ok events"
  using assms by (auto simp: actor_execute_def split: if_splits sum.splits)

lemma actor_execute_satisfied:
  "actor_execute sc exec st = Inr x \<Longrightarrow> sc_satisfied sc (ex_expected_version exec) (as_version st)"
  by (auto simp: actor_execute_def split: if_splits)

lemma actor_execute_no_panic: "actor_execute sc exec st \<noteq> Inl ActorPanicked"
  by (auto simp: actor_execute_def split: sum.splits option.splits)

lemma actor_attempt_append:
  fixes sc :: "('e, 'm) sierra_client"
  assumes laws: "sierra_laws sc" and c: "dispatches exec expect idem hnd c"
    and wf: "wf_stream db1" and k: "k \<le> length db1"
    and exec: "actor_execute sc exec (actor_of ap s0 (take k db1)) = Inr (Some events)" "events \<noteq> []"
    and full: "k = length db1" "stream_events db' = stream_events db1 @ events"
  shows "dispatch_step (sc_satisfied sc) expect idem ap hnd s0 (stream_events db1) (stream_events db')"
    "committed (sc_satisfied sc) ap s0 exec db1
       (zip events (map of_nat [length db1..<length db'])) db'"
proof -
  have st: "as_version (actor_of ap s0 (take k db1)) = stream_current db1"
    "as_entity (actor_of ap s0 (take k db1)) = replay ap s0 (stream_events db1)"
    using wf full(1) by (simp_all add: actor_of_version actor_of_entity)
  note facts = actor_execute_Some [OF exec(1), unfolded st]
  show "dispatch_step (sc_satisfied sc) expect idem ap hnd s0 (stream_events db1) (stream_events db')"
    unfolding full(2) using c facts
    by (intro dispatchI [of expect c "ex_expected_version exec"]) (auto simp: dispatches_def)
  have "length db' = length db1 + length events"
    using full(2) by (metis length_append length_map)
  then show "committed (sc_satisfied sc) ap s0 exec db1
       (zip events (map of_nat [length db1..<length db'])) db'"
    using facts full(2) by (simp add: committed_def)
qed

lemma decided_on_events:
  "events \<noteq> [] \<Longrightarrow> decided_on sat expected (Ok (Executed events)) st"
  by (cases events) simp_all

lemma sound_outcome_trans:
  assumes "step\<^sup>*\<^sup>* (stream_events db) (stream_events db2)"
    and "sound_outcome sat ap s0 step exec db2 outcome"
  shows "sound_outcome sat ap s0 step exec db outcome"
proof -
  obtain r st' db' where out: "outcome = Some (r, st', db')" "r \<noteq> Err ActorPanicked"
      "wf_stream db'" "actor_knows ap s0 db' st'" "decided_on sat (ex_expected_version exec) r st'"
      "step\<^sup>*\<^sup>* (stream_events db2) (stream_events db')"
    and ok: "\<And>appended. r = Ok (Executed appended) \<and> appended \<noteq> [] \<and> \<not> ex_dry_run exec \<Longrightarrow>
      st' = actor_of ap s0 db' \<and>
      (\<exists>db1. step\<^sup>*\<^sup>* (stream_events db2) (stream_events db1) \<and>
         committed sat ap s0 exec db1 appended db')"
    using assms(2) unfolding sound_outcome_def by blast
  have "\<forall>appended. r = Ok (Executed appended) \<and> appended \<noteq> [] \<and> \<not> ex_dry_run exec \<longrightarrow>
      st' = actor_of ap s0 db' \<and>
      (\<exists>db1. step\<^sup>*\<^sup>* (stream_events db) (stream_events db1) \<and>
         committed sat ap s0 exec db1 appended db')"
    using ok rtranclp_trans [OF assms(1)] by blast
  then show ?thesis
    unfolding sound_outcome_def using out(1-5) rtranclp_trans [OF assms(1) out(6)] by blast
qed

lemma sound_outcome_quiet:
  assumes "wf_stream db" "actor_knows ap s0 db st" "r \<noteq> Err ActorPanicked"
    and "decided_on sat (ex_expected_version exec) r st"
    and "\<And>appended. r = Ok (Executed appended) \<Longrightarrow> appended = [] \<or> ex_dry_run exec"
  shows "sound_outcome sat ap s0 step exec db (Some (r, st, db))"
  using assms by (auto simp: sound_outcome_def)

lemma sound_outcome_committed:
  assumes "appended \<noteq> []" "wf_stream db'" "step (stream_events db1) (stream_events db')"
    and "committed sat ap s0 exec db1 appended db'"
  shows "sound_outcome sat ap s0 step exec db1
    (Some (Ok (Executed appended), actor_of ap s0 db', db'))"
  unfolding sound_outcome_def
proof (intro exI conjI allI impI refl)
  show "actor_knows ap s0 db' (actor_of ap s0 db')"
    using actor_knows_take [of "length db'" db' ap s0] by simp
  show "step\<^sup>*\<^sup>* (stream_events db1) (stream_events db1)"
    by simp
  fix appended'
  assume "Ok (Executed appended) = Ok (Executed appended') \<and> appended' \<noteq> [] \<and> \<not> ex_dry_run exec"
  then show "committed sat ap s0 exec db1 appended' db'"
    using assms(4) by simp
next
  show "decided_on sat (ex_expected_version exec) (Ok (Executed appended)) (actor_of ap s0 db')"
    using assms(1) by (rule decided_on_events)
qed (use assms in auto)

lemma actor_attempt_unfold:
  assumes "actor_execute sc exec st = Inr (Some events)" "events \<noteq> []" "\<not> ex_dry_run exec"
    and "append_events sc ap st (env (2 * n) db) events (ex_metadata exec) (ex_time exec) = (r, st', db')"
  shows "actor_attempt sc ap env exec n st db =
    (case r of
       Inr appended \<Rightarrow> Some (Ok (Executed appended), st', db')
     | Inl None \<Rightarrow> Some (Err ActorPanicked, st', db')
     | Inl (Some (SierraOther msg)) \<Rightarrow> Some (Err (DatabaseError (SierraOther msg)), st', db')
     | Inl (Some (WrongVer current expected)) \<Rightarrow>
         (case n of
            0 \<Rightarrow> Some (Err TooManyConflicts, st', db')
          | Suc k \<Rightarrow>
              (case actor_resync sc ap (env (2 * n + 1) db') st' of
                 None \<Rightarrow> None
               | Some (Some err, st'') \<Rightarrow> Some (Err err, st'', env (2 * n + 1) db')
               | Some (None, st'') \<Rightarrow> actor_attempt sc ap env exec k st'' (env (2 * n + 1) db'))))"
  using assms by (subst actor_attempt.simps) (simp split: sum.split option.split sierra_error.split)

lemma actor_attempt_quiet:
  assumes "\<nexists>events. actor_execute sc exec st = Inr (Some events) \<and> events \<noteq> [] \<and> \<not> ex_dry_run exec"
  shows "\<exists>r. actor_attempt sc ap env exec n st db = Some (r, st, db) \<and> r \<noteq> Err ActorPanicked \<and>
    decided_on (sc_satisfied sc) (ex_expected_version exec) r st \<and>
    (\<forall>appended. r = Ok (Executed appended) \<longrightarrow> appended = [] \<or> ex_dry_run exec)"
proof (cases "actor_execute sc exec st")
  case (Inl err)
  then show ?thesis
    using actor_execute_no_panic [of sc exec st] by (subst actor_attempt.simps) simp
next
  case (Inr x)
  then show ?thesis
    using assms actor_execute_satisfied [OF Inr] by (cases x; subst actor_attempt.simps)
      (auto intro!: decided_on_events simp: enumerate_eq_zip)
qed

lemma actor_retry_sound:
  fixes sc :: "('e, 'm) sierra_client" and exec :: "('s, 'e, 'm, 'err) execute_msg"
  assumes laws: "sierra_laws sc" and env: "env_dispatches env step"
    and wf: "wf_stream db" and "actor_knows ap s0 db st"
    and IH: "\<And>st' db'. wf_stream db' \<Longrightarrow> actor_knows ap s0 db' st' \<Longrightarrow>
      sound_outcome sat ap s0 step exec db' (actor_attempt sc ap env exec k st' db')"
  shows "sound_outcome sat ap s0 step exec db
    (case actor_resync sc ap (env i db) st of
       None \<Rightarrow> None
     | Some (Some err, st'') \<Rightarrow> Some (Err err, st'', env i db)
     | Some (None, st'') \<Rightarrow> actor_attempt sc ap env exec k st'' (env i db))"
proof -
  obtain zs where db2: "env i db = db @ zs" "wf_stream (env i db)"
      "step\<^sup>*\<^sup>* (stream_events db) (stream_events (env i db))"
    using env wf unfolding env_dispatches_def by blast
  obtain m where m: "m \<le> length (env i db)" "st = actor_of ap s0 (take m (env i db))"
    using actor_knows_append [OF assms(4), of zs] db2(1) by (auto simp: actor_knows_def)
  obtain e :: "'err execute_error option" and st2 where resync: "actor_resync sc ap (env i db) st = Some (e, st2)"
      "actor_knows ap s0 (env i db) st2"
      "case e of None \<Rightarrow> st2 = actor_of ap s0 (env i db) | Some err \<Rightarrow> \<exists>x. err = DatabaseError x"
    using actor_resync_result [OF laws db2(2) m(1), of ap s0] m(2) by blast
  show ?thesis
  proof (rule sound_outcome_trans [OF db2(3)], cases e)
    case None
    then show "sound_outcome sat ap s0 step exec (env i db)
      (case actor_resync sc ap (env i db) st of
         None \<Rightarrow> None
       | Some (Some err, st'') \<Rightarrow> Some (Err err, st'', env i db)
       | Some (None, st'') \<Rightarrow> actor_attempt sc ap env exec k st'' (env i db))"
      using IH [OF db2(2) resync(2)] resync(1) by simp
  next
    case (Some err)
    then show "sound_outcome sat ap s0 step exec (env i db)
      (case actor_resync sc ap (env i db) st of
         None \<Rightarrow> None
       | Some (Some err, st'') \<Rightarrow> Some (Err err, st'', env i db)
       | Some (None, st'') \<Rightarrow> actor_attempt sc ap env exec k st'' (env i db))"
      using resync(1,3) by (auto intro!: sound_outcome_quiet [OF db2(2) resync(2)])
  qed
qed

lemma actor_attempt_sound:
  fixes sc :: "('e, 'm) sierra_client"
  assumes laws: "sierra_laws sc" and c: "dispatches exec expect idem hnd c"
    and step: "step = dispatch_step (sc_satisfied sc) expect idem ap hnd s0"
    and env: "env_dispatches env step"
    and "wf_stream db" "actor_knows ap s0 db st"
  shows "sound_outcome (sc_satisfied sc) ap s0 step exec db (actor_attempt sc ap env exec n st db)"
  using assms(5,6)
proof (induction n arbitrary: st db rule: less_induct)
  case (less n)
  show ?case
  proof (cases "\<exists>events. actor_execute sc exec st = Inr (Some events) \<and> events \<noteq> [] \<and> \<not> ex_dry_run exec")
    case False
    then obtain r where "actor_attempt sc ap env exec n st db = Some (r, st, db)"
        "r \<noteq> Err ActorPanicked" "decided_on (sc_satisfied sc) (ex_expected_version exec) r st"
        "\<forall>appended. r = Ok (Executed appended) \<longrightarrow> appended = [] \<or> ex_dry_run exec"
      using actor_attempt_quiet by blast
    then show ?thesis
      by (simp add: sound_outcome_quiet [OF less.prems])
  next
    case True
    then obtain events where ex: "actor_execute sc exec st = Inr (Some events)" "events \<noteq> []"
        "\<not> ex_dry_run exec"
      by blast
    define db1 where "db1 = env (2 * n) db"
    obtain zs where db1: "db1 = db @ zs" "wf_stream db1" "step\<^sup>*\<^sup>* (stream_events db) (stream_events db1)"
      using env less.prems(1) unfolding env_dispatches_def db1_def by blast
    obtain k where k: "k \<le> length db1" "st = actor_of ap s0 (take k db1)"
      using actor_knows_append [OF less.prems(2), of zs] db1(1) by (auto simp: actor_knows_def)
    obtain r st' db' where app:
        "append_events sc ap st db1 events (ex_metadata exec) (ex_time exec) = (r, st', db')"
      by (cases "append_events sc ap st db1 events (ex_metadata exec) (ex_time exec)") auto
    note result = append_events_result [OF laws db1(2) k(1) ex(2) app [unfolded k(2)]]
    note accepted = actor_attempt_append [OF laws c db1(2) k(1) ex(1,2) [unfolded k(2)]]
    note unfold = actor_attempt_unfold [of sc exec st events ap env n db, OF ex app [unfolded db1_def]]
    have known: "actor_knows ap s0 db1 st"
      using actor_knows_take [OF k(1)] k(2) by simp
    have "sound_outcome (sc_satisfied sc) ap s0 step exec db1 (actor_attempt sc ap env exec n st db)"
    proof (cases r)
      case (Inr appended)
      then have ok: "k = length db1" "wf_stream db'" "stream_events db' = stream_events db1 @ events"
        "st' = actor_of ap s0 db'" "appended = zip events (map of_nat [length db1..<length db'])"
        using result by auto
      have "length db' = length db1 + length events"
        using ok(3) by (metis length_append length_map)
      then have "appended \<noteq> []"
        using ex(2) ok(5) by simp
      then have "sound_outcome (sc_satisfied sc) ap s0 step exec db1
          (Some (Ok (Executed appended), actor_of ap s0 db', db'))"
        using accepted [OF ok(1,3)] ok(2,5) unfolding step by (intro sound_outcome_committed) simp_all
      then show ?thesis
        unfolding unfold Inr by (simp add: ok(4))
    next
      case (Inl err)
      then have "err \<noteq> None"
        using result by (cases err) simp_all
      then consider (other) msg where "err = Some (SierraOther msg)"
        | (conflict) cur expd where "err = Some (WrongVer cur expd)"
        by (metis option.exhaust sierra_error.exhaust)
      then show ?thesis
      proof cases
        case other
        then have "st' = st" and alt: "db' = db1 \<or> k = length db1 \<and> wf_stream db' \<and>
            (\<exists>zs. db' = db1 @ zs) \<and> stream_events db' = stream_events db1 @ events"
          using result Inl k(2) by simp_all
        moreover have "actor_knows ap s0 db' st"
          using alt known actor_knows_append [OF known] by blast
        moreover have "step\<^sup>*\<^sup>* (stream_events db1) (stream_events db')" "wf_stream db'"
          using alt accepted(1) [of db'] db1(2) unfolding step by blast+
        ultimately show ?thesis
          unfolding unfold Inl other by (simp add: sound_outcome_def)
      next
        case conflict
        then have same: "st' = st" "db' = db1"
          using result Inl k(2) by auto
        show ?thesis
        proof (cases n)
          case 0
          then show ?thesis
            unfolding unfold Inl conflict same
            using sound_outcome_quiet [OF db1(2) known, of "Err TooManyConflicts" "sc_satisfied sc" exec] by simp
        next
          case (Suc m)
          show ?thesis
            unfolding unfold Inl conflict same
            unfolding Suc sum.case option.case sierra_error.case nat.case
            by (rule actor_retry_sound [OF laws env db1(2) known]) (rule less.IH, simp_all add: Suc)
        qed
      qed
    qed
    then show ?thesis
      by (rule sound_outcome_trans [OF db1(3)])
  qed
qed

lemma actor_handle_sound:
  assumes "sierra_laws sc" "dispatches exec expect idem hnd c"
    and "env_dispatches env (dispatch_step (sc_satisfied sc) expect idem ap hnd s0)"
    and "wf_stream db" "actor_knows ap s0 db st"
  shows "sound_outcome (sc_satisfied sc) ap s0 (dispatch_step (sc_satisfied sc) expect idem ap hnd s0)
    exec db (actor_handle sc ap env partition_key exec st db)"
proof (cases "ex_partition_key exec = partition_key")
  case True
  then show ?thesis
    using actor_attempt_sound [OF assms(1,2) refl assms(3-5)] by (simp add: actor_handle_def)
next
  case False
  then show ?thesis
    using assms(4,5) by (auto simp: actor_handle_def intro: sound_outcome_quiet)
qed

section \<open>Causation tracking\<close>

lemma tracking_covers:
  assumes "e \<in> set db" "md_causation_command (se_metadata e) = Some cmd"
    and "md_causation_event (se_metadata e) = Some ev"
  shows "\<exists>mx cmds. as_causation_tracking (actor_of ap s0 db) (ec_stream_id ev) = Some (mx, cmds) \<and>
    (ec_stream_version ev < mx \<or> ec_stream_version ev = mx \<and> cmd \<in> set cmds)"
  using assms(1)
proof (induction db rule: rev_induct)
  case (snoc x db)
  let ?t = "as_causation_tracking (actor_of ap s0 db)"
  have push: "as_causation_tracking (actor_of ap s0 (db @ [x])) =
      track_causation (md_causation_command (se_metadata x)) (md_causation_event (se_metadata x)) ?t"
    by (simp add: actor_of_def actor_push_def)
  show ?case
  proof (cases "x = e")
    case True
    then show ?thesis
      using assms(2,3) unfolding push
      by (auto simp: track_causation_def split: option.splits)
  next
    case False
    then obtain mx cmds where "?t (ec_stream_id ev) = Some (mx, cmds)"
        "ec_stream_version ev < mx \<or> ec_stream_version ev = mx \<and> cmd \<in> set cmds"
      using snoc by auto
    then show ?thesis
      unfolding push
      by (auto simp: track_causation_def split: option.splits prod.splits)
  qed
qed simp

section \<open>A store that keeps the laws\<close>

definition reference_append ::
  "('e, 'm) stored_event list \<Rightarrow> ('e, 'm) append_entry list \<Rightarrow>
   (sierra_error + u64 list) \<times> ('e, 'm) stored_event list" where
  "reference_append db new =
     (let stored = number_from (of_nat (length db)) new in
      if \<not> all_satisfied reference_satisfied db new
        then (Inl (WrongVer (stream_current db) (fst (new ! 0))), db)
      else if 2 ^ 64 \<le> length db + length new then (Inl (SierraOther ''stream full''), db)
      else (Inr (map se_stream_version stored), db @ stored))"

definition reference_scan ::
  "('e, 'm) stored_event list \<Rightarrow> u64 \<Rightarrow> nat \<Rightarrow>
   sierra_error + ('e, 'm) stored_event list \<times> bool" where
  "reference_scan db start limit =
     (let events = take (max 1 limit) (drop (unat start) db)
      in Inr (events, unat start + length events < length db))"

definition reference_client :: "('e, 'm) sierra_client" where
  "reference_client =
     \<lparr>sc_satisfied = reference_satisfied,
      sc_next = (\<lambda>c. case c of CurrentEmpty \<Rightarrow> 0 | Current v \<Rightarrow> v + 1),
      sc_as_expected = (\<lambda>c. case c of CurrentEmpty \<Rightarrow> EmptyVersion | Current v \<Rightarrow> Exact v),
      sc_append = reference_append, sc_scan = reference_scan\<rparr>"

lemma number_from_positions:
  "map se_stream_version (number_from (of_nat n) new) = map of_nat [n..<n + length new]"
  unfolding number_from_simps by (rule nth_equalityI) simp_all

lemma wf_stream_number_from:
  assumes "wf_stream db" "length db + length new < 2 ^ 64"
  shows "wf_stream (db @ number_from (of_nat (length db)) new)"
proof -
  have "[0..<length db + length new] = [0..<length db] @ [length db..<length db + length new]"
    by (rule upt_add_eq_append) simp
  moreover have "map se_stream_version db = map of_nat [0..<length db]"
    using assms(1) unfolding wf_stream_def ..
  ultimately show ?thesis
    using assms(2)
    by (simp only: wf_stream_def map_append number_from_positions length_append number_from_simps(1))
qed

lemma reference_client_laws: "sierra_laws reference_client"
proof -
  have "append_law (reference_client :: ('e, 'm) sierra_client)"
    unfolding append_law_def
    by (auto simp: reference_client_def reference_append_def Let_def not_le
        intro!: wf_stream_number_from)
  moreover have "scan_law (reference_client :: ('e, 'm) sierra_client)"
    unfolding scan_law_def
    by (auto simp: reference_client_def reference_scan_def Let_def min_def)
  ultimately show ?thesis
    by (simp add: sierra_laws_def reference_client_def reference_laws)
qed

section \<open>Properties\<close>


text \<open>
  C20. Catching up ends: from any prefix of the stream that an actor knows, the resynchronisation
  loop terminates; it ends without an assertion failure, and unless the database reports an error
  the actor then knows the whole stream.
\<close>

theorem actor_resync_terminates:
  assumes "sierra_laws sc" "wf_stream db" "actor_knows ap s0 db st"
  shows "\<exists>r st'. actor_resync sc ap db st = Some (r, st') \<and>
    (r = None \<and> st' = actor_of ap s0 db \<or> (\<exists>e. r = Some (DatabaseError e)))"
proof -
  obtain k where "k \<le> length db" "st = actor_of ap s0 (take k db)"
    using assms(3) by (auto simp: actor_knows_def)
  then show ?thesis
    using actor_resync_result [OF assms(1,2), of k ap s0] by (fastforce split: option.splits)
qed

text \<open>
  C19. Effects of an event are applied at most once: if an event of the stream was produced by a
  command with a causing event, then every later dispatch with the same command name and the same
  causing event is skipped, also after any number of further events.
\<close>

theorem causation_at_most_once:
  assumes "e \<in> set db" "md_causation_command (se_metadata e) = Some cmd"
    and "md_causation_event (se_metadata e) = Some ev"
    and "md_causation_command metadata = Some cmd" "md_causation_event metadata = Some ev"
  shows "should_skip metadata (as_causation_tracking (actor_of ap s0 db))"
  using tracking_covers [OF assms(1-3), of ap s0] assms(4,5)
  by (auto simp: should_skip_def check_causation_def)

text \<open>
  A stream with one event in the reference store and a message that expects exactly this version.
\<close>

definition sample_message :: "(nat, nat, unit, string) execute_msg" where
  "sample_message =
     \<lparr>ex_partition_key = 0,
      ex_metadata = \<lparr>md_causation_command = Some ''add'', md_causation_event = None, md_data = None\<rparr>,
      ex_expected_version = Exact 0, ex_time = 0, ex_now = 0, ex_dry_run = False,
      ex_command_name = ''add'', ex_rate_limit = None, ex_state_idempotent = (\<lambda>s. False),
      ex_handle = (\<lambda>s. Ok [s + 1])\<rparr>"

definition sample_stream :: "(nat, unit) stored_event list" where
  "sample_stream = number_from 0 [(EmptyVersion, 7, ex_metadata sample_message, 0)]"

lemma sample_stream_ok:
  "wf_stream sample_stream" "actor_knows (+) 0 sample_stream (actor_of (+) 0 sample_stream)"
  using actor_knows_take [of 1 sample_stream "(+)" 0]
  by (simp_all add: wf_stream_def sample_stream_def)


theorem actor_resync_terminates_witness:
  "\<exists>r st'. actor_resync reference_client (+) sample_stream (actor_of (+) 0 sample_stream) =
      Some (r :: string execute_error option, st') \<and>
    (r = None \<and> st' = actor_of (+) 0 sample_stream \<or> (\<exists>e. r = Some (DatabaseError e)))"
  by (rule actor_resync_terminates [OF reference_client_laws sample_stream_ok])

theorem causation_at_most_once_witness:
  "should_skip
     \<lparr>md_causation_command = Some ''add'', md_causation_event =
        Some \<lparr>ec_event_id = 1, ec_stream_id = ''scene-1'', ec_stream_version = 3\<rparr>, md_data = None\<rparr>
     (as_causation_tracking (actor_of (+) (0 :: nat) (number_from 0 [(EmptyVersion, 7,
        \<lparr>md_causation_command = Some ''add'', md_causation_event =
           Some \<lparr>ec_event_id = 1, ec_stream_id = ''scene-1'', ec_stream_version = 3\<rparr>,
         md_data = None :: unit option\<rparr>, 0)])))"
  by (rule causation_at_most_once, simp) simp_all

end
