(* ===== verification/Command_Adapters.thy ===== *)
theory Command_Adapters
  imports Domain_Error Entity_Actor
begin

text \<open>
  The command adapters of \<open>backend/crates/infra/src/event_store/command_adapters.rs\<close>:
  the version checks before a dispatch, the mapping of what the entity actor
  reports into the result of the port, and the two call shapes that all adapter
  methods have (a create against an empty stream, an update against an exact
  version). \<open>conv\<close> is the \<open>From\<close> conversion of the aggregate's error, \<open>show_err\<close> the
  \<open>Display\<close> text of the remaining execution errors.
\<close>

section \<open>Version checks\<close>

definition check_nonzero_version :: "aggregate_version \<Rightarrow> domain_error + unit" where
  "check_nonzero_version version = (if version = 0 then Err (VersionConflict 0 0) else Ok ())"

definition domain_to_stream_checked :: "aggregate_version \<Rightarrow> domain_error + u64" where
  "domain_to_stream_checked version =
     (if version = 0 then Err (VersionConflict 0 0) else Ok (version - 1))"

section \<open>Results\<close>

fun map_executed_result ::
  "('err \<Rightarrow> domain_error) \<Rightarrow> ('err execute_error \<Rightarrow> string) \<Rightarrow> 'i \<Rightarrow>
   'err execute_error + 'e execute_result \<Rightarrow> domain_error + 'i \<times> aggregate_version" where
  "map_executed_result conv show_err i (Inr (Executed events)) =
     (if events = [] then Err (domain_conflict ''command produced no events'')
      else Ok (i, stream_to_domain (snd (last events))))"
| "map_executed_result conv show_err i (Inr (Idempotent current)) = Ok (i, version_from_current current)"
| "map_executed_result conv show_err i (Inr (PendingTransaction _ _)) =
     Err (domain_conflict ''pending transaction not supported'')"
| "map_executed_result conv show_err i (Inl (HandleError err)) = Err (conv err)"
| "map_executed_result conv show_err i (Inl (IncorrectExpectedVersion current expected)) =
     Err (VersionConflict 0 (version_from_current current))"
| "map_executed_result conv show_err i (Inl err) = Err (domain_conflict (show_err err))"

definition map_version_only ::
  "('err \<Rightarrow> domain_error) \<Rightarrow> ('err execute_error \<Rightarrow> string) \<Rightarrow>
   'err execute_error + 'e execute_result \<Rightarrow> domain_error + aggregate_version" where
  "map_version_only conv show_err result =
     and_then (map_executed_result conv show_err nil_uuid result) (\<lambda>(i, version). Ok version)"

definition map_executed ::
  "('err \<Rightarrow> domain_error) \<Rightarrow> ('err execute_error \<Rightarrow> string) \<Rightarrow> 'i \<Rightarrow>
   'err execute_error + 'e execute_result \<Rightarrow> domain_error + 'i \<times> aggregate_version" where
  "map_executed conv show_err i result = map_executed_result conv show_err i result"

fun map_state_based_noop ::
  "('err \<Rightarrow> domain_error) \<Rightarrow> ('err execute_error \<Rightarrow> string) \<Rightarrow>
   'err execute_error + 'e execute_result \<Rightarrow> aggregate_version \<Rightarrow> domain_error + aggregate_version" where
  "map_state_based_noop conv show_err (Inr (Executed [])) version = Ok version"
| "map_state_based_noop conv show_err other version = map_version_only conv show_err other"

section \<open>The adapter methods\<close>

text \<open>
  An update: the version is checked and becomes the expected stream version, the message is
  handled by the actor, and \<open>mapping\<close> (\<open>map_version_only\<close>, or \<open>map_state_based_noop\<close> where the
  method has it) turns the outcome into the result.
\<close>

definition adapter_update ::
  "('e, 'm) sierra_client \<Rightarrow> ('s \<Rightarrow> 'e \<Rightarrow> 's) \<Rightarrow>
   (nat \<Rightarrow> ('e, 'm) stored_event list \<Rightarrow> ('e, 'm) stored_event list) \<Rightarrow>
   ('err execute_error + 'e execute_result \<Rightarrow> aggregate_version \<Rightarrow> domain_error + aggregate_version) \<Rightarrow>
   ('s, 'e, 'm, 'err) execute_msg \<Rightarrow> aggregate_version \<Rightarrow> 's actor_state \<Rightarrow>
   ('e, 'm) stored_event list \<Rightarrow>
   ((domain_error + aggregate_version) \<times> 's actor_state \<times> ('e, 'm) stored_event list) option" where
  "adapter_update sc ap env mapping msg version st db =
     (case and_then (check_nonzero_version version) (\<lambda>_. domain_to_stream_checked version) of
        Inl err \<Rightarrow> Some (Err err, st, db)
      | Inr stream_version \<Rightarrow>
          map_option (\<lambda>(r, st', db'). (mapping r version, st', db'))
            (actor_handle sc ap env (ex_partition_key msg)
               (msg\<lparr>ex_expected_version := Exact stream_version\<rparr>) st db))"

definition adapter_create ::
  "('e, 'm) sierra_client \<Rightarrow> ('s \<Rightarrow> 'e \<Rightarrow> 's) \<Rightarrow>
   (nat \<Rightarrow> ('e, 'm) stored_event list \<Rightarrow> ('e, 'm) stored_event list) \<Rightarrow>
   ('err \<Rightarrow> domain_error) \<Rightarrow> ('err execute_error \<Rightarrow> string) \<Rightarrow> 'i \<Rightarrow>
   ('s, 'e, 'm, 'err) execute_msg \<Rightarrow> 's actor_state \<Rightarrow> ('e, 'm) stored_event list \<Rightarrow>
   ((domain_error + 'i \<times> aggregate_version) \<times> 's actor_state \<times> ('e, 'm) stored_event list) option" where
  "adapter_create sc ap env conv show_err i msg st db =
     map_option (\<lambda>(r, st', db'). (map_executed conv show_err i r, st', db'))
       (actor_handle sc ap env (ex_partition_key msg)
          (msg\<lparr>ex_expected_version := EmptyVersion\<rparr>) st db)"

text \<open>The mappings an adapter method may use for an update.\<close>

definition update_mapping ::
  "('err execute_error + 'e execute_result \<Rightarrow> aggregate_version \<Rightarrow> domain_error + aggregate_version) \<Rightarrow>
   bool" where
  "update_mapping mapping \<longleftrightarrow>
     (\<exists>conv show_err. mapping = (\<lambda>r _. map_version_only conv show_err r) \<or>
        mapping = map_state_based_noop conv show_err)"

section \<open>Lemmas\<close>

lemma version_checks:
  "and_then (check_nonzero_version v) (\<lambda>_. domain_to_stream_checked v) =
     (if v = 0 then Err (VersionConflict 0 0) else Ok (v - 1))"
  by (simp add: check_nonzero_version_def domain_to_stream_checked_def)

lemma map_state_based_noop_other:
  "r \<noteq> Inr (Executed []) \<Longrightarrow>
   map_state_based_noop conv show_err r v = map_version_only conv show_err r"
  by (cases "(conv, show_err, r, v)" rule: map_state_based_noop.cases) simp_all

lemma update_mapping_Ok:
  assumes "update_mapping mapping" "mapping r v = Ok v'"
  shows "r = Ok (Executed []) \<and> v' = v \<or>
    (\<exists>events. r = Ok (Executed events) \<and> events \<noteq> [] \<and> v' = stream_to_domain (snd (last events))) \<or>
    (\<exists>current. r = Ok (Idempotent current) \<and> v' = version_from_current current)"
proof -
  have only: "(\<exists>events. r = Ok (Executed events) \<and> events \<noteq> [] \<and>
      v' = stream_to_domain (snd (last events))) \<or>
    (\<exists>current. r = Ok (Idempotent current) \<and> v' = version_from_current current)"
    if "map_version_only conv show_err r = Ok v'" for conv show_err
    using that by (cases "(conv, show_err, nil_uuid, r)" rule: map_executed_result.cases)
      (auto simp: map_version_only_def split: if_splits)
  show ?thesis
    using assms only map_state_based_noop_other [of r] unfolding update_mapping_def
    by (cases "r = Inr (Executed [])") auto
qed

section \<open>The version an adapter returns\<close>

text \<open>In any aggregate with the version discipline, the version in the result of an update is the
  version of the state that the actor has after it: the one to send with the next update.\<close>

context versioned_aggregate
begin

lemma prefix_version:
  assumes "expected_version_laws sat" "history sat expect idem ap hnd s0 es" "0 < k" "k \<le> length es"
  shows "state_version (replay ap s0 (take k es)) = of_nat k"
proof -
  have "take k es \<noteq> []"
    using assms(3,4) by auto
  moreover from this have "last (take k es) = es ! (k - 1)"
    using assms(3,4) by (subst last_conv_nth) (simp_all add: min_def)
  ultimately have "state_version (replay ap s0 (take k es)) = stream_to_domain (of_nat (k - 1))"
    using event_versions [OF assms(1,2), of "k - 1"] assms(3,4) by (simp add: replay_def foldl_version)
  then show ?thesis
    using assms(3) by (cases k) (simp_all add: stream_to_domain_def add.commute)
qed

lemma actor_version:
  assumes "expected_version_laws sat" "history sat expect idem ap hnd s0 (stream_events db)"
    and "wf_stream db" "actor_knows ap s0 db st" "as_version st \<noteq> CurrentEmpty"
  shows "state_version (as_entity st) = version_from_current (as_version st)"
proof -
  obtain k where k: "k \<le> length db" "st = actor_of ap s0 (take k db)"
    using assms(4) by (auto simp: actor_knows_def)
  have cur: "as_version st = stream_current (take k db)"
    using k assms(3) by (simp add: actor_of_version wf_stream_take)
  then have "0 < k"
    using assms(5) k(1) by (cases k) auto
  then have "state_version (as_entity st) = of_nat k"
    using prefix_version [OF assms(1,2)] k by (simp add: actor_of_entity take_map)
  moreover have "version_from_current (stream_current (take k db)) = of_nat k"
    using \<open>0 < k\<close> k(1)
    by (cases k) (auto simp: stream_current_def version_from_current_def stream_to_domain_def)
  ultimately show ?thesis
    using cur by simp
qed

lemma adapter_update_version:
  assumes laws: "sierra_laws sc"
    and hist: "history (sc_satisfied sc) expect idem ap hnd s0 (stream_events db)"
    and env: "env_dispatches env (dispatch_step (sc_satisfied sc) expect idem ap hnd s0)"
    and db: "wf_stream db" "actor_knows ap s0 db st"
    and msg: "dispatches (msg\<lparr>ex_expected_version := Exact (v - 1)\<rparr>) expect idem hnd c"
      "\<not> ex_dry_run msg"
    and mapping: "update_mapping mapping"
    and result: "adapter_update sc ap env mapping msg v st db = Some (Ok v', st', db')"
  shows "history (sc_satisfied sc) expect idem ap hnd s0 (stream_events db')"
    "v' = state_version (as_entity st')" "actor_knows ap s0 db' st'"
proof -
  let ?msg = "msg\<lparr>ex_expected_version := Exact (v - 1)\<rparr>"
  have sat: "expected_version_laws (sc_satisfied sc)"
    using laws by (simp add: sierra_laws_def)
  obtain r where r: "actor_handle sc ap env (ex_partition_key msg) ?msg st db = Some (r, st', db')"
      "mapping r v = Ok v'"
    using result by (auto simp: adapter_update_def version_checks split: if_splits)
  have sound: "sound_outcome (sc_satisfied sc) ap s0
      (dispatch_step (sc_satisfied sc) expect idem ap hnd s0) ?msg db (Some (r, st', db'))"
    using actor_handle_sound [OF laws msg(1) env db, of "ex_partition_key msg"] r(1) by simp
  then have out: "wf_stream db'" "actor_knows ap s0 db' st'"
      "decided_on (sc_satisfied sc) (Exact (v - 1)) r st'"
      "(dispatch_step (sc_satisfied sc) expect idem ap hnd s0)\<^sup>*\<^sup>* (stream_events db) (stream_events db')"
    by (auto simp: sound_outcome_def)
  show hist': "history (sc_satisfied sc) expect idem ap hnd s0 (stream_events db')"
    using hist out(4) unfolding history_def by (rule rtranclp_trans)
  show "actor_knows ap s0 db' st'"
    by (rule out(2))
  note version = actor_version [OF sat hist' out(1,2)]
  from update_mapping_Ok [OF mapping r(2)] show "v' = state_version (as_entity st')"
  proof (elim disjE exE conjE)
    assume "r = Ok (Executed [])" "v' = v"
    then show ?thesis
      using out(3) sat version
      by (simp add: sat_simps version_from_current_def stream_to_domain_def)
  next
    fix current
    assume "r = Ok (Idempotent current)" "v' = version_from_current current"
    then show ?thesis
      using out(3) sat version by (simp add: sat_simps)
  next
    fix events
    assume ev: "r = Ok (Executed events)" "events \<noteq> []" "v' = stream_to_domain (snd (last events))"
    then obtain db1 where "st' = actor_of ap s0 db'"
        "committed (sc_satisfied sc) ap s0 ?msg db1 events db'"
      using sound msg(2) by (auto simp: sound_outcome_def)
    then have st': "st' = actor_of ap s0 db'" and
      len: "length db' = length db1 + length events" and
      last: "snd (last events) = last (map of_nat [length db1..<length db'])"
      using ev(2) unfolding committed_def
      by (auto simp: last_map [symmetric] dest: arg_cong [where f = length])
    have "db' \<noteq> []"
      using len ev(2) by auto
    then have "stream_current db' = Current (snd (last events))"
      using len ev(2) last by (simp add: stream_current_def last_map)
    then show ?thesis
      using version st' ev(3) out(1) by (simp add: actor_of_version version_from_current_def)
  qed
qed

end

section \<open>Properties\<close>

text \<open>C3. A scene update that an adapter reports as successful returns the version of the scene that
  the actor then holds, and leaves a stream that commands alone have produced, of which the actor has
  read a prefix: whatever the other writers appended meanwhile, the client can send the returned
  version with its next update.\<close>

theorem scene_update_returns_version:
  assumes "sierra_laws sc"
    and "history (sc_satisfied sc) scene_expect scene_idempotent scene_apply scene_handle
      (scene_default fresh) (stream_events db)"
    and "env_dispatches env (dispatch_step (sc_satisfied sc) scene_expect scene_idempotent scene_apply
      scene_handle (scene_default fresh))"
    and "wf_stream db" "actor_knows scene_apply (scene_default fresh) db st"
    and "dispatches (msg\<lparr>ex_expected_version := Exact (v - 1)\<rparr>) scene_expect scene_idempotent
      scene_handle c" "\<not> ex_dry_run msg"
    and "update_mapping mapping"
    and "adapter_update sc scene_apply env mapping msg v st db = Some (Ok v', st', db')"
  shows "v' = scene_version (as_entity st') \<and>
    actor_knows scene_apply (scene_default fresh) db' st' \<and>
    history (sc_satisfied sc) scene_expect scene_idempotent scene_apply scene_handle
      (scene_default fresh) (stream_events db')"
  using scene_versions.adapter_update_version [OF assms] by blast

text \<open>A handler that emits nothing is answered with no events and changes nothing.\<close>

lemma silent_command_handled:
  assumes "sierra_laws sc" "as_version st = Current n" "ex_expected_version msg = Exact n"
    and "ex_rate_limit msg = None" "md_causation_event (ex_metadata msg) = None"
    and "\<not> ex_state_idempotent msg (as_entity st)" "ex_handle msg (as_entity st) = Ok []"
  shows "actor_handle sc ap env (ex_partition_key msg) msg st db = Some (Ok (Executed []), st, db)"
  using assms
  by (simp add: actor_handle_def actor_attempt.simps actor_execute_def rate_limited_def should_skip_def
      check_causation_def sierra_laws_def sat_simps)

text \<open>Setting the category that a character already has is refused with the conflict ``command
  produced no events'': the handler emits nothing, and \<open>update_category\<close> maps the empty result with
  \<open>map_version_only\<close>.\<close>

theorem character_category_noop_conflicts:
  assumes "sierra_laws sc" "as_version st = Current (v - 1)" "v \<noteq> 0"
    and "character_version (as_entity st) = v" "\<not> character_deleted (as_entity st)"
    and "character_category (as_entity st) = cat"
    and "dispatches (msg\<lparr>ex_expected_version := Exact (v - 1)\<rparr>) character_expect never_idempotent
      character_handle (UpdateCharacterCategory i p cat v)"
    and "ex_rate_limit msg = None" "md_causation_event (ex_metadata msg) = None"
  shows "adapter_update sc character_apply env (\<lambda>r _. map_version_only from_character_error show_err r)
    msg v st db = Some (Err (domain_conflict ''command produced no events''), st, db)"
  using silent_command_handled [of sc st "v - 1" "msg\<lparr>ex_expected_version := Exact (v - 1)\<rparr>"] assms
  by (simp add: adapter_update_def version_checks dispatches_def never_idempotent_def handler_defs
      map_version_only_def)

text \<open>Setting the category that a piece already has succeeds and keeps its version:
  \<open>set_category\<close> maps the empty result with \<open>map_state_based_noop\<close>.\<close>

theorem piece_category_noop_keeps_version:
  assumes "sierra_laws sc" "as_version st = Current (v - 1)" "v \<noteq> 0"
    and "piece_version (as_entity st) = v" "\<not> piece_deleted (as_entity st)"
    and "piece_category_id (as_entity st) = cat"
    and "dispatches (msg\<lparr>ex_expected_version := Exact (v - 1)\<rparr>) piece_expect never_idempotent
      piece_handle (SetPieceCategory i cat p v)"
    and "ex_rate_limit msg = None" "md_causation_event (ex_metadata msg) = None"
  shows "adapter_update sc piece_apply env (map_state_based_noop from_piece_error show_err)
    msg v st db = Some (Ok v, st, db)"
  using silent_command_handled [of sc st "v - 1" "msg\<lparr>ex_expected_version := Exact (v - 1)\<rparr>"] assms
  by (simp add: adapter_update_def version_checks dispatches_def never_idempotent_def handler_defs)

section \<open>Examples\<close>

definition plain_message ::
  "('s \<Rightarrow> 'c \<Rightarrow> bool) \<Rightarrow> ('s \<Rightarrow> 'c \<Rightarrow> 'err + 'e list) \<Rightarrow> expected_version \<Rightarrow> 'c \<Rightarrow>
   ('s, 'e, unit, 'err) execute_msg" where
  "plain_message idem hnd expected c =
     \<lparr>ex_partition_key = 0,
      ex_metadata = \<lparr>md_causation_command = None, md_causation_event = None, md_data = None\<rparr>,
      ex_expected_version = expected, ex_time = 0, ex_now = 0, ex_dry_run = False,
      ex_command_name = ''c'', ex_rate_limit = None, ex_state_idempotent = (\<lambda>s. idem s c),
      ex_handle = (\<lambda>s. hnd s c)\<rparr>"

definition sample_db :: "'e list \<Rightarrow> ('e, unit) stored_event list" where
  "sample_db events = number_from 0 (map (\<lambda>e.
     (AnyVersion, e, \<lparr>md_causation_command = None, md_causation_event = None, md_data = None\<rparr>, 0))
     events)"

definition created_scene :: "scene_event list" where
  "created_scene = [SceneCreated 7 3 scene_details_default [] SceneManual 1]"

lemma created_scene_history:
  "history reference_satisfied scene_expect scene_idempotent scene_apply scene_handle (scene_default 9)
     created_scene"
  by (rule run_commands_history [where cs = "[CreateScene 7 3 None scene_details_default SceneManual]"])
    code_simp

lemmas run_actor_simps =
  actor_of_def sample_db_def actor_push_def actor_init_def dispatches_def plain_message_def
  exact_version_eq

theorem scene_update_returns_version_witness:
  "\<exists>st' db'. adapter_update reference_client scene_apply (\<lambda>_ db. db)
      (\<lambda>r _. map_version_only (from_scene_error (\<lambda>_. [])) (\<lambda>_. []) r)
      (plain_message scene_idempotent scene_handle AnyVersion (AssignCharacter 7 12 None 1)) 1
      (actor_of scene_apply (scene_default 9) (sample_db created_scene)) (sample_db created_scene) =
    Some (Ok 2, st', db') \<and> 2 = scene_version (as_entity st')"
proof -
  let ?st = "actor_of scene_apply (scene_default 9) (sample_db created_scene)"
  let ?msg = "plain_message scene_idempotent scene_handle AnyVersion (AssignCharacter 7 12 None 1)"
  let ?run = "adapter_update reference_client scene_apply (\<lambda>_ db. db)
      (\<lambda>r _. map_version_only (from_scene_error (\<lambda>_. [])) (\<lambda>_. []) r) ?msg 1 ?st
      (sample_db created_scene)"
  have "map_option fst ?run = Some (Ok 2)"
    by (simp add: run_actor_simps created_scene_def adapter_update_def version_checks actor_handle_def
        actor_attempt.simps actor_execute_def rate_limited_def should_skip_def check_causation_def
        reference_client_def reference_satisfied_def handler_defs scene_default_def INITIAL_def
        append_events_def new_events_def nth_expected_def reference_append_def stream_current_def
        actor_apply_def map_version_only_def stream_to_domain_def enumerate_eq_zip)
  then obtain st' db' where res: "?run = Some (Ok 2, st', db')"
    by auto
  have events: "stream_events (sample_db created_scene) = created_scene"
    by (simp add: sample_db_def created_scene_def)
  have "2 = scene_version (as_entity st')"
  proof (rule conjunct1 [OF scene_update_returns_version [OF reference_client_laws _ _ _ _ _ _ _ res]])
    show "history (sc_satisfied reference_client) scene_expect scene_idempotent scene_apply scene_handle
        (scene_default 9) (stream_events (sample_db created_scene))"
      using created_scene_history by (simp add: events reference_client_def)
    show "wf_stream (sample_db created_scene)"
      by (simp add: wf_stream_def sample_db_def created_scene_def)
    show "actor_knows scene_apply (scene_default 9) (sample_db created_scene) ?st"
      by (auto simp: actor_knows_def intro!: exI [of _ "length (sample_db created_scene)"])
    show "dispatches (?msg\<lparr>ex_expected_version := Exact (1 - 1)\<rparr>) scene_expect scene_idempotent
        scene_handle (AssignCharacter 7 12 None 1)"
      by (simp add: run_actor_simps)
    show "update_mapping (\<lambda>r _. map_version_only (from_scene_error (\<lambda>_. [])) (\<lambda>_. []) r)"
      by (auto simp: update_mapping_def)
  qed (simp_all add: env_dispatches_def plain_message_def)
  with res show ?thesis
    by blast
qed

theorem character_category_noop_conflicts_witness:
  "adapter_update reference_client character_apply (\<lambda>_ db. db)
     (\<lambda>r _. map_version_only from_character_error (\<lambda>_. []) r)
     (plain_message never_idempotent character_handle AnyVersion (UpdateCharacterCategory 7 None Guest 1)) 1
     (actor_of character_apply (character_default 9) (sample_db [CharacterCreated 7 3 ''A'' Guest
        (measurements_default :: nat character_measurements) contact_info_default 1]))
     (sample_db [CharacterCreated 7 3 ''A'' Guest measurements_default contact_info_default 1]) =
   Some (Err (domain_conflict ''command produced no events''),
     actor_of character_apply (character_default 9) (sample_db [CharacterCreated 7 3 ''A'' Guest
        measurements_default contact_info_default 1]),
     sample_db [CharacterCreated 7 3 ''A'' Guest measurements_default contact_info_default 1])"
  by (rule character_category_noop_conflicts [OF reference_client_laws])
    (simp_all add: run_actor_simps character_default_def)

theorem piece_category_noop_keeps_version_witness:
  "adapter_update reference_client piece_apply (\<lambda>_ db. db)
     (map_state_based_noop from_piece_error (\<lambda>_. []))
     (plain_message never_idempotent piece_handle AnyVersion (SetPieceCategory 7 (Some 4) None 1)) 1
     (actor_of piece_apply piece_default (sample_db [PieceCreated 7 ''Hat'' (Some 4) None [] [] [] 1]))
     (sample_db [PieceCreated 7 ''Hat'' (Some 4) None [] [] [] 1]) =
   Some (Ok 1,
     actor_of piece_apply piece_default (sample_db [PieceCreated 7 ''Hat'' (Some 4) None [] [] [] 1]),
     sample_db [PieceCreated 7 ''Hat'' (Some 4) None [] [] [] 1])"
  by (rule piece_category_noop_keeps_version [OF reference_client_laws])
    (simp_all add: run_actor_simps piece_default_def)

end
