(* ===== verification/Reservations.thy ===== *)
theory Reservations
  imports Command_Adapters
begin

text \<open>
  The reservation store of \<open>backend/crates/infra/src/reservations\<close>: uniqueness
  claims on synthetic SierraDB streams, one stream per key. \<open>event.rs\<close> gives the
  events, kinds and keys, \<open>store.rs\<close> the operations \<open>reserve\<close>, \<open>release\<close>, \<open>consume\<close>
  and the reads they use; the reserve loop is followed through every
  interleaving with other claimers, releasers and consumers.

  The compact hex form of a uuid (\<open>Uuid::simple\<close>) and the truncated SHA-256 of a
  scene-shoot pair come from third-party crates and are parameters \<open>simple\<close> and
  \<open>pair_hash\<close>. A stored event has its name and its decoded CBOR payload, \<open>None\<close>
  when the payload does not parse.
\<close>

section \<open>Events, kinds and keys\<close>

datatype reservation_event = Reserved uuid | Released uuid | Consumed uuid

definition EVENT_NAME_RESERVED :: string where
  "EVENT_NAME_RESERVED = ''ReservationReserved''"

definition EVENT_NAME_RELEASED :: string where
  "EVENT_NAME_RELEASED = ''ReservationReleased''"

definition EVENT_NAME_CONSUMED :: string where
  "EVENT_NAME_CONSUMED = ''ReservationConsumed''"

fun reservation_event_type :: "reservation_event \<Rightarrow> string" where
  "reservation_event_type (Reserved _) = EVENT_NAME_RESERVED"
| "reservation_event_type (Released _) = EVENT_NAME_RELEASED"
| "reservation_event_type (Consumed _) = EVENT_NAME_CONSUMED"

fun reservation_aggregate_id :: "reservation_event \<Rightarrow> uuid" where
  "reservation_aggregate_id (Reserved a) = a"
| "reservation_aggregate_id (Released a) = a"
| "reservation_aggregate_id (Consumed a) = a"

datatype reservation_kind = EpisodeNumber | SeasonNumber | BlockNumber | SceneShootPair

definition kind_from_key :: "string \<Rightarrow> reservation_kind option" where
  "kind_from_key key =
     (if starts_with key ''epnum-'' then Some EpisodeNumber
      else if starts_with key ''seasnum-'' then Some SeasonNumber
      else if starts_with key ''blocknum-'' then Some BlockNumber
      else if starts_with key ''sspair-'' then Some SceneShootPair
      else None)"

fun aggregate_category :: "reservation_kind \<Rightarrow> string" where
  "aggregate_category EpisodeNumber = ''episode''"
| "aggregate_category SeasonNumber = ''season''"
| "aggregate_category BlockNumber = ''block''"
| "aggregate_category SceneShootPair = ''scene_shoot''"

fun reservation_kind_as_str :: "reservation_kind \<Rightarrow> string" where
  "reservation_kind_as_str EpisodeNumber = ''episode_number''"
| "reservation_kind_as_str SeasonNumber = ''season_number''"
| "reservation_kind_as_str BlockNumber = ''block_number''"
| "reservation_kind_as_str SceneShootPair = ''scene_shoot_pair''"

text \<open>\<open>Display\<close> of an \<open>i32\<close>.\<close>

definition show_i32 :: "i32 \<Rightarrow> string" where
  "show_i32 n = (if sint n < 0 then ''-'' @ decimal (nat (- sint n)) else decimal (nat (sint n)))"

definition episode_number_key :: "(uuid \<Rightarrow> string) \<Rightarrow> project_id \<Rightarrow> i32 \<Rightarrow> string" where
  "episode_number_key simple project number = ''epnum-'' @ simple project @ ''-'' @ show_i32 number"

definition season_number_key :: "(uuid \<Rightarrow> string) \<Rightarrow> project_id \<Rightarrow> i32 \<Rightarrow> string" where
  "season_number_key simple project number = ''seasnum-'' @ simple project @ ''-'' @ show_i32 number"

definition block_number_key :: "(uuid \<Rightarrow> string) \<Rightarrow> project_id \<Rightarrow> i32 \<Rightarrow> string" where
  "block_number_key simple project number = ''blocknum-'' @ simple project @ ''-'' @ show_i32 number"

definition scene_shoot_pair_key :: "(uuid \<Rightarrow> uuid \<Rightarrow> string) \<Rightarrow> uuid \<Rightarrow> shooting_day_id \<Rightarrow> string" where
  "scene_shoot_pair_key pair_hash scene day = ''sspair-'' @ pair_hash scene day"

definition RESERVATION_STREAM_PREFIX :: string where
  "RESERVATION_STREAM_PREFIX = ''reservation-''"

definition reservation_stream_id :: "string \<Rightarrow> string" where
  "reservation_stream_id key = RESERVATION_STREAM_PREFIX @ key"

definition stream_key :: "string \<Rightarrow> string" where
  "stream_key stream =
     (if starts_with stream RESERVATION_STREAM_PREFIX
      then drop (length RESERVATION_STREAM_PREFIX) stream else stream)"

section \<open>The store\<close>

type_synonym lifecycle = "string \<times> reservation_event option"
type_synonym claim_db = "(lifecycle, unit) stored_event list"

record reservation_claim =
  claim_key :: string
  claim_aggregate_id :: uuid
  claim_version :: u64

datatype obstacle =
    OwnedBySelf reservation_claim
  | Claimable u64
  | ClaimableAtFreshStream
  | Permanent

definition RESERVE_RETRY_BUDGET :: nat where
  "RESERVE_RETRY_BUDGET = 3"

text \<open>\<open>show_err\<close> is the \<open>Display\<close> text of a SierraDB error.\<close>

definition res_sierra_error :: "(sierra_error \<Rightarrow> string) \<Rightarrow> sierra_error \<Rightarrow> domain_error" where
  "res_sierra_error show_err err = domain_conflict (show_err err)"

definition decode_lifecycle :: "lifecycle \<Rightarrow> domain_error + reservation_event" where
  "decode_lifecycle entry =
     (case snd entry of
        Some e \<Rightarrow> Ok e
      | None \<Rightarrow> Err (DomainInternal ''unparsable reservation payload''))"

definition append_lifecycle ::
  "(lifecycle, unit) sierra_client \<Rightarrow> (sierra_error \<Rightarrow> string) \<Rightarrow> claim_db \<Rightarrow> expected_version \<Rightarrow>
   reservation_event \<Rightarrow> int \<Rightarrow> (domain_error + u64 option) \<times> claim_db" where
  "append_lifecycle sc show_err db expected e time =
     (case sc_append sc db [(expected, (reservation_event_type e, Some e),
         \<lparr>md_causation_command = None, md_causation_event = None, md_data = None\<rparr>, time)] of
        (Inr infos, db') \<Rightarrow> (Ok (Some (hd infos)), db')
      | (Inl (WrongVer current wanted), db') \<Rightarrow> (Ok None, db')
      | (Inl (SierraOther msg), db') \<Rightarrow> (Err (res_sierra_error show_err (SierraOther msg)), db'))"

text \<open>The pages are read from one state of the stream; \<open>None\<close> would be a scan that never ends.\<close>

partial_function (option) scan_last ::
  "(lifecycle, unit) sierra_client \<Rightarrow> (sierra_error \<Rightarrow> string) \<Rightarrow> claim_db \<Rightarrow> u64 \<Rightarrow>
   (domain_error + (lifecycle, unit) stored_event option) option" where
  "scan_last sc show_err db from_version =
     (case sc_scan sc db from_version 100 of
        Inl err \<Rightarrow> Some (Err (res_sierra_error show_err err))
      | Inr (events, has_more) \<Rightarrow>
          if \<not> has_more then Some (Ok (if events = [] then None else Some (last events)))
          else scan_last sc show_err db
            (if events = [] then from_version else se_stream_version (last events) + 1))"

definition last_stream_event ::
  "(lifecycle, unit) sierra_client \<Rightarrow> (sierra_error \<Rightarrow> string) \<Rightarrow> claim_db \<Rightarrow>
   (domain_error + (lifecycle, unit) stored_event option) option" where
  "last_stream_event sc show_err db = scan_last sc show_err db 0"

definition classify_claim ::
  "string \<Rightarrow> uuid \<Rightarrow> (lifecycle, unit) stored_event option \<Rightarrow> domain_error + obstacle" where
  "classify_claim stream aggregate found =
     (case found of
        None \<Rightarrow> Ok ClaimableAtFreshStream
      | Some l \<Rightarrow>
          let own = OwnedBySelf \<lparr>claim_key = stream_key stream, claim_aggregate_id = aggregate,
            claim_version = se_stream_version l\<rparr> in
          if fst (se_event l) = EVENT_NAME_RESERVED then
            and_then (decode_lifecycle (se_event l)) (\<lambda>e. Ok (case e of
              Reserved h \<Rightarrow> if h = aggregate then own else Permanent | _ \<Rightarrow> Permanent))
          else if fst (se_event l) = EVENT_NAME_RELEASED then Ok (Claimable (se_stream_version l))
          else if fst (se_event l) = EVENT_NAME_CONSUMED then
            and_then (decode_lifecycle (se_event l)) (\<lambda>e. Ok (case e of
              Consumed h \<Rightarrow> if h = aggregate then own else Permanent | _ \<Rightarrow> Permanent))
          else Ok Permanent)"

definition claim_obstacle ::
  "(lifecycle, unit) sierra_client \<Rightarrow> (sierra_error \<Rightarrow> string) \<Rightarrow> claim_db \<Rightarrow> string \<Rightarrow> uuid \<Rightarrow>
   (domain_error + obstacle) option" where
  "claim_obstacle sc show_err db stream aggregate =
     map_option (\<lambda>r. and_then r (classify_claim stream aggregate)) (last_stream_event sc show_err db)"

text \<open>
  The loop of \<open>reserve\<close> with \<open>n\<close> attempts left. \<open>env\<close> is what the other users of the stream
  append before each access of this one; \<open>clock\<close> are the server's timestamps.
\<close>

fun reserve_loop ::
  "(lifecycle, unit) sierra_client \<Rightarrow> (sierra_error \<Rightarrow> string) \<Rightarrow> (nat \<Rightarrow> claim_db \<Rightarrow> claim_db) \<Rightarrow>
   (nat \<Rightarrow> int) \<Rightarrow> string \<Rightarrow> uuid \<Rightarrow> domain_error \<Rightarrow> nat \<Rightarrow> u64 option \<Rightarrow> claim_db \<Rightarrow>
   ((domain_error + reservation_claim) \<times> claim_db) option" where
  "reserve_loop sc show_err env clock key aggregate conflict 0 cas_at db = Some (Err conflict, db)"
| "reserve_loop sc show_err env clock key aggregate conflict (Suc n) cas_at db =
     (let expected = (case cas_at of None \<Rightarrow> EmptyVersion | Some v \<Rightarrow> Exact v) in
      case append_lifecycle sc show_err (env (2 * n + 1) db) expected (Reserved aggregate) (clock n) of
        (Inl err, db1) \<Rightarrow> Some (Err err, db1)
      | (Inr (Some version), db1) \<Rightarrow>
          Some (Ok \<lparr>claim_key = key, claim_aggregate_id = aggregate, claim_version = version\<rparr>, db1)
      | (Inr None, db1) \<Rightarrow>
          let db2 = env (2 * n) db1 in
          case claim_obstacle sc show_err db2 (reservation_stream_id key) aggregate of
            None \<Rightarrow> None
          | Some (Inl err) \<Rightarrow> Some (Err err, db2)
          | Some (Inr (OwnedBySelf existing)) \<Rightarrow> Some (Ok existing, db2)
          | Some (Inr (Claimable at)) \<Rightarrow>
              reserve_loop sc show_err env clock key aggregate conflict n (Some at) db2
          | Some (Inr ClaimableAtFreshStream) \<Rightarrow>
              reserve_loop sc show_err env clock key aggregate conflict n None db2
          | Some (Inr Permanent) \<Rightarrow> Some (Err conflict, db2))"

definition reserve ::
  "(lifecycle, unit) sierra_client \<Rightarrow> (sierra_error \<Rightarrow> string) \<Rightarrow> (nat \<Rightarrow> claim_db \<Rightarrow> claim_db) \<Rightarrow>
   (nat \<Rightarrow> int) \<Rightarrow> string \<Rightarrow> uuid \<Rightarrow> domain_error \<Rightarrow> claim_db \<Rightarrow>
   ((domain_error + reservation_claim) \<times> claim_db) option" where
  "reserve sc show_err env clock key aggregate conflict db =
     reserve_loop sc show_err env clock key aggregate conflict (RESERVE_RETRY_BUDGET + 1) None db"

definition append_claimed ::
  "(lifecycle, unit) sierra_client \<Rightarrow> (sierra_error \<Rightarrow> string) \<Rightarrow> reservation_event \<Rightarrow> u64 \<Rightarrow> int \<Rightarrow>
   claim_db \<Rightarrow> (domain_error + bool) \<times> claim_db" where
  "append_claimed sc show_err e at_version time db =
     (case append_lifecycle sc show_err db (Exact at_version) e time of
        (Inl err, db') \<Rightarrow> (Err err, db')
      | (Inr appended, db') \<Rightarrow> (Ok (appended \<noteq> None), db'))"

definition release ::
  "(lifecycle, unit) sierra_client \<Rightarrow> (sierra_error \<Rightarrow> string) \<Rightarrow> uuid \<Rightarrow> u64 \<Rightarrow> int \<Rightarrow> claim_db \<Rightarrow>
   (domain_error + bool) \<times> claim_db" where
  "release sc show_err aggregate at_version time db =
     append_claimed sc show_err (Released aggregate) at_version time db"

definition consume ::
  "(lifecycle, unit) sierra_client \<Rightarrow> (sierra_error \<Rightarrow> string) \<Rightarrow> uuid \<Rightarrow> u64 \<Rightarrow> int \<Rightarrow> claim_db \<Rightarrow>
   (domain_error + bool) \<times> claim_db" where
  "consume sc show_err aggregate at_version time db =
     append_claimed sc show_err (Consumed aggregate) at_version time db"

section \<open>Claimed creates\<close>

text \<open>
  \<open>compensate_create_claim\<close>: only a rejection by the handler releases the claim; an error of
  the release itself is logged and dropped.
\<close>

definition compensate_create_claim ::
  "(lifecycle, unit) sierra_client \<Rightarrow> (sierra_error \<Rightarrow> string) \<Rightarrow> int \<Rightarrow> reservation_claim \<Rightarrow>
   'err execute_error + 'e execute_result \<Rightarrow> claim_db \<Rightarrow> claim_db" where
  "compensate_create_claim sc show_err time claim result db =
     (case result of
        Inl (HandleError _) \<Rightarrow>
          snd (release sc show_err (claim_aggregate_id claim) (claim_version claim) time db)
      | _ \<Rightarrow> db)"

text \<open>
  The body that \<open>create\<close> of seasons, blocks and episodes and \<open>plan\<close> of scene shoots share:
  reserve the key, execute against the empty stream, compensate, map the result. \<open>renv\<close> is the
  interference on the claim stream while the aggregate executes.
\<close>

definition claimed_create ::
  "(lifecycle, unit) sierra_client \<Rightarrow> (sierra_error \<Rightarrow> string) \<Rightarrow> (nat \<Rightarrow> claim_db \<Rightarrow> claim_db) \<Rightarrow>
   (nat \<Rightarrow> int) \<Rightarrow> (claim_db \<Rightarrow> claim_db) \<Rightarrow> ('e, 'm) sierra_client \<Rightarrow> ('s \<Rightarrow> 'e \<Rightarrow> 's) \<Rightarrow>
   (nat \<Rightarrow> ('e, 'm) stored_event list \<Rightarrow> ('e, 'm) stored_event list) \<Rightarrow>
   ('err \<Rightarrow> domain_error) \<Rightarrow> ('err execute_error \<Rightarrow> string) \<Rightarrow> string \<Rightarrow> domain_error \<Rightarrow> uuid \<Rightarrow>
   ('s, 'e, 'm, 'err) execute_msg \<Rightarrow> 's actor_state \<Rightarrow> ('e, 'm) stored_event list \<Rightarrow> claim_db \<Rightarrow>
   ((domain_error + uuid \<times> aggregate_version) \<times> ('e, 'm) stored_event list \<times> claim_db) option" where
  "claimed_create rsc show_err env clock renv sc ap senv conv show_exec key conflict i msg st db rdb =
     (case reserve rsc show_err env clock key i conflict rdb of
        None \<Rightarrow> None
      | Some (Inl err, rdb1) \<Rightarrow> Some (Err err, db, rdb1)
      | Some (Inr claim, rdb1) \<Rightarrow>
          (case actor_handle sc ap senv (ex_partition_key msg)
              (msg\<lparr>ex_expected_version := EmptyVersion\<rparr>) st db of
             None \<Rightarrow> None
           | Some (result, st', db') \<Rightarrow>
               Some (map_executed conv show_exec i result, db',
                 compensate_create_claim rsc show_err (clock 0) claim result (renv rdb1))))"

definition season_conflict :: domain_error where
  "season_conflict = DomainConflict SEASON_NUMBER_ALREADY_EXISTS ''season number already taken''"

definition block_conflict :: domain_error where
  "block_conflict = DomainConflict BLOCK_NUMBER_ALREADY_EXISTS ''block number already taken''"

definition episode_conflict :: domain_error where
  "episode_conflict = DomainConflict EPISODE_NUMBER_ALREADY_EXISTS ''episode number already taken''"

definition scene_shoot_conflict :: domain_error where
  "scene_shoot_conflict =
     DomainConflict SCENE_SHOOT_PAIR_ALREADY_EXISTS ''scene is already scheduled on this shooting day''"

section \<open>The protocol\<close>

text \<open>
  What a claim stream may do: a key is claimed when it is free, and released or consumed by
  its holder only. \<open>holder\<close> is the aggregate that owns the key.
\<close>

inductive claim_step :: "reservation_event list \<Rightarrow> reservation_event list \<Rightarrow> bool" where
  claim: "es = [] \<or> (\<exists>x. last es = Released x) \<Longrightarrow> claim_step es (es @ [Reserved a])"
| give_up: "es \<noteq> [] \<Longrightarrow> last es = Reserved a \<or> last es = Consumed a \<Longrightarrow> claim_step es (es @ [Released a])"
| realize: "es \<noteq> [] \<Longrightarrow> last es = Reserved a \<Longrightarrow> claim_step es (es @ [Consumed a])"

definition holder :: "reservation_event list \<Rightarrow> uuid option" where
  "holder es =
     (if es = [] then None
      else case last es of Reserved a \<Rightarrow> Some a | Consumed a \<Rightarrow> Some a | Released _ \<Rightarrow> None)"

abbreviation claims :: "claim_db \<Rightarrow> reservation_event list" where
  "claims db \<equiv> map (\<lambda>x. the (snd (se_event x))) db"

definition claim_stream :: "claim_db \<Rightarrow> bool" where
  "claim_stream db \<longleftrightarrow> wf_stream db \<and>
     (\<forall>x \<in> set db. \<exists>e. se_event x = (reservation_event_type e, Some e))"

definition env_claims :: "(nat \<Rightarrow> claim_db \<Rightarrow> claim_db) \<Rightarrow> bool" where
  "env_claims env \<longleftrightarrow> (\<forall>k db. claim_stream db \<longrightarrow>
     claim_stream (env k db) \<and> (\<exists>zs. env k db = db @ zs) \<and>
     claim_step\<^sup>*\<^sup>* (claims db) (claims (env k db)))"

section \<open>Lemmas\<close>

lemma event_type_inject [simp]:
  "EVENT_NAME_RESERVED \<noteq> EVENT_NAME_RELEASED" "EVENT_NAME_RELEASED \<noteq> EVENT_NAME_RESERVED"
  "EVENT_NAME_RESERVED \<noteq> EVENT_NAME_CONSUMED" "EVENT_NAME_CONSUMED \<noteq> EVENT_NAME_RESERVED"
  "EVENT_NAME_RELEASED \<noteq> EVENT_NAME_CONSUMED" "EVENT_NAME_CONSUMED \<noteq> EVENT_NAME_RELEASED"
  by (simp_all add: EVENT_NAME_RESERVED_def EVENT_NAME_RELEASED_def EVENT_NAME_CONSUMED_def)

lemma stream_key_id [simp]: "stream_key (reservation_stream_id key) = key"
  by (simp add: stream_key_def reservation_stream_id_def starts_with_def)

lemma append_lifecycle_result:
  assumes laws: "sierra_laws sc" and db: "claim_stream db"
    and res: "append_lifecycle sc show_err db expected e time = (r, db')"
  defines "done \<equiv> sc_satisfied sc expected (stream_current db) \<and> claims db' = claims db @ [e] \<and>
    claim_stream db' \<and> (\<exists>z. db' = db @ [z])"
  shows "case r of
      Inr (Some v) \<Rightarrow> done \<and> v = of_nat (length db)
    | Inr None \<Rightarrow> db' = db \<and> \<not> sc_satisfied sc expected (stream_current db)
    | Inl err \<Rightarrow> (\<exists>m. err = res_sierra_error show_err (SierraOther m)) \<and> (db' = db \<or> done)"
proof -
  let ?new = "[(expected, (reservation_event_type e, Some e),
    \<lparr>md_causation_command = None, md_causation_event = None, md_data = None :: unit option\<rparr>, time)]"
  let ?stored = "number_from (of_nat (length db)) ?new"
  have wf: "wf_stream db"
    using db by (simp add: claim_stream_def)
  have law: "case sc_append sc db ?new of
      (Inr infos, db') \<Rightarrow> all_satisfied (sc_satisfied sc) db ?new \<and> db' = db @ ?stored \<and>
        wf_stream db' \<and> infos = map se_stream_version ?stored
    | (Inl (WrongVer current expected), db') \<Rightarrow> \<not> all_satisfied (sc_satisfied sc) db ?new \<and> db' = db
    | (Inl (SierraOther msg), db') \<Rightarrow> db' = db \<or>
        all_satisfied (sc_satisfied sc) db ?new \<and> db' = db @ ?stored \<and> wf_stream db'"
    using laws wf unfolding sierra_laws_def append_law_def by (simp only: Let_def)
  have "claim_stream (db @ ?stored)" if "wf_stream (db @ ?stored)"
    using that db by (auto simp: claim_stream_def)
  then show ?thesis
    using law res unfolding done_def append_lifecycle_def
    by (auto split: prod.splits sum.splits sierra_error.splits)
qed

lemma scan_last_result:
  assumes laws: "sierra_laws sc" and wf: "wf_stream db" and "k < length db \<or> k = 0"
  shows "\<exists>r. scan_last sc show_err db (of_nat k) = Some r \<and>
    (r = Ok (if db = [] then None else Some (last db)) \<or>
     (\<exists>e v. r = Err (res_sierra_error show_err e) \<and> sc_scan sc db v 100 = Inl e))"
  using assms(3)
proof (induction "length db - k" arbitrary: k rule: less_induct)
  case less
  have bound: "length db < 2 ^ 64"
    using wf by (simp add: wf_stream_def)
  then have k: "unat (of_nat k :: u64) = k"
    using less.prems by (auto simp: unat_of_nat_u64)
  show ?case
  proof (cases "sc_scan sc db (of_nat k) 100")
    case (Inl err)
    then show ?thesis
      by (subst scan_last.simps) auto
  next
    case (Inr b)
    then obtain events more where scan: "sc_scan sc db (of_nat k) 100 = Inr (events, more)"
      by (cases b) simp
    have law: "events = take (length events) (drop k db)" "more \<longleftrightarrow> k + length events < length db"
        "more \<longrightarrow> events \<noteq> []"
      using laws wf scan k unfolding sierra_laws_def scan_law_def by metis+
    show ?thesis
    proof (cases more)
      case False
      then have "events = drop k db"
        using law(1,2) by (metis add.commute le_diff_conv length_drop not_le take_all)
      then have "(if events = [] then None else Some (last events)) =
          (if db = [] then None else Some (last db))"
        using less.prems by (auto simp: last_drop)
      then show ?thesis
        using scan False by (subst scan_last.simps) simp
    next
      case True
      let ?k = "k + length events"
      have ne: "events \<noteq> []" and lt: "?k < length db"
        using law True by auto
      then have dec: "length db - ?k < length db - k"
        by (cases events) auto
      have "last events = drop k db ! (length events - 1)"
        using law(1) ne by (metis last_conv_nth nth_take diff_less length_greater_0_conv zero_less_one)
      then have "last events = db ! (?k - 1)"
        using ne lt by (cases events) auto
      then have "se_stream_version (last events) + 1 = of_nat ?k"
        using wf ne lt unfolding wf_stream_iff by (cases events) auto
      then have "scan_last sc show_err db (of_nat k) = scan_last sc show_err db (of_nat ?k)"
        using scan True ne by (subst scan_last.simps) simp
      then show ?thesis
        using less.hyps [of ?k] ne lt dec by simp
    qed
  qed
qed

lemma claim_stream_last:
  assumes "claim_stream db" "db \<noteq> []"
  obtains e where "se_event (last db) = (reservation_event_type e, Some e)" "last (claims db) = e"
    "se_stream_version (last db) = of_nat (length db - 1)"
proof -
  obtain e where "se_event (last db) = (reservation_event_type e, Some e)"
    using assms last_in_set unfolding claim_stream_def by blast
  moreover have "se_stream_version (last db) = of_nat (length db - 1)"
    using assms by (simp add: claim_stream_def wf_stream_iff last_conv_nth)
  ultimately show thesis
    using assms(2) that by (auto simp: last_map)
qed

lemma claim_obstacle_result:
  assumes laws: "sierra_laws sc" and db: "claim_stream db"
  obtains r where "claim_obstacle sc show_err db (reservation_stream_id key) a = Some r"
    "case r of
       Inl err \<Rightarrow> \<exists>e. err = res_sierra_error show_err e
     | Inr (OwnedBySelf c) \<Rightarrow> db \<noteq> [] \<and> holder (claims db) = Some a \<and>
         c = \<lparr>claim_key = key, claim_aggregate_id = a, claim_version = of_nat (length db - 1)\<rparr>
     | Inr (Claimable v) \<Rightarrow> db \<noteq> [] \<and> v = of_nat (length db - 1) \<and> (\<exists>x. last (claims db) = Released x)
     | Inr ClaimableAtFreshStream \<Rightarrow> db = []
     | Inr Permanent \<Rightarrow> \<exists>h. holder (claims db) = Some h \<and> h \<noteq> a"
proof -
  have "wf_stream db"
    using db by (simp add: claim_stream_def)
  then obtain r where r: "last_stream_event sc show_err db = Some r"
      "r = Ok (if db = [] then None else Some (last db)) \<or> (\<exists>e. r = Err (res_sierra_error show_err e))"
    using scan_last_result [OF laws, of db 0 show_err] by (auto simp: last_stream_event_def)
  show thesis
  proof (cases "db = [] \<or> (\<exists>e. r = Err (res_sierra_error show_err e))")
    case True
    then show thesis
      using r by (intro that [of "and_then r (classify_claim (reservation_stream_id key) a)"])
        (auto simp: claim_obstacle_def classify_claim_def)
  next
    case False
    then obtain e where e: "se_event (last db) = (reservation_event_type e, Some e)"
        "last (claims db) = e" "se_stream_version (last db) = of_nat (length db - 1)"
      using claim_stream_last [OF db] by metis
    show thesis
      using r False e
      by (intro that [of "and_then r (classify_claim (reservation_stream_id key) a)"]; cases e)
        (auto simp: claim_obstacle_def classify_claim_def decode_lifecycle_def holder_def)
  qed
qed

text \<open>A version to claim at is always the version of a release on the stream.\<close>

definition claimable_at :: "claim_db \<Rightarrow> u64 option \<Rightarrow> bool" where
  "claimable_at db cas_at \<longleftrightarrow>
     (case cas_at of None \<Rightarrow> True
      | Some v \<Rightarrow> unat v < length db \<and> (\<exists>x. claims db ! unat v = Released x))"

lemma claimable_at_append: "claimable_at db c \<Longrightarrow> claimable_at (db @ zs) c"
  by (auto simp: claimable_at_def nth_append split: option.splits)

lemma claim_step_reserve:
  assumes "sierra_laws sc" "claim_stream db" "claimable_at db cas_at"
    and "sc_satisfied sc (case cas_at of None \<Rightarrow> EmptyVersion | Some v \<Rightarrow> Exact v) (stream_current db)"
  shows "claim_step (claims db) (claims db @ [Reserved a])"
proof (rule claim_step.claim)
  have bound: "length db < 2 ^ 64"
    using assms(2) by (simp add: claim_stream_def wf_stream_def)
  have sat: "expected_version_laws (sc_satisfied sc)"
    using assms(1) by (simp add: sierra_laws_def)
  show "claims db = [] \<or> (\<exists>x. last (claims db) = Released x)"
  proof (cases cas_at)
    case None
    then show ?thesis
      using assms(4) sat by (simp add: sat_simps)
  next
    case (Some v)
    then have "db \<noteq> []" "v = of_nat (length db - 1)"
      using assms(4) sat by (auto simp: sat_simps stream_current_def split: if_splits)
    then have "unat v = length db - 1"
      using bound by (simp add: unat_of_nat_u64 less_imp_diff_less)
    then show ?thesis
      using assms(3) Some \<open>db \<noteq> []\<close> by (auto simp: claimable_at_def last_conv_nth)
  qed
qed

definition reserve_outcome ::
  "(sierra_error \<Rightarrow> string) \<Rightarrow> string \<Rightarrow> uuid \<Rightarrow> domain_error \<Rightarrow> claim_db \<Rightarrow>
   domain_error + reservation_claim \<Rightarrow> claim_db \<Rightarrow> bool" where
  "reserve_outcome show_err key a conflict db r db' \<longleftrightarrow>
     claim_stream db' \<and> claim_step\<^sup>*\<^sup>* (claims db) (claims db') \<and>
     (case r of
        Inr c \<Rightarrow> db' \<noteq> [] \<and> holder (claims db') = Some a \<and>
          c = \<lparr>claim_key = key, claim_aggregate_id = a, claim_version = of_nat (length db' - 1)\<rparr>
      | Inl err \<Rightarrow> err = conflict \<or> (\<exists>e. err = res_sierra_error show_err e))"

lemma reserve_outcome_trans:
  "claim_step\<^sup>*\<^sup>* (claims db) (claims db1) \<Longrightarrow> reserve_outcome show_err key a conflict db1 r db' \<Longrightarrow>
   reserve_outcome show_err key a conflict db r db'"
  by (auto simp: reserve_outcome_def intro: rtranclp_trans)

lemma reserve_loop_outcome:
  assumes laws: "sierra_laws sc" and env: "env_claims env"
    and "claim_stream db" "claimable_at db cas_at"
  shows "\<exists>r db'. reserve_loop sc show_err env clock key a conflict n cas_at db = Some (r, db') \<and>
    reserve_outcome show_err key a conflict db r db'"
  using assms(3,4)
proof (induction n arbitrary: cas_at db)
  case 0
  then show ?case
    by (simp add: reserve_outcome_def)
next
  case (Suc n)
  let ?db0 = "env (2 * n + 1) db"
  have e0: "claim_stream ?db0" "claim_step\<^sup>*\<^sup>* (claims db) (claims ?db0)" "claimable_at ?db0 cas_at"
    using env Suc.prems claimable_at_append unfolding env_claims_def by metis+
  obtain r1 db1 where ap: "append_lifecycle sc show_err ?db0
      (case cas_at of None \<Rightarrow> EmptyVersion | Some v \<Rightarrow> Exact v) (Reserved a) (clock n) = (r1, db1)"
    by fastforce
  note res = append_lifecycle_result [OF laws e0(1) ap]
  note step = claim_step_reserve [OF laws e0(1,3), of a]
  consider (err) err where "r1 = Err err" | (won) v where "r1 = Ok (Some v)" | (lost) "r1 = Ok None"
    by (cases r1) auto
  then have "\<exists>r db'. reserve_loop sc show_err env clock key a conflict (Suc n) cas_at db = Some (r, db') \<and>
    reserve_outcome show_err key a conflict ?db0 r db'"
  proof cases
    case err
    then show ?thesis
      using res ap step e0(1) by (auto simp: reserve_outcome_def)
  next
    case won
    then show ?thesis
      using res ap step by (auto simp: reserve_outcome_def holder_def)
  next
    case lost
    let ?db2 = "env (2 * n) ?db0"
    have e2: "claim_stream ?db2" "claim_step\<^sup>*\<^sup>* (claims ?db0) (claims ?db2)"
      using env e0(1) unfolding env_claims_def by metis+
    have db1: "db1 = ?db0"
      using res lost by simp
    obtain o2 where o2: "claim_obstacle sc show_err ?db2 (reservation_stream_id key) a = Some o2"
      "case o2 of
         Inl err \<Rightarrow> \<exists>e. err = res_sierra_error show_err e
       | Inr (OwnedBySelf c) \<Rightarrow> ?db2 \<noteq> [] \<and> holder (claims ?db2) = Some a \<and>
           c = \<lparr>claim_key = key, claim_aggregate_id = a, claim_version = of_nat (length ?db2 - 1)\<rparr>
       | Inr (Claimable v) \<Rightarrow> ?db2 \<noteq> [] \<and> v = of_nat (length ?db2 - 1) \<and>
           (\<exists>x. last (claims ?db2) = Released x)
       | Inr ClaimableAtFreshStream \<Rightarrow> ?db2 = []
       | Inr Permanent \<Rightarrow> \<exists>h. holder (claims ?db2) = Some h \<and> h \<noteq> a"
      by (rule claim_obstacle_result [OF laws e2(1)])
    have retry: "\<exists>r db'. reserve_loop sc show_err env clock key a conflict n c ?db2 = Some (r, db') \<and>
        reserve_outcome show_err key a conflict ?db0 r db'" if "claimable_at ?db2 c" for c
      using Suc.IH [OF e2(1) that] reserve_outcome_trans [OF e2(2)] by blast
    have at: "claimable_at ?db2 (Some v)" if "o2 = Inr (Claimable v)" for v
    proof -
      have "length ?db2 < 2 ^ 64"
        using e2(1) by (simp add: claim_stream_def wf_stream_def)
      then have "unat v = length ?db2 - 1" "?db2 \<noteq> []" "\<exists>x. last (claims ?db2) = Released x"
        using o2(2) that by (simp_all add: unat_of_nat_u64 less_imp_diff_less)
      then show ?thesis
        by (auto simp: claimable_at_def last_conv_nth)
    qed
    have quiet: "reserve_outcome show_err key a conflict ?db0 (Err e) ?db2"
      if "e = conflict \<or> (\<exists>x. e = res_sierra_error show_err x)" for e
      using that e2 by (simp add: reserve_outcome_def)
    show ?thesis
    proof (cases o2)
      case (Inl err)
      then show ?thesis
        using ap lost db1 o2 quiet [of err] by auto
    next
      case (Inr ob)
      show ?thesis
      proof (cases ob)
        case (OwnedBySelf c)
        then show ?thesis
          using ap lost db1 o2 Inr e2 by (auto simp: reserve_outcome_def Let_def)
      next
        case (Claimable v)
        then show ?thesis
          using ap lost db1 o2(1) Inr retry [OF at] by simp
      next
        case ClaimableAtFreshStream
        then show ?thesis
          using ap lost db1 o2(1) Inr retry [of None] by (simp add: claimable_at_def)
      next
        case Permanent
        then show ?thesis
          using ap lost db1 o2(1) Inr quiet [of conflict] by simp
      qed
    qed
  qed
  then show ?case
    using reserve_outcome_trans [OF e0(2)] by blast
qed

lemma reserve_result:
  assumes "sierra_laws sc" "env_claims env" "claim_stream db"
  shows "\<exists>r db'. reserve sc show_err env clock key a conflict db = Some (r, db') \<and>
    reserve_outcome show_err key a conflict db r db'"
  unfolding reserve_def by (rule reserve_loop_outcome [OF assms]) (simp add: claimable_at_def)

lemma reserve_on_held:
  assumes laws: "sierra_laws sc" and db: "claim_stream db" "holder (claims db) = Some a"
    and "reserve sc show_err (\<lambda>_ db. db) clock key a conflict db = Some (Ok c, db1)"
  shows "db1 = db"
proof -
  obtain r db' where ap: "append_lifecycle sc show_err db EmptyVersion (Reserved a)
      (clock RESERVE_RETRY_BUDGET) = (r, db')"
    by fastforce
  have "\<not> sc_satisfied sc EmptyVersion (stream_current db)"
    using laws db(2) by (auto simp: sierra_laws_def sat_simps holder_def)
  then have quiet: "db' = db" "r = Ok None \<or> (\<exists>e. r = Err e)"
    using append_lifecycle_result [OF laws db(1) ap]
    by (auto split: sum.splits option.splits)
  obtain ob where ob: "claim_obstacle sc show_err db (reservation_stream_id key) a = Some ob"
      "\<forall>v. ob \<noteq> Ok (Claimable v)" "ob \<noteq> Ok ClaimableAtFreshStream"
    by (rule claim_obstacle_result [OF laws db(1), of show_err key a], insert db(2))
      (auto simp: holder_def split: if_splits sum.splits obstacle.splits)
  show ?thesis
    using assms(4) ap quiet ob
    by (auto simp: reserve_def Let_def split: sum.splits obstacle.splits)
qed

lemma claim_step_kept:
  assumes "claim_step\<^sup>*\<^sup>* es es'" "holder es = Some a"
  shows "\<exists>zs. es' = es @ zs \<and> (holder es' = Some a \<or> Released a \<in> set zs)"
  using assms(1)
proof (induction rule: rtranclp_induct)
  case base
  show ?case
    using assms(2) by simp
next
  case (step ys zs)
  then obtain xs where "ys = es @ xs" "holder ys = Some a \<or> Released a \<in> set xs"
    by blast
  with step(2) show ?case
    by (cases rule: claim_step.cases) (auto simp: holder_def split: if_splits reservation_event.splits)
qed

declare decimal.simps [simp del]

lemma decimal_value:
  "foldl (\<lambda>acc c. 10 * acc + (of_char c - 48)) 0 (decimal n) = (n :: nat)"
proof (induction n rule: decimal.induct)
  case (1 n)
  have "of_char (char_of (48 + n mod 10) :: char) - 48 = n mod 10"
    by (simp add: of_char_of)
  then show ?case
    using 1 by (subst decimal.simps) simp
qed

lemma decimal_inject [simp]: "decimal m = decimal n \<longleftrightarrow> m = n"
  by (metis decimal_value)

lemma decimal_digits: "c \<in> set (decimal n) \<Longrightarrow> c \<noteq> CHR ''-''"
proof (induction n rule: decimal.induct)
  case (1 n)
  have "of_char (char_of (48 + n mod 10) :: char) \<noteq> (of_char (CHR ''-'') :: nat)"
    by (simp add: of_char_of)
  then have "char_of (48 + n mod 10) \<noteq> CHR ''-''"
    by metis
  then show ?case
    using 1 by (subst (asm) decimal.simps) (auto split: if_splits)
qed

lemma decimal_length: "length (decimal n) \<le> Suc k \<longleftrightarrow> n < 10 ^ Suc k"
proof (induction k arbitrary: n)
  case 0
  show ?case
    by (subst decimal.simps) (auto simp: decimal.simps [of "n div 10"])
next
  case (Suc k)
  have "n div 10 < 10 ^ Suc k \<longleftrightarrow> n < 10 ^ Suc (Suc k)"
    by (simp add: less_mult_imp_div_less div_less_iff_less_mult mult.commute)
  then show ?case
    using Suc.IH [of "n div 10"] by (subst decimal.simps) (auto simp: not_less)
qed

lemma show_i32_inject [simp]: "show_i32 m = show_i32 n \<longleftrightarrow> m = n"
proof
  assume eq: "show_i32 m = show_i32 n"
  have minus: "decimal k \<noteq> CHR ''-'' # xs" for k xs
    using decimal_digits [of "CHR ''-''" k] by auto
  from eq minus minus [symmetric] have "sint m = sint n"
    by (auto simp: show_i32_def split: if_splits)
  then show "m = n"
    by (rule signed_word_eqI)
qed simp

lemma show_i32_length:
  "length (show_i32 n) \<le> 11" "length (show_i32 n) \<le> 10 \<longleftrightarrow> - 1000000000 < sint n"
proof -
  have range: "- (2 ^ 31) \<le> sint n" "sint n < 2 ^ 31"
    using sint_range_size [of n] by (simp_all add: word_size)
  have small: "nat i < numeral k \<longleftrightarrow> i < numeral k" for i k
    by (metis nat_numeral zero_less_numeral zless_nat_conj)
  have dec: "length (decimal (nat i)) \<le> 10 \<longleftrightarrow> i < 10000000000"
      "length (decimal (nat i)) \<le> 9 \<longleftrightarrow> i < 1000000000" for i
    using decimal_length [of "nat i" 9] decimal_length [of "nat i" 8] by (simp_all add: small)
  show "length (show_i32 n) \<le> 11"
    using range dec(1) [of "- sint n"] dec(1) [of "sint n"] by (simp add: show_i32_def)
  show "length (show_i32 n) \<le> 10 \<longleftrightarrow> - 1000000000 < sint n"
    using range dec [of "- sint n"] dec [of "sint n"] by (auto simp: show_i32_def)
qed

lemmas number_keys = season_number_key_def block_number_key_def episode_number_key_def

section \<open>Properties\<close>

text \<open>C18. Whatever the other users of a key do meanwhile, \<open>reserve\<close> returns after at most four
  attempts. A claim that it returns names the key and the aggregate, carries the version of the top
  event of the stream, and the aggregate is then the holder of the key; otherwise the error is the
  given conflict or an error of the store. The stream only made protocol steps.\<close>

theorem reserve_claims_or_refuses:
  assumes "sierra_laws sc" "env_claims env" "claim_stream db"
  shows "\<exists>r db'. reserve sc show_err env clock key a conflict db = Some (r, db') \<and>
    claim_stream db' \<and> claim_step\<^sup>*\<^sup>* (claims db) (claims db') \<and>
    (case r of
       Inr c \<Rightarrow> claim_key c = key \<and> claim_aggregate_id c = a \<and>
         claim_version c = of_nat (length db' - 1) \<and> holder (claims db') = Some a
     | Inl err \<Rightarrow> err = conflict \<or> (\<exists>e. err = res_sierra_error show_err e))"
  using reserve_result [OF assms, of show_err clock key a conflict]
  by (elim exE conjE) (simp add: reserve_outcome_def split: sum.splits)

text \<open>A key is never held by two aggregates: when one aggregate has claimed it and, after any
  further activity on the stream, another one claims it, the first claim was released in between.\<close>

theorem claims_are_exclusive:
  assumes "sierra_laws sc" "env_claims env" "claim_stream db"
    and "reserve sc show_err env clock key a conflict db = Some (Ok c, db1)"
    and "claim_step\<^sup>*\<^sup>* (claims db1) (claims db2)" "claim_stream db2" "env_claims env'"
    and "reserve sc show_err env' clock' key b conflict' db2 = Some (Ok c', db3)" "a \<noteq> b"
  shows "Released a \<in> set (drop (length db1) (claims db3))"
proof -
  have "reserve_outcome show_err key a conflict db (Ok c) db1"
    using reserve_result [OF assms(1-3), of show_err clock key a conflict] assms(4) by simp
  moreover have "reserve_outcome show_err key b conflict' db2 (Ok c') db3"
    using reserve_result [OF assms(1,7,6), of show_err clock' key b conflict'] assms(8) by simp
  ultimately have "holder (claims db1) = Some a" "holder (claims db3) = Some b"
      "claim_step\<^sup>*\<^sup>* (claims db1) (claims db3)"
    using assms(5) by (auto simp: reserve_outcome_def intro: rtranclp_trans)
  then obtain zs where "claims db3 = claims db1 @ zs" "Released a \<in> set zs"
    using claim_step_kept [of "claims db1" "claims db3" a] assms(9) by auto
  then show ?thesis
    by simp
qed

text \<open>The keys of different numbers, projects and kinds differ, and the kind of a key is
  recovered from its prefix, given that the hex form of a project id has 32 characters and
  determines the id.\<close>

theorem number_keys_distinct:
  assumes "\<forall>p. length (simple p) = 32" "\<forall>p q. simple p = simple q \<longrightarrow> p = q"
  shows "(season_number_key simple p m = season_number_key simple q n \<longleftrightarrow> p = q \<and> m = n) \<and>
    (block_number_key simple p m = block_number_key simple q n \<longleftrightarrow> p = q \<and> m = n) \<and>
    (episode_number_key simple p m = episode_number_key simple q n \<longleftrightarrow> p = q \<and> m = n) \<and>
    kind_from_key (season_number_key simple p m) = Some SeasonNumber \<and>
    kind_from_key (block_number_key simple p m) = Some BlockNumber \<and>
    kind_from_key (episode_number_key simple p m) = Some EpisodeNumber \<and>
    kind_from_key (scene_shoot_pair_key pair_hash scene day) = Some SceneShootPair"
proof -
  have inj: "simple p @ CHR ''-'' # show_i32 m = simple q @ CHR ''-'' # show_i32 n \<longleftrightarrow> p = q \<and> m = n"
    using assms by auto
  show ?thesis
    by (auto simp: number_keys scene_shoot_pair_key_def kind_from_key_def starts_with_def inj)
qed

text \<open>SierraDB refuses stream ids longer than 64 characters. The streams of season and episode
  numbers always fit; the stream of a block number fits only when the number is above -1000000000,
  which no check before the reservation ensures.\<close>

theorem block_stream_id_may_not_fit:
  assumes "length (simple p) = 32"
  shows "length (reservation_stream_id (season_number_key simple p n)) \<le> 64 \<and>
    length (reservation_stream_id (episode_number_key simple p n)) \<le> 64 \<and>
    (length (reservation_stream_id (block_number_key simple p n)) \<le> 64 \<longleftrightarrow> - 1000000000 < sint n)"
  using assms show_i32_length [of n]
  by (auto simp: number_keys reservation_stream_id_def RESERVATION_STREAM_PREFIX_def)

text \<open>A claim that a retry recovers from a consumed key can be released: the claim carries the
  version of the consumed event, so the compensation of a rejected create appends a release after it
  and the key is free again although the reaper had marked it as realized.\<close>

theorem recovered_claim_reopens_consumed_key:
  assumes "sierra_laws sc" "claim_stream db" "last (claims db) = Consumed a" "db \<noteq> []"
    and "reserve sc show_err (\<lambda>_ db. db) clock key a conflict db = Some (Ok c, db1)"
    and "append_lifecycle sc show_err db1 (Exact (claim_version c)) (Released a) time = (Ok (Some v), db2)"
  shows "compensate_create_claim sc show_err time c (Err (HandleError e)) db1 = db2 \<and>
    claims db2 = claims db @ [Released a] \<and> holder (claims db2) = None"
proof -
  have "env_claims (\<lambda>_ db. db)"
    by (simp add: env_claims_def)
  from reserve_result [OF assms(1) this assms(2), of show_err clock key a conflict]
  have out: "reserve_outcome show_err key a conflict db (Ok c) db1"
    using assms(5) by simp
  have "db1 = db"
    using reserve_on_held [OF assms(1,2)] assms(3-5) by (auto simp: holder_def)
  then show ?thesis
    using append_lifecycle_result [OF assms(1) _ assms(6)] assms(2,6) out
    by (auto simp: compensate_create_claim_def release_def append_claimed_def reserve_outcome_def
        holder_def)
qed

section \<open>Examples\<close>

definition sample_claims :: "reservation_event list \<Rightarrow> claim_db" where
  "sample_claims es = number_from 0 (map (\<lambda>e. (AnyVersion, (reservation_event_type e, Some e),
     \<lparr>md_causation_command = None, md_causation_event = None, md_data = None\<rparr>, 0)) es)"

lemmas run_store_simps =
  reserve_def append_lifecycle_def reference_client_def reference_append_def
  reference_satisfied_def stream_current_def sample_claims_def

lemma four_attempts: "RESERVE_RETRY_BUDGET + 1 = Suc (Suc (Suc (Suc 0)))"
  by (simp add: RESERVE_RETRY_BUDGET_def)

lemma sample_claims_ok:
  "claim_stream (sample_claims [])" "claim_stream (sample_claims [Reserved 1, Released 1])"
  "env_claims (\<lambda>_ db. db)"
  by (auto simp: claim_stream_def wf_stream_def sample_claims_def env_claims_def)

lemma sample_reserve_free:
  "reserve reference_client (\<lambda>_. []) (\<lambda>_ db. db) (\<lambda>_. 0) ''k'' 1 season_conflict (sample_claims []) =
   Some (Ok \<lparr>claim_key = ''k'', claim_aggregate_id = 1, claim_version = 0\<rparr>, sample_claims [Reserved 1])"
  unfolding reserve_def four_attempts by (simp add: run_store_simps)

lemma sample_reserve_released:
  "reserve reference_client (\<lambda>_. []) (\<lambda>_ db. db) (\<lambda>_. 0) ''k'' 2 season_conflict
     (sample_claims [Reserved 1, Released 1]) =
   Some (Ok \<lparr>claim_key = ''k'', claim_aggregate_id = 2, claim_version = 2\<rparr>,
     sample_claims [Reserved 1, Released 1, Reserved 2])"
  unfolding reserve_def four_attempts
  by (simp add: run_store_simps claim_obstacle_def last_stream_event_def scan_last.simps
      reference_scan_def classify_claim_def)

theorem reserve_claims_or_refuses_witness:
  "\<exists>c db'. reserve reference_client (\<lambda>_. []) (\<lambda>_ db. db) (\<lambda>_. 0) ''k'' 1 season_conflict
      (sample_claims []) = Some (Ok c, db') \<and> holder (claims db') = Some 1"
  using reserve_claims_or_refuses [OF reference_client_laws sample_claims_ok(3,1),
      of "\<lambda>_. []" "\<lambda>_. 0" "''k''" 1 season_conflict]
  by (simp add: sample_reserve_free)

theorem claims_are_exclusive_witness:
  "Released 1 \<in> set (drop (length (sample_claims [Reserved 1]))
     (claims (sample_claims [Reserved 1, Released 1, Reserved 2])))"
proof (rule claims_are_exclusive [OF reference_client_laws sample_claims_ok(3,1) sample_reserve_free
      _ sample_claims_ok(2,3) sample_reserve_released])
  show "claim_step\<^sup>*\<^sup>* (claims (sample_claims [Reserved 1]))
      (claims (sample_claims [Reserved 1, Released 1]))"
    using claim_step.give_up [of "[Reserved 1]" 1] by (simp add: sample_claims_def)
qed simp

text \<open>A hex form of the kind the keys use: one character per four bits.\<close>

definition sample_hex :: "uuid \<Rightarrow> string" where
  "sample_hex p = map (\<lambda>i. char_of (48 + unat (take_bit 4 (drop_bit (4 * i) p)))) [0..<32]"

lemma sample_hex_inject:
  assumes "sample_hex p = sample_hex q"
  shows "p = q"
proof (rule bit_word_eqI)
  fix n
  assume "n < LENGTH(128)"
  then have i: "n div 4 < 32"
    by simp
  have small: "unat (take_bit 4 (w :: uuid)) < 16" for w
    using take_bit_nat_less_exp [of 4 "unat w"] by (simp add: unsigned_take_bit_eq)
  have "sample_hex p ! (n div 4) = sample_hex q ! (n div 4)"
    using assms by simp
  then have "(of_char (char_of (48 + unat (take_bit 4 (drop_bit (4 * (n div 4)) p)))) :: nat) =
      of_char (char_of (48 + unat (take_bit 4 (drop_bit (4 * (n div 4)) q))))"
    using i by (simp add: sample_hex_def)
  then have "take_bit 4 (drop_bit (4 * (n div 4)) p) = take_bit 4 (drop_bit (4 * (n div 4)) q)"
    using small [of "drop_bit (4 * (n div 4)) p"] small [of "drop_bit (4 * (n div 4)) q"]
    by (simp add: of_char_of word_unat_eq_iff)
  then have "bit (take_bit 4 (drop_bit (4 * (n div 4)) p)) (n mod 4) =
      bit (take_bit 4 (drop_bit (4 * (n div 4)) q)) (n mod 4)"
    by simp
  then show "bit p n = bit q n"
    by (simp add: bit_take_bit_iff bit_drop_bit_eq)
qed

theorem number_keys_distinct_witness:
  "season_number_key sample_hex 1 3 \<noteq> season_number_key sample_hex 2 3 \<and>
   kind_from_key (block_number_key sample_hex 1 3) = Some BlockNumber"
  using number_keys_distinct [of sample_hex 1 3 2 3] sample_hex_inject
  by (auto simp: sample_hex_def)

theorem block_stream_id_may_not_fit_witness:
  "length (reservation_stream_id (block_number_key sample_hex 1 (- 1000000000))) > 64"
  using block_stream_id_may_not_fit [of sample_hex 1 "- 1000000000"] by (simp add: sample_hex_def)

theorem recovered_claim_reopens_consumed_key_witness:
  "holder (claims (sample_claims [Reserved 1, Consumed 1, Released 1])) = None"
proof -
  have 1: "claim_stream (sample_claims [Reserved 1, Consumed 1])"
    by (auto simp: claim_stream_def wf_stream_def sample_claims_def)
  have 2: "reserve reference_client (\<lambda>_. []) (\<lambda>_ db. db) (\<lambda>_. 0) ''k'' 1 season_conflict
      (sample_claims [Reserved 1, Consumed 1]) =
    Some (Ok \<lparr>claim_key = ''k'', claim_aggregate_id = 1, claim_version = 1\<rparr>,
      sample_claims [Reserved 1, Consumed 1])"
    unfolding reserve_def four_attempts
    by (simp add: run_store_simps claim_obstacle_def last_stream_event_def scan_last.simps
        reference_scan_def classify_claim_def decode_lifecycle_def)
  have 3: "append_lifecycle reference_client (\<lambda>_. []) (sample_claims [Reserved 1, Consumed 1])
      (Exact (claim_version \<lparr>claim_key = ''k'', claim_aggregate_id = 1, claim_version = 1\<rparr>))
      (Released 1) 0 = (Ok (Some 2), sample_claims [Reserved 1, Consumed 1, Released 1])"
    by (simp add: run_store_simps)
  have 4: "last (claims (sample_claims [Reserved 1, Consumed 1])) = Consumed 1"
      "sample_claims [Reserved 1, Consumed 1] \<noteq> []"
    by (simp_all add: sample_claims_def)
  show ?thesis
    by (rule conjunct2 [OF conjunct2 [OF
            recovered_claim_reopens_consumed_key [OF reference_client_laws 1 4 2 3]]])
qed

end
