(* ===== verification/Reservation_Reaper.thy ===== *)
theory Reservation_Reaper
  imports Reservations
begin

text \<open>
  The reaper of \<open>backend/crates/infra/src/reservations/reaper.rs\<close>, which resolves claims whose
  create crashed, and the composition of creates, compensation and reaper on one key: a step
  relation whose steps are the operations of the code, and the uniqueness of what it creates.

  The streams of the claimed aggregates are read through a parameter \<open>agg\<close>: the events of an
  aggregate with their names, payloads (\<open>None\<close> when the CBOR does not parse) and versions, or
  an error of the store. Times are in nanoseconds.
\<close>

section \<open>Reads\<close>

datatype lifecycle_variant = VariantReserved | VariantReleased | VariantConsumed

record stream_state =
  ss_variant :: lifecycle_variant
  ss_aggregate_id :: uuid
  ss_version :: u64
  ss_timestamp :: int

definition last_state ::
  "(lifecycle, unit) sierra_client \<Rightarrow> (sierra_error \<Rightarrow> string) \<Rightarrow> claim_db \<Rightarrow>
   (domain_error + stream_state option) option" where
  "last_state sc show_err db =
     map_option (\<lambda>r. and_then r (\<lambda>found. case found of
         None \<Rightarrow> Ok None
       | Some l \<Rightarrow>
           let state = (\<lambda>variant. and_then (decode_lifecycle (se_event l)) (\<lambda>e. Ok (Some
             \<lparr>ss_variant = variant, ss_aggregate_id = reservation_aggregate_id e,
              ss_version = se_stream_version l, ss_timestamp = se_timestamp l\<rparr>))) in
           if fst (se_event l) = EVENT_NAME_RESERVED then state VariantReserved
           else if fst (se_event l) = EVENT_NAME_RELEASED then state VariantReleased
           else if fst (se_event l) = EVENT_NAME_CONSUMED then state VariantConsumed
           else Ok None))
       (last_stream_event sc show_err db)"

datatype created_event =
    EpisodeStream episode_event
  | SeasonStream season_event
  | BlockStream block_event
  | SceneShootStream scene_shoot_event

record aggregate_entry =
  ae_name :: string
  ae_payload :: "created_event option"
  ae_version :: u64

type_synonym aggregate_reads =
  "reservation_kind \<Rightarrow> uuid \<Rightarrow> domain_error + aggregate_entry list"

definition aggregate_stream_exists ::
  "aggregate_reads \<Rightarrow> reservation_kind \<Rightarrow> uuid \<Rightarrow> domain_error + bool" where
  "aggregate_stream_exists agg kind i = and_then (agg kind i) (\<lambda>es. Ok (es \<noteq> []))"

definition first_aggregate_event ::
  "aggregate_reads \<Rightarrow> reservation_kind \<Rightarrow> uuid \<Rightarrow> domain_error + aggregate_entry option" where
  "first_aggregate_event agg kind i =
     and_then (agg kind i) (\<lambda>es. Ok (case es of [] \<Rightarrow> None | e # _ \<Rightarrow> Some e))"

section \<open>Which key an aggregate realizes\<close>

datatype realized_key = Matches | Mismatch | Undecidable

definition unparsable :: "domain_error + 'a" where
  "unparsable = Err (DomainInternal ''unparsable reservation payload'')"

fun realized ::
  "(uuid \<Rightarrow> string) \<Rightarrow> (uuid \<Rightarrow> uuid \<Rightarrow> string) \<Rightarrow> reservation_kind \<Rightarrow> aggregate_entry \<Rightarrow>
   domain_error + string option" where
  "realized simple pair_hash EpisodeNumber e =
     (if ae_name e \<noteq> ''EpisodeCreated'' then Ok None
      else case ae_payload e of
        Some (EpisodeStream (EpisodeCreated _ _ project number _ _)) \<Rightarrow>
          Ok (Some (episode_number_key simple project number))
      | Some (EpisodeStream _) \<Rightarrow> Ok None
      | _ \<Rightarrow> unparsable)"
| "realized simple pair_hash SeasonNumber e =
     (if ae_name e \<noteq> ''SeasonCreated'' then Ok None
      else case ae_payload e of
        Some (SeasonStream (SeasonCreated _ project number _ _)) \<Rightarrow>
          Ok (Some (season_number_key simple project number))
      | Some (SeasonStream _) \<Rightarrow> Ok None
      | _ \<Rightarrow> unparsable)"
| "realized simple pair_hash BlockNumber e =
     (if ae_name e \<noteq> ''BlockCreated'' then Ok None
      else case ae_payload e of
        Some (BlockStream (BlockCreated _ _ project number _ _ _)) \<Rightarrow>
          Ok (Some (block_number_key simple project number))
      | Some (BlockStream _) \<Rightarrow> Ok None
      | _ \<Rightarrow> unparsable)"
| "realized simple pair_hash SceneShootPair e =
     (if ae_name e \<noteq> ''SceneShootPlanned'' then Ok None
      else case ae_payload e of
        Some (SceneShootStream (SceneShootPlanned _ scene day _ _ _)) \<Rightarrow>
          Ok (Some (scene_shoot_pair_key pair_hash scene day))
      | Some (SceneShootStream _) \<Rightarrow> Ok None
      | _ \<Rightarrow> unparsable)"

definition verify_realized_key ::
  "(uuid \<Rightarrow> string) \<Rightarrow> (uuid \<Rightarrow> uuid \<Rightarrow> string) \<Rightarrow> aggregate_reads \<Rightarrow> reservation_kind \<Rightarrow> string \<Rightarrow>
   uuid \<Rightarrow> domain_error + realized_key" where
  "verify_realized_key simple pair_hash agg kind key i =
     and_then (first_aggregate_event agg kind i) (\<lambda>found. case found of
         None \<Rightarrow> Ok Undecidable
       | Some e \<Rightarrow>
           if ae_version e \<noteq> 0 then Ok Undecidable
           else and_then (realized simple pair_hash kind e) (\<lambda>r. Ok (case r of
             None \<Rightarrow> Undecidable | Some k \<Rightarrow> if k = key then Matches else Mismatch)))"

section \<open>Reaping a claim\<close>

datatype reap_disposition = ReapConsumed | ReapReleased | ReapSkipped

definition claim_is_too_young :: "int \<Rightarrow> stream_state \<Rightarrow> u64 \<Rightarrow> bool" where
  "claim_is_too_young now state ttl_secs =
     (if now < ss_timestamp state then True
      else now - ss_timestamp state < int (unat ttl_secs) * 1000000000)"

text \<open>\<open>env\<close> is what happens on the claim stream between the read and the append.\<close>

definition reap_claim ::
  "(lifecycle, unit) sierra_client \<Rightarrow> (sierra_error \<Rightarrow> string) \<Rightarrow> (claim_db \<Rightarrow> claim_db) \<Rightarrow>
   (uuid \<Rightarrow> string) \<Rightarrow> (uuid \<Rightarrow> uuid \<Rightarrow> string) \<Rightarrow> aggregate_reads \<Rightarrow> int \<Rightarrow> string \<Rightarrow> uuid \<Rightarrow> u64 \<Rightarrow>
   claim_db \<Rightarrow> ((domain_error + reap_disposition) \<times> claim_db) option" where
  "reap_claim sc show_err env simple pair_hash agg now key claimed ttl_secs db =
     (case kind_from_key key of
        None \<Rightarrow> Some (Ok ReapSkipped, db)
      | Some kind \<Rightarrow>
          (case last_state sc show_err db of
             None \<Rightarrow> None
           | Some (Inl err) \<Rightarrow> Some (Err err, db)
           | Some (Inr None) \<Rightarrow> Some (Ok ReapSkipped, db)
           | Some (Inr (Some state)) \<Rightarrow>
               let db1 = env db;
                   finish = (\<lambda>(r, db2) disposition.
                     Some (and_then r (\<lambda>_ :: bool. Ok disposition), db2)) in
               if ss_variant state \<noteq> VariantReserved \<or> ss_aggregate_id state \<noteq> claimed \<or>
                  claim_is_too_young now state ttl_secs
               then Some (Ok ReapSkipped, db1)
               else (case aggregate_stream_exists agg kind claimed of
                 Inl err \<Rightarrow> Some (Err err, db1)
               | Inr True \<Rightarrow>
                   (case verify_realized_key simple pair_hash agg kind key claimed of
                      Inl err \<Rightarrow> Some (Err err, db1)
                    | Inr Matches \<Rightarrow>
                        finish (consume sc show_err claimed (ss_version state) now db1) ReapConsumed
                    | Inr Mismatch \<Rightarrow>
                        finish (release sc show_err claimed (ss_version state) now db1) ReapReleased
                    | Inr Undecidable \<Rightarrow> Some (Ok ReapSkipped, db1))
               | Inr False \<Rightarrow>
                   finish (release sc show_err claimed (ss_version state) now db1) ReapReleased)))"

record reap_counts =
  rc_consumed :: nat
  rc_released :: nat
  rc_skipped :: nat
  rc_failed :: nat

definition count_disposition :: "domain_error + reap_disposition \<Rightarrow> reap_counts \<Rightarrow> reap_counts" where
  "count_disposition r counts =
     (case r of
        Inr ReapConsumed \<Rightarrow> counts\<lparr>rc_consumed := rc_consumed counts + 1\<rparr>
      | Inr ReapReleased \<Rightarrow> counts\<lparr>rc_released := rc_released counts + 1\<rparr>
      | Inr ReapSkipped \<Rightarrow> counts\<lparr>rc_skipped := rc_skipped counts + 1\<rparr>
      | Inl _ \<Rightarrow> counts\<lparr>rc_failed := rc_failed counts + 1\<rparr>)"

text \<open>
  The loop of \<open>run_reaper_pass_locked\<close> over the candidates of the claim projection; a candidate
  that fails is counted and the others are still resolved.
\<close>

fun reap_candidates ::
  "(lifecycle, unit) sierra_client \<Rightarrow> (sierra_error \<Rightarrow> string) \<Rightarrow> (claim_db \<Rightarrow> claim_db) \<Rightarrow>
   (uuid \<Rightarrow> string) \<Rightarrow> (uuid \<Rightarrow> uuid \<Rightarrow> string) \<Rightarrow> aggregate_reads \<Rightarrow> int \<Rightarrow> u64 \<Rightarrow>
   (string \<times> uuid) list \<Rightarrow> (string \<Rightarrow> claim_db) \<Rightarrow> reap_counts \<Rightarrow>
   ((string \<Rightarrow> claim_db) \<times> reap_counts) option" where
  "reap_candidates sc show_err env simple pair_hash agg now ttl_secs [] streams counts =
     Some (streams, counts)"
| "reap_candidates sc show_err env simple pair_hash agg now ttl_secs ((key, claimed) # rest) streams
     counts =
     (case reap_claim sc show_err env simple pair_hash agg now key claimed ttl_secs (streams key) of
        None \<Rightarrow> None
      | Some (r, db') \<Rightarrow>
          reap_candidates sc show_err env simple pair_hash agg now ttl_secs rest
            (streams(key := db')) (count_disposition r counts))"

section \<open>Creates, compensation and reaper on one key\<close>

text \<open>
  \<open>realizes\<close>: the first event of the aggregate is a create event that carries the key;
  \<open>unrealized\<close>: there is no event, or a create event that carries another key.
\<close>

definition realizes ::
  "(uuid \<Rightarrow> string) \<Rightarrow> (uuid \<Rightarrow> uuid \<Rightarrow> string) \<Rightarrow> aggregate_reads \<Rightarrow> string \<Rightarrow> uuid \<Rightarrow> bool" where
  "realizes simple pair_hash agg key i \<longleftrightarrow>
     (\<exists>kind e es. kind_from_key key = Some kind \<and> agg kind i = Ok (e # es) \<and> ae_version e = 0 \<and>
        realized simple pair_hash kind e = Ok (Some key))"

definition unrealized ::
  "(uuid \<Rightarrow> string) \<Rightarrow> (uuid \<Rightarrow> uuid \<Rightarrow> string) \<Rightarrow> aggregate_reads \<Rightarrow> string \<Rightarrow> uuid \<Rightarrow> bool" where
  "unrealized simple pair_hash agg key i \<longleftrightarrow>
     (\<exists>kind. kind_from_key key = Some kind \<and>
        (agg kind i = Ok [] \<or> (\<exists>e es k. agg kind i = Ok (e # es) \<and> ae_version e = 0 \<and>
           realized simple pair_hash kind e = Ok (Some k) \<and> k \<noteq> key)))"

record claim_system =
  cs_db :: claim_db
  cs_made :: "uuid set"
  cs_busy :: "uuid \<rightharpoonup> reservation_claim"

text \<open>
  One key, its claim stream, the aggregates whose create event carries the key, and the creates
  in progress. An aggregate has at most one create in progress. A create that the aggregate's
  handler rejects finds no stream of the aggregate: on an existing stream the expected version of a
  create fails before the handler runs, which leaves the claim (\<open>abandoned\<close>). The reaper only
  acts on claims older than its time to live, which is chosen so that no create is still in progress
  then, and it reads the create event of an aggregate that was created.
\<close>

inductive claim_system_step ::
  "(lifecycle, unit) sierra_client \<Rightarrow> (sierra_error \<Rightarrow> string) \<Rightarrow> (uuid \<Rightarrow> string) \<Rightarrow>
   (uuid \<Rightarrow> uuid \<Rightarrow> string) \<Rightarrow> string \<Rightarrow> claim_system \<Rightarrow> claim_system \<Rightarrow> bool"
  for sc show_err simple pair_hash key
where
  start: "cs_busy s i = None \<Longrightarrow> claimable_at (cs_db s) cas_at \<Longrightarrow>
    append_lifecycle sc show_err (cs_db s) (case cas_at of None \<Rightarrow> EmptyVersion | Some v \<Rightarrow> Exact v)
      (Reserved i) time = (Ok (Some v), db') \<Longrightarrow>
    claim_system_step sc show_err simple pair_hash key s
      (s\<lparr>cs_db := db', cs_busy := (cs_busy s)
        (i \<mapsto> \<lparr>claim_key = key, claim_aggregate_id = i, claim_version = v\<rparr>)\<rparr>)"
| resume: "cs_busy s i = None \<Longrightarrow>
    claim_obstacle sc show_err (cs_db s) (reservation_stream_id key) i = Some (Ok (OwnedBySelf c)) \<Longrightarrow>
    claim_system_step sc show_err simple pair_hash key s (s\<lparr>cs_busy := (cs_busy s)(i \<mapsto> c)\<rparr>)"
| created: "cs_busy s i = Some c \<Longrightarrow>
    claim_system_step sc show_err simple pair_hash key s
      (s\<lparr>cs_made := insert i (cs_made s), cs_busy := (cs_busy s)(i := None)\<rparr>)"
| rejected: "cs_busy s i = Some c \<Longrightarrow> i \<notin> cs_made s \<Longrightarrow>
    claim_system_step sc show_err simple pair_hash key s
      (s\<lparr>cs_db := compensate_create_claim sc show_err time c
           (Err (HandleError ()) :: unit execute_error + unit execute_result) (cs_db s),
         cs_busy := (cs_busy s)(i := None)\<rparr>)"
| abandoned: "cs_busy s i = Some c \<Longrightarrow>
    claim_system_step sc show_err simple pair_hash key s (s\<lparr>cs_busy := (cs_busy s)(i := None)\<rparr>)"
| reaped: "cs_busy s i = None \<Longrightarrow>
    (i \<in> cs_made s \<Longrightarrow> \<not> unrealized simple pair_hash agg key i) \<Longrightarrow>
    reap_claim sc show_err (\<lambda>db. db) simple pair_hash agg now key i ttl_secs (cs_db s) = Some (r, db') \<Longrightarrow>
    claim_system_step sc show_err simple pair_hash key s (s\<lparr>cs_db := db'\<rparr>)"

definition claim_system_ok :: "claim_system \<Rightarrow> bool" where
  "claim_system_ok s \<longleftrightarrow> claim_stream (cs_db s) \<and>
     (\<forall>i \<in> cs_made s \<union> dom (cs_busy s). holder (claims (cs_db s)) = Some i) \<and>
     (\<forall>i c. cs_busy s i = Some c \<longrightarrow> claim_aggregate_id c = i)"

section \<open>Lemmas\<close>

lemma append_claimed_result:
  assumes laws: "sierra_laws sc" and db: "claim_stream db"
    and "append_claimed sc show_err e v time db = (r, db')"
  shows "claim_stream db' \<and>
    (db' = db \<or> db \<noteq> [] \<and> v = of_nat (length db - 1) \<and> claims db' = claims db @ [e])"
proof -
  obtain r1 where ap: "append_lifecycle sc show_err db (Exact v) e time = (r1, db')"
    using assms(3) by (auto simp: append_claimed_def split: prod.splits sum.splits)
  have "sc_satisfied sc (Exact v) (stream_current db) \<Longrightarrow> db \<noteq> [] \<and> v = of_nat (length db - 1)"
    using laws by (auto simp: sierra_laws_def sat_simps stream_current_def split: if_splits)
  with append_lifecycle_result [OF laws db ap] db show ?thesis
    by (auto split: sum.splits option.splits)
qed

fun variant_of :: "reservation_event \<Rightarrow> lifecycle_variant" where
  "variant_of (Reserved _) = VariantReserved"
| "variant_of (Released _) = VariantReleased"
| "variant_of (Consumed _) = VariantConsumed"

lemma last_state_result:
  assumes laws: "sierra_laws sc" and db: "claim_stream db"
  obtains (err) e where "last_state sc show_err db = Some (Err (res_sierra_error show_err e))"
  | (empty) "db = []" "last_state sc show_err db = Some (Ok None)"
  | (top) e where "db \<noteq> []" "last (claims db) = e" "last_state sc show_err db = Some (Ok (Some
      \<lparr>ss_variant = variant_of e, ss_aggregate_id = reservation_aggregate_id e,
       ss_version = of_nat (length db - 1), ss_timestamp = se_timestamp (last db)\<rparr>))"
proof -
  have "wf_stream db"
    using db by (simp add: claim_stream_def)
  then obtain r where r: "last_stream_event sc show_err db = Some r"
      "r = Ok (if db = [] then None else Some (last db)) \<or> (\<exists>e. r = Err (res_sierra_error show_err e))"
    using scan_last_result [OF laws, of db 0 show_err] by (auto simp: last_stream_event_def)
  show thesis
  proof (cases "db = [] \<or> (\<exists>e. r = Err (res_sierra_error show_err e))")
    case True
    then show thesis
      using r err empty by (auto simp: last_state_def)
  next
    case False
    then obtain e where "se_event (last db) = (reservation_event_type e, Some e)"
        "last (claims db) = e" "se_stream_version (last db) = of_nat (length db - 1)"
      using claim_stream_last [OF db] by metis
    then show thesis
      using r False top [of e] by (cases e) (auto simp: last_state_def decode_lifecycle_def)
  qed
qed

lemma verify_realized_decided:
  assumes "verify_realized_key simple pair_hash agg kind key i = Ok d" "d \<noteq> Undecidable"
  obtains e es k where "agg kind i = Ok (e # es)" "ae_version e = 0"
    "realized simple pair_hash kind e = Ok (Some k)" "d = (if k = key then Matches else Mismatch)"
proof -
  obtain es where es: "agg kind i = Ok es"
    using assms(1) by (cases "agg kind i") (auto simp: verify_realized_key_def first_aggregate_event_def)
  then obtain e rest where e: "es = e # rest" "ae_version e = 0"
    using assms by (cases es)
      (auto simp: verify_realized_key_def first_aggregate_event_def split: if_splits)
  then obtain r where r: "realized simple pair_hash kind e = Ok r"
    using assms(1) es by (cases "realized simple pair_hash kind e")
      (auto simp: verify_realized_key_def first_aggregate_event_def)
  then show thesis
    using assms es e that by (cases r) (auto simp: verify_realized_key_def first_aggregate_event_def)
qed

lemma verify_realized_cases:
  assumes "kind_from_key key = Some kind"
  shows "verify_realized_key simple pair_hash agg kind key i = Ok Matches \<Longrightarrow>
      realizes simple pair_hash agg key i"
    "verify_realized_key simple pair_hash agg kind key i = Ok Mismatch \<Longrightarrow>
      unrealized simple pair_hash agg key i"
  using assms unfolding realizes_def unrealized_def
  by (auto elim!: verify_realized_decided split: if_splits)

lemma absent_unrealized:
  "kind_from_key key = Some kind \<Longrightarrow> aggregate_stream_exists agg kind i = Ok False \<Longrightarrow>
   unrealized simple pair_hash agg key i"
  by (auto simp: aggregate_stream_exists_def unrealized_def)

text \<open>What one call of the reaper may do, with the reason it has for it.\<close>

definition reap_outcome ::
  "(uuid \<Rightarrow> string) \<Rightarrow> (uuid \<Rightarrow> uuid \<Rightarrow> string) \<Rightarrow> aggregate_reads \<Rightarrow> string \<Rightarrow> uuid \<Rightarrow>
   claim_db \<Rightarrow> domain_error + reap_disposition \<Rightarrow> claim_db \<Rightarrow> claim_db \<Rightarrow> bool" where
  "reap_outcome simple pair_hash agg key i db r db1 db' \<longleftrightarrow> claim_stream db' \<and>
     (db' = db \<or> db' = db1 \<or>
      db1 = db \<and> last (claims db) = Reserved i \<and> db \<noteq> [] \<and>
        (claims db' = claims db @ [Consumed i] \<and> realizes simple pair_hash agg key i \<or>
         claims db' = claims db @ [Released i] \<and> unrealized simple pair_hash agg key i)) \<and>
     (r = Ok ReapConsumed \<longrightarrow> realizes simple pair_hash agg key i) \<and>
     (r = Ok ReapReleased \<longrightarrow> unrealized simple pair_hash agg key i)"

lemma reap_append_outcome:
  assumes laws: "sierra_laws sc" and db1: "claim_stream db1" "\<exists>zs. db1 = db @ zs"
    and top: "db \<noteq> []" "last (claims db) = Reserved i"
    and ap: "append_claimed sc show_err e (of_nat (length db - 1)) time db1 = (r, db')"
    and why: "e = Consumed i \<and> d = ReapConsumed \<and> realizes simple pair_hash agg key i \<or>
      e = Released i \<and> d = ReapReleased \<and> unrealized simple pair_hash agg key i"
  shows "reap_outcome simple pair_hash agg key i db (and_then r (\<lambda>_. Ok d)) db1 db'"
proof -
  have bounds: "length db1 < 2 ^ 64" "length db \<le> length db1"
    using db1 by (auto simp: claim_stream_def wf_stream_def)
  have "db1 = db" if "(of_nat (length db - 1) :: u64) = of_nat (length db1 - 1)" "db1 \<noteq> []"
  proof -
    have "length db - 1 = length db1 - 1"
      using that bounds by (subst (asm) of_nat_u64_inj) auto
    then have "length db1 = length db"
      using that(2) top(1) by (cases db; cases db1) auto
    then show ?thesis
      using db1(2) by auto
  qed
  with append_claimed_result [OF laws db1(1) ap] why top show ?thesis
    by (auto simp: reap_outcome_def)
qed

lemma reap_claim_outcome:
  assumes laws: "sierra_laws sc" and db: "claim_stream db"
    and env: "claim_stream (env db)" "\<exists>zs. env db = db @ zs"
  shows "\<exists>r db'. reap_claim sc show_err env simple pair_hash agg now key i ttl_secs db = Some (r, db') \<and>
    reap_outcome simple pair_hash agg key i db r (env db) db'"
proof (cases "kind_from_key key")
  case None
  then show ?thesis
    using db by (simp add: reap_claim_def reap_outcome_def)
next
  case (Some kind)
  note verify = verify_realized_cases [OF Some, of simple pair_hash agg i]
  note absent = absent_unrealized [OF Some, of agg i simple pair_hash]
  show ?thesis
  proof (rule last_state_result [OF laws db, of show_err])
    fix e
    assume top: "db \<noteq> []" "last (claims db) = e" "last_state sc show_err db = Some (Ok (Some
      \<lparr>ss_variant = variant_of e, ss_aggregate_id = reservation_aggregate_id e,
       ss_version = of_nat (length db - 1), ss_timestamp = se_timestamp (last db)\<rparr>))"
    let ?state = "\<lparr>ss_variant = variant_of e, ss_aggregate_id = reservation_aggregate_id e,
       ss_version = of_nat (length db - 1), ss_timestamp = se_timestamp (last db)\<rparr>"
    show ?thesis
    proof (cases "e = Reserved i \<and> \<not> claim_is_too_young now ?state ttl_secs")
      case False
      then show ?thesis
        using Some top(3) env(1)
        by (cases e) (auto simp: reap_claim_def reap_outcome_def Let_def)
    next
      case True
      then have e: "last (claims db) = Reserved i"
        using top(2) by simp
      note act = reap_append_outcome [OF laws env top(1) e]
      obtain r1 d1 where con: "consume sc show_err i (of_nat (length db - 1)) now (env db) = (r1, d1)"
        by fastforce
      obtain r2 d2 where rel: "release sc show_err i (of_nat (length db - 1)) now (env db) = (r2, d2)"
        by fastforce
      have con_out: "reap_outcome simple pair_hash agg key i db (and_then r1 (\<lambda>_. Ok ReapConsumed)) (env db) d1"
        if "realizes simple pair_hash agg key i"
        using act [of show_err "Consumed i" now r1 d1] con that by (auto simp: consume_def)
      have rel_out: "reap_outcome simple pair_hash agg key i db (and_then r2 (\<lambda>_. Ok ReapReleased)) (env db) d2"
        if "unrealized simple pair_hash agg key i"
        using act [of show_err "Released i" now r2 d2] rel that by (auto simp: release_def)
      have quiet: "reap_outcome simple pair_hash agg key i db r (env db) (env db)"
        if "r = Ok ReapSkipped \<or> (\<exists>x. r = Err x)" for r
        using that env(1) by (auto simp: reap_outcome_def)
      show ?thesis
        using Some top(3) True con rel con_out rel_out quiet verify absent
        by (auto simp: reap_claim_def Let_def split: sum.splits bool.splits realized_key.splits)
    qed
  qed (use Some db in \<open>auto simp: reap_claim_def reap_outcome_def\<close>)
qed


lemma claim_step_reap:
  "db \<noteq> [] \<Longrightarrow> last (claims db) = Reserved i \<Longrightarrow> claim_step (claims db) (claims db @ [Consumed i])"
  "db \<noteq> [] \<Longrightarrow> last (claims db) = Reserved i \<Longrightarrow> claim_step (claims db) (claims db @ [Released i])"
  by (simp_all add: claim_step.intros)

lemma compensate_result:
  assumes "sierra_laws sc" "claim_stream db"
  shows "claim_stream (compensate_create_claim sc show_err time c r db)"
proof -
  obtain r1 db1 where rel: "release sc show_err (claim_aggregate_id c) (claim_version c) time db = (r1, db1)"
    by fastforce
  show ?thesis
    using append_claimed_result [OF assms] rel assms(2)
    by (auto simp: compensate_create_claim_def release_def split: sum.splits execute_error.splits)
qed

lemma claim_system_step_ok:
  assumes laws: "sierra_laws sc" and ok: "claim_system_ok s"
    and "claim_system_step sc show_err simple pair_hash key s s'"
  shows "claim_system_ok s'"
  using assms(3)
proof cases
  case (start i cas_at time v db')
  have db: "claim_stream (cs_db s)"
    using ok by (simp add: claim_system_ok_def)
  note res = append_lifecycle_result [OF laws db start(4)]
  then have "claim_step (claims (cs_db s)) (claims (cs_db s) @ [Reserved i])"
    using claim_step_reserve [OF laws db start(3)] by simp
  then have "holder (claims (cs_db s)) = None"
    by cases (auto simp: holder_def)
  then have "cs_made s = {}" "cs_busy s = Map.empty"
    using ok by (auto simp: claim_system_ok_def)
  then show ?thesis
    using start(1) res by (auto simp: claim_system_ok_def holder_def split: if_splits)
next
  case (resume i c)
  have db: "claim_stream (cs_db s)"
    using ok by (simp add: claim_system_ok_def)
  have "holder (claims (cs_db s)) = Some i" "claim_aggregate_id c = i"
    using resume(3) by (auto intro: claim_obstacle_result [OF laws db, of show_err key i])
  then show ?thesis
    using ok resume(1) by (auto simp: claim_system_ok_def)
next
  case (created i c)
  then show ?thesis
    using ok by (auto simp: claim_system_ok_def split: if_splits)
next
  case (rejected i c time)
  then have held: "holder (claims (cs_db s)) = Some i"
    using ok by (auto simp: claim_system_ok_def)
  then have "cs_made s = {}" "dom (cs_busy s) = {i}"
    using ok rejected(2,3) by (auto simp: claim_system_ok_def)
  then have "cs_made s = {}" "(cs_busy s)(i := None) = Map.empty"
    by (auto simp: fun_eq_iff dom_def)
  moreover have "claim_stream (cs_db s')"
    using rejected(1) ok by (auto simp: claim_system_ok_def intro: compensate_result [OF laws])
  ultimately show ?thesis
    using rejected(1) by (simp add: claim_system_ok_def)
next
  case (abandoned i c)
  then show ?thesis
    using ok by (auto simp: claim_system_ok_def split: if_splits)
next
  case (reaped i agg now ttl_secs r db')
  have db: "claim_stream (cs_db s)"
    using ok by (simp add: claim_system_ok_def)
  have out: "reap_outcome simple pair_hash agg key i (cs_db s) r (cs_db s) db'"
    using reap_claim_outcome [OF laws db, of "\<lambda>db. db" show_err simple pair_hash agg now key i ttl_secs]
      reaped(4) db by auto
  have "holder (claims db') = Some j" if j: "j \<in> cs_made s \<union> dom (cs_busy s)" for j
  proof -
    have held: "holder (claims (cs_db s)) = Some j"
      using ok j by (auto simp: claim_system_ok_def)
    have "\<not> unrealized simple pair_hash agg key i" if "last (claims (cs_db s)) = Reserved i" "cs_db s \<noteq> []"
    proof -
      have "j = i"
        using held that by (simp add: holder_def)
      then show ?thesis
        using j reaped(2,3) by auto
    qed
    then show ?thesis
      using out held by (auto simp: reap_outcome_def holder_def)
  qed
  then show ?thesis
    using ok out reaped(1) by (auto simp: claim_system_ok_def reap_outcome_def)
qed

lemma claim_system_reachable_ok:
  assumes "sierra_laws sc"
    and "(claim_system_step sc show_err simple pair_hash key)\<^sup>*\<^sup>* s s'" "claim_system_ok s"
  shows "claim_system_ok s'"
  using assms(2,3) by (induction rule: rtranclp_induct) (auto intro: claim_system_step_ok [OF assms(1)])

text \<open>A store that answers: no scan fails, and an append fails only on its version condition.\<close>

definition store_available :: "('e, 'm) sierra_client \<Rightarrow> bool" where
  "store_available sc \<longleftrightarrow>
     (\<forall>db from_version limit. \<exists>r. sc_scan sc db from_version limit = Inr r) \<and>
     (\<forall>db new m db'. length db + length new < 2 ^ 64 \<longrightarrow> sc_append sc db new \<noteq> (Inl (SierraOther m), db'))"

lemma available_append:
  assumes "sierra_laws sc" "store_available sc" "claim_stream db" "length db + 1 < 2 ^ 64"
  obtains r db' where "append_lifecycle sc show_err db expected e time = (Ok r, db')"
    "r \<noteq> None \<longleftrightarrow> sc_satisfied sc expected (stream_current db)"
proof -
  obtain r db' where ap: "append_lifecycle sc show_err db expected e time = (r, db')"
    by fastforce
  have "\<exists>x. r = Ok x"
    using ap assms(2,4) unfolding append_lifecycle_def store_available_def
    by (auto split: prod.splits sum.splits sierra_error.splits)
  then obtain x where "r = Ok x" ..
  with ap show thesis
    using append_lifecycle_result [OF assms(1,3) ap] by (intro that [of x db']) (auto split: option.splits)
qed

lemma available_last_event:
  assumes "sierra_laws sc" "store_available sc" "claim_stream db"
  shows "last_stream_event sc show_err db = Some (Ok (if db = [] then None else Some (last db)))"
proof -
  have wf: "wf_stream db"
    using assms(3) by (simp add: claim_stream_def)
  have "sc_scan sc db v 100 \<noteq> Inl e" for v e
    using assms(2) unfolding store_available_def by (metis sum.distinct(1))
  then show ?thesis
    using scan_last_result [OF assms(1) wf, of 0 show_err] by (auto simp: last_stream_event_def)
qed

lemma reserve_free_key:
  assumes laws: "sierra_laws sc" and avail: "store_available sc" and db: "claim_stream db"
    and "length db + 1 < 2 ^ 64" "holder (claims db) = None"
  shows "\<exists>c db'. reserve sc show_err (\<lambda>_ db. db) clock key i conflict db = Some (Ok c, db')"
proof -
  note append = available_append [OF laws avail db assms(4), of show_err _ "Reserved i"]
  have sat: "expected_version_laws (sc_satisfied sc)"
    using laws by (simp add: sierra_laws_def)
  show ?thesis
  proof (cases "db = []")
    case True
    show ?thesis
      unfolding reserve_def four_attempts
      by (rule append [of EmptyVersion "clock 3"]) (use True sat in \<open>auto simp: sat_simps numeral_3_eq_3\<close>)
  next
    case False
    then obtain x where x: "last (claims db) = Released x"
      using assms(5) by (auto simp: holder_def split: reservation_event.splits)
    have top: "se_event (last db) = (EVENT_NAME_RELEASED, Some (Released x))"
        "se_stream_version (last db) = of_nat (length db - 1)"
      using claim_stream_last [OF db False] x by (metis reservation_event_type.simps(2))+
    have ob: "claim_obstacle sc show_err db (reservation_stream_id key) i =
        Some (Ok (Claimable (of_nat (length db - 1))))"
      using available_last_event [OF laws avail db, of show_err] False top
      by (simp add: claim_obstacle_def classify_claim_def)
    obtain db1 where 1: "append_lifecycle sc show_err db EmptyVersion (Reserved i) (clock 3) = (Ok None, db1)"
      by (rule append [of EmptyVersion "clock 3"]) (use False sat in \<open>auto simp: sat_simps\<close>)
    then have "db1 = db"
      using append_lifecycle_result [OF laws db 1] by simp
    moreover obtain v db2 where 2: "append_lifecycle sc show_err db (Exact (of_nat (length db - 1)))
        (Reserved i) (clock 2) = (Ok (Some v), db2)"
      by (rule append [of "Exact (of_nat (length db - 1))" "clock 2"])
        (use False sat in \<open>auto simp: sat_simps stream_current_def\<close>)
    ultimately show ?thesis
      using 1 ob unfolding reserve_def four_attempts
      by (simp add: numeral_3_eq_3 numeral_2_eq_2)
  qed
qed

section \<open>Properties\<close>


text \<open>C30. The reaper acts only with reason. Whatever it finds and whatever happens on the stream
  between its read and its append, it returns; it appends at most one event, on the very stream that
  it read and whose top is the claim of the candidate; a claim is consumed only when the create event
  of the aggregate carries the key, and released only when the aggregate has no event or its create
  event carries another key.\<close>

theorem reaper_acts_with_reason:
  assumes "sierra_laws sc" "claim_stream db" "claim_stream (env db)" "\<exists>zs. env db = db @ zs"
  shows "\<exists>r db'. reap_claim sc show_err env simple pair_hash agg now key i ttl_secs db = Some (r, db') \<and>
    (db' = db \<or> db' = env db \<or>
     env db = db \<and> last (claims db) = Reserved i \<and>
       (claims db' = claims db @ [Consumed i] \<and> realizes simple pair_hash agg key i \<or>
        claims db' = claims db @ [Released i] \<and> unrealized simple pair_hash agg key i)) \<and>
    (r = Ok ReapConsumed \<longrightarrow> realizes simple pair_hash agg key i) \<and>
    (r = Ok ReapReleased \<longrightarrow> unrealized simple pair_hash agg key i)"
  using reap_claim_outcome [of sc db env show_err simple pair_hash agg now key i ttl_secs] assms
  unfolding reap_outcome_def by blast

text \<open>C31. A key is not lost to a crash: when the create that claimed it never appended its event and
  the claim has reached its time to live, one call of the reaper on an answering store releases the
  claim, and the next create gets the key.\<close>

theorem orphaned_claim_is_reclaimed:
  assumes "sierra_laws sc" "store_available sc" "claim_stream db" "length db + 2 < 2 ^ 64"
    and "db \<noteq> []" "last (claims db) = Reserved i" "kind_from_key key = Some kind" "agg kind i = Ok []"
    and "se_timestamp (last db) + int (unat ttl_secs) * 1000000000 \<le> now"
  shows "\<exists>db' c db''.
    reap_claim sc show_err (\<lambda>db. db) simple pair_hash agg now key i ttl_secs db =
      Some (Ok ReapReleased, db') \<and>
    reserve sc show_err (\<lambda>_ db. db) clock key j conflict db' = Some (Ok c, db'')"
proof -
  have "se_stream_version (last db) = of_nat (length db - 1)"
      "se_event (last db) = (EVENT_NAME_RESERVED, Some (Reserved i))"
    using claim_stream_last [OF assms(3,5)] assms(6) by (metis reservation_event_type.simps(1))+
  then have state: "last_state sc show_err db = Some (Ok (Some \<lparr>ss_variant = VariantReserved,
      ss_aggregate_id = i, ss_version = of_nat (length db - 1), ss_timestamp = se_timestamp (last db)\<rparr>))"
    using available_last_event [OF assms(1-3), of show_err] assms(5)
    by (simp add: last_state_def decode_lifecycle_def)
  obtain v db' where ap: "append_lifecycle sc show_err db (Exact (of_nat (length db - 1))) (Released i) now =
      (Ok (Some v), db')"
    by (rule available_append [OF assms(1-3), of show_err "Exact (of_nat (length db - 1))" "Released i" now])
      (use assms(1,4,5) in \<open>auto simp: sierra_laws_def sat_simps stream_current_def\<close>)
  have reaped: "reap_claim sc show_err (\<lambda>db. db) simple pair_hash agg now key i ttl_secs db =
      Some (Ok ReapReleased, db')"
  proof -
    have "se_timestamp (last db) + uint ttl_secs * 1000000000 \<le> now"
      using assms(9) by simp
    moreover have "(0 :: int) \<le> uint ttl_secs * 1000000000"
      by simp
    ultimately have "\<not> now < se_timestamp (last db)"
        "\<not> now - se_timestamp (last db) < uint ttl_secs * 1000000000"
      by linarith+
    then show ?thesis
      using state ap assms(7,8)
      by (simp add: reap_claim_def claim_is_too_young_def aggregate_stream_exists_def release_def
          append_claimed_def)
  qed
  have db': "claims db' = claims db @ [Released i]" "claim_stream db'" "length db' = length db + 1"
    using append_lifecycle_result [OF assms(1,3) ap] by auto
  then have "\<exists>c db''. reserve sc show_err (\<lambda>_ db. db) clock key j conflict db' = Some (Ok c, db'')"
    using reserve_free_key [OF assms(1,2), of db' show_err clock key j conflict] assms(4)
    by (simp add: holder_def)
  with reaped show ?thesis
    by blast
qed

section \<open>Witnesses\<close>

lemma reference_store_available: "store_available reference_client"
  unfolding store_available_def
  by (auto simp: reference_client_def reference_scan_def reference_append_def Let_def)

lemma sample_reserved_ok:
  "claim_stream (sample_claims [Reserved 1])" "last (claims (sample_claims [Reserved 1])) = Reserved 1"
  "sample_claims [Reserved 1] \<noteq> []" "length (sample_claims [Reserved 1]) = 1"
  "se_timestamp (last (sample_claims [Reserved 1])) = 0"
  by (auto simp: claim_stream_def wf_stream_def sample_claims_def)

definition sample_key :: string where
  "sample_key = season_number_key sample_hex 1 3"

lemma sample_key_kind: "kind_from_key sample_key = Some SeasonNumber"
  unfolding sample_key_def by code_simp

definition sample_season :: aggregate_entry where
  "sample_season = \<lparr>ae_name = ''SeasonCreated'',
     ae_payload = Some (SeasonStream (SeasonCreated 1 1 3 None 0)), ae_version = 0\<rparr>"


theorem reaper_acts_with_reason_witness:
  "\<exists>db'. reap_claim reference_client (\<lambda>_. []) (\<lambda>db. db) sample_hex (\<lambda>_ _. [])
      (\<lambda>_ _. Ok [sample_season]) 5000000000 sample_key 1 2 (sample_claims [Reserved 1]) =
      Some (Ok ReapConsumed, db') \<and>
    realizes sample_hex (\<lambda>_ _. []) (\<lambda>_ _. Ok [sample_season]) sample_key 1"
proof -
  have "realized sample_hex (\<lambda>_ _. []) SeasonNumber sample_season = Ok (Some sample_key)"
    by (simp add: sample_season_def sample_key_def)
  then have "verify_realized_key sample_hex (\<lambda>_ _. []) (\<lambda>_ _. Ok [sample_season]) SeasonNumber sample_key 1 =
      Ok Matches"
    by (simp add: verify_realized_key_def first_aggregate_event_def sample_season_def)
  then have "\<exists>db'. reap_claim reference_client (\<lambda>_. []) (\<lambda>db. db) sample_hex (\<lambda>_ _. [])
      (\<lambda>_ _. Ok [sample_season]) 5000000000 sample_key 1 2 (sample_claims [Reserved 1]) =
      Some (Ok ReapConsumed, db')"
    by (simp add: reap_claim_def sample_key_kind last_state_def last_stream_event_def scan_last.simps
        run_store_simps reference_scan_def decode_lifecycle_def claim_is_too_young_def
        aggregate_stream_exists_def consume_def append_claimed_def)
  then show ?thesis
    using reaper_acts_with_reason [OF reference_client_laws sample_reserved_ok(1), of "\<lambda>db. db" "\<lambda>_. []"
        sample_hex "\<lambda>_ _. []" "\<lambda>_ _. Ok [sample_season]" 5000000000 sample_key 1 2] sample_reserved_ok(1)
    by auto
qed

theorem orphaned_claim_is_reclaimed_witness:
  "\<exists>db' c db''.
    reap_claim reference_client (\<lambda>_. []) (\<lambda>db. db) sample_hex (\<lambda>_ _. []) (\<lambda>_ _. Ok []) 5000000000
      sample_key 1 2 (sample_claims [Reserved 1]) = Some (Ok ReapReleased, db') \<and>
    reserve reference_client (\<lambda>_. []) (\<lambda>_ db. db) (\<lambda>_. 0) sample_key 2 season_conflict db' = Some (Ok c, db'')"
  by (rule orphaned_claim_is_reclaimed [OF reference_client_laws reference_store_available
        sample_reserved_ok(1) _ sample_reserved_ok(3,2) sample_key_kind])
    (simp_all add: sample_reserved_ok)

end
