(* ===== verification/Adapter_Methods.thy ===== *)
theory Adapter_Methods
  imports Reservation_Reaper
begin

text \<open>
  Every method of the command adapters
  (\<open>backend/crates/infra/src/event_store/command_adapters.rs\<close>) as a value: what it locks, probes
  and claims before the dispatch, the stream and the expected version of the dispatch, the
  audit metadata it attaches and how it maps the outcome. \<open>adapter_run\<close> performs such a call in the
  order of the code. Commands that no adapter method dispatches (the deletes of the data reset and
  the probe of a shooting day) have no call.
\<close>

section \<open>Calls\<close>

datatype call_version = Fresh | Checked aggregate_version | Unchecked

datatype call_mapping = MapExecuted | MapVersion | MapNoop aggregate_version | MapUnit

record adapter_call =
  ac_lock :: "shooting_day_id option"
  ac_probe :: "shooting_day_id option"
  ac_claim :: "(string \<times> domain_error) option"
  ac_stream :: uuid
  ac_version :: call_version
  ac_metadata :: event_metadata
  ac_mapping :: call_mapping

definition human :: "user_id \<Rightarrow> project_id option \<Rightarrow> event_metadata" where
  "human actor project = \<lparr>em_actor = Some actor, em_provenance = Human, em_project_id = project\<rparr>"

definition create_call :: "user_id \<Rightarrow> uuid \<Rightarrow> project_id option \<Rightarrow> adapter_call" where
  "create_call actor i project =
     \<lparr>ac_lock = None, ac_probe = None, ac_claim = None, ac_stream = i, ac_version = Fresh,
      ac_metadata = human actor project, ac_mapping = MapExecuted\<rparr>"

definition update_call ::
  "user_id \<Rightarrow> uuid \<Rightarrow> project_id option \<Rightarrow> aggregate_version \<Rightarrow> adapter_call" where
  "update_call actor i project version =
     (create_call actor i project)\<lparr>ac_version := Checked version, ac_mapping := MapVersion\<rparr>"

definition noop_call ::
  "user_id \<Rightarrow> uuid \<Rightarrow> project_id option \<Rightarrow> aggregate_version \<Rightarrow> adapter_call" where
  "noop_call actor i project version =
     (update_call actor i project version)\<lparr>ac_mapping := MapNoop version\<rparr>"

section \<open>The methods of the ports\<close>

fun scene_call :: "user_id \<Rightarrow> scene_command \<Rightarrow> adapter_call option" where
  "scene_call actor (CreateScene i episode p details source) = Some (create_call actor i p)"
| "scene_call actor (UpdateSceneDetails i details p v) = Some (update_call actor i p v)"
| "scene_call actor (AssignCharacter i c p v) = Some (update_call actor i p v)"
| "scene_call actor (RemoveCharacter i c p v) = Some (update_call actor i p v)"
| "scene_call actor (AddOutfitBeat i c outfit descr p v) = Some (update_call actor i p v)"
| "scene_call actor (UpdateOutfitBeat i c order outfit descr p v) = Some (update_call actor i p v)"
| "scene_call actor (RemoveOutfitBeat i c order p v) = Some (update_call actor i p v)"
| "scene_call actor (ScheduleSceneOnShootingDay i day p v) = Some (update_call actor i p v)"
| "scene_call actor (UnscheduleSceneFromShootingDay i day p v) = Some (update_call actor i p v)"
| "scene_call actor (DeleteScene i) = None"

fun shooting_day_call :: "user_id \<Rightarrow> shooting_day_command \<Rightarrow> adapter_call option" where
  "shooting_day_call actor (CreateShootingDay i episode p label key date source) =
     Some (create_call actor i p)"
| "shooting_day_call actor (RenameShootingDay i label p v) = Some (update_call actor i p v)"
| "shooting_day_call actor (RescheduleShootingDay i date p v) = Some (update_call actor i p v)"
| "shooting_day_call actor (ReorderShootingDay i key p v) = Some (update_call actor i p v)"
| "shooting_day_call actor (ArchiveShootingDay i p v) = Some (update_call actor i p v)"
| "shooting_day_call actor (WrapShootingDay i p v) =
     Some ((update_call actor i p v)\<lparr>ac_lock := Some i\<rparr>)"
| "shooting_day_call actor (EnsureShootingDayOpen i) = None"
| "shooting_day_call actor (DeleteShootingDay i) = None"

fun settings_call :: "user_id \<Rightarrow> settings_command \<Rightarrow> adapter_call option" where
  "settings_call actor (CreateCredentialBinding i a b n) = Some (create_call actor i None)"
| "settings_call actor (RotateCredentialBinding i a b n v) = Some (update_call actor i None v)"
| "settings_call actor (RevokeCredential i v) = Some (update_call actor i None v)"

fun character_call :: "user_id \<Rightarrow> 'd character_command \<Rightarrow> adapter_call option" where
  "character_call actor (CreateCharacter i season p name cat) = Some (create_call actor i p)"
| "character_call actor (UpdateMeasurements i m p v) = Some (update_call actor i p v)"
| "character_call actor (UpdateContactInfo i info p v) = Some (update_call actor i p v)"
| "character_call actor (UpdateCharacterCategory i p cat v) = Some (update_call actor i p v)"
| "character_call actor (DeleteCharacter i) = None"

fun piece_call :: "user_id \<Rightarrow> piece_command \<Rightarrow> adapter_call option" where
  "piece_call actor (CreatePiece i name cat season p) = Some (create_call actor i p)"
| "piece_call actor (RenamePiece i name p v) = Some (noop_call actor i p v)"
| "piece_call actor (UpdatePieceNotes i notes p v) = Some (update_call actor i p v)"
| "piece_call actor (AddPieceToSeason i season p v) = Some (noop_call actor i p v)"
| "piece_call actor (RemovePieceFromSeason i season p v) = Some (noop_call actor i p v)"
| "piece_call actor (AddPieceDetail i detail p v) = Some (update_call actor i p v)"
| "piece_call actor (UpdatePieceDetail i detail p v) = Some (update_call actor i p v)"
| "piece_call actor (RemovePieceDetail i detail p v) = Some (update_call actor i p v)"
| "piece_call actor (SetPieceCategory i cat p v) = Some (noop_call actor i p v)"
| "piece_call actor (LinkPiecePhoto i photo p v) = Some (update_call actor i p v)"
| "piece_call actor (UnlinkPiecePhoto i photo p v) = Some (update_call actor i p v)"
| "piece_call actor (DeletePiece i) = None"

fun outfit_call :: "user_id \<Rightarrow> outfit_command \<Rightarrow> adapter_call option" where
  "outfit_call actor (CreateOutfit i c name pieces p) = Some (create_call actor i p)"
| "outfit_call actor (CreateOutfitVariant i c parent name pieces notes p) =
     Some (create_call actor i p)"
| "outfit_call actor (RenameOutfit i name p v) = Some (noop_call actor i p v)"
| "outfit_call actor (UpdateOutfitNotes i notes p v) = Some (update_call actor i p v)"
| "outfit_call actor (AddPieceToOutfit i piece p v) = Some (noop_call actor i p v)"
| "outfit_call actor (RemovePieceFromOutfit i piece p v) = Some (noop_call actor i p v)"
| "outfit_call actor (LinkOutfitPhoto i photo p v) = Some (noop_call actor i p v)"
| "outfit_call actor (UnlinkOutfitPhoto i photo p v) = Some (noop_call actor i p v)"
| "outfit_call actor (DeleteOutfit i) = None"

text \<open>\<open>simple\<close> and \<open>pair_hash\<close> render the ids in the reservation keys.\<close>

fun season_call :: "(uuid \<Rightarrow> string) \<Rightarrow> user_id \<Rightarrow> season_command \<Rightarrow> adapter_call option" where
  "season_call simple actor (CreateSeason i p number title) =
     Some ((create_call actor i (Some p))
       \<lparr>ac_claim := Some (season_number_key simple p number, season_conflict)\<rparr>)"
| "season_call simple actor (RenameSeason i title p v) = Some (update_call actor i p v)"
| "season_call simple actor (ArchiveSeason i p v) = Some (update_call actor i p v)"

fun block_call :: "(uuid \<Rightarrow> string) \<Rightarrow> user_id \<Rightarrow> block_command \<Rightarrow> adapter_call option" where
  "block_call simple actor (CreateBlock i season p number start until) =
     Some ((create_call actor i (Some p))
       \<lparr>ac_claim := Some (block_number_key simple p number, block_conflict)\<rparr>)"
| "block_call simple actor (UpdateBlockTimeSpan i start until p v) = Some (update_call actor i p v)"

fun episode_call :: "(uuid \<Rightarrow> string) \<Rightarrow> user_id \<Rightarrow> episode_command \<Rightarrow> adapter_call option" where
  "episode_call simple actor (CreateEpisode i block p number title) =
     Some ((create_call actor i (Some p))
       \<lparr>ac_claim := Some (episode_number_key simple p number, episode_conflict)\<rparr>)"
| "episode_call simple actor (RenameEpisode i title p v) = Some (update_call actor i p v)"
| "episode_call simple actor (DeleteEpisode i) = None"

definition membership_call_of :: "user_id \<Rightarrow> block_id \<Rightarrow> project_id \<Rightarrow> adapter_call" where
  "membership_call_of actor block p =
     (create_call actor block (Some p))\<lparr>ac_version := Unchecked, ac_mapping := MapUnit\<rparr>"

fun membership_call :: "user_id \<Rightarrow> membership_command \<Rightarrow> adapter_call option" where
  "membership_call actor (InviteMember block p user role) = Some (membership_call_of actor block p)"
| "membership_call actor (AcceptInvitation block p user) = Some (membership_call_of actor block p)"
| "membership_call actor (GrantRole block p user role) = Some (membership_call_of actor block p)"
| "membership_call actor (RemoveMember block p user) = Some (membership_call_of actor block p)"
| "membership_call actor (LeaveBlock block p) = Some (membership_call_of actor block p)"
| "membership_call actor (BootstrapOwner block p user role) = Some (membership_call_of actor block p)"

fun costume_category_call :: "user_id \<Rightarrow> costume_category_command \<Rightarrow> adapter_call option" where
  "costume_category_call actor (CreateCostumeCategory i season p name key) =
     Some (create_call actor i p)"
| "costume_category_call actor (RenameCostumeCategory i name p v) = Some (update_call actor i p v)"
| "costume_category_call actor (ReorderCostumeCategory i key p v) = Some (update_call actor i p v)"
| "costume_category_call actor (ArchiveCostumeCategory i p v) = Some (update_call actor i p v)"

fun photo_call :: "user_id \<Rightarrow> photo_command \<Rightarrow> adapter_call option" where
  "photo_call actor (UploadPhoto i content_type sz binding p) =
     Some ((create_call actor i p)\<lparr>ac_mapping := MapVersion\<rparr>)"
| "photo_call actor (NormalizeOriginal i sz rotated p v) = Some (update_call actor i p v)"
| "photo_call actor (GenerateVariant i kind sz p v) = Some (update_call actor i p v)"
| "photo_call actor (MarkVariantFailed i kind err p v) = Some (update_call actor i p v)"
| "photo_call actor (DeletePhoto i p v) = Some (update_call actor i p v)"

text \<open>The mutations that a wrapped day freezes take the lock of the day and probe it.\<close>

definition frozen_call :: "shooting_day_id \<Rightarrow> adapter_call \<Rightarrow> adapter_call option" where
  "frozen_call day call = Some (call\<lparr>ac_lock := Some day, ac_probe := Some day\<rparr>)"

fun scene_shoot_call ::
  "(uuid \<Rightarrow> uuid \<Rightarrow> string) \<Rightarrow> user_id \<Rightarrow> scene_shoot_command \<Rightarrow> adapter_call option" where
  "scene_shoot_call pair_hash actor (PlanSceneShoot i scene day p order) =
     Some ((create_call actor i p)
       \<lparr>ac_claim := Some (scene_shoot_pair_key pair_hash scene day, scene_shoot_conflict)\<rparr>)"
| "scene_shoot_call pair_hash actor (ReplanSceneShoot i order p v) = Some (update_call actor i p v)"
| "scene_shoot_call pair_hash actor (StartSceneShoot i day dt p v) =
     frozen_call day (update_call actor i p v)"
| "scene_shoot_call pair_hash actor (SetActualOrder i day order p v) =
     frozen_call day (update_call actor i p v)"
| "scene_shoot_call pair_hash actor (FinishSceneShoot i day dt p v) =
     frozen_call day (update_call actor i p v)"
| "scene_shoot_call pair_hash actor (SkipSceneShoot i day p v) =
     frozen_call day (update_call actor i p v)"
| "scene_shoot_call pair_hash actor (AddSceneShootNote i day n body p author) =
     frozen_call day ((create_call actor i p)\<lparr>ac_version := Unchecked, ac_mapping := MapVersion\<rparr>)"
| "scene_shoot_call pair_hash actor (UpdateSceneShootNote i day n body p v) =
     frozen_call day (update_call actor i p v)"
| "scene_shoot_call pair_hash actor (RemoveSceneShootNote i day n p v) =
     frozen_call day (update_call actor i p v)"
| "scene_shoot_call pair_hash actor (LinkContinuityPhoto i photo p v) = Some (update_call actor i p v)"
| "scene_shoot_call pair_hash actor (UnlinkContinuityPhoto i photo p v) =
     Some (update_call actor i p v)"
| "scene_shoot_call pair_hash actor (DeleteSceneShoot i) = None"

fun ai_config_call :: "user_id \<Rightarrow> ai_config_command \<Rightarrow> adapter_call option" where
  "ai_config_call actor (CreateAiConfig i user provider model base prompts key cost dp dm dk) =
     Some (create_call actor i None)"
| "ai_config_call actor (UpdateAiConfig i provider model base prompts key cost dp dm dk v) =
     Some (update_call actor i None v)"
| "ai_config_call actor (RevokeAiConfig i v) = Some (update_call actor i None v)"

section \<open>Performing a call\<close>

fun call_expected :: "call_version \<Rightarrow> domain_error + expected_version" where
  "call_expected Fresh = Ok EmptyVersion"
| "call_expected (Checked version) =
     and_then (check_nonzero_version version) (\<lambda>_.
       and_then (domain_to_stream_checked version) (\<lambda>v. Ok (Exact v)))"
| "call_expected Unchecked = Ok AnyVersion"

datatype call_result = CreatedAt uuid aggregate_version | VersionAt aggregate_version | Done

fun call_reply ::
  "('err \<Rightarrow> domain_error) \<Rightarrow> ('err execute_error \<Rightarrow> string) \<Rightarrow> call_mapping \<Rightarrow> uuid \<Rightarrow>
   'err execute_error + 'e execute_result \<Rightarrow> domain_error + call_result" where
  "call_reply conv show_exec MapExecuted i r =
     and_then (map_executed conv show_exec i r) (\<lambda>(i, v). Ok (CreatedAt i v))"
| "call_reply conv show_exec MapVersion i r =
     and_then (map_version_only conv show_exec r) (\<lambda>v. Ok (VersionAt v))"
| "call_reply conv show_exec (MapNoop version) i r =
     and_then (map_state_based_noop conv show_exec r version) (\<lambda>v. Ok (VersionAt v))"
| "call_reply conv show_exec MapUnit i r =
     and_then (map_executed_result conv show_exec nil_uuid r) (\<lambda>_. Ok Done)"

definition call_message ::
  "adapter_call \<Rightarrow> expected_version \<Rightarrow> ('s, 'e, event_metadata, 'err) execute_msg \<Rightarrow>
   ('s, 'e, event_metadata, 'err) execute_msg" where
  "call_message call expected msg =
     msg\<lparr>ex_expected_version := expected,
         ex_metadata := (ex_metadata msg)\<lparr>md_data := Some (ac_metadata call)\<rparr>\<rparr>"

fun when_given :: "('a \<Rightarrow> 'err + unit) \<Rightarrow> 'a option \<Rightarrow> 'err + unit" where
  "when_given f None = Ok ()"
| "when_given f (Some x) = f x"

text \<open>
  One call: \<open>lock\<close> and \<open>probe\<close> are the answers of \<open>lock_day\<close> and \<open>ensure_day_open\<close>; then the claim,
  the version check, the dispatch, the compensation of the claim and the mapping of the outcome.
  \<open>env\<close>, \<open>renv\<close> and \<open>senv\<close> are what others do to the claim stream during and after the reservation and
  to the stream of the aggregate.
\<close>

definition adapter_run ::
  "(lifecycle, unit) sierra_client \<Rightarrow> (sierra_error \<Rightarrow> string) \<Rightarrow> (nat \<Rightarrow> claim_db \<Rightarrow> claim_db) \<Rightarrow>
   (nat \<Rightarrow> int) \<Rightarrow> (claim_db \<Rightarrow> claim_db) \<Rightarrow> (shooting_day_id \<Rightarrow> domain_error + unit) \<Rightarrow>
   (shooting_day_id \<Rightarrow> domain_error + unit) \<Rightarrow> ('e, event_metadata) sierra_client \<Rightarrow>
   ('s \<Rightarrow> 'e \<Rightarrow> 's) \<Rightarrow>
   (nat \<Rightarrow> ('e, event_metadata) stored_event list \<Rightarrow> ('e, event_metadata) stored_event list) \<Rightarrow>
   ('err \<Rightarrow> domain_error) \<Rightarrow> ('err execute_error \<Rightarrow> string) \<Rightarrow> adapter_call \<Rightarrow>
   ('s, 'e, event_metadata, 'err) execute_msg \<Rightarrow> 's actor_state \<Rightarrow>
   ('e, event_metadata) stored_event list \<Rightarrow> claim_db \<Rightarrow>
   ((domain_error + call_result) \<times> 's actor_state \<times> ('e, event_metadata) stored_event list \<times> claim_db)
   option" where
  "adapter_run rsc show_err env clock renv lock probe sc ap senv conv show_exec call msg st db rdb =
     (let dispatch = (\<lambda>rdb1 settle.
        case call_expected (ac_version call) of
          Inl err \<Rightarrow> Some (Err err, st, db, rdb1)
        | Inr expected \<Rightarrow>
            (case actor_handle sc ap senv (ex_partition_key msg) (call_message call expected msg) st db of
               None \<Rightarrow> None
             | Some (r, st', db') \<Rightarrow>
                 Some (call_reply conv show_exec (ac_mapping call) (ac_stream call) r, st', db', settle r)))
      in case and_then (when_given lock (ac_lock call)) (\<lambda>_. when_given probe (ac_probe call)) of
           Inl err \<Rightarrow> Some (Err err, st, db, rdb)
         | Inr _ \<Rightarrow>
             (case ac_claim call of
                None \<Rightarrow> dispatch rdb (\<lambda>_. rdb)
              | Some (key, conflict) \<Rightarrow>
                  (case reserve rsc show_err env clock key (ac_stream call) conflict rdb of
                     None \<Rightarrow> None
                   | Some (Inl err, rdb1) \<Rightarrow> Some (Err err, st, db, rdb1)
                   | Some (Inr claim, rdb1) \<Rightarrow>
                       dispatch rdb1
                         (\<lambda>r. compensate_create_claim rsc show_err (clock 0) claim r (renv rdb1)))))"

text \<open>
  \<open>dispatches_as\<close>: a port dispatches every command as the histories of the aggregate assume
  (\<open>expect\<close>): the version of the command, checked, becomes the expected stream version; version 0
  is refused with a conflict; commands outside the port are dispatched at any version. Every call
  carries the acting user, a claim comes with a create, and only a locked day is probed.
\<close>

definition call_fits ::
  "user_id \<Rightarrow> adapter_call option \<Rightarrow> expected_version option \<Rightarrow> bool" where
  "call_fits actor port expected \<longleftrightarrow>
     (case port of
        None \<Rightarrow> expected = Some AnyVersion
      | Some call \<Rightarrow>
          (case call_expected (ac_version call) of
             Inr ev \<Rightarrow> expected = Some ev
           | Inl err \<Rightarrow> expected = None \<and> err = VersionConflict 0 0) \<and>
          ac_metadata call = human actor (em_project_id (ac_metadata call)) \<and>
          (ac_claim call = None \<or> ac_version call = Fresh) \<and>
          (ac_probe call = None \<or> ac_probe call = ac_lock call))"

definition dispatches_as ::
  "user_id \<Rightarrow> ('c \<Rightarrow> adapter_call option) \<Rightarrow> ('c \<Rightarrow> expected_version option) \<Rightarrow> bool" where
  "dispatches_as actor port expect \<longleftrightarrow> (\<forall>c. call_fits actor (port c) (expect c))"

section \<open>Lemmas\<close>

lemma call_fits_simps:
  "call_fits actor None (Some AnyVersion)"
  "call_fits actor (Some (create_call actor i p)) (Some EmptyVersion)"
  "call_fits actor (Some ((create_call actor i p)\<lparr>ac_claim := claim\<rparr>)) (Some EmptyVersion)"
  "call_fits actor (Some ((create_call actor i p)\<lparr>ac_mapping := MapVersion\<rparr>)) (Some EmptyVersion)"
  "call_fits actor (Some (membership_call_of actor i q)) (Some AnyVersion)"
  "call_fits actor (Some (update_call actor i p v)) (exact_version v)"
  "call_fits actor (Some ((update_call actor i p v)\<lparr>ac_lock := day\<rparr>)) (exact_version v)"
  "call_fits actor (Some (noop_call actor i p v)) (exact_version v)"
  "call_fits actor (frozen_call d (update_call actor i p v)) (exact_version v)"
  "call_fits actor (frozen_call d
     ((create_call actor i p)\<lparr>ac_version := Unchecked, ac_mapping := MapVersion\<rparr>)) (Some AnyVersion)"
  by (auto simp: call_fits_def create_call_def update_call_def noop_call_def frozen_call_def
      membership_call_of_def human_def check_nonzero_version_def domain_to_stream_checked_def
      exact_version_def domain_to_stream_def)

lemma dispatches_asI: "(\<And>c. call_fits actor (port c) (expect c)) \<Longrightarrow> dispatches_as actor port expect"
  by (simp add: dispatches_as_def)

lemma dispatches_asD:
  assumes "dispatches_as actor port expect" "port c = Some call" "call_expected (ac_version call) = Ok ev"
  shows "expect c = Some ev"
  using assms(1) [unfolded dispatches_as_def, rule_format, of c] assms(2,3)
  by (simp add: call_fits_def)

text \<open>A call whose checks pass dispatches its command; otherwise nothing is dispatched.\<close>

lemma adapter_run_dispatches:
  assumes laws: "sierra_laws rsc" "env_claims env" "claim_stream rdb"
    and renv: "\<And>x. claim_stream x \<Longrightarrow> claim_stream (renv x)"
    and handled: "\<And>expected. call_expected (ac_version call) = Ok expected \<Longrightarrow>
      \<exists>r st' db'. actor_handle sc ap senv (ex_partition_key msg) (call_message call expected msg) st db =
        Some (r, st', db') \<and> Q st' db'"
    and unchanged: "Q st db"
  shows "\<exists>res st' db' rdb'.
    adapter_run rsc show_err env clock renv lock probe sc ap senv conv show_exec call msg st db rdb =
      Some (res, st', db', rdb') \<and> claim_stream rdb' \<and> Q st' db'"
proof -
  obtain r1 rdb1 where res: "\<And>key conflict. ac_claim call = Some (key, conflict) \<Longrightarrow>
      reserve rsc show_err env clock key (ac_stream call) conflict rdb = Some (r1, rdb1)"
    and rdb1: "claim_stream rdb1"
  proof (cases "ac_claim call")
    case (Some kc)
    obtain r rdb1 where "reserve rsc show_err env clock (fst kc) (ac_stream call) (snd kc) rdb = Some (r, rdb1)"
        "claim_stream rdb1"
      using reserve_result [OF laws] unfolding reserve_outcome_def by blast
    with Some show thesis
      by (intro that [of r rdb1]) auto
  qed (use laws(3) that in auto)
  have settled: "claim_stream (compensate_create_claim rsc show_err (clock 0) claim r (renv rdb1))" for claim r
    by (rule compensate_result [OF laws(1) renv [OF rdb1]])
  show ?thesis
  proof (cases "call_expected (ac_version call)")
    case (Inl err)
    then show ?thesis
      using res rdb1 laws(3) unchanged unfolding adapter_run_def Let_def
      by (auto split: sum.splits option.splits)
  next
    case (Inr expected)
    from handled [OF this] obtain r st' db' where "Q st' db'"
        "actor_handle sc ap senv (ex_partition_key msg) (call_message call expected msg) st db =
          Some (r, st', db')"
      by blast
    with Inr show ?thesis
      using res rdb1 laws(3) unchanged settled unfolding adapter_run_def Let_def
      by (auto split: sum.splits option.splits)
  qed
qed

section \<open>Properties\<close>



section \<open>Example\<close>

definition sample_create_season :: season_command where
  "sample_create_season = CreateSeason 1 1 3 None"

definition sample_season_message :: "(season, season_event, event_metadata, season_error) execute_msg" where
  "sample_season_message =
     \<lparr>ex_partition_key = 0,
      ex_metadata = \<lparr>md_causation_command = None, md_causation_event = None, md_data = None\<rparr>,
      ex_expected_version = AnyVersion, ex_time = 0, ex_now = 0, ex_dry_run = False,
      ex_command_name = ''CreateSeason'', ex_rate_limit = None,
      ex_state_idempotent = (\<lambda>s. never_idempotent s sample_create_season),
      ex_handle = (\<lambda>s. season_handle s sample_create_season)\<rparr>"

definition sample_season_call :: adapter_call where
  "sample_season_call = (create_call ''u'' 1 (Some 1))
     \<lparr>ac_claim := Some (season_number_key sample_hex 1 3, season_conflict)\<rparr>"


end
