(* ===== verification/Wrap_Finality.thy ===== *)
theory Wrap_Finality
  imports Adapter_Methods
begin

text \<open>
  Wrap finality: \<open>backend/crates/infra/src/event_store/wrap_finality.rs\<close> with its users in
  \<open>command_adapters.rs\<close> (\<open>wrap\<close>, the frozen scene-shoot methods and \<open>ensure_day_open\<close>).

  The system is a step relation over the streams of all shooting days and scene shoots, the advisory
  locks of PostgreSQL and the requests in progress. Which command takes which lock, probes which day
  and goes to which stream is read off the calls of the adapters. Two parameters admit what the
  design has to exclude: \<open>stale\<close>, a probe answered from a prefix of the day's stream, and \<open>cancels\<close>, a
  request that is dropped (and with it its lock) after its command went to the actor.
\<close>

unbundle bit_operations_syntax

section \<open>Lock and probe\<close>

definition lock_key :: "shooting_day_id \<Rightarrow> 64 word" where
  "lock_key day = ucast (drop_bit 64 day XOR day)"

fun probe_reply ::
  "(shooting_day_error execute_error \<Rightarrow> string) \<Rightarrow>
   shooting_day_error execute_error + 'e execute_result \<Rightarrow> domain_error + unit" where
  "probe_reply show_exec (Inr _) = Ok ()"
| "probe_reply show_exec (Inl (HandleError err)) =
     (case err of
        DayWrapped i \<Rightarrow> Err (DomainShootingDayWrapped i)
      | _ \<Rightarrow> Err (from_shooting_day_error err))"
| "probe_reply show_exec (Inl err) = Err (domain_conflict (show_exec err))"

definition ensure_day_open ::
  "(shooting_day_event, 'm) sierra_client \<Rightarrow>
   (nat \<Rightarrow> (shooting_day_event, 'm) stored_event list \<Rightarrow> (shooting_day_event, 'm) stored_event list) \<Rightarrow>
   (shooting_day_error execute_error \<Rightarrow> string) \<Rightarrow> datetime \<Rightarrow> shooting_day_id \<Rightarrow>
   (shooting_day, shooting_day_event, 'm, shooting_day_error) execute_msg \<Rightarrow>
   shooting_day actor_state \<Rightarrow> (shooting_day_event, 'm) stored_event list \<Rightarrow>
   ((domain_error + unit) \<times> shooting_day actor_state \<times> (shooting_day_event, 'm) stored_event list)
   option" where
  "ensure_day_open sc env show_exec now day msg st db =
     map_option (\<lambda>(r, st', db'). (probe_reply show_exec r, st', db'))
       (actor_handle sc shooting_day_apply env (ex_partition_key msg)
          (msg\<lparr>ex_expected_version := AnyVersion,
               ex_handle := (\<lambda>s. shooting_day_handle now s (EnsureShootingDayOpen day)),
               ex_state_idempotent := (\<lambda>s. never_idempotent s (EnsureShootingDayOpen day))\<rparr>) st db)"

section \<open>The system\<close>

datatype task =
    Wrapping shooting_day_command (task_day: shooting_day_id)
  | Locked scene_shoot_command (task_day: shooting_day_id)
  | Probed scene_shoot_command (task_day: shooting_day_id)

record wrap_system =
  ws_days :: "shooting_day_id \<Rightarrow> shooting_day_event list"
  ws_shoots :: "scene_shoot_id \<Rightarrow> scene_shoot_event list"
  ws_locks :: "64 word \<rightharpoonup> nat"
  ws_tasks :: "nat \<rightharpoonup> task"

definition wrap_system_init :: wrap_system where
  "wrap_system_init =
     \<lparr>ws_days = (\<lambda>_. []), ws_shoots = (\<lambda>_. []), ws_locks = Map.empty, ws_tasks = Map.empty\<rparr>"

definition dispatched ::
  "(expected_version \<Rightarrow> current_version \<Rightarrow> bool) \<Rightarrow> ('c \<Rightarrow> expected_version option) \<Rightarrow>
   ('s \<Rightarrow> 'e \<Rightarrow> 's) \<Rightarrow> ('s \<Rightarrow> 'c \<Rightarrow> 'err + 'e list) \<Rightarrow> 's \<Rightarrow> 'c \<Rightarrow> 'e list \<Rightarrow> 'e list \<Rightarrow> bool" where
  "dispatched sat expect ap hnd s0 c es new \<longleftrightarrow>
     (\<exists>ev. expect c = Some ev \<and> sat ev (stream_current es)) \<and> hnd (replay ap s0 es) c = Ok new"

definition call_lock :: "adapter_call option \<Rightarrow> shooting_day_id option" where
  "call_lock port = Option.bind port ac_lock"

definition drop_lock :: "nat \<Rightarrow> shooting_day_id \<Rightarrow> (64 word \<rightharpoonup> nat) \<Rightarrow> 64 word \<rightharpoonup> nat" where
  "drop_lock t day locks =
     (if locks (lock_key day) = Some t then locks(lock_key day := None) else locks)"

text \<open>The guard is dropped when the request ends, however it ends.\<close>

definition end_task :: "nat \<Rightarrow> task \<Rightarrow> wrap_system \<Rightarrow> wrap_system" where
  "end_task t task s =
     s\<lparr>ws_locks := drop_lock t (task_day task) (ws_locks s), ws_tasks := (ws_tasks s)(t := None)\<rparr>"

definition probe_passes ::
  "bool \<Rightarrow> shooting_day \<Rightarrow> shooting_day_id option \<Rightarrow> (shooting_day_id \<Rightarrow> shooting_day_event list) \<Rightarrow> bool" where
  "probe_passes stale day0 probe days \<longleftrightarrow>
     (case probe of
        None \<Rightarrow> True
      | Some d \<Rightarrow> \<exists>seen. (\<exists>rest. days d = seen @ rest \<and> (stale \<or> rest = [])) \<and>
          handle_EnsureShootingDayOpen (replay shooting_day_apply day0 seen) d = Ok [])"

inductive wrap_step ::
  "bool \<Rightarrow> bool \<Rightarrow> (expected_version \<Rightarrow> current_version \<Rightarrow> bool) \<Rightarrow> (uuid \<Rightarrow> string) \<Rightarrow>
   (uuid \<Rightarrow> uuid \<Rightarrow> string) \<Rightarrow> user_id \<Rightarrow> shooting_day \<Rightarrow> scene_shoot \<Rightarrow>
   wrap_system \<Rightarrow> wrap_system \<Rightarrow> bool"
  for stale cancels sat disp pair_hash actor day0 shoot0
where
  lock_wrap: "ws_tasks s t = None \<Longrightarrow> shooting_day_call actor c = Some call \<Longrightarrow> ac_lock call = Some d \<Longrightarrow>
    ws_locks s (lock_key d) = None \<Longrightarrow>
    wrap_step stale cancels sat disp pair_hash actor day0 shoot0 s
      (s\<lparr>ws_locks := (ws_locks s)(lock_key d \<mapsto> t), ws_tasks := (ws_tasks s)(t \<mapsto> Wrapping c d)\<rparr>)"
| lock_shoot: "ws_tasks s t = None \<Longrightarrow> scene_shoot_call pair_hash actor c = Some call \<Longrightarrow>
    ac_lock call = Some d \<Longrightarrow> ws_locks s (lock_key d) = None \<Longrightarrow>
    wrap_step stale cancels sat disp pair_hash actor day0 shoot0 s
      (s\<lparr>ws_locks := (ws_locks s)(lock_key d \<mapsto> t), ws_tasks := (ws_tasks s)(t \<mapsto> Locked c d)\<rparr>)"
| probe: "ws_tasks s t = Some (Locked c d) \<Longrightarrow> scene_shoot_call pair_hash actor c = Some call \<Longrightarrow>
    probe_passes stale day0 (ac_probe call) (ws_days s) \<Longrightarrow>
    wrap_step stale cancels sat disp pair_hash actor day0 shoot0 s
      (s\<lparr>ws_tasks := (ws_tasks s)(t \<mapsto> Probed c d)\<rparr>)"
| commit_shoot: "ws_tasks s t = Some (Probed c d) \<Longrightarrow> scene_shoot_call pair_hash actor c = Some call \<Longrightarrow>
    dispatched sat scene_shoot_expect scene_shoot_apply (scene_shoot_handle disp) shoot0 c
      (ws_shoots s (ac_stream call)) new \<Longrightarrow>
    wrap_step stale cancels sat disp pair_hash actor day0 shoot0 s
      (end_task t (Probed c d) (s\<lparr>ws_shoots := (ws_shoots s)
        (ac_stream call := ws_shoots s (ac_stream call) @ new)\<rparr>))"
| commit_wrap: "ws_tasks s t = Some (Wrapping c d) \<Longrightarrow> shooting_day_call actor c = Some call \<Longrightarrow>
    dispatched sat shooting_day_expect shooting_day_apply (shooting_day_handle now) day0 c
      (ws_days s (ac_stream call)) new \<Longrightarrow>
    wrap_step stale cancels sat disp pair_hash actor day0 shoot0 s
      (end_task t (Wrapping c d) (s\<lparr>ws_days := (ws_days s)
        (ac_stream call := ws_days s (ac_stream call) @ new)\<rparr>))"
| abandon: "ws_tasks s t = Some task \<Longrightarrow>
    wrap_step stale cancels sat disp pair_hash actor day0 shoot0 s (end_task t task s)"
| cancel: "cancels \<Longrightarrow> ws_tasks s t = Some task \<Longrightarrow> \<not> is_Locked task \<Longrightarrow>
    wrap_step stale cancels sat disp pair_hash actor day0 shoot0 s
      (s\<lparr>ws_locks := drop_lock t (task_day task) (ws_locks s)\<rparr>)"
| unlocked_day: "call_lock (shooting_day_call actor c) = None \<Longrightarrow>
    dispatched sat shooting_day_expect shooting_day_apply (shooting_day_handle now) day0 c (ws_days s i) new \<Longrightarrow>
    wrap_step stale cancels sat disp pair_hash actor day0 shoot0 s
      (s\<lparr>ws_days := (ws_days s)(i := ws_days s i @ new)\<rparr>)"
| unlocked_shoot: "call_lock (scene_shoot_call pair_hash actor c) = None \<Longrightarrow>
    dispatched sat scene_shoot_expect scene_shoot_apply (scene_shoot_handle disp) shoot0 c (ws_shoots s i) new \<Longrightarrow>
    wrap_step stale cancels sat disp pair_hash actor day0 shoot0 s
      (s\<lparr>ws_shoots := (ws_shoots s)(i := ws_shoots s i @ new)\<rparr>)"

definition day_wrapped :: "shooting_day \<Rightarrow> shooting_day_event list \<Rightarrow> bool" where
  "day_wrapped day0 es \<longleftrightarrow> day_wrapped_at (replay shooting_day_apply day0 es) \<noteq> None"

fun execution_event :: "scene_shoot_event \<Rightarrow> bool" where
  "execution_event (SceneShootStarted _ _ _) = True"
| "execution_event (SceneShootActualOrderSet _ _ _) = True"
| "execution_event (SceneShootFinished _ _ _) = True"
| "execution_event (SceneShootSkipped _ _) = True"
| "execution_event (ShootDayNoteAdded _ _ _ _ _) = True"
| "execution_event (ShootDayNoteUpdated _ _ _ _) = True"
| "execution_event (ShootDayNoteRemoved _ _ _) = True"
| "execution_event _ = False"

section \<open>Lemmas\<close>

lemmas wrap_calls = create_call_def update_call_def frozen_call_def call_lock_def

lemma wrap_command:
  "shooting_day_call actor c = Some call \<Longrightarrow> ac_lock call = Some d \<Longrightarrow> ac_stream call = d"
  by (cases c) (auto simp: wrap_calls)

lemma frozen_command_day:
  assumes "scene_shoot_call pair_hash actor c = Some call" "ac_lock call = Some d"
  shows "ac_probe call = Some d"
    "scene_shoot_handle disp s c = Ok new \<Longrightarrow> new = [] \<or> shoot_day_id s = d"
  using assms by (cases c; auto simp: wrap_calls handler_defs split: if_splits)+

lemma unlocked_shoot_events:
  assumes "call_lock (scene_shoot_call pair_hash actor c) = None" "scene_shoot_handle disp s c = Ok new"
  shows "\<not> list_ex execution_event new"
  using assms by (cases c) (auto simp: wrap_calls handler_defs split: if_splits)

lemma unlocked_day_events:
  assumes "call_lock (shooting_day_call actor c) = None" "shooting_day_handle now s c = Ok new"
  shows "day_wrapped_at (foldl shooting_day_apply s new) = day_wrapped_at s"
  using assms by (cases c) (auto simp: wrap_calls handler_defs split: if_splits)

lemma day_stays_wrapped: "day_wrapped day0 es \<Longrightarrow> day_wrapped day0 (es @ new)"
proof (induction new rule: rev_induct)
  case (snoc e new)
  then show ?case
    by (cases e) (auto simp: day_wrapped_def replay_def)
qed simp

lemma shoot_day_kept:
  assumes "scene_shoot_expect c = Some ev" "ev \<noteq> EmptyVersion" "scene_shoot_handle disp s c = Ok new"
  shows "shoot_day_id (foldl scene_shoot_apply s new) = shoot_day_id s"
  using assms by (cases c) (auto simp: handler_defs split: if_splits)

text \<open>Every request holds the lock of its day, and a probed day is open.\<close>

fun task_ok ::
  "(uuid \<Rightarrow> uuid \<Rightarrow> string) \<Rightarrow> user_id \<Rightarrow> shooting_day \<Rightarrow>
   (shooting_day_id \<Rightarrow> shooting_day_event list) \<Rightarrow> task \<Rightarrow> bool" where
  "task_ok pair_hash actor day0 days (Wrapping c d) \<longleftrightarrow> call_lock (shooting_day_call actor c) = Some d"
| "task_ok pair_hash actor day0 days (Locked c d) \<longleftrightarrow>
     call_lock (scene_shoot_call pair_hash actor c) = Some d"
| "task_ok pair_hash actor day0 days (Probed c d) \<longleftrightarrow>
     call_lock (scene_shoot_call pair_hash actor c) = Some d \<and> \<not> day_wrapped day0 (days d)"

definition wrap_ok :: "(uuid \<Rightarrow> uuid \<Rightarrow> string) \<Rightarrow> user_id \<Rightarrow> shooting_day \<Rightarrow> wrap_system \<Rightarrow> bool" where
  "wrap_ok pair_hash actor day0 s \<longleftrightarrow>
     (\<forall>t task. ws_tasks s t = Some task \<longrightarrow>
        ws_locks s (lock_key (task_day task)) = Some t \<and> task_ok pair_hash actor day0 (ws_days s) task)"

lemma wrap_okD:
  assumes "wrap_ok pair_hash actor day0 s" "ws_tasks s t = Some task"
  shows "ws_locks s (lock_key (task_day task)) = Some t" "task_ok pair_hash actor day0 (ws_days s) task"
  using assms unfolding wrap_ok_def by blast+

lemma wrap_ok_end_task:
  assumes "wrap_ok pair_hash actor day0 s" "ws_tasks s t = Some task"
  shows "wrap_ok pair_hash actor day0 (end_task t task s)"
  unfolding wrap_ok_def
proof (intro allI impI)
  fix t' task'
  assume "ws_tasks (end_task t task s) t' = Some task'"
  then have other: "t' \<noteq> t" "ws_tasks s t' = Some task'"
    by (auto simp: end_task_def split: if_splits)
  with wrap_okD [OF assms] wrap_okD [OF assms(1) other(2)]
  show "ws_locks (end_task t task s) (lock_key (task_day task')) = Some t' \<and>
      task_ok pair_hash actor day0 (ws_days (end_task t task s)) task'"
    by (auto simp: end_task_def drop_lock_def)
qed

text \<open>A change of one day's stream keeps the invariant unless it wraps a probed day.\<close>

lemma wrap_ok_days:
  assumes "wrap_ok pair_hash actor day0 s"
    and "\<And>t c. ws_tasks s t = Some (Probed c d) \<Longrightarrow> \<not> day_wrapped day0 es"
  shows "wrap_ok pair_hash actor day0 (s\<lparr>ws_days := (ws_days s)(d := es)\<rparr>)"
  unfolding wrap_ok_def
proof (intro allI impI)
  fix t task
  assume "ws_tasks (s\<lparr>ws_days := (ws_days s)(d := es)\<rparr>) t = Some task"
  then have t: "ws_tasks s t = Some task"
    by simp
  then show "ws_locks (s\<lparr>ws_days := (ws_days s)(d := es)\<rparr>) (lock_key (task_day task)) = Some t \<and>
      task_ok pair_hash actor day0 (ws_days (s\<lparr>ws_days := (ws_days s)(d := es)\<rparr>)) task"
    using wrap_okD [OF assms(1) t] assms(2) [of t] by (cases task) auto
qed

lemma wrap_ok_lock:
  assumes "wrap_ok pair_hash actor day0 s" "ws_locks s (lock_key d) = None"
    and "task_day task = d" "task_ok pair_hash actor day0 (ws_days s) task"
  shows "wrap_ok pair_hash actor day0
    (s\<lparr>ws_locks := (ws_locks s)(lock_key d \<mapsto> t), ws_tasks := (ws_tasks s)(t \<mapsto> task)\<rparr>)"
proof -
  have "lock_key (task_day task') \<noteq> lock_key d" if "ws_tasks s t' = Some task'" for t' task'
    using wrap_okD(1) [OF assms(1) that] assms(2) by auto
  with assms show ?thesis
    unfolding wrap_ok_def by (auto split: if_splits)
qed

lemma probe_fresh:
  assumes "probe_passes False day0 (Some d) days"
  shows "\<not> day_wrapped day0 (days d)"
  using assms by (auto simp: probe_passes_def day_wrapped_def handler_defs split: if_splits)

lemma wrap_step_ok:
  assumes ok: "wrap_ok pair_hash actor day0 s"
    and step: "wrap_step False False sat disp pair_hash actor day0 shoot0 s s'"
  shows "wrap_ok pair_hash actor day0 s'"
  using step
proof cases
  case (lock_wrap t c call d)
  then show ?thesis
    using wrap_ok_lock [OF ok, of d "Wrapping c d" t] by (simp add: call_lock_def)
next
  case (lock_shoot t c call d)
  then show ?thesis
    using wrap_ok_lock [OF ok, of d "Locked c d" t] by (simp add: call_lock_def)
next
  case (probe t c d call)
  have "ac_lock call = Some d" "ws_locks s (lock_key d) = Some t"
    using wrap_okD [OF ok probe(2)] probe(3) by (simp_all add: call_lock_def)
  moreover from this have "\<not> day_wrapped day0 (ws_days s d)"
    using frozen_command_day(1) [OF probe(3)] probe(4) probe_fresh by simp
  ultimately show ?thesis
    using ok probe(1,3) unfolding wrap_ok_def by (auto simp: call_lock_def)
next
  case (commit_shoot t c d call new)
  have "wrap_ok pair_hash actor day0 (s\<lparr>ws_shoots := (ws_shoots s)
      (ac_stream call := ws_shoots s (ac_stream call) @ new)\<rparr>)"
    using ok by (simp add: wrap_ok_def)
  then show ?thesis
    using commit_shoot(1,2) by (auto intro: wrap_ok_end_task)
next
  case (commit_wrap t c d call now new)
  have d: "ac_lock call = Some d" "ws_locks s (lock_key d) = Some t"
    using wrap_okD [OF ok commit_wrap(2)] commit_wrap(3) by (simp_all add: call_lock_def)
  have "ws_tasks s t' \<noteq> Some (Probed c' d)" for t' c'
    using wrap_okD(1) [OF ok, of t' "Probed c' d"] d(2) commit_wrap(2) by auto
  then have "wrap_ok pair_hash actor day0 (s\<lparr>ws_days := (ws_days s)(d := ws_days s d @ new)\<rparr>)"
    by (intro wrap_ok_days [OF ok]) simp
  then show ?thesis
    using commit_wrap(1,2) wrap_command [OF commit_wrap(3) d(1)] by (auto intro: wrap_ok_end_task)
next
  case (abandon t task)
  then show ?thesis
    using wrap_ok_end_task [OF ok] by simp
next
  case (unlocked_day c now i new)
  have "day_wrapped day0 (ws_days s i @ new) \<longleftrightarrow> day_wrapped day0 (ws_days s i)"
    using unlocked_day_events [OF unlocked_day(2)] unlocked_day(3)
    by (auto simp: day_wrapped_def dispatched_def replay_def)
  moreover have "\<not> day_wrapped day0 (ws_days s i)" if "ws_tasks s t = Some (Probed c' i)" for t c'
    using wrap_okD(2) [OF ok that] by simp
  ultimately show ?thesis
    unfolding unlocked_day(1) by (intro wrap_ok_days [OF ok]) simp
next
  case (unlocked_shoot c i new)
  then show ?thesis
    using ok by (simp add: wrap_ok_def)
qed simp_all

lemma wrap_init_ok: "wrap_ok pair_hash actor day0 wrap_system_init"
  by (simp add: wrap_ok_def wrap_system_init_def)

lemma wrap_step_days:
  assumes "wrap_step stale cancels sat disp pair_hash actor day0 shoot0 s s'"
  shows "\<exists>new. ws_days s' d = ws_days s d @ new"
  using assms by cases (auto simp: end_task_def)

text \<open>What one step may append to a planned scene shoot of a wrapped day.\<close>

lemma wrapped_day_step:
  assumes sat: "expected_version_laws sat" and ok: "wrap_ok pair_hash actor day0 s"
    and step: "wrap_step False False sat disp pair_hash actor day0 shoot0 s s'"
    and day: "day_wrapped day0 (ws_days s d)" "ws_shoots s i \<noteq> []"
      "shoot_day_id (replay scene_shoot_apply shoot0 (ws_shoots s i)) = d"
  obtains new where "ws_shoots s' i = ws_shoots s i @ new" "\<not> list_ex execution_event new"
    "shoot_day_id (replay scene_shoot_apply shoot0 (ws_shoots s' i)) = d"
proof -
  have kept: "shoot_day_id (replay scene_shoot_apply shoot0 (ws_shoots s i @ new)) = d"
    if c: "dispatched sat scene_shoot_expect scene_shoot_apply (scene_shoot_handle disp) shoot0 c
      (ws_shoots s i) new" for c new
  proof -
    obtain ev where "scene_shoot_expect c = Some ev" "sat ev (stream_current (ws_shoots s i))"
        "scene_shoot_handle disp (replay scene_shoot_apply shoot0 (ws_shoots s i)) c = Ok new"
      using c by (auto simp: dispatched_def)
    moreover from this have "ev \<noteq> EmptyVersion"
      using sat day(2) by (auto simp: sat_simps)
    ultimately show ?thesis
      using shoot_day_kept day(3) by (simp add: replay_def)
  qed
  have "\<exists>new. ws_shoots s' i = ws_shoots s i @ new \<and> \<not> list_ex execution_event new \<and>
      shoot_day_id (replay scene_shoot_apply shoot0 (ws_shoots s' i)) = d"
    using step
  proof cases
    case (commit_shoot t c d' call new)
    have d': "ac_lock call = Some d'" "\<not> day_wrapped day0 (ws_days s d')"
      using wrap_okD(2) [OF ok commit_shoot(2)] commit_shoot(3) by (simp_all add: call_lock_def)
    show ?thesis
    proof (cases "ac_stream call = i")
      case True
      then have "new = []"
        using frozen_command_day(2) [OF commit_shoot(3) d'(1)] commit_shoot(4) d'(2) day
        by (auto simp: dispatched_def)
      then show ?thesis
        using commit_shoot(1) True day(3) by (simp add: end_task_def)
    qed (use commit_shoot(1) day(3) in \<open>simp add: end_task_def\<close>)
  next
    case (unlocked_shoot c j new)
    then show ?thesis
      using kept unlocked_shoot_events [OF unlocked_shoot(2)] day(3)
      by (cases "j = i") (auto simp: dispatched_def)
  qed (use day(3) in \<open>auto simp: end_task_def\<close>)
  then show thesis
    using that by blast
qed

section \<open>Properties\<close>

text \<open>C8. Wrap finality: in any interleaving of wraps, frozen scene-shoot methods and all other commands
  on any days and shoots, with requests that fail or crash at any point, once a shooting day is wrapped no
  execution event (start, actual order, finish, skip, note) is ever appended to a scene shoot of the day,
  provided that probes are answered from the whole stream and that no command outlives its request.\<close>

theorem wrap_is_final:
  assumes "expected_version_laws sat"
    and "(wrap_step False False sat disp pair_hash actor day0 shoot0)\<^sup>*\<^sup>* wrap_system_init s"
    and "(wrap_step False False sat disp pair_hash actor day0 shoot0)\<^sup>*\<^sup>* s s'"
    and "day_wrapped day0 (ws_days s d)" "ws_shoots s i \<noteq> []"
    and "shoot_day_id (replay scene_shoot_apply shoot0 (ws_shoots s i)) = d"
  shows "\<exists>new. ws_shoots s' i = ws_shoots s i @ new \<and> \<not> list_ex execution_event new"
proof -
  have ok: "wrap_ok pair_hash actor day0 s"
    using assms(2) by (induction rule: rtranclp_induct) (auto intro: wrap_init_ok wrap_step_ok)
  from assms(3) have "wrap_ok pair_hash actor day0 s' \<and> day_wrapped day0 (ws_days s' d) \<and>
    shoot_day_id (replay scene_shoot_apply shoot0 (ws_shoots s' i)) = d \<and>
    (\<exists>new. ws_shoots s' i = ws_shoots s i @ new \<and> \<not> list_ex execution_event new)"
  proof (induction rule: rtranclp_induct)
    case base
    then show ?case
      using ok assms(4,6) by simp
  next
    case (step s1 s2)
    then obtain new where new: "ws_shoots s1 i = ws_shoots s i @ new" "\<not> list_ex execution_event new"
      by blast
    have s1: "wrap_ok pair_hash actor day0 s1" "day_wrapped day0 (ws_days s1 d)"
        "shoot_day_id (replay scene_shoot_apply shoot0 (ws_shoots s1 i)) = d" "ws_shoots s1 i \<noteq> []"
      using step.IH assms(5) by auto
    from wrapped_day_step [OF assms(1) s1(1) step.hyps(2) s1(2,4,3)]
    obtain new' where "ws_shoots s2 i = ws_shoots s1 i @ new'" "\<not> list_ex execution_event new'"
        "shoot_day_id (replay scene_shoot_apply shoot0 (ws_shoots s2 i)) = d" .
    moreover have "day_wrapped day0 (ws_days s2 d)"
      using wrap_step_days [OF step.hyps(2), of d] day_stays_wrapped [OF s1(2)] by auto
    ultimately show ?case
      using new wrap_step_ok [OF s1(1) step.hyps(2)] by auto
  qed
  then show ?thesis
    by blast
qed

text \<open>The probe is answered from the state that the entity actor of this process has cached: when
  the actor knows only the part of the stream before the wrap, \<open>ensure_day_open\<close> reports an open day
  although the stream holds the wrap, and the stream is not read.\<close>

theorem probe_trusts_cached_actor:
  assumes "sierra_laws sc" "st = actor_of shooting_day_apply day0 (take k db)"
    and "handle_EnsureShootingDayOpen (replay shooting_day_apply day0 (stream_events (take k db))) day = Ok []"
    and "day_wrapped day0 (stream_events db)"
    and "ex_rate_limit msg = None" "md_causation_event (ex_metadata msg) = None"
  shows "ensure_day_open sc env show_exec now day msg st db = Some (Ok (), st, db)"
  using assms(1,3,5,6) unfolding assms(2)
  by (simp add: ensure_day_open_def actor_handle_def actor_attempt.simps actor_execute_def
      rate_limited_def should_skip_def check_causation_def sierra_laws_def sat_simps actor_of_entity
      never_idempotent_def)

section \<open>Runs\<close>

text \<open>A day 7 and a shoot 5 planned on it; a wrap of the day by request 0, a start of the shoot by request 1.\<close>

definition sample_system ::
  "shooting_day_event list \<Rightarrow> scene_shoot_event list \<Rightarrow> (64 word \<rightharpoonup> nat) \<Rightarrow> (nat \<rightharpoonup> task) \<Rightarrow> wrap_system" where
  "sample_system day shoot locks tasks =
     \<lparr>ws_days = (\<lambda>_. [])(7 := day), ws_shoots = (\<lambda>_. [])(5 := shoot), ws_locks = locks, ws_tasks = tasks\<rparr>"

abbreviation sample_step :: "bool \<Rightarrow> bool \<Rightarrow> wrap_system \<Rightarrow> wrap_system \<Rightarrow> bool" where
  "sample_step stale cancels \<equiv> wrap_step stale cancels reference_satisfied (\<lambda>_. []) (\<lambda>_ _. []) ''u''
     (shooting_day_default 1 2) (scene_shoot_default 1 2)"

definition sample_day :: "shooting_day_event list" where
  "sample_day = [ShootingDayCreated 7 3 None ''m'' None DayManual 1]"

definition sample_wrapped :: "shooting_day_event list" where
  "sample_wrapped = sample_day @ [ShootingDayWrapped 7 500 2]"

definition sample_shoot :: "scene_shoot_event list" where
  "sample_shoot = [SceneShootPlanned 5 3 7 ''m'' Planned 1]"

abbreviation sample_wrap :: task where
  "sample_wrap \<equiv> Wrapping (WrapShootingDay 7 None 1) 7"

abbreviation sample_start :: scene_shoot_command where
  "sample_start \<equiv> StartSceneShoot 5 7 10 None 1"

lemmas sample_defs = sample_system_def sample_day_def sample_wrapped_def sample_shoot_def

lemma wrap_step_eq:
  "wrap_step stale cancels sat disp pair_hash actor day0 shoot0 s s1 \<Longrightarrow> s1 = s2 \<Longrightarrow>
   wrap_step stale cancels sat disp pair_hash actor day0 shoot0 s s2"
  by simp

lemma sample_dispatches:
  "dispatched reference_satisfied shooting_day_expect shooting_day_apply (shooting_day_handle 500)
     (shooting_day_default 1 2) (CreateShootingDay 7 3 None None ''m'' None DayManual) [] sample_day"
  "dispatched reference_satisfied shooting_day_expect shooting_day_apply (shooting_day_handle 500)
     (shooting_day_default 1 2) (WrapShootingDay 7 None 1) sample_day [ShootingDayWrapped 7 500 2]"
  "dispatched reference_satisfied scene_shoot_expect scene_shoot_apply (scene_shoot_handle (\<lambda>_. []))
     (scene_shoot_default 1 2) (PlanSceneShoot 5 3 7 None ''m'') [] sample_shoot"
  "dispatched reference_satisfied scene_shoot_expect scene_shoot_apply (scene_shoot_handle (\<lambda>_. []))
     (scene_shoot_default 1 2) (ReplanSceneShoot 5 ''n'' None 1) sample_shoot [SceneShootReplanned 5 ''n'' 2]"
  "dispatched reference_satisfied scene_shoot_expect scene_shoot_apply (scene_shoot_handle (\<lambda>_. []))
     (scene_shoot_default 1 2) sample_start sample_shoot [SceneShootStarted 5 10 2]"
  by (simp_all add: dispatched_def sample_day_def sample_shoot_def handler_defs replay_def
      shooting_day_default_def scene_shoot_default_def reference_satisfied_def stream_current_def
      exact_version_def domain_to_stream_def version_next_def INITIAL_def is_terminal_def
      has_execution_data_def)

lemma lock_key_7: "lock_key 7 = 7"
  by code_simp

lemma sample_plan:
  "(sample_step stale cancels)\<^sup>*\<^sup>* wrap_system_init (sample_system sample_day sample_shoot Map.empty Map.empty)"
proof -
  have "sample_step stale cancels wrap_system_init (sample_system sample_day [] Map.empty Map.empty)"
    by (rule wrap_step_eq, rule wrap_step.unlocked_day
        [where i = 7 and c = "CreateShootingDay 7 3 None None ''m'' None DayManual" and new = sample_day
           and now = 500])
      (use sample_dispatches(1) in \<open>auto simp: wrap_calls wrap_system_init_def sample_system_def\<close>)
  moreover have "sample_step stale cancels (sample_system sample_day [] Map.empty Map.empty)
      (sample_system sample_day sample_shoot Map.empty Map.empty)"
    by (rule wrap_step_eq, rule wrap_step.unlocked_shoot
        [where i = 5 and c = "PlanSceneShoot 5 3 7 None ''m''" and new = sample_shoot])
      (use sample_dispatches(3) in \<open>auto simp: wrap_calls sample_system_def\<close>)
  ultimately show ?thesis
    by (meson rtranclp.rtrancl_refl rtranclp.rtrancl_into_rtrancl)
qed

lemma sample_wrap_run:
  assumes "tasks 0 = None"
  shows "(sample_step stale cancels)\<^sup>*\<^sup>* (sample_system sample_day shoot Map.empty tasks)
    (sample_system sample_wrapped shoot Map.empty tasks)"
proof -
  have "sample_step stale cancels (sample_system sample_day shoot Map.empty tasks)
      (sample_system sample_day shoot [7 \<mapsto> 0] (tasks(0 \<mapsto> sample_wrap)))"
    by (rule wrap_step_eq, rule wrap_step.lock_wrap [where c = "WrapShootingDay 7 None 1" and d = 7 and t = 0])
      (use assms in \<open>auto simp: wrap_calls sample_system_def lock_key_7\<close>)
  moreover have "sample_step stale cancels (sample_system sample_day shoot [7 \<mapsto> 0] (tasks(0 \<mapsto> sample_wrap)))
      (sample_system sample_wrapped shoot Map.empty tasks)"
    by (rule wrap_step_eq, rule wrap_step.commit_wrap
        [where t = 0 and c = "WrapShootingDay 7 None 1" and d = 7 and now = 500
           and new = "[ShootingDayWrapped 7 500 2]"])
      (use assms sample_dispatches(2) in \<open>auto simp: update_call_def create_call_def sample_system_def
         lock_key_7 end_task_def drop_lock_def sample_wrapped_def\<close>)
  ultimately show ?thesis
    by (meson rtranclp.rtrancl_refl rtranclp.rtrancl_into_rtrancl)
qed

lemma sample_lock_start:
  "sample_step stale cancels (sample_system day shoot Map.empty Map.empty)
     (sample_system day shoot [7 \<mapsto> 1] [1 \<mapsto> Locked sample_start 7])"
  by (rule wrap_step_eq, rule wrap_step.lock_shoot [where c = sample_start and d = 7 and t = 1])
    (auto simp: wrap_calls sample_system_def lock_key_7)

lemma sample_probe:
  assumes "probe_passes stale (shooting_day_default 1 2) (Some 7) ((\<lambda>_. [])(7 := day))"
  shows "sample_step stale cancels (sample_system day shoot locks [1 \<mapsto> Locked sample_start 7])
    (sample_system day shoot locks [1 \<mapsto> Probed sample_start 7])"
  by (rule wrap_step_eq, rule wrap_step.probe [where c = sample_start and d = 7 and t = 1])
    (use assms in \<open>auto simp: wrap_calls sample_system_def lock_key_7\<close>)

lemma sample_commit_start:
  "\<exists>s'. sample_step stale cancels (sample_system day sample_shoot locks [1 \<mapsto> Probed sample_start 7]) s' \<and>
     ws_shoots s' 5 = sample_shoot @ [SceneShootStarted 5 10 2]"
  by (rule exI, rule conjI, rule wrap_step.commit_shoot
      [where t = 1 and c = sample_start and d = 7 and new = "[SceneShootStarted 5 10 2]"])
    (use sample_dispatches(5) in \<open>auto simp: wrap_calls sample_system_def end_task_def\<close>)

lemma sample_open:
  "handle_EnsureShootingDayOpen (replay shooting_day_apply (shooting_day_default 1 2) sample_day) 7 = Ok []"
  by (simp add: handler_defs sample_day_def replay_def shooting_day_default_def)

lemma sample_wrapped_day:
  "day_wrapped (shooting_day_default 1 2) sample_wrapped"
  "shoot_day_id (replay scene_shoot_apply (scene_shoot_default 1 2) sample_shoot) = 7"
  by (simp_all add: day_wrapped_def sample_wrapped_def sample_day_def sample_shoot_def replay_def)


theorem wrap_is_final_witness:
  "\<exists>new. ws_shoots (sample_system sample_wrapped (sample_shoot @ [SceneShootReplanned 5 ''n'' 2])
      Map.empty Map.empty) 5 = sample_shoot @ new \<and> \<not> list_ex execution_event new"
proof -
  let ?s = "sample_system sample_wrapped sample_shoot Map.empty Map.empty"
  have run: "(sample_step False False)\<^sup>*\<^sup>* wrap_system_init ?s"
    using sample_plan [of False False] sample_wrap_run [of Map.empty False False sample_shoot]
    by (simp add: rtranclp_trans)
  have step: "(sample_step False False)\<^sup>*\<^sup>* ?s
      (sample_system sample_wrapped (sample_shoot @ [SceneShootReplanned 5 ''n'' 2]) Map.empty Map.empty)"
    by (rule r_into_rtranclp, rule wrap_step_eq, rule wrap_step.unlocked_shoot
        [where i = 5 and c = "ReplanSceneShoot 5 ''n'' None 1" and new = "[SceneShootReplanned 5 ''n'' 2]"])
      (use sample_dispatches(4) in \<open>auto simp: wrap_calls sample_system_def\<close>)
  show ?thesis
    using wrap_is_final [OF reference_laws run step, of 7 5] sample_wrapped_day
    by (simp add: sample_system_def sample_shoot_def)
qed

theorem probe_trusts_cached_actor_witness:
  "ensure_day_open reference_client (\<lambda>_ db. db) (\<lambda>_. []) 600 7
     (plain_message never_idempotent (shooting_day_handle 600) AnyVersion (EnsureShootingDayOpen 7))
     (actor_of shooting_day_apply (shooting_day_default 1 2) (take 1 (sample_db sample_wrapped)))
     (sample_db sample_wrapped) =
   Some (Ok (), actor_of shooting_day_apply (shooting_day_default 1 2) (take 1 (sample_db sample_wrapped)),
     sample_db sample_wrapped)"
  by (rule probe_trusts_cached_actor [OF reference_client_laws refl])
    (use sample_open sample_wrapped_day(1) in \<open>auto simp: sample_db_def sample_wrapped_def sample_day_def
       plain_message_def\<close>)

end
