(* ===== verification/Import_Cost.thy ===== *)
theory Import_Cost
  imports Ai_Config_Aggregate
begin

text \<open>
  The cost snapshot of an AI import: \<open>backend/crates/core/src/ai/cost.rs\<close> with the types of
  \<open>views.rs\<close> and the usage records of \<open>ports.rs\<close>. Token and energy counters are \<open>u64\<close>; amounts
  (nano-units of the currency) are \<open>i64\<close> and intermediate products \<open>i128\<close> in the code and \<open>int\<close> here, with
  the code's clamps into \<open>i64\<close> written out. \<open>i64\<close> and \<open>i128\<close> state the ranges; that no intermediate value
  leaves \<open>i128\<close> is a lemma.
\<close>

section \<open>Types\<close>

type_synonym nano = int

definition i64_max :: int where
  "i64_max = 2 ^ 63 - 1"

definition i64 :: "int \<Rightarrow> bool" where
  "i64 x \<longleftrightarrow> - (2 ^ 63) \<le> x \<and> x \<le> i64_max"

definition i128 :: "int \<Rightarrow> bool" where
  "i128 x \<longleftrightarrow> - (2 ^ 127) \<le> x \<and> x < 2 ^ 127"

definition clamp_i64 :: "int \<Rightarrow> nano" where
  "clamp_i64 x = (if x < 0 then 0 else if i64_max < x then i64_max else x)"

definition saturating_add :: "u64 \<Rightarrow> u64 \<Rightarrow> u64" where
  "saturating_add a b = (if 2 ^ 64 \<le> uint a + uint b then - 1 else a + b)"

record llm_call_usage =
  tokens_in :: u64
  tokens_out :: u64
  cached_tokens_in :: u64
  energy_millijoules :: u64

definition usage_default :: llm_call_usage where
  "usage_default =
     \<lparr>tokens_in = 0, tokens_out = 0, cached_tokens_in = 0, energy_millijoules = 0\<rparr>"

definition accumulate :: "llm_call_usage \<Rightarrow> llm_call_usage \<Rightarrow> llm_call_usage" where
  "accumulate u call =
     \<lparr>tokens_in = saturating_add (tokens_in u) (tokens_in call),
      tokens_out = saturating_add (tokens_out u) (tokens_out call),
      cached_tokens_in = saturating_add (cached_tokens_in u) (cached_tokens_in call),
      energy_millijoules = saturating_add (energy_millijoules u) (energy_millijoules call)\<rparr>"

record usage_accumulator =
  acc_usage :: llm_call_usage
  acc_calls :: u32
  acc_per_call :: "llm_call_usage list"

definition acc_default :: usage_accumulator where
  "acc_default = \<lparr>acc_usage = usage_default, acc_calls = 0, acc_per_call = []\<rparr>"

definition record_call :: "llm_call_usage \<Rightarrow> usage_accumulator \<Rightarrow> usage_accumulator" where
  "record_call call acc =
     \<lparr>acc_usage = accumulate (acc_usage acc) call,
      acc_calls = (if acc_calls acc = - 1 then - 1 else acc_calls acc + 1),
      acc_per_call = acc_per_call acc @ [call]\<rparr>"

definition priced_calls :: "usage_accumulator \<Rightarrow> llm_call_usage list" where
  "priced_calls acc = (if acc_per_call acc = [] then [acc_usage acc] else acc_per_call acc)"

datatype currency = Usd | Eur

datatype pricing_source = CuratedSeed | ProviderLive | ModelsDev

record model_pricing =
  mp_currency :: currency
  input_rate :: nano
  output_rate :: nano
  cached_input_rate :: "nano option"
  energy_rate :: "nano option"
  energy_capped_by_token :: bool
  image_output_rate :: "nano option"
  image_rate :: "nano option"
  mp_source :: pricing_source
  mp_as_of :: datetime

datatype cost_status = CostKnown | CostUnknown | CostNotApplicable

record token_cost_breakdown =
  tc_tokens_in :: u64
  tc_tokens_out :: u64
  tc_cached_tokens_in :: u64
  tc_input_rate :: nano
  tc_output_rate :: nano
  tc_cached_input_rate :: "nano option"
  tc_total :: nano

record energy_cost_breakdown =
  ec_millijoules :: u64
  ec_rate :: nano
  ec_raw :: nano
  ec_effective :: nano
  ec_capped :: bool

record image_cost_breakdown =
  ic_images :: u64
  ic_output_tokens :: u64
  ic_image_rate :: "nano option"
  ic_output_rate :: "nano option"
  ic_total :: nano

record decision_cost_breakdown =
  dc_provider :: llm_provider
  dc_model :: string
  dc_status :: cost_status
  dc_tokens_in :: u64
  dc_tokens_out :: u64
  dc_cached_tokens_in :: u64
  dc_energy_millijoules :: u64
  dc_currency :: "currency option"
  dc_as_of :: "datetime option"
  dc_source :: "pricing_source option"
  dc_input_rate :: "nano option"
  dc_output_rate :: "nano option"
  dc_cached_input_rate :: "nano option"
  dc_energy_rate :: "nano option"
  dc_token_cost :: "nano option"
  dc_energy_cost :: "nano option"

datatype cost_total_status = TotalKnown | TotalIncomplete | TotalMixedCurrency | TotalUnknown

record cost_total =
  ct_status :: cost_total_status
  ct_currency :: "currency option"
  ct_total :: "nano option"

definition cost_total_default :: cost_total where
  "cost_total_default = \<lparr>ct_status = TotalUnknown, ct_currency = None, ct_total = None\<rparr>"

record cost_breakdown =
  cb_status :: cost_status
  cb_currency :: "currency option"
  cb_as_of :: "datetime option"
  cb_source :: "pricing_source option"
  cb_token_cost :: "token_cost_breakdown option"
  cb_energy_cost :: "energy_cost_breakdown option"
  cb_image_cost :: "image_cost_breakdown option"
  cb_decision :: "decision_cost_breakdown option"
  cb_total :: cost_total

definition cost_unknown :: cost_breakdown where
  "cost_unknown =
     \<lparr>cb_status = CostUnknown, cb_currency = None, cb_as_of = None, cb_source = None,
      cb_token_cost = None, cb_energy_cost = None, cb_image_cost = None, cb_decision = None,
      cb_total = cost_total_default\<rparr>"

definition cost_not_applicable :: cost_breakdown where
  "cost_not_applicable = cost_unknown\<lparr>cb_status := CostNotApplicable\<rparr>"

section \<open>Pricing\<close>

definition TOKENS_PER_MILLION :: int where
  "TOKENS_PER_MILLION = 1000000"

definition MILLIJOULES_PER_KWH :: int where
  "MILLIJOULES_PER_KWH = 3600000000"

definition div_half_up_nonneg :: "int \<Rightarrow> int \<Rightarrow> nano" where
  "div_half_up_nonneg num den =
     (let q = num div den; r = num mod den;
          q = (if den \<le> r * 2 then q + 1 else q)
      in clamp_i64 q)"

definition token_cost_nano :: "u64 \<Rightarrow> nano \<Rightarrow> nano" where
  "token_cost_nano tokens rate =
     (if tokens = 0 \<or> rate \<le> 0 then 0
      else div_half_up_nonneg (uint tokens * rate) TOKENS_PER_MILLION)"

definition cached_input_cost_nano :: "u64 \<Rightarrow> nano option \<Rightarrow> nano option" where
  "cached_input_cost_nano cached rate = map_option (token_cost_nano cached) rate"

definition energy_cost_raw_nano :: "u64 \<Rightarrow> nano \<Rightarrow> nano" where
  "energy_cost_raw_nano millijoules rate =
     (if millijoules = 0 \<or> rate \<le> 0 then 0
      else div_half_up_nonneg (uint millijoules * rate) MILLIJOULES_PER_KWH)"

definition cap_energy_by_token :: "nano \<Rightarrow> nano \<Rightarrow> nano \<times> bool" where
  "cap_energy_by_token raw token = (if token < raw then (token, True) else (raw, False))"

definition token_cost :: "u64 \<Rightarrow> u64 \<Rightarrow> u64 \<Rightarrow> model_pricing \<Rightarrow> token_cost_breakdown" where
  "token_cost t_in t_out cached_in pricing =
     (let cached = min cached_in t_in;
          uncached_in = t_in - cached;
          uncached_cost = token_cost_nano uncached_in (input_rate pricing);
          cached_cost = (case cached_input_cost_nano cached (cached_input_rate pricing) of
            Some c \<Rightarrow> c | None \<Rightarrow> token_cost_nano cached (input_rate pricing));
          output_cost = token_cost_nano t_out (output_rate pricing)
      in \<lparr>tc_tokens_in = t_in, tc_tokens_out = t_out, tc_cached_tokens_in = cached,
          tc_input_rate = input_rate pricing, tc_output_rate = output_rate pricing,
          tc_cached_input_rate = cached_input_rate pricing,
          tc_total = clamp_i64 (uncached_cost + cached_cost + output_cost)\<rparr>)"

definition call_token_total :: "model_pricing \<Rightarrow> llm_call_usage \<Rightarrow> nano" where
  "call_token_total pricing call =
     tc_total (token_cost (tokens_in call) (tokens_out call) (cached_tokens_in call) pricing)"

definition aggregate_usage :: "llm_call_usage list \<Rightarrow> llm_call_usage" where
  "aggregate_usage calls = foldl accumulate usage_default calls"

record capped_energy_figure =
  ce_raw :: nano
  ce_effective :: nano
  ce_capped :: bool

text \<open>The body of the loop of \<open>capped_energy\<close>, on \<open>(raw_nano, effective_nano, capped)\<close>.\<close>

definition energy_step ::
  "nano \<Rightarrow> bool \<Rightarrow> model_pricing \<Rightarrow> int \<times> int \<times> bool \<Rightarrow> llm_call_usage \<Rightarrow> int \<times> int \<times> bool" where
  "energy_step rate capped_by_token pricing acc call =
     (case acc of (raw_nano, effective_nano, capped) \<Rightarrow>
        let raw = energy_cost_raw_nano (energy_millijoules call) rate;
            (effective, was_capped) =
              (if capped_by_token then cap_energy_by_token raw (call_token_total pricing call)
               else (raw, False))
        in (raw_nano + raw, effective_nano + effective, capped \<or> was_capped))"

definition capped_energy ::
  "llm_call_usage list \<Rightarrow> nano \<Rightarrow> bool \<Rightarrow> model_pricing \<Rightarrow> capped_energy_figure" where
  "capped_energy calls rate capped_by_token pricing =
     (case foldl (energy_step rate capped_by_token pricing) (0, 0, False) calls of
        (raw_nano, effective_nano, capped) \<Rightarrow>
          \<lparr>ce_raw = clamp_i64 raw_nano, ce_effective = clamp_i64 effective_nano, ce_capped = capped\<rparr>)"

section \<open>The total\<close>

type_synonym figure = "currency \<times> nano"

definition component_figure ::
  "currency \<Rightarrow> token_cost_breakdown option \<Rightarrow> energy_cost_breakdown option \<Rightarrow>
   image_cost_breakdown option \<Rightarrow> figure" where
  "component_figure cur token energy img =
     (cur, clamp_i64 ((case token of None \<Rightarrow> 0 | Some t \<Rightarrow> tc_total t) +
        (case energy of None \<Rightarrow> 0 | Some e \<Rightarrow> ec_effective e) +
        (case img of None \<Rightarrow> 0 | Some i \<Rightarrow> ic_total i)))"

definition extraction_figure ::
  "(cost_status \<times> figure option) option \<Rightarrow> figure option" where
  "extraction_figure extraction =
     Option.bind extraction (\<lambda>(status, figure). if status = CostKnown then figure else None)"

definition decision_figure :: "decision_cost_breakdown option \<Rightarrow> figure option" where
  "decision_figure decision =
     Option.bind decision (\<lambda>d.
       case (dc_status d, dc_currency d, dc_token_cost d) of
         (CostKnown, Some cur, Some token) \<Rightarrow>
           Some (cur, clamp_i64 (token + (case dc_energy_cost d of None \<Rightarrow> 0 | Some e \<Rightarrow> e)))
       | _ \<Rightarrow> None)"

definition fold_total ::
  "(cost_status \<times> figure option) option \<Rightarrow> decision_cost_breakdown option \<Rightarrow> cost_total" where
  "fold_total extraction decision =
     (if extraction = None \<and> decision = None then cost_total_default
      else
        case (extraction \<noteq> None, extraction_figure extraction, decision \<noteq> None, decision_figure decision) of
          (True, None, _, _) \<Rightarrow>
            \<lparr>ct_status = TotalIncomplete, ct_currency = Option.bind decision dc_currency, ct_total = None\<rparr>
        | (_, figure, True, None) \<Rightarrow>
            \<lparr>ct_status = TotalIncomplete,
             ct_currency = (case figure of Some (cur, _) \<Rightarrow> Some cur | None \<Rightarrow> Option.bind decision dc_currency),
             ct_total = None\<rparr>
        | (_, Some (cur, nano), False, _) \<Rightarrow>
            \<lparr>ct_status = TotalKnown, ct_currency = Some cur, ct_total = Some nano\<rparr>
        | (False, _, _, Some (cur, nano)) \<Rightarrow>
            \<lparr>ct_status = TotalKnown, ct_currency = Some cur, ct_total = Some nano\<rparr>
        | (_, Some (cur, nano), True, Some (cur', nano')) \<Rightarrow>
            if cur \<noteq> cur'
            then \<lparr>ct_status = TotalMixedCurrency, ct_currency = None, ct_total = None\<rparr>
            else \<lparr>ct_status = TotalKnown, ct_currency = Some cur,
                  ct_total = Some (clamp_i64 (nano + nano'))\<rparr>
        | (_, None, False, None) \<Rightarrow> cost_total_default)"

section \<open>Snapshots\<close>

definition energy_priced :: "llm_call_usage list \<Rightarrow> model_pricing \<Rightarrow> (nano \<times> capped_energy_figure) option" where
  "energy_priced calls pricing =
     (case energy_rate pricing of
        Some rate \<Rightarrow>
          if 0 < energy_millijoules (aggregate_usage calls)
          then Some (rate, capped_energy calls rate (energy_capped_by_token pricing) pricing) else None
      | None \<Rightarrow> None)"

definition decision_cost ::
  "llm_provider \<Rightarrow> string \<Rightarrow> llm_call_usage list \<Rightarrow> model_pricing option \<Rightarrow> decision_cost_breakdown" where
  "decision_cost provider model calls pricing =
     (let aggregate = aggregate_usage calls;
          unpriced =
            \<lparr>dc_provider = provider, dc_model = model, dc_status = CostUnknown,
             dc_tokens_in = tokens_in aggregate, dc_tokens_out = tokens_out aggregate,
             dc_cached_tokens_in = cached_tokens_in aggregate,
             dc_energy_millijoules = energy_millijoules aggregate,
             dc_currency = None, dc_as_of = None, dc_source = None, dc_input_rate = None,
             dc_output_rate = None, dc_cached_input_rate = None, dc_energy_rate = None,
             dc_token_cost = None, dc_energy_cost = None\<rparr>
      in case pricing of
           None \<Rightarrow> unpriced
         | Some p \<Rightarrow>
             unpriced\<lparr>dc_status := CostKnown, dc_currency := Some (mp_currency p),
               dc_as_of := Some (mp_as_of p), dc_source := Some (mp_source p),
               dc_input_rate := Some (input_rate p), dc_output_rate := Some (output_rate p),
               dc_cached_input_rate := cached_input_rate p, dc_energy_rate := energy_rate p,
               dc_token_cost := Some (call_token_total p aggregate),
               dc_energy_cost := map_option (\<lambda>(_, figure). ce_effective figure) (energy_priced calls p)\<rparr>)"

definition cost_breakdown_unpriced :: "decision_cost_breakdown option \<Rightarrow> cost_breakdown" where
  "cost_breakdown_unpriced decision =
     cost_unknown\<lparr>cb_decision := decision,
       cb_total := fold_total (map_option (\<lambda>_. (CostUnknown, None)) decision) decision\<rparr>"

definition cost_breakdown_of ::
  "llm_call_usage list \<Rightarrow> model_pricing option \<Rightarrow> decision_cost_breakdown option \<Rightarrow> cost_breakdown" where
  "cost_breakdown_of extraction pricing decision =
     (case pricing of
        None \<Rightarrow> cost_breakdown_unpriced decision
      | Some p \<Rightarrow>
          let aggregate = aggregate_usage extraction;
              token = token_cost (tokens_in aggregate) (tokens_out aggregate) (cached_tokens_in aggregate) p;
              energy = map_option (\<lambda>(rate, figure).
                \<lparr>ec_millijoules = energy_millijoules aggregate, ec_rate = rate, ec_raw = ce_raw figure,
                 ec_effective = ce_effective figure, ec_capped = ce_capped figure\<rparr>)
                (energy_priced extraction p)
          in \<lparr>cb_status = CostKnown, cb_currency = Some (mp_currency p), cb_as_of = Some (mp_as_of p),
              cb_source = Some (mp_source p), cb_token_cost = Some token, cb_energy_cost = energy,
              cb_image_cost = None, cb_decision = decision,
              cb_total = fold_total
                (Some (CostKnown, Some (component_figure (mp_currency p) (Some token) energy None)))
                decision\<rparr>)"

section \<open>Lemmas\<close>

lemma clamp_i64_range: "0 \<le> clamp_i64 x" "clamp_i64 x \<le> i64_max"
  by (auto simp: clamp_i64_def i64_max_def)

lemma clamp_i64_id: "0 \<le> x \<Longrightarrow> x \<le> i64_max \<Longrightarrow> clamp_i64 x = x"
  by (simp add: clamp_i64_def)

lemma clamp_i64_mono: "x \<le> y \<Longrightarrow> clamp_i64 x \<le> clamp_i64 y"
  by (auto simp: clamp_i64_def i64_max_def)

lemma clamp_i64_le: "0 \<le> x \<Longrightarrow> clamp_i64 x \<le> x"
  by (auto simp: clamp_i64_def)

text \<open>The rounded quotient is the nearest integer, and a tie goes up.\<close>

lemma half_up_nearest:
  fixes num den :: int
  assumes "0 \<le> num" "0 < den"
  defines "q \<equiv> (if den \<le> num mod den * 2 then num div den + 1 else num div den)"
  shows "0 \<le> q" "den * (2 * q - 1) \<le> 2 * num" "2 * num < den * (2 * q + 1)"
proof -
  obtain d m where d: "num div den = d" and m: "num mod den = m"
    by simp
  have split: "num = den * d + m" "0 \<le> m" "m < den" "0 \<le> d"
    using assms(1,2) d m by (auto simp: pos_imp_zdiv_nonneg_iff)
  show "0 \<le> q"
    using split(4) by (simp add: q_def d m)
  show "den * (2 * q - 1) \<le> 2 * num" "2 * num < den * (2 * q + 1)"
    using split(2,3) unfolding q_def d m by (auto simp: split(1) algebra_simps)
qed

lemma div_half_up_eq:
  assumes "0 \<le> num" "0 < den"
  obtains q where "div_half_up_nonneg num den = clamp_i64 q" "0 \<le> q"
    "den * (2 * q - 1) \<le> 2 * num" "2 * num < den * (2 * q + 1)"
  using half_up_nearest [OF assms] that by (simp add: div_half_up_nonneg_def Let_def)

lemma product_fits_i128:
  assumes "i64 rate" "0 < rate"
  shows "i128 (uint (n :: u64) * rate)"
proof -
  have "uint n < 2 ^ 64" "0 \<le> uint n"
    using uint_bounded [of n] by simp_all
  moreover from this have "uint n * rate \<le> 2 ^ 64 * (2 ^ 63 - 1)"
    using assms by (intro mult_mono) (simp_all add: i64_def i64_max_def)
  moreover have "0 \<le> uint n * rate"
    using assms(2) by simp
  ultimately show ?thesis
    by (simp add: i128_def)
qed

lemma cost_range:
  "0 \<le> token_cost_nano n rate \<and> token_cost_nano n rate \<le> i64_max"
  "0 \<le> energy_cost_raw_nano n rate \<and> energy_cost_raw_nano n rate \<le> i64_max"
  "0 \<le> call_token_total pricing call \<and> call_token_total pricing call \<le> i64_max"
  using clamp_i64_range
  by (auto simp: token_cost_nano_def energy_cost_raw_nano_def call_token_total_def token_cost_def
      div_half_up_nonneg_def Let_def i64_max_def)

text \<open>What a request costs: its energy, or its tokens where the provider caps and they are cheaper.\<close>

definition request_energy :: "nano \<Rightarrow> bool \<Rightarrow> model_pricing \<Rightarrow> llm_call_usage \<Rightarrow> nano" where
  "request_energy rate capped pricing call =
     (let raw = energy_cost_raw_nano (energy_millijoules call) rate
      in if capped then min raw (call_token_total pricing call) else raw)"

lemma energy_step_eq:
  "energy_step rate capped pricing (a, b, c) call =
     (a + energy_cost_raw_nano (energy_millijoules call) rate, b + request_energy rate capped pricing call,
      c \<or> capped \<and> call_token_total pricing call < energy_cost_raw_nano (energy_millijoules call) rate)"
  by (auto simp: energy_step_def request_energy_def cap_energy_by_token_def Let_def)

lemma energy_loop:
  "foldl (energy_step rate capped pricing) (a, b, c) calls =
     (a + (\<Sum>call\<leftarrow>calls. energy_cost_raw_nano (energy_millijoules call) rate),
      b + (\<Sum>call\<leftarrow>calls. request_energy rate capped pricing call),
      c \<or> list_ex (\<lambda>call. capped \<and>
        call_token_total pricing call < energy_cost_raw_nano (energy_millijoules call) rate) calls)"
  by (induction calls arbitrary: a b c) (auto simp: energy_step_eq)

text \<open>The amount of a component: its tokens, priced over all requests, and its energy, if it has a rate.\<close>

definition component_amount :: "llm_call_usage list \<Rightarrow> model_pricing \<Rightarrow> nano" where
  "component_amount calls pricing =
     clamp_i64 (call_token_total pricing (aggregate_usage calls) +
       (case energy_priced calls pricing of None \<Rightarrow> 0 | Some (_, figure) \<Rightarrow> ce_effective figure))"

definition total_known :: "currency \<Rightarrow> nano \<Rightarrow> cost_total" where
  "total_known cur nano = \<lparr>ct_status = TotalKnown, ct_currency = Some cur, ct_total = Some nano\<rparr>"

lemma decision_figure_of:
  "decision_figure (Some (decision_cost provider model calls pricing)) =
     map_option (\<lambda>p. (mp_currency p, component_amount calls p)) pricing"
  by (auto simp: decision_figure_def decision_cost_def component_amount_def Let_def
      split: option.splits prod.splits)

section \<open>Properties\<close>

text \<open>C34. Amounts are rounded half up: the price of a token count and of an energy count is the nearest
  nano-unit, a tie goes up, values beyond the column are clamped, and with an \<open>i64\<close> rate the intermediate
  product of the code fits \<open>i128\<close>, so nothing overflows.\<close>

theorem amounts_round_half_up:
  assumes "i64 rate" "0 < rate" "n \<noteq> 0"
  shows "i128 (uint n * rate) \<and>
    (\<exists>q \<ge> 0. token_cost_nano n rate = clamp_i64 q \<and> 1000000 * (2 * q - 1) \<le> 2 * (uint n * rate) \<and>
       2 * (uint n * rate) < 1000000 * (2 * q + 1)) \<and>
    (\<exists>q \<ge> 0. energy_cost_raw_nano n rate = clamp_i64 q \<and> 3600000000 * (2 * q - 1) \<le> 2 * (uint n * rate) \<and>
       2 * (uint n * rate) < 3600000000 * (2 * q + 1))"
proof -
  have pos: "0 \<le> uint n * rate"
    using assms(2) by simp
  show ?thesis
    using product_fits_i128 [OF assms(1,2)] assms(2,3)
      div_half_up_eq [OF pos, of 1000000] div_half_up_eq [OF pos, of 3600000000]
    unfolding token_cost_nano_def energy_cost_raw_nano_def TOKENS_PER_MILLION_def MILLIJOULES_PER_KWH_def
    by (metis not_le zero_less_numeral)
qed

text \<open>C32. The energy of a component is the sum of what its requests cost, each capped on its own by its token
  cost: the loop with its running sums computes exactly these sums, its flag tells whether some request was
  reduced, and a capped component costs neither more than its raw energy nor more than the summed token
  costs of its requests.\<close>

theorem energy_cap_is_per_request:
  "capped_energy calls rate capped pricing =
     \<lparr>ce_raw = clamp_i64 (\<Sum>call\<leftarrow>calls. energy_cost_raw_nano (energy_millijoules call) rate),
      ce_effective = clamp_i64 (\<Sum>call\<leftarrow>calls. request_energy rate capped pricing call),
      ce_capped = list_ex (\<lambda>call. capped \<and>
        call_token_total pricing call < energy_cost_raw_nano (energy_millijoules call) rate) calls\<rparr> \<and>
   ce_effective (capped_energy calls rate capped pricing) \<le> ce_raw (capped_energy calls rate capped pricing) \<and>
   ce_effective (capped_energy calls rate True pricing) \<le>
     clamp_i64 (\<Sum>call\<leftarrow>calls. call_token_total pricing call)"
proof -
  have "(\<Sum>call\<leftarrow>calls. request_energy rate capped pricing call) \<le>
      (\<Sum>call\<leftarrow>calls. energy_cost_raw_nano (energy_millijoules call) rate)"
    by (rule sum_list_mono) (simp add: request_energy_def Let_def)
  moreover have "(\<Sum>call\<leftarrow>calls. request_energy rate True pricing call) \<le>
      (\<Sum>call\<leftarrow>calls. call_token_total pricing call)"
    by (rule sum_list_mono) (simp add: request_energy_def Let_def)
  ultimately show ?thesis
    by (simp add: capped_energy_def energy_loop clamp_i64_mono)
qed

text \<open>C33. The total of a snapshot is honest. Nothing recorded has no total; a recorded component without a
  price, the extraction as well as the decision model, gives no total at all; two currencies are never
  added; and otherwise the total is the sum of the amounts of the components.\<close>

theorem cost_total_is_honest:
  "cb_total (cost_breakdown_of calls None None) = cost_total_default \<and>
   ct_total (cb_total (cost_breakdown_of calls None (Some d))) = None \<and>
   cb_total (cost_breakdown_of calls (Some p) None) = total_known (mp_currency p) (component_amount calls p) \<and>
   cb_total (cost_breakdown_of calls (Some p) (Some (decision_cost provider model calls' pricing'))) =
     (case pricing' of
        None \<Rightarrow> \<lparr>ct_status = TotalIncomplete, ct_currency = Some (mp_currency p), ct_total = None\<rparr>
      | Some p' \<Rightarrow>
          if mp_currency p = mp_currency p'
          then total_known (mp_currency p) (clamp_i64 (component_amount calls p + component_amount calls' p'))
          else \<lparr>ct_status = TotalMixedCurrency, ct_currency = None, ct_total = None\<rparr>) \<and>
   (ct_total (fold_total extraction decision) \<noteq> None \<longleftrightarrow> ct_status (fold_total extraction decision) = TotalKnown)"
proof (intro conjI)
  show "cb_total (cost_breakdown_of calls None None) = cost_total_default"
    by (simp add: cost_breakdown_of_def cost_breakdown_unpriced_def fold_total_def)
  show "ct_total (cb_total (cost_breakdown_of calls None (Some d))) = None"
    by (simp add: cost_breakdown_of_def cost_breakdown_unpriced_def fold_total_def extraction_figure_def)
  show "cb_total (cost_breakdown_of calls (Some p) None) = total_known (mp_currency p) (component_amount calls p)"
    by (auto simp: cost_breakdown_of_def fold_total_def extraction_figure_def component_figure_def
        component_amount_def total_known_def call_token_total_def decision_figure_def Let_def split: option.splits)
  show "cb_total (cost_breakdown_of calls (Some p) (Some (decision_cost provider model calls' pricing'))) =
     (case pricing' of
        None \<Rightarrow> \<lparr>ct_status = TotalIncomplete, ct_currency = Some (mp_currency p), ct_total = None\<rparr>
      | Some p' \<Rightarrow>
          if mp_currency p = mp_currency p'
          then total_known (mp_currency p) (clamp_i64 (component_amount calls p + component_amount calls' p'))
          else \<lparr>ct_status = TotalMixedCurrency, ct_currency = None, ct_total = None\<rparr>)"
    by (auto simp: cost_breakdown_of_def fold_total_def extraction_figure_def component_figure_def
        decision_figure_of total_known_def call_token_total_def Let_def component_amount_def [of calls]
        split: option.splits)
  show "ct_total (fold_total extraction decision) \<noteq> None \<longleftrightarrow>
      ct_status (fold_total extraction decision) = TotalKnown"
    by (cases extraction; cases decision; cases "extraction_figure extraction"; cases "decision_figure decision")
      (auto simp: fold_total_def cost_total_default_def split: if_splits)
qed

theorem amounts_round_half_up_witness:
  "i128 (uint (18000 :: u64) * 10000000000) \<and>
   (\<exists>q \<ge> 0. energy_cost_raw_nano 18000 10000000000 = clamp_i64 q \<and>
      3600000000 * (2 * q - 1) \<le> 2 * (uint (18000 :: u64) * 10000000000))"
  using amounts_round_half_up [of 10000000000 18000] by (auto simp: i64_def i64_max_def)

end
