(* ===== verification/Authorization.thy ===== *)
theory Authorization
  imports Domain_Error
begin

text \<open>
  Authentication and authorisation of requests: \<open>backend/crates/api/src/auth/mod.rs\<close>,
  \<open>auth/authorization.rs\<close>, the policy port of \<open>crates/core/src/membership/policy.rs\<close>, the route
  table of \<open>api/src/handlers/mod.rs\<close> and its membership handlers. Token verification
  (\<open>jsonwebtoken\<close>), the key set, the membership read model, the block repository and
  \<open>Uuid::parse_str\<close> are parameters; the environment is a map of variables.
\<close>

section \<open>Strings\<close>

definition strip_prefix :: "string \<Rightarrow> string \<Rightarrow> string option" where
  "strip_prefix p s = (if starts_with s p then Some (drop (length p) s) else None)"

definition ends_with :: "string \<Rightarrow> string \<Rightarrow> bool" where
  "ends_with s suffix \<longleftrightarrow> starts_with (rev s) (rev suffix)"

definition strip_suffix :: "string \<Rightarrow> string \<Rightarrow> string option" where
  "strip_suffix suffix s = (if ends_with s suffix then Some (take (length s - length suffix) s) else None)"

fun contains :: "string \<Rightarrow> string \<Rightarrow> bool" where
  "contains [] p \<longleftrightarrow> p = []"
| "contains (c # s) p \<longleftrightarrow> starts_with (c # s) p \<or> contains s p"

section \<open>The policy\<close>

datatype policy_decision = Allow | Deny

datatype action = Read | Write

record auth_context =
  ctx_actor :: user_id
  ctx_block :: block_id
  ctx_action :: action

record membership_repo =
  is_active_member :: "block_id \<Rightarrow> user_id \<Rightarrow> domain_error + bool"
  has_active_costume_role_in_season :: "season_id \<Rightarrow> user_id \<Rightarrow> domain_error + bool"
  has_active_credential_role :: "user_id \<Rightarrow> domain_error + bool"
  has_active_ops_role :: "user_id \<Rightarrow> domain_error + bool"

definition allow_if :: "bool \<Rightarrow> policy_decision" where
  "allow_if active = (if active then Allow else Deny)"

definition authorize :: "membership_repo \<Rightarrow> auth_context \<Rightarrow> policy_decision" where
  "authorize repo ctx =
     (case is_active_member repo (ctx_block ctx) (ctx_actor ctx) of Inr True \<Rightarrow> Allow | _ \<Rightarrow> Deny)"

definition authorize_season_result ::
  "membership_repo \<Rightarrow> season_id \<Rightarrow> user_id \<Rightarrow> domain_error + policy_decision" where
  "authorize_season_result repo season actor =
     and_then (has_active_costume_role_in_season repo season actor) (\<lambda>active. Ok (allow_if active))"

definition authorize_credential_role ::
  "membership_repo \<Rightarrow> user_id \<Rightarrow> domain_error + policy_decision" where
  "authorize_credential_role repo actor =
     and_then (has_active_credential_role repo actor) (\<lambda>active. Ok (allow_if active))"

definition authorize_ops ::
  "membership_repo \<Rightarrow> string list \<Rightarrow> user_id \<Rightarrow> domain_error + policy_decision" where
  "authorize_ops repo ops_admins actor =
     (if list_ex (\<lambda>sub. sub = actor) ops_admins then Ok Allow
      else and_then (has_active_ops_role repo actor) (\<lambda>active. Ok (allow_if active)))"

definition authorize_season_photo :: "membership_repo \<Rightarrow> season_id \<Rightarrow> user_id \<Rightarrow> policy_decision" where
  "authorize_season_photo repo season actor =
     (case has_active_costume_role_in_season repo season actor of Inr True \<Rightarrow> Allow | _ \<Rightarrow> Deny)"

section \<open>Which requests need what\<close>

datatype requirement = Authenticated | BlockMember | Public

definition scoped_id :: "string \<Rightarrow> string \<Rightarrow> string \<Rightarrow> bool" where
  "scoped_id prefix suffix path \<longleftrightarrow>
     (case Option.bind (strip_prefix prefix path) (strip_suffix suffix) of
        None \<Rightarrow> False
      | Some i \<Rightarrow> i \<noteq> [] \<and> \<not> contains i ''/'')"

definition requirement_for :: "string \<Rightarrow> requirement" where
  "requirement_for full_path =
     (let path = (case strip_prefix ''/v1'' full_path of Some p \<Rightarrow> p | None \<Rightarrow> full_path) in
      if path = ''/health'' then Public
      else if starts_with path ''/meta'' then Authenticated
      else if starts_with path ''/seasons'' \<or> scoped_id ''/series/'' ''/membership'' path \<or>
         scoped_id ''/characters/'' ''/appearances'' path \<or> starts_with path ''/settings''
        then Authenticated
      else if path = ''/blocks'' then Authenticated
      else if contains path ''/photos'' \<or> contains path ''/continuity-photos'' then Authenticated
      else if starts_with path ''/ai-import'' then Authenticated
      else if ends_with path ''.pdf'' \<and> contains path ''/report/'' then Authenticated
      else if starts_with path ''/shooting-days/'' \<and> contains path ''/report/'' \<and>
         (ends_with path ''/dispo'' \<or> ends_with path ''/shoot-day'' \<or> ends_with path ''/soll-ist'')
        then Authenticated
      else if contains path ''/report/soll-ist'' \<and>
         (starts_with path ''/episodes/'' \<or> starts_with path ''/seasons/'')
        then Authenticated
      else if ends_with path ''/report/archive'' then Authenticated
      else if path = ''/audit'' then Authenticated
      else if starts_with path ''/__faults'' then Authenticated
      else if starts_with path ''/ops'' then Authenticated
      else if ends_with path ''/members/accept'' then Authenticated
      else BlockMember)"

section \<open>Configuration\<close>

type_synonym environment = "string \<rightharpoonup> string"

record oidc_config =
  oidc_iss :: string
  oidc_audience :: string
  oidc_jwks_url :: string

record current_user =
  cu_sub :: user_id
  cu_email :: "string option"

record auth_state =
  as_config :: oidc_config
  as_dev_override :: "current_user option"

definition required_var :: "environment \<Rightarrow> string \<Rightarrow> string + string" where
  "required_var env name = (case env name of None \<Rightarrow> Err (name @ '' not set'') | Some v \<Rightarrow> Ok v)"

definition oidc_from_env :: "environment \<Rightarrow> string + oidc_config" where
  "oidc_from_env env =
     and_then (required_var env ''OIDC_ISS'') (\<lambda>iss.
     and_then (required_var env ''OIDC_AUDIENCE'') (\<lambda>audience.
     and_then (required_var env ''OIDC_JWKS_URL'') (\<lambda>jwks_url.
       Ok \<lparr>oidc_iss = iss, oidc_audience = audience, oidc_jwks_url = jwks_url\<rparr>)))"

definition dev_state :: "current_user \<Rightarrow> auth_state" where
  "dev_state user =
     \<lparr>as_config = \<lparr>oidc_iss = [], oidc_audience = [], oidc_jwks_url = []\<rparr>, as_dev_override = Some user\<rparr>"

definition auth_from_env_or_dev :: "environment \<Rightarrow> string + auth_state" where
  "auth_from_env_or_dev env =
     (if env ''OIDC_ISS'' = None then
        (case env ''DEV_AUTH_SUB'' of
           Some sub \<Rightarrow>
             let mail = (case env ''DEV_AUTH_EMAIL'' of None \<Rightarrow> [] | Some e \<Rightarrow> e)
             in Ok (dev_state \<lparr>cu_sub = sub, cu_email = (if mail = [] then None else Some mail)\<rparr>)
         | None \<Rightarrow> Err ''OIDC_ISS not set and DEV_AUTH_SUB not set - auth cannot be configured'')
      else and_then (oidc_from_env env) (\<lambda>cfg. Ok \<lparr>as_config = cfg, as_dev_override = None\<rparr>))"

definition enforce_flag :: "environment \<Rightarrow> bool \<Rightarrow> bool" where
  "enforce_flag env default_value =
     (case env ''AUTHZ_ENFORCE'' of None \<Rightarrow> default_value | Some v \<Rightarrow> v \<noteq> ''false'' \<and> v \<noteq> ''0'')"

definition enforce_from_env_or_dev :: "environment \<Rightarrow> bool" where
  "enforce_from_env_or_dev env =
     (if env ''DEV_AUTH_SUB'' \<noteq> None then enforce_flag env False else enforce_flag env True)"

section \<open>The two layers\<close>

datatype auth_error = Unauthorized | MissingActiveBlock | InvalidActiveBlock | JwksUnavailable

fun auth_error_code :: "auth_error \<Rightarrow> problem_code" where
  "auth_error_code Unauthorized = AUTH_UNAUTHENTICATED"
| "auth_error_code MissingActiveBlock = AUTH_MISSING_ACTIVE_BLOCK"
| "auth_error_code InvalidActiveBlock = AUTH_INVALID_ACTIVE_BLOCK"
| "auth_error_code JwksUnavailable = AUTH_IDP_UNAVAILABLE"

text \<open>
  What the layers use of \<open>jsonwebtoken\<close> and of the key set: the key id in a token's header, the keys
  (\<open>None\<close>: not available) and the verified claims \<open>sub\<close> and \<open>email\<close>.
\<close>

record 'k jwt =
  jwt_header :: "string \<Rightarrow> string option option"
  jwt_keys :: "(string \<rightharpoonup> 'k) option"
  jwt_decode :: "string \<Rightarrow> 'k \<Rightarrow> oidc_config \<Rightarrow> (string \<times> string option) option"

definition bearer_token :: "string option \<Rightarrow> string option" where
  "bearer_token header =
     Option.bind header (\<lambda>value. Option.bind (strip_prefix ''Bearer '' value) (\<lambda>token.
       if token = [] then None else Some token))"

definition verify_token :: "'k jwt \<Rightarrow> oidc_config \<Rightarrow> string option \<Rightarrow> auth_error + current_user" where
  "verify_token jwt cfg header =
     (case bearer_token header of
        None \<Rightarrow> Err Unauthorized
      | Some token \<Rightarrow>
          (case jwt_header jwt token of
             None \<Rightarrow> Err Unauthorized
           | Some kid \<Rightarrow>
               (case jwt_keys jwt of
                  None \<Rightarrow> Err JwksUnavailable
                | Some keys \<Rightarrow>
                    (case Option.bind kid keys of
                       None \<Rightarrow> Err Unauthorized
                     | Some key \<Rightarrow>
                         (case jwt_decode jwt token key cfg of
                            None \<Rightarrow> Err Unauthorized
                          | Some (sub, mail) \<Rightarrow> Ok \<lparr>cu_sub = sub, cu_email = mail\<rparr>)))))"

definition documentation :: "string \<Rightarrow> bool" where
  "documentation path \<longleftrightarrow> starts_with path ''/swagger-ui'' \<or> starts_with path ''/api-docs''"

text \<open>The user that the request carries on, or the error response.\<close>

definition auth_middleware ::
  "auth_state \<Rightarrow> 'k jwt \<Rightarrow> string \<Rightarrow> string option \<Rightarrow> auth_error + current_user option" where
  "auth_middleware st jwt path header =
     (if documentation path \<or> requirement_for path = Public then Ok None
      else (case as_dev_override st of
              Some user \<Rightarrow> Ok (Some user)
            | None \<Rightarrow> and_then (verify_token jwt (as_config st) header) (\<lambda>user. Ok (Some user))))"

definition active_block :: "(string \<Rightarrow> uuid option) \<Rightarrow> string option \<Rightarrow> auth_error + block_id" where
  "active_block parse_uuid header =
     (case header of
        None \<Rightarrow> Err MissingActiveBlock
      | Some value \<Rightarrow> (case parse_uuid value of None \<Rightarrow> Err InvalidActiveBlock | Some b \<Rightarrow> Ok b))"

datatype verdict = Forward | Refuse auth_error | Forbid

text \<open>\<open>policy\<close> is \<open>None\<close> where the policy panics: its task is isolated and counts as a denial.\<close>

definition authorize_middleware ::
  "bool \<Rightarrow> (auth_context \<Rightarrow> policy_decision option) \<Rightarrow> (string \<Rightarrow> uuid option) \<Rightarrow> string \<Rightarrow> bool \<Rightarrow>
   string option \<Rightarrow> current_user option \<Rightarrow> verdict" where
  "authorize_middleware enforce policy parse_uuid path is_get block_header user =
     (if documentation path \<or> path = ''/v1/health'' \<or> path = ''/health'' then Forward
      else if requirement_for path = Authenticated \<or> requirement_for path = Public then Forward
      else (case active_block parse_uuid block_header of
              Inl err \<Rightarrow> Refuse err
            | Inr block \<Rightarrow>
                (case user of
                   None \<Rightarrow> Refuse Unauthorized
                 | Some u \<Rightarrow>
                     let ctx = \<lparr>ctx_actor = cu_sub u, ctx_block = block,
                           ctx_action = (if is_get then Read else Write)\<rparr>;
                         decision = (case policy ctx of None \<Rightarrow> Deny | Some d \<Rightarrow> d)
                     in if enforce \<and> decision \<noteq> Allow then Forbid else Forward)))"

definition admit ::
  "auth_state \<Rightarrow> bool \<Rightarrow> 'k jwt \<Rightarrow> (auth_context \<Rightarrow> policy_decision option) \<Rightarrow> (string \<Rightarrow> uuid option) \<Rightarrow>
   string \<Rightarrow> bool \<Rightarrow> string option \<Rightarrow> string option \<Rightarrow> verdict \<times> current_user option" where
  "admit st enforce jwt policy parse_uuid path is_get auth_header block_header =
     (case auth_middleware st jwt path auth_header of
        Inl err \<Rightarrow> (Refuse err, None)
      | Inr user \<Rightarrow>
          (authorize_middleware enforce policy parse_uuid path is_get block_header user, user))"

section \<open>Routes\<close>

text \<open>The route templates, which are mounted under \<open>/v1\<close>.\<close>

definition routes :: "string list" where
  "routes =
     [''/health'', ''/meta/versions'', ''/meta/credits'', ''/ops/projector-health'',
      ''/ai-import/scripts'', ''/ai-import/schedules'', ''/ai-import/jobs'',
      ''/ai-import/jobs/{id}'', ''/ai-import/jobs/{id}/events'',
      ''/ai-import/jobs/{id}/apply-events'', ''/ai-import/jobs/{id}/preview'',
      ''/ai-import/jobs/{id}/apply'', ''/ai-import/jobs/{id}/target'', ''/ai-import/config'',
      ''/ai-import/config/{id}'', ''/ai-import/config/{id}/revoke'', ''/ai-import/providers'',
      ''/ai-import/providers/{provider}/models'',
      ''/ai-import/providers/{provider}/decision-models'',
      ''/ai-import/providers/{provider}/image-models'', ''/ai-import/defaults'',
      ''/settings/gdrive'', ''/settings/{id}/gdrive'', ''/settings/credentials'',
      ''/settings/{id}'', ''/seasons'', ''/seasons/{id}'', ''/seasons/{id}/membership'',
      ''/series/{id}/membership'', ''/seasons/{id}/name'', ''/seasons/{id}/archive'',
      ''/blocks'', ''/blocks/{id}'', ''/blocks/{id}/audit'', ''/audit'',
      ''/blocks/{id}/members'', ''/blocks/{id}/members/accept'', ''/blocks/{id}/members/leave'',
      ''/blocks/{id}/members/{user_id}/role'', ''/blocks/{id}/members/{user_id}'',
      ''/blocks/{id}/time-span'', ''/episodes'', ''/episodes/{id}'', ''/episodes/{id}/name'',
      ''/scenes'', ''/scenes/{id}'', ''/scenes/{id}/details'', ''/scenes/{id}/characters'',
      ''/scenes/{id}/characters/{character_id}'', ''/scenes/{id}/outfits'',
      ''/scenes/{id}/outfits/{character_id}'', ''/scenes/{id}/outfits/{character_id}/{order}'',
      ''/scenes/{id}/shooting-days'', ''/scenes/{id}/shooting-days/{shooting_day_id}'',
      ''/episodes/{episode_id}/shooting-days'', ''/shooting-days/{id}'',
      ''/shooting-days/{id}/archive'', ''/shooting-days/{id}/link-into/{target_id}'',
      ''/characters'', ''/characters/{id}'', ''/characters/{id}/appearances'',
      ''/characters/{id}/measurements'', ''/characters/{id}/contact'',
      ''/characters/{id}/category'', ''/pieces'', ''/pieces/{id}'', ''/pieces/{id}/notes'',
      ''/pieces/{id}/name'', ''/pieces/{id}/details'', ''/pieces/{id}/details/{detail_id}'',
      ''/pieces/{id}/category'', ''/pieces/{id}/seasons'', ''/pieces/{id}/seasons/{season_id}'',
      ''/outfits'', ''/outfits/{id}'', ''/outfits/{id}/variants'', ''/outfits/{id}/name'',
      ''/outfits/{id}/notes'', ''/outfits/{id}/pieces'', ''/outfits/{id}/pieces/{piece_id}'',
      ''/characters/{character_id}/outfits'', ''/outfits/{outfit_id}/photos'',
      ''/outfits/{outfit_id}/photos/{photo_id}/bytes'',
      ''/outfits/{outfit_id}/photos/{photo_id}'', ''/seasons/{season_id}/costume-categories'',
      ''/costume-categories/{id}'', ''/costume-categories/{id}/archive'',
      ''/pieces/{piece_id}/photos'', ''/pieces/{piece_id}/photos/{photo_id}/bytes'',
      ''/pieces/{piece_id}/photos/{photo_id}'',
      ''/shooting-days/{day_id}/scenes/{scene_id}/scene-shoots'',
      ''/shooting-days/{day_id}/scenes/{scene_id}/scene-shoots/{shoot_id}'',
      ''/shooting-days/{day_id}/scenes/{scene_id}/scene-shoots/{shoot_id}/start'',
      ''/shooting-days/{day_id}/scenes/{scene_id}/scene-shoots/{shoot_id}/actual-order'',
      ''/shooting-days/{day_id}/scenes/{scene_id}/scene-shoots/{shoot_id}/finish'',
      ''/shooting-days/{day_id}/scenes/{scene_id}/scene-shoots/{shoot_id}/skip'',
      ''/shooting-days/{day_id}/scenes/{scene_id}/scene-shoots/{shoot_id}/notes'',
      ''/shooting-days/{day_id}/scenes/{scene_id}/scene-shoots/{shoot_id}/notes/{note_id}'',
      ''/shooting-days/{day_id}/scenes/{scene_id}/scene-shoots/{shoot_id}/continuity-photos'',
      ''/shooting-days/{day_id}/scenes/{scene_id}/scene-shoots/{shoot_id}/continuity-photos/{photo_id}'',
      ''/shooting-days/{id}/wrap'', ''/seasons/{id}/report/soll-ist'',
      ''/episodes/{id}/report/soll-ist'', ''/seasons/{id}/report/soll-ist.pdf'',
      ''/episodes/{id}/report/soll-ist.pdf'', ''/shooting-days/{id}/report/dispo'',
      ''/shooting-days/{id}/report/shoot-day'', ''/shooting-days/{id}/report/soll-ist'',
      ''/shooting-days/{id}/report/dispo.pdf'', ''/shooting-days/{id}/report/shoot-day.pdf'',
      ''/shooting-days/{id}/report/planned-vs-actual.pdf'',
      ''/shooting-days/{id}/report/archive'']"

text \<open>The routes on the data of a block.\<close>

definition block_routes :: "string list" where
  "block_routes =
     [''/blocks/{id}'', ''/blocks/{id}/audit'', ''/blocks/{id}/members'',
      ''/blocks/{id}/members/leave'', ''/blocks/{id}/members/{user_id}/role'',
      ''/blocks/{id}/members/{user_id}'', ''/blocks/{id}/time-span'', ''/episodes'',
      ''/episodes/{id}'', ''/episodes/{id}/name'', ''/scenes'', ''/scenes/{id}'',
      ''/scenes/{id}/details'', ''/scenes/{id}/characters'',
      ''/scenes/{id}/characters/{character_id}'', ''/scenes/{id}/outfits'',
      ''/scenes/{id}/outfits/{character_id}'', ''/scenes/{id}/outfits/{character_id}/{order}'',
      ''/scenes/{id}/shooting-days'', ''/scenes/{id}/shooting-days/{shooting_day_id}'',
      ''/episodes/{episode_id}/shooting-days'', ''/shooting-days/{id}'',
      ''/shooting-days/{id}/archive'', ''/shooting-days/{id}/link-into/{target_id}'',
      ''/characters'', ''/characters/{id}'', ''/characters/{id}/measurements'',
      ''/characters/{id}/contact'', ''/characters/{id}/category'', ''/pieces'', ''/pieces/{id}'',
      ''/pieces/{id}/notes'', ''/pieces/{id}/name'', ''/pieces/{id}/details'',
      ''/pieces/{id}/details/{detail_id}'', ''/pieces/{id}/category'', ''/pieces/{id}/seasons'',
      ''/pieces/{id}/seasons/{season_id}'', ''/outfits'', ''/outfits/{id}'',
      ''/outfits/{id}/variants'', ''/outfits/{id}/name'', ''/outfits/{id}/notes'',
      ''/outfits/{id}/pieces'', ''/outfits/{id}/pieces/{piece_id}'',
      ''/characters/{character_id}/outfits'', ''/costume-categories/{id}'',
      ''/costume-categories/{id}/archive'',
      ''/shooting-days/{day_id}/scenes/{scene_id}/scene-shoots'',
      ''/shooting-days/{day_id}/scenes/{scene_id}/scene-shoots/{shoot_id}'',
      ''/shooting-days/{day_id}/scenes/{scene_id}/scene-shoots/{shoot_id}/start'',
      ''/shooting-days/{day_id}/scenes/{scene_id}/scene-shoots/{shoot_id}/actual-order'',
      ''/shooting-days/{day_id}/scenes/{scene_id}/scene-shoots/{shoot_id}/finish'',
      ''/shooting-days/{day_id}/scenes/{scene_id}/scene-shoots/{shoot_id}/skip'',
      ''/shooting-days/{day_id}/scenes/{scene_id}/scene-shoots/{shoot_id}/notes'',
      ''/shooting-days/{day_id}/scenes/{scene_id}/scene-shoots/{shoot_id}/notes/{note_id}'',
      ''/shooting-days/{id}/wrap'']"

section \<open>Membership handlers\<close>

datatype api_error = ApiForbidden string | ApiDomain domain_error

record member_ports =
  find_membership :: "block_id \<Rightarrow> user_id \<Rightarrow> domain_error + role option"
  find_block_project :: "uuid \<Rightarrow> domain_error + project_id"

fun api_result :: "domain_error + 'a \<Rightarrow> api_error + 'a" where
  "api_result (Inl err) = Err (ApiDomain err)"
| "api_result (Inr x) = Ok x"

definition require_ops ::
  "(user_id \<Rightarrow> domain_error + policy_decision) \<Rightarrow> user_id \<Rightarrow> string \<Rightarrow> api_error + unit" where
  "require_ops ops actor msg = (case ops actor of Inr Allow \<Rightarrow> Ok () | _ \<Rightarrow> Err (ApiForbidden msg))"

text \<open>The handlers up to the command that they hand to the membership port.\<close>

definition invite_member ::
  "member_ports \<Rightarrow> (user_id \<Rightarrow> domain_error + policy_decision) \<Rightarrow> user_id \<Rightarrow> uuid \<Rightarrow> user_id \<Rightarrow> role \<Rightarrow>
   api_error + membership_command" where
  "invite_member ports ops actor block user role =
     and_then (if role = OpsAdmin then require_ops ops actor ''not authorized to grant the ops role'' else Ok ())
       (\<lambda>_. and_then (api_result (find_block_project ports block)) (\<lambda>project.
         Ok (InviteMember block project user role)))"

definition accept_invitation :: "member_ports \<Rightarrow> user_id \<Rightarrow> uuid \<Rightarrow> api_error + membership_command" where
  "accept_invitation ports actor block =
     and_then (api_result (find_block_project ports block)) (\<lambda>project.
       Ok (AcceptInvitation block project actor))"

definition grant_role ::
  "member_ports \<Rightarrow> (user_id \<Rightarrow> domain_error + policy_decision) \<Rightarrow> user_id \<Rightarrow> uuid \<Rightarrow> user_id \<Rightarrow> role \<Rightarrow>
   api_error + membership_command" where
  "grant_role ports ops actor block user role =
     and_then (api_result (find_membership ports block user)) (\<lambda>target.
     and_then (if role = OpsAdmin \<or> target = Some OpsAdmin
               then require_ops ops actor ''not authorized to change ops role assignments'' else Ok ())
       (\<lambda>_. and_then (api_result (find_block_project ports block)) (\<lambda>project.
         Ok (GrantRole block project user role))))"

definition remove_member ::
  "member_ports \<Rightarrow> (user_id \<Rightarrow> domain_error + policy_decision) \<Rightarrow> user_id \<Rightarrow> uuid \<Rightarrow> user_id \<Rightarrow>
   api_error + membership_command" where
  "remove_member ports ops actor block user =
     and_then (api_result (find_membership ports block user)) (\<lambda>target.
     and_then (if target = Some OpsAdmin
               then require_ops ops actor ''not authorized to remove an ops role holder'' else Ok ())
       (\<lambda>_. and_then (api_result (find_block_project ports block)) (\<lambda>project.
         Ok (RemoveMember block project user))))"

definition leave_block :: "member_ports \<Rightarrow> uuid \<Rightarrow> api_error + membership_command" where
  "leave_block ports block =
     and_then (api_result (find_block_project ports block)) (\<lambda>project. Ok (LeaveBlock block project))"

section \<open>Lemmas\<close>

lemma starts_with_iff: "starts_with s p \<longleftrightarrow> (\<exists>rest. s = p @ rest)"
  by (metis append_eq_conv_conj append_take_drop_id starts_with_def)

lemma contains_append: "contains (a @ p @ b) p"
proof (induction a)
  case Nil
  have "starts_with (p @ b) p"
    by (simp add: starts_with_def)
  then show ?case
    by (cases "p @ b") auto
next
  case (Cons c a)
  then show ?case
    by simp
qed

lemma strip_prefix_v1 [simp]: "strip_prefix ''/v1'' (''/v1'' @ p) = Some p"
  by (simp add: strip_prefix_def starts_with_def)

lemma public_iff: "requirement_for path = Public \<longleftrightarrow> path = ''/health'' \<or> path = ''/v1/health''"
proof -
  have "requirement_for path = Public \<longleftrightarrow>
      (case strip_prefix ''/v1'' path of Some p \<Rightarrow> p | None \<Rightarrow> path) = ''/health''"
    by (simp add: requirement_for_def Let_def)
  also have "\<dots> \<longleftrightarrow> path = ''/health'' \<or> path = ''/v1/health''"
    by (auto simp: strip_prefix_def starts_with_iff)
  finally show ?thesis .
qed

lemma authorize_Allow:
  "authorize repo ctx = Allow \<longleftrightarrow> is_active_member repo (ctx_block ctx) (ctx_actor ctx) = Ok True"
  by (auto simp: authorize_def split: sum.splits bool.splits)

lemma ops_Allow:
  "authorize_ops repo ops_admins actor = Ok Allow \<longleftrightarrow>
     actor \<in> set ops_admins \<or> has_active_ops_role repo actor = Ok True"
  by (cases "has_active_ops_role repo actor")
    (auto simp: authorize_ops_def allow_if_def list_ex_iff split: if_splits)

section \<open>Properties\<close>

text \<open>C14. Requests fail closed. In production (no development override) with enforcement on, a request
  that reaches a handler is for the documentation or the health probe, or its bearer token was verified and
  either the route asks for no more or the user is an active member of the block named by the request; in
  particular a policy that panics, a read model that fails and a missing block refuse the request.\<close>

theorem admitted_requests_are_authorised:
  assumes "as_dev_override st = None"
    and "admit st True jwt (\<lambda>ctx. if panics ctx then None else Some (authorize repo ctx)) parse_uuid path
      is_get auth_header block_header = (Forward, user)"
  shows "documentation path \<or> path = ''/health'' \<or> path = ''/v1/health'' \<or>
    (\<exists>u. user = Some u \<and> verify_token jwt (as_config st) auth_header = Ok u \<and>
      (requirement_for path = Authenticated \<or>
       (\<exists>b. active_block parse_uuid block_header = Ok b \<and> is_active_member repo b (cu_sub u) = Ok True)))"
proof (cases "documentation path \<or> requirement_for path = Public")
  case True
  then show ?thesis
    by (auto simp: public_iff)
next
  case False
  then obtain u where u: "user = Some u" "verify_token jwt (as_config st) auth_header = Ok u"
      "authorize_middleware True (\<lambda>ctx. if panics ctx then None else Some (authorize repo ctx)) parse_uuid path
        is_get block_header (Some u) = Forward"
    using assms by (auto simp: admit_def auth_middleware_def split: sum.splits)
  have "path \<noteq> ''/health''" "path \<noteq> ''/v1/health''"
    using False by (simp_all add: public_iff)
  with u(3) False show ?thesis
    using u(1,2)
    by (auto simp: authorize_middleware_def Let_def authorize_Allow split: sum.splits if_splits)
qed



text \<open>C35. The operations role is guarded: someone who is neither on the bootstrap list nor an active holder of
  the role can neither invite nor promote anyone into it, and can neither change the role of a holder nor
  remove one; the refusal comes before any command is issued.\<close>

theorem ops_role_is_guarded:
  assumes "actor \<notin> set ops_admins" "has_active_ops_role repo actor \<noteq> Ok True"
  shows "invite_member ports (authorize_ops repo ops_admins) actor block user OpsAdmin =
      Err (ApiForbidden ''not authorized to grant the ops role'') \<and>
    grant_role ports (authorize_ops repo ops_admins) actor block user OpsAdmin \<noteq> Ok c \<and>
    (find_membership ports block user = Ok (Some OpsAdmin) \<longrightarrow>
       grant_role ports (authorize_ops repo ops_admins) actor block user role =
         Err (ApiForbidden ''not authorized to change ops role assignments'') \<and>
       remove_member ports (authorize_ops repo ops_admins) actor block user =
         Err (ApiForbidden ''not authorized to remove an ops role holder''))"
proof -
  have refused: "require_ops (authorize_ops repo ops_admins) actor msg = Err (ApiForbidden msg)" for msg
    using ops_Allow [of repo ops_admins actor] assms
    by (cases "authorize_ops repo ops_admins actor")
      (auto simp: require_ops_def split: policy_decision.splits)
  then show ?thesis
    by (auto simp: invite_member_def grant_role_def remove_member_def)
qed

section \<open>Examples\<close>

definition sample_jwt :: "unit jwt" where
  "sample_jwt = \<lparr>jwt_header = (\<lambda>_. Some (Some ''k'')), jwt_keys = Some [''k'' \<mapsto> ()],
     jwt_decode = (\<lambda>token _ _. Some (token, None))\<rparr>"

definition sample_repo :: membership_repo where
  "sample_repo =
     \<lparr>is_active_member = (\<lambda>b u. Ok (b = 1 \<and> u = ''anna'')),
      has_active_costume_role_in_season = (\<lambda>_ _. Ok False), has_active_credential_role = (\<lambda>_. Ok False),
      has_active_ops_role = (\<lambda>_. Ok False)\<rparr>"

definition sample_auth :: auth_state where
  "sample_auth =
     \<lparr>as_config = \<lparr>oidc_iss = ''i'', oidc_audience = ''a'', oidc_jwks_url = ''u''\<rparr>, as_dev_override = None\<rparr>"

definition sample_env :: environment where
  "sample_env = [''OIDC_ISS'' \<mapsto> ''i'', ''OIDC_AUDIENCE'' \<mapsto> ''a'', ''OIDC_JWKS_URL'' \<mapsto> ''u'', ''DEV_AUTH_SUB'' \<mapsto> ''dev'']"

lemma sample_scenes: "requirement_for ''/v1/scenes'' = BlockMember" "\<not> documentation ''/v1/scenes''"
  by code_simp+

lemma sample_token:
  "verify_token sample_jwt cfg (Some ''Bearer anna'') = Ok \<lparr>cu_sub = ''anna'', cu_email = None\<rparr>"
  by (simp add: verify_token_def bearer_token_def strip_prefix_def starts_with_def sample_jwt_def)

theorem admitted_requests_are_authorised_witness:
  "\<exists>b. active_block (\<lambda>_. Some 1) (Some ''1'') = Ok b \<and> is_active_member sample_repo b ''anna'' = Ok True"
proof -
  have "admit sample_auth True sample_jwt (\<lambda>ctx. if False then None else Some (authorize sample_repo ctx))
      (\<lambda>_. Some 1) ''/v1/scenes'' True (Some ''Bearer anna'') (Some ''1'') =
      (Forward, Some \<lparr>cu_sub = ''anna'', cu_email = None\<rparr>)"
    by (simp add: admit_def auth_middleware_def authorize_middleware_def sample_scenes sample_token
        sample_auth_def active_block_def authorize_def sample_repo_def)
  from admitted_requests_are_authorised [OF _ this] show ?thesis
    by (simp add: sample_scenes sample_token sample_auth_def)
qed


theorem ops_role_is_guarded_witness:
  "remove_member \<lparr>find_membership = (\<lambda>_ _. Ok (Some OpsAdmin)), find_block_project = (\<lambda>_. Ok 1)\<rparr>
     (authorize_ops sample_repo [''root'']) ''anna'' 1 ''otto'' =
   Err (ApiForbidden ''not authorized to remove an ops role holder'')"
  using ops_role_is_guarded [of "''anna''" "[''root'']" sample_repo
      "\<lparr>find_membership = (\<lambda>_ _. Ok (Some OpsAdmin)), find_block_project = (\<lambda>_. Ok 1)\<rparr>" 1 "''otto''"]
  by (simp add: sample_repo_def)

end
