(* ===== verification/Projection_Worker.thy ===== *)
theory Projection_Worker
  imports BD_Prelude "HOL-Library.AList"
begin

text \<open>
  The projection processor of the patched \<open>kameo_es\<close> (\<open>src/event_handler/postgres.rs\<close> and
  \<open>src/event_handler.rs\<close>): workers that apply events to read-model rows in one open transaction, flush it
  together with the checkpoints of their partitions, and set events aside that can never be applied.

  PostgreSQL is the record \<open>pg\<close> of what is committed, for one projection: the rows written for the streams of
  each partition, the checkpoints and the dead letters. A transaction holds what it has written on top; a
  failed statement aborts it until it is rolled back to its savepoint. Every access to the database or to
  SierraDB can fail: which ones do is an argument of the operations. A \<open>HashMap\<close> is an association list, the
  integer columns keep the bits of the values they hold. \<open>flush\<close> and \<open>after_commit\<close> of a handler are the defaults,
  which do nothing: no projector overrides them. Timestamps and logging are left out.
\<close>

type_synonym u16 = "16 word"

section \<open>Errors\<close>

datatype sqlx_error = SqlDatabase "string option" "string option" | SqlOther string

datatype processor_error = PgError sqlx_error | UnexpectedLastEventId "u64 option" | InvalidPartitionId u16

datatype event_handler_error =
    DeserializeEvent string string
  | SierraFailure string
  | ParseID string
  | ProcessorError processor_error
  | HandlerError sqlx_error
  | EventFromSierra string

fun sqlx_permanent :: "sqlx_error \<Rightarrow> bool" where
  "sqlx_permanent (SqlDatabase code _) \<longleftrightarrow>
     (case code of None \<Rightarrow> False | Some c \<Rightarrow> starts_with c ''23'' \<or> starts_with c ''22'')"
| "sqlx_permanent (SqlOther _) \<longleftrightarrow> False"

fun permanent_error_details :: "sqlx_error \<Rightarrow> string option \<times> string option" where
  "permanent_error_details (SqlDatabase code constraint) = (code, constraint)"
| "permanent_error_details (SqlOther _) = (None, None)"

fun is_permanent_event_error :: "event_handler_error \<Rightarrow> bool" where
  "is_permanent_event_error (DeserializeEvent _ _) \<longleftrightarrow> True"
| "is_permanent_event_error (ParseID _) \<longleftrightarrow> True"
| "is_permanent_event_error (SierraFailure _) \<longleftrightarrow> False"
| "is_permanent_event_error (EventFromSierra _) \<longleftrightarrow> False"
| "is_permanent_event_error (ProcessorError _) \<longleftrightarrow> False"
| "is_permanent_event_error (HandlerError err) \<longleftrightarrow> sqlx_permanent err"

section \<open>The database\<close>

record dead_letter =
  dl_stream :: string
  dl_name :: string
  dl_sqlstate :: "string option"
  dl_constraint :: "string option"
  dl_message :: string
  dl_attempts :: int

record 'r pg =
  pg_rows :: "u16 \<Rightarrow> 'r"
  pg_checkpoints :: "(u16 \<times> u64) list"
  pg_dead :: "((u16 \<times> u64) \<times> dead_letter) list"

record 'r tx =
  tx_rows :: "(u16 \<times> 'r) list"
  tx_checkpoints :: "(u16 \<times> u64) list"
  tx_dead :: "((u16 \<times> u64) \<times> dead_letter) list"
  tx_aborted :: bool

definition begin_tx :: "'r tx" where
  "begin_tx = \<lparr>tx_rows = [], tx_checkpoints = [], tx_dead = [], tx_aborted = False\<rparr>"

definition view_row :: "'r pg \<Rightarrow> 'r tx \<Rightarrow> u16 \<Rightarrow> 'r" where
  "view_row db t p = (case map_of (tx_rows t) p of Some r \<Rightarrow> r | None \<Rightarrow> pg_rows db p)"

definition view_checkpoint :: "'r pg \<Rightarrow> 'r tx \<Rightarrow> u16 \<Rightarrow> u64 option" where
  "view_checkpoint db t p = map_of (AList.merge (pg_checkpoints db) (tx_checkpoints t)) p"

definition commit :: "'r pg \<Rightarrow> 'r tx \<Rightarrow> 'r pg" where
  "commit db t =
     (if tx_aborted t then db
      else \<lparr>pg_rows = view_row db t, pg_checkpoints = AList.merge (pg_checkpoints db) (tx_checkpoints t),
            pg_dead = AList.merge (pg_dead db) (tx_dead t)\<rparr>)"

definition statement ::
  "sqlx_error option \<Rightarrow> ('r tx \<Rightarrow> 'r tx) \<Rightarrow> 'r tx \<Rightarrow> 'r tx \<times> (sqlx_error + unit)" where
  "statement fault write t =
     (if tx_aborted t then (t, Err (SqlDatabase (Some ''25P02'') None))
      else case fault of
          Some err \<Rightarrow> (t\<lparr>tx_aborted := True\<rparr>, Err err)
        | None \<Rightarrow> (write t, Ok ()))"

section \<open>One event\<close>

record 'd partition_event =
  pe_partition :: u16
  pe_sequence :: u64
  pe_stream :: string
  pe_name :: string
  pe_data :: 'd

record attempt_faults =
  af_begin :: "sqlx_error option"
  af_savepoint :: "sqlx_error option"
  af_handler :: "event_handler_error option"
  af_rollback :: "sqlx_error option"
  af_release :: "sqlx_error option"

text \<open>
  \<open>handle_event\<close>: the event handler runs behind a savepoint of the batch transaction. The handler sees the
  rows of the event's partition.
\<close>

definition handle_attempt ::
  "('d partition_event \<Rightarrow> 'r \<Rightarrow> event_handler_error + 'r) \<Rightarrow> 'r pg \<Rightarrow> 'd partition_event \<Rightarrow> attempt_faults \<Rightarrow>
   'r tx option \<Rightarrow> 'r tx option \<times> (event_handler_error + unit)" where
  "handle_attempt handler db event f transaction =
     (case (case transaction of
              Some t \<Rightarrow> Ok t
            | None \<Rightarrow> (case af_begin f of None \<Rightarrow> Ok begin_tx | Some err \<Rightarrow> Err err)) of
        Inl err \<Rightarrow> (None, Err (ProcessorError (PgError err)))
      | Inr t \<Rightarrow>
          (case statement (af_savepoint f) id t of
             (_, Inl err) \<Rightarrow> (None, Err (ProcessorError (PgError err)))
           | (_, Inr _) \<Rightarrow>
               (case (case af_handler f of
                        Some err \<Rightarrow> Err err
                      | None \<Rightarrow> handler event (view_row db t (pe_partition event))) of
                  Inl err \<Rightarrow> (case af_rollback f of None \<Rightarrow> Some t | Some _ \<Rightarrow> None, Err err)
                | Inr row \<Rightarrow>
                    (Some (t\<lparr>tx_rows := AList.update (pe_partition event) row (tx_rows t),
                             tx_aborted := (af_release f \<noteq> None)\<rparr>), Ok ()))))"

text \<open>The retries of \<open>backon\<close>: one more attempt for every element of the list, whatever the error was.\<close>

fun handle_retry ::
  "('d partition_event \<Rightarrow> 'r \<Rightarrow> event_handler_error + 'r) \<Rightarrow> 'r pg \<Rightarrow> 'd partition_event \<Rightarrow> attempt_faults \<Rightarrow>
   attempt_faults list \<Rightarrow> 'r tx option \<Rightarrow> 'r tx option \<times> (event_handler_error + unit)" where
  "handle_retry handler db event f [] transaction = handle_attempt handler db event f transaction"
| "handle_retry handler db event f (g # gs) transaction =
     (case handle_attempt handler db event f transaction of
        (transaction', Inr _) \<Rightarrow> (transaction', Ok ())
      | (transaction', Inl _) \<Rightarrow> handle_retry handler db event g gs transaction')"

section \<open>Flushing\<close>

record 'r worker =
  wk_tx :: "'r tx option"
  wk_since :: u64
  wk_flushed :: "(u16 \<times> u64) list"
  wk_handled :: "(u16 \<times> u64) list"
  wk_latest :: "(u16 \<times> u64 option) list"
  wk_live_events :: u64
  wk_replay_events :: u64
  wk_live :: bool

record flush_faults =
  ff_write :: "u16 \<Rightarrow> sqlx_error option"
  ff_commit :: "sqlx_error option"

definition fits_smallint :: "u16 \<Rightarrow> bool" where
  "fits_smallint p \<longleftrightarrow> p < 2 ^ 15"

definition put_checkpoint :: "u16 \<Rightarrow> u64 \<Rightarrow> 'r tx \<Rightarrow> 'r tx" where
  "put_checkpoint p s t = t\<lparr>tx_checkpoints := AList.update p s (tx_checkpoints t)\<rparr>"

definition flush_write ::
  "'r pg \<Rightarrow> flush_faults \<Rightarrow> (u16 \<times> u64) list \<Rightarrow> u16 \<Rightarrow> u64 \<Rightarrow> 'r tx \<Rightarrow> 'r tx \<times> (event_handler_error + unit)" where
  "flush_write db f flushed p handled t =
     (case map_of flushed p of
        None \<Rightarrow>
          if \<not> fits_smallint p then (t, Err (ProcessorError (InvalidPartitionId p)))
          else (case statement
                  (if view_checkpoint db t p \<noteq> None then Some (SqlDatabase (Some ''23505'') None) else ff_write f p)
                  (put_checkpoint p handled) t of
              (t', Inl (SqlDatabase code c)) \<Rightarrow>
                (t', Err (ProcessorError (if code = Some ''23505'' then UnexpectedLastEventId None
                   else PgError (SqlDatabase code c))))
            | (t', Inl (SqlOther msg)) \<Rightarrow> (t', Err (ProcessorError (PgError (SqlOther msg))))
            | (t', Inr _) \<Rightarrow> (t', Ok ()))
      | Some flushed_sequence \<Rightarrow>
          if flushed_sequence \<noteq> handled then
            if \<not> fits_smallint p then (t, Err (ProcessorError (InvalidPartitionId p)))
            else (case statement (ff_write f p)
                    (if view_checkpoint db t p = None then id else put_checkpoint p handled) t of
                (t', Inl err) \<Rightarrow> (t', Err (ProcessorError (PgError err)))
              | (t', Inr _) \<Rightarrow>
                  (t', if view_checkpoint db t p = None
                       then Err (ProcessorError (UnexpectedLastEventId (Some handled))) else Ok ()))
          else (t, Ok ()))"

fun flush_writes ::
  "'r pg \<Rightarrow> flush_faults \<Rightarrow> (u16 \<times> u64) list \<Rightarrow> (u16 \<times> u64) list \<Rightarrow> 'r tx \<Rightarrow>
   'r tx \<times> (event_handler_error + unit)" where
  "flush_writes db f flushed [] t = (t, Ok ())"
| "flush_writes db f flushed ((p, handled) # rest) t =
     (case flush_write db f flushed p handled t of
        (t', Inl err) \<Rightarrow> (t', Err err)
      | (t', Inr _) \<Rightarrow> flush_writes db f flushed rest t')"

text \<open>\<open>flush_checkpoint\<close>. The transaction is taken out of the worker before it is committed.\<close>

definition flush_checkpoint ::
  "flush_faults \<Rightarrow> 'r pg \<Rightarrow> 'r worker \<Rightarrow> 'r pg \<times> 'r worker \<times> (event_handler_error + unit)" where
  "flush_checkpoint f db w =
     (case wk_tx w of
        None \<Rightarrow> (db, w, Ok ())
      | Some t \<Rightarrow>
          (case flush_writes db f (wk_flushed w) (wk_handled w) t of
             (t', Inl err) \<Rightarrow> (db, w\<lparr>wk_tx := Some t'\<rparr>, Err err)
           | (t', Inr _) \<Rightarrow>
               (case ff_commit f of
                  Some err \<Rightarrow> (db, w\<lparr>wk_tx := None\<rparr>, Err (ProcessorError (PgError err)))
                | None \<Rightarrow> (commit db t', w\<lparr>wk_tx := None, wk_flushed := wk_handled w, wk_since := 0\<rparr>, Ok ()))))"

fun flush_retry ::
  "flush_faults \<Rightarrow> flush_faults list \<Rightarrow> 'r pg \<Rightarrow> 'r worker \<Rightarrow>
   'r pg \<times> 'r worker \<times> (event_handler_error + unit)" where
  "flush_retry f [] db w = flush_checkpoint f db w"
| "flush_retry f (g # gs) db w =
     (case flush_checkpoint f db w of
        (db', w', Inr _) \<Rightarrow> (db', w', Ok ())
      | (db', w', Inl _) \<Rightarrow> flush_retry g gs db' w')"

section \<open>The worker\<close>

record event_faults =
  ef_epseq :: "string + u64 option"
  ef_attempt :: attempt_faults
  ef_retries :: "attempt_faults list"
  ef_dead_begin :: "sqlx_error option"
  ef_dead_row :: "sqlx_error option"
  ef_dead_checkpoint :: "sqlx_error option"
  ef_dead_commit :: "sqlx_error option"
  ef_dead_flush :: "flush_faults \<times> flush_faults list"
  ef_flush :: "flush_faults \<times> flush_faults list"

definition dead_letter_row ::
  "string \<Rightarrow> string \<Rightarrow> string option \<Rightarrow> string option \<Rightarrow> string \<Rightarrow> dead_letter option \<Rightarrow> dead_letter" where
  "dead_letter_row stream name sqlstate constraint msg old =
     (case old of
        None \<Rightarrow> \<lparr>dl_stream = stream, dl_name = name, dl_sqlstate = sqlstate, dl_constraint = constraint,
                 dl_message = msg, dl_attempts = 1\<rparr>
      | Some d \<Rightarrow> d\<lparr>dl_sqlstate := sqlstate, dl_constraint := constraint, dl_message := msg,
                   dl_attempts := dl_attempts d + 1\<rparr>)"

definition put_dead ::
  "'r pg \<Rightarrow> 'd partition_event \<Rightarrow> string option \<times> string option \<Rightarrow> string \<Rightarrow> 'r tx \<Rightarrow> 'r tx" where
  "put_dead db event details msg t =
     (let key = (pe_partition event, pe_sequence event)
      in t\<lparr>tx_dead := AList.update key
           (dead_letter_row (pe_stream event) (pe_name event) (fst details) (snd details) msg
              (map_of (AList.merge (pg_dead db) (tx_dead t)) key)) (tx_dead t)\<rparr>)"

definition greatest :: "u64 option \<Rightarrow> u64 \<Rightarrow> u64" where
  "greatest old new = (case old of None \<Rightarrow> new | Some s \<Rightarrow> if sint new \<le> sint s then s else new)"

definition dead_letter_event ::
  "event_faults \<Rightarrow> 'd partition_event \<Rightarrow> string option \<times> string option \<Rightarrow> string \<Rightarrow> 'r pg \<Rightarrow> 'r worker \<Rightarrow>
   'r pg \<times> 'r worker \<times> (event_handler_error + unit)" where
  "dead_letter_event f event details msg db w =
     (let p = pe_partition event; s = pe_sequence event in
      if \<not> fits_smallint p then (db, w, Err (ProcessorError (InvalidPartitionId p)))
      else case wk_tx w of
          Some t \<Rightarrow>
            (case statement (ef_dead_row f) (put_dead db event details msg) t of
               (t', Inl err) \<Rightarrow> (db, w\<lparr>wk_tx := Some t'\<rparr>, Err (ProcessorError (PgError err)))
             | (t', Inr _) \<Rightarrow>
                 flush_retry (fst (ef_dead_flush f)) (snd (ef_dead_flush f)) db
                   (w\<lparr>wk_tx := Some t', wk_handled := AList.update p s (wk_handled w)\<rparr>))
        | None \<Rightarrow>
            (case List.find (\<lambda>x. x \<noteq> None) [ef_dead_begin f, ef_dead_row f, ef_dead_checkpoint f, ef_dead_commit f] of
               Some (Some err) \<Rightarrow> (db, w, Err (ProcessorError (PgError err)))
             | _ \<Rightarrow>
                 (commit db (put_checkpoint p (greatest (map_of (pg_checkpoints db) p) s)
                    (put_dead db event details msg begin_tx)),
                  w\<lparr>wk_handled := AList.update p s (wk_handled w), wk_flushed := AList.update p s (wk_flushed w),
                    wk_since := 0\<rparr>, Ok ())))"

definition replaying :: "'r worker \<Rightarrow> bool" where
  "replaying w \<longleftrightarrow> \<not> wk_live w \<and> list_ex (\<lambda>(p, latest).
     case latest of
       None \<Rightarrow> False
     | Some l \<Rightarrow> (case map_of (wk_handled w) p of Some h \<Rightarrow> h < l | None \<Rightarrow> l + 1 > 0)) (wk_latest w)"

text \<open>What follows a handled or dead-lettered event: it counts, and a full batch is flushed.\<close>

definition finish_event ::
  "event_faults \<Rightarrow> 'd partition_event \<Rightarrow> 'r pg \<Rightarrow> 'r worker \<Rightarrow> 'r pg \<times> 'r worker \<times> (event_handler_error + unit)" where
  "finish_event f event db w =
     (let w1 = w\<lparr>wk_handled := AList.update (pe_partition event) (pe_sequence event) (wk_handled w),
                 wk_since := wk_since w + 1\<rparr>;
          w2 = (if replaying w1 then w1 else w1\<lparr>wk_live := True\<rparr>)
      in if wk_since w2 \<ge> (if replaying w1 then wk_replay_events w2 else wk_live_events w2)
         then flush_retry (fst (ef_flush f)) (snd (ef_flush f)) db w2
         else (db, w2, Ok ()))"

definition worker_handle_event ::
  "('d partition_event \<Rightarrow> 'r \<Rightarrow> event_handler_error + 'r) \<Rightarrow> (event_handler_error \<Rightarrow> string) \<Rightarrow> event_faults \<Rightarrow>
   'd partition_event \<Rightarrow> 'r pg \<Rightarrow> 'r worker \<Rightarrow> 'r pg \<times> 'r worker \<times> (event_handler_error + unit)" where
  "worker_handle_event handler debug f event db w =
     (let p = pe_partition event in
      if (case map_of (wk_handled w) p of Some handled \<Rightarrow> handled \<ge> pe_sequence event | None \<Rightarrow> False)
      then (db, w, Ok ())
      else if map_of (wk_latest w) p = None \<and> isl (ef_epseq f)
      then (db, w\<lparr>wk_live := False\<rparr>, Err (SierraFailure (projl (ef_epseq f))))
      else
        let w1 = (if map_of (wk_latest w) p = None
                  then w\<lparr>wk_live := False, wk_latest := AList.update p (projr (ef_epseq f)) (wk_latest w)\<rparr>
                  else w);
            (transaction, res) = handle_retry handler db event (ef_attempt f) (ef_retries f) (wk_tx w1);
            w2 = w1\<lparr>wk_tx := transaction\<rparr>
        in case res of
             Inr _ \<Rightarrow> finish_event f event db w2
           | Inl err \<Rightarrow>
               if is_permanent_event_error err then
                 (case dead_letter_event f event
                     (case err of HandlerError e \<Rightarrow> permanent_error_details e | _ \<Rightarrow> (None, None)) (debug err) db w2 of
                    (db', w', Inl err') \<Rightarrow> (db', w', Err err')
                  | (db', w', Inr _) \<Rightarrow> finish_event f event db' w')
               else (db, w2, Err err))"

section \<open>The processor\<close>

record 'r processor =
  pr_count :: u16
  pr_live_events :: u64
  pr_replay_events :: u64
  pr_flushed :: "(u16 \<times> u64) list"
  pr_workers :: "(u16 \<times> 'r worker) list"

fun processor_new :: "(u16 \<times> u64) list \<Rightarrow> sqlx_error + (u16 \<times> u64) list" where
  "processor_new [] = Ok []"
| "processor_new ((p, s) # rows) =
     (if sint p < 0 then Err (SqlOther ''partition_id'')
      else if sint s < 0 then Err (SqlOther ''sequence'')
      else and_then (processor_new rows) (\<lambda>m. Ok (AList.update p s m)))"

definition get_start_from :: "'r processor \<Rightarrow> (u16 \<times> u64) list" where
  "get_start_from pr = map (\<lambda>(p, s). (p, s + 1)) (pr_flushed pr)"

definition worker_of :: "'r processor \<Rightarrow> u16 \<Rightarrow> 'r worker" where
  "worker_of pr p =
     (case map_of (pr_workers pr) (p mod pr_count pr) of
        Some w \<Rightarrow> w
      | None \<Rightarrow> \<lparr>wk_tx = None, wk_since = 0, wk_flushed = pr_flushed pr, wk_handled = pr_flushed pr, wk_latest = [],
                 wk_live_events = pr_live_events pr, wk_replay_events = pr_replay_events pr, wk_live = False\<rparr>)"

definition processor_handle_event ::
  "('d partition_event \<Rightarrow> 'r \<Rightarrow> event_handler_error + 'r) \<Rightarrow> (event_handler_error \<Rightarrow> string) \<Rightarrow> event_faults \<Rightarrow>
   'd partition_event \<Rightarrow> 'r pg \<Rightarrow> 'r processor \<Rightarrow> 'r pg \<times> 'r processor \<times> (event_handler_error + unit)" where
  "processor_handle_event handler debug f event db pr =
     (case worker_handle_event handler debug f event db (worker_of pr (pe_partition event)) of
        (db', w, res) \<Rightarrow>
          (db', pr\<lparr>pr_workers := AList.update (pe_partition event mod pr_count pr) w (pr_workers pr)\<rparr>, res))"

definition sync_processor_checkpoint :: "u16 \<Rightarrow> u64 \<Rightarrow> 'r worker \<Rightarrow> 'r worker" where
  "sync_processor_checkpoint p s w =
     w\<lparr>wk_flushed := AList.update p
         (case map_of (wk_flushed w) p of Some flushed \<Rightarrow> if s > flushed then s else flushed | None \<Rightarrow> s)
         (wk_flushed w)\<rparr>"

definition put_undecodable :: "'r pg \<Rightarrow> 'd partition_event \<Rightarrow> string \<Rightarrow> 'r tx \<Rightarrow> 'r tx" where
  "put_undecodable db event msg t =
     (let key = (pe_partition event, pe_sequence event)
      in t\<lparr>tx_dead := AList.update key
           (case map_of (pg_dead db) key of
              None \<Rightarrow> dead_letter_row (pe_stream event) (pe_name event) None None msg None
            | Some d \<Rightarrow> d\<lparr>dl_message := msg, dl_attempts := dl_attempts d + 1\<rparr>) (tx_dead t)\<rparr>)"

text \<open>\<open>DeadLetterUndecodable\<close>: the coordinator commits the dead letter and the checkpoint on its own.\<close>

definition dead_letter_undecodable ::
  "sqlx_error option \<Rightarrow> 'd partition_event \<Rightarrow> string \<Rightarrow> 'r pg \<Rightarrow> 'r processor \<Rightarrow>
   'r pg \<times> 'r processor \<times> (processor_error + unit)" where
  "dead_letter_undecodable fault event msg db pr =
     (let p = pe_partition event; s = pe_sequence event; i = p mod pr_count pr in
      if \<not> fits_smallint p then (db, pr, Err (InvalidPartitionId p))
      else case fault of
          Some err \<Rightarrow> (db, pr, Err (PgError err))
        | None \<Rightarrow>
            (commit db (put_checkpoint p (greatest (map_of (pg_checkpoints db) p) s)
               (put_undecodable db event msg begin_tx)),
             pr\<lparr>pr_flushed := AList.update p s (pr_flushed pr),
                pr_workers := (case map_of (pr_workers pr) i of
                   None \<Rightarrow> pr_workers pr
                 | Some w \<Rightarrow> AList.update i (sync_processor_checkpoint p s w) (pr_workers pr))\<rparr>,
             Ok ()))"

section \<open>The system\<close>

text \<open>
  SierraDB delivers the messages of each partition in order, from the position that the processor asks for. The
  messages of a partition are a list; the sequence of a message is its position. A message is handled when it
  is delivered, before the next one: the mailboxes between subscription, coordinator and workers are not
  modelled. The processor is \<open>None\<close> once a worker has failed (\<open>on_link_died\<close> stops the coordinator as well),
  until the process is restarted. \<open>Tick\<close> is the flush after the time interval in \<open>Worker::next\<close>, \<open>NewEpoch\<close> a new
  subscription of the same processor, which asks for its start with \<open>GetStartFrom\<close>.
\<close>

datatype 'd message = Decoded string string 'd | Undecodable string string string

fun decoded :: "'d message \<Rightarrow> bool" where
  "decoded (Decoded _ _ _) \<longleftrightarrow> True"
| "decoded (Undecodable _ _ _) \<longleftrightarrow> False"

record 'r system =
  sy_db :: "'r pg"
  sy_processor :: "'r processor option"
  sy_cursor :: "u16 \<Rightarrow> nat"

datatype label =
    Deliver u16 event_faults
  | DeliverRaw u16 "sqlx_error option"
  | Tick u16 "flush_faults \<times> flush_faults list"
  | NewEpoch
  | Restart

definition next_sequence :: "u64 option \<Rightarrow> nat" where
  "next_sequence s = (case s of None \<Rightarrow> 0 | Some x \<Rightarrow> unat x + 1)"

definition start_cursor :: "'r processor \<Rightarrow> u16 \<Rightarrow> nat" where
  "start_cursor pr p = (case map_of (get_start_from pr) p of None \<Rightarrow> 0 | Some s \<Rightarrow> unat s)"

definition event_at :: "u16 \<Rightarrow> nat \<Rightarrow> string \<Rightarrow> string \<Rightarrow> 'd \<Rightarrow> 'd partition_event" where
  "event_at p i stream name d =
     \<lparr>pe_partition = p, pe_sequence = of_nat i, pe_stream = stream, pe_name = name, pe_data = d\<rparr>"

fun sys_step ::
  "('d partition_event \<Rightarrow> 'r \<Rightarrow> event_handler_error + 'r) \<Rightarrow> (event_handler_error \<Rightarrow> string) \<Rightarrow>
   u16 \<times> u64 \<times> u64 \<Rightarrow> (u16 \<Rightarrow> 'd message list) \<Rightarrow> label \<Rightarrow> 'r system \<Rightarrow> 'r system option" where
  "sys_step handler debug config logs (Deliver p f) s =
     (case sy_processor s of
        None \<Rightarrow> None
      | Some pr \<Rightarrow>
          if sy_cursor s p \<ge> length (logs p) then None
          else (case logs p ! sy_cursor s p of
              Undecodable _ _ _ \<Rightarrow> None
            | Decoded stream name d \<Rightarrow>
                (case processor_handle_event handler debug f (event_at p (sy_cursor s p) stream name d) (sy_db s) pr of
                   (db, pr', Inr _) \<Rightarrow> Some (s\<lparr>sy_db := db, sy_processor := Some pr',
                     sy_cursor := (sy_cursor s)(p := sy_cursor s p + 1)\<rparr>)
                 | (db, _, Inl _) \<Rightarrow> Some (s\<lparr>sy_db := db, sy_processor := None\<rparr>))))"
| "sys_step handler debug config logs (DeliverRaw p f) s =
     (case sy_processor s of
        None \<Rightarrow> None
      | Some pr \<Rightarrow>
          if sy_cursor s p \<ge> length (logs p) then None
          else (case logs p ! sy_cursor s p of
              Decoded _ _ _ \<Rightarrow> None
            | Undecodable stream name msg \<Rightarrow>
                (case dead_letter_undecodable f (event_at p (sy_cursor s p) stream name ()) msg (sy_db s) pr of
                   (db, pr', Inr _) \<Rightarrow> Some (s\<lparr>sy_db := db, sy_processor := Some pr',
                     sy_cursor := (sy_cursor s)(p := sy_cursor s p + 1)\<rparr>)
                 | (db, pr', Inl _) \<Rightarrow> Some (s\<lparr>sy_db := db, sy_processor := Some pr',
                     sy_cursor := start_cursor pr'\<rparr>))))"
| "sys_step handler debug config logs (Tick i f) s =
     (case sy_processor s of
        None \<Rightarrow> None
      | Some pr \<Rightarrow>
          (case map_of (pr_workers pr) i of
             None \<Rightarrow> None
           | Some w \<Rightarrow>
               (case flush_retry (fst f) (snd f) (sy_db s) w of
                  (db, w', Inr _) \<Rightarrow> Some (s\<lparr>sy_db := db,
                    sy_processor := Some (pr\<lparr>pr_workers := AList.update i w' (pr_workers pr)\<rparr>)\<rparr>)
                | (db, _, Inl _) \<Rightarrow> Some (s\<lparr>sy_db := db, sy_processor := None\<rparr>))))"
| "sys_step handler debug config logs NewEpoch s =
     (case sy_processor s of
        None \<Rightarrow> None
      | Some pr \<Rightarrow> Some (s\<lparr>sy_cursor := start_cursor pr\<rparr>))"
| "sys_step handler debug (count, live, replay_interval) logs Restart s =
     (case processor_new (pg_checkpoints (sy_db s)) of
        Inl _ \<Rightarrow> None
      | Inr flushed \<Rightarrow>
          let pr = \<lparr>pr_count = count, pr_live_events = live, pr_replay_events = replay_interval, pr_flushed = flushed,
                    pr_workers = []\<rparr>
          in Some (s\<lparr>sy_processor := Some pr, sy_cursor := start_cursor pr\<rparr>))"

primrec sys_run ::
  "('d partition_event \<Rightarrow> 'r \<Rightarrow> event_handler_error + 'r) \<Rightarrow> (event_handler_error \<Rightarrow> string) \<Rightarrow>
   u16 \<times> u64 \<times> u64 \<Rightarrow> (u16 \<Rightarrow> 'd message list) \<Rightarrow> label list \<Rightarrow> 'r system \<Rightarrow> 'r system option" where
  "sys_run handler debug config logs [] s = Some s"
| "sys_run handler debug config logs (l # ls) s =
     Option.bind (sys_step handler debug config logs l s) (sys_run handler debug config logs ls)"

definition empty_system :: "(u16 \<Rightarrow> 'r) \<Rightarrow> 'r system" where
  "empty_system rows =
     \<lparr>sy_db = \<lparr>pg_rows = rows, pg_checkpoints = [], pg_dead = []\<rparr>, sy_processor = None, sy_cursor = (\<lambda>_. 0)\<rparr>"

text \<open>
  The read model that the log promises: the rows after the first \<open>n\<close> messages of a partition, where the dead
  letters are left out and every other event has been applied with success.
\<close>

primrec projected ::
  "('d partition_event \<Rightarrow> 'r \<Rightarrow> event_handler_error + 'r) \<Rightarrow> (u16 \<Rightarrow> 'd message list) \<Rightarrow> (u16 \<times> u64) set \<Rightarrow> u16 \<Rightarrow>
   'r \<Rightarrow> nat \<Rightarrow> 'r option" where
  "projected handler logs dead p row 0 = Some row"
| "projected handler logs dead p row (Suc n) =
     Option.bind (projected handler logs dead p row n) (\<lambda>r.
       case logs p ! n of
         Undecodable _ _ _ \<Rightarrow> Some r
       | Decoded stream name d \<Rightarrow>
           if (p, of_nat n) \<in> dead then Some r
           else (case handler (event_at p n stream name d) r of Inr r' \<Rightarrow> Some r' | Inl _ \<Rightarrow> None))"

text \<open>
  The faults under which nothing is lost: every access may fail but the statements that manage savepoints and
  the commit, and a message that cannot be decoded arrives when the worker of its partition has no open batch.
\<close>

definition keeps_batch :: "attempt_faults \<Rightarrow> bool" where
  "keeps_batch f \<longleftrightarrow> af_savepoint f = None \<and> af_rollback f = None \<and> af_release f = None"

definition commits :: "flush_faults \<times> flush_faults list \<Rightarrow> bool" where
  "commits f \<longleftrightarrow> ff_commit (fst f) = None \<and> list_all (\<lambda>g. ff_commit g = None) (snd f)"

fun benign :: "label \<Rightarrow> 'r system \<Rightarrow> bool" where
  "benign (Deliver p f) s \<longleftrightarrow>
     keeps_batch (ef_attempt f) \<and> list_all keeps_batch (ef_retries f) \<and> commits (ef_dead_flush f) \<and> commits (ef_flush f)"
| "benign (DeliverRaw p f) s \<longleftrightarrow>
     (case sy_processor s of None \<Rightarrow> True | Some pr \<Rightarrow> wk_tx (worker_of pr p) = None)"
| "benign (Tick i f) s \<longleftrightarrow> commits f"
| "benign NewEpoch s \<longleftrightarrow> True"
| "benign Restart s \<longleftrightarrow> True"

primrec benign_run ::
  "('d partition_event \<Rightarrow> 'r \<Rightarrow> event_handler_error + 'r) \<Rightarrow> (event_handler_error \<Rightarrow> string) \<Rightarrow>
   u16 \<times> u64 \<times> u64 \<Rightarrow> (u16 \<Rightarrow> 'd message list) \<Rightarrow> label list \<Rightarrow> 'r system \<Rightarrow> bool" where
  "benign_run handler debug config logs [] s \<longleftrightarrow> True"
| "benign_run handler debug config logs (l # ls) s \<longleftrightarrow>
     benign l s \<and>
     (case sys_step handler debug config logs l s of
        None \<Rightarrow> True
      | Some s' \<Rightarrow> benign_run handler debug config logs ls s')"

end
