(* ===== verification/Read_Model.thy ===== *)
theory Read_Model
  imports Season_Aggregate Block_Aggregate Episode_Aggregate Character_Aggregate Costume_Category_Aggregate
    Settings_Aggregate Shooting_Day_Aggregate Scene_Aggregate Scene_Shoot_Aggregate Piece_Aggregate
    Outfit_Aggregate Membership_Aggregate Ai_Config_Aggregate Reservations Projection_Worker
begin

text \<open>
  The read model that the projectors of \<open>infra/src/projectors\<close> write: the tables of
  \<open>infra/migrations\<close> as association lists from primary keys to rows, and one function per projector that runs
  the statements of its \<open>handle\<close> on them. A statement that violates a constraint is an error; foreign keys with
  \<open>ON DELETE CASCADE\<close> delete the rows that refer to a deleted one.

  Integer columns hold the bits of the values bound to them and are compared as signed numbers; a JSON column
  holds the value it is written from. Left out are the columns \<open>updated_at\<close>, \<open>created_at\<close>, \<open>joined_at\<close> and
  \<open>projector_version\<close>, which no statement reads, the photo tables, and texts with a zero byte, which
  PostgreSQL refuses.
\<close>

section \<open>Tables\<close>

record season_row =
  sea_project :: project_id
  sea_number :: i32
  sea_title :: "string option"
  sea_archived :: bool
  sea_version :: i64

record block_row =
  blk_season :: season_id
  blk_project :: project_id
  blk_number :: i32
  blk_start :: "naive_date option"
  blk_end :: "naive_date option"
  blk_version :: i64

record episode_row =
  epi_block :: block_id
  epi_project :: project_id
  epi_number :: i32
  epi_name :: "string option"
  epi_version :: i64

record 'd character_row =
  chr_season :: season_id
  chr_name :: string
  chr_category :: character_category
  chr_measurements :: "'d character_measurements"
  chr_contact :: contact_info
  chr_version :: i64

record category_row =
  cat_season :: season_id
  cat_name :: string
  cat_order :: lexical_sort_key
  cat_archived :: bool
  cat_version :: i64

record settings_row =
  set_provider :: string
  set_vault_key :: string
  set_vault_version :: i64
  set_state :: string
  set_owner :: "string option"
  set_version :: i64

record day_row =
  sd_episode :: episode_id
  sd_label :: "string option"
  sd_order :: lexical_sort_key
  sd_date :: "naive_date option"
  sd_source :: shooting_day_source
  sd_archived :: bool
  sd_wrapped :: "datetime option"
  sd_version :: i64

record scene_row =
  scn_episode :: episode_id
  scn_details :: scene_details
  scn_source :: scene_source
  scn_version :: i64

record assignment_row =
  asg_outfit :: uuid
  asg_note :: "string option"
  asg_version :: i64

record shoot_row =
  sh_scene :: uuid
  sh_day :: shooting_day_id
  sh_planned :: lexical_sort_key
  sh_actual :: "lexical_sort_key option"
  sh_start :: "datetime option"
  sh_end :: "datetime option"
  sh_status :: string
  sh_notes :: "(uuid \<times> string) list"
  sh_photos :: "photo_id list"
  sh_version :: i64

record piece_row =
  pc_name :: string
  pc_category :: "costume_category_id option"
  pc_category_name :: "string option"
  pc_notes :: string
  pc_version :: i64

record outfit_row =
  of_character :: uuid
  of_name :: string
  of_variant :: "uuid option"
  of_notes :: string
  of_version :: i64

record member_row =
  mb_role :: string
  mb_state :: string

record ai_row =
  ar_user :: user_id
  ar_provider :: string
  ar_assistant :: string
  ar_image :: "string option"
  ar_prompts :: prompts
  ar_vault_key :: string
  ar_preference :: string
  ar_decision_provider :: "string option"
  ar_decision_model :: "string option"
  ar_decision_key :: "string option"
  ar_revoked :: bool
  ar_version :: i64

record claim_row =
  cl_kind :: string
  cl_aggregate :: uuid
  cl_state :: string
  cl_reserved_at :: datetime
  cl_released_at :: "datetime option"
  cl_version :: i64

record 'd read_model =
  rm_season :: "(uuid \<times> season_row) list"
  rm_block :: "(uuid \<times> block_row) list"
  rm_episode :: "(uuid \<times> episode_row) list"
  rm_character :: "(uuid \<times> 'd character_row) list"
  rm_category :: "(uuid \<times> category_row) list"
  rm_settings :: "(uuid \<times> settings_row) list"
  rm_day :: "(shooting_day_id \<times> day_row) list"
  rm_report_job :: "(uuid \<times> shooting_day_id) list"
  rm_scene :: "(uuid \<times> scene_row) list"
  rm_scene_character :: "((uuid \<times> uuid) \<times> i64) list"
  rm_scene_day :: "((uuid \<times> shooting_day_id) \<times> i64) list"
  rm_scene_outfit :: "((uuid \<times> uuid \<times> i32) \<times> assignment_row) list"
  rm_shoot :: "(scene_shoot_id \<times> shoot_row) list"
  rm_piece :: "(uuid \<times> piece_row) list"
  rm_piece_season :: "((uuid \<times> uuid) \<times> unit) list"
  rm_piece_detail :: "((uuid \<times> uuid) \<times> (string option \<times> string)) list"
  rm_piece_photo :: "((uuid \<times> uuid) \<times> unit) list"
  rm_outfit :: "(uuid \<times> outfit_row) list"
  rm_outfit_piece :: "((uuid \<times> uuid) \<times> i32) list"
  rm_outfit_photo :: "((uuid \<times> uuid) \<times> unit) list"
  rm_member :: "((block_id \<times> user_id) \<times> member_row) list"
  rm_ai :: "(uuid \<times> ai_row) list"
  rm_claim :: "(string \<times> claim_row) list"

definition empty_read_model :: "'d read_model" where
  "empty_read_model =
     \<lparr>rm_season = [], rm_block = [], rm_episode = [], rm_character = [], rm_category = [], rm_settings = [],
      rm_day = [], rm_report_job = [], rm_scene = [], rm_scene_character = [], rm_scene_day = [],
      rm_scene_outfit = [], rm_shoot = [], rm_piece = [], rm_piece_season = [], rm_piece_detail = [],
      rm_piece_photo = [], rm_outfit = [], rm_outfit_piece = [], rm_outfit_photo = [], rm_member = [],
      rm_ai = [], rm_claim = []\<rparr>"

section \<open>Statements\<close>

text \<open>
  \<open>upsert\<close> is \<open>INSERT .. ON CONFLICT (key) DO UPDATE\<close>, where \<open>keep old new\<close> keeps the columns that the \<open>SET\<close> list
  does not name; \<open>upsert_newer\<close> has the guard \<open>WHERE table.version < EXCLUDED.version\<close>; \<open>insert_new\<close> is
  \<open>ON CONFLICT DO NOTHING\<close>. \<open>update_row\<close> is \<open>UPDATE .. WHERE id = $1\<close>, \<open>update_newer\<close> adds \<open>AND version < $v\<close>.
\<close>

definition upsert :: "('r \<Rightarrow> 'r \<Rightarrow> 'r) \<Rightarrow> 'k \<Rightarrow> 'r \<Rightarrow> ('k \<times> 'r) list \<Rightarrow> ('k \<times> 'r) list" where
  "upsert keep k row t = AList.update k (case map_of t k of None \<Rightarrow> row | Some old \<Rightarrow> keep old row) t"

definition upsert_newer ::
  "('r \<Rightarrow> i64) \<Rightarrow> ('r \<Rightarrow> 'r \<Rightarrow> 'r) \<Rightarrow> 'k \<Rightarrow> 'r \<Rightarrow> ('k \<times> 'r) list \<Rightarrow> ('k \<times> 'r) list" where
  "upsert_newer ver keep k row t =
     (case map_of t k of
        None \<Rightarrow> AList.update k row t
      | Some old \<Rightarrow> if sint (ver old) < sint (ver row) then AList.update k (keep old row) t else t)"

definition insert_new :: "'k \<Rightarrow> 'r \<Rightarrow> ('k \<times> 'r) list \<Rightarrow> ('k \<times> 'r) list" where
  "insert_new k row t = (case map_of t k of None \<Rightarrow> AList.update k row t | Some _ \<Rightarrow> t)"

definition update_row :: "'k \<Rightarrow> ('r \<Rightarrow> 'r) \<Rightarrow> ('k \<times> 'r) list \<Rightarrow> ('k \<times> 'r) list" where
  "update_row k f t = AList.map_entry k f t"

definition update_newer ::
  "('r \<Rightarrow> i64) \<Rightarrow> 'k \<Rightarrow> i64 \<Rightarrow> ('r \<Rightarrow> 'r) \<Rightarrow> ('k \<times> 'r) list \<Rightarrow> ('k \<times> 'r) list" where
  "update_newer ver k v f t = AList.map_entry k (\<lambda>r. if sint (ver r) < sint v then f r else r) t"

definition delete_rows :: "('k \<Rightarrow> bool) \<Rightarrow> ('k \<times> 'r) list \<Rightarrow> ('k \<times> 'r) list" where
  "delete_rows P t = filter (\<lambda>(k, _). \<not> P k) t"

definition fk_violation :: "string \<Rightarrow> sqlx_error" where
  "fk_violation constraint = SqlDatabase (Some ''23503'') (Some constraint)"

text \<open>An \<open>INSERT\<close> or \<open>UPDATE\<close> that another row of a unique index refuses.\<close>

definition unique_rows ::
  "string \<Rightarrow> ('r \<Rightarrow> 'u) \<Rightarrow> 'k \<Rightarrow> 'r \<Rightarrow> ('k \<times> 'r) list \<Rightarrow> ('k \<times> 'r) list \<Rightarrow> sqlx_error + ('k \<times> 'r) list" where
  "unique_rows constraint key k row t t' =
     (if list_ex (\<lambda>(j, r). j \<noteq> k \<and> key r = key row) t
      then Err (SqlDatabase (Some ''23505'') (Some constraint)) else Ok t')"

section \<open>Numbering constraints\<close>

definition SCENE_SHOOT_PAIR_CONSTRAINT :: string where
  "SCENE_SHOOT_PAIR_CONSTRAINT = ''uq_projection_scene_shoot_pair''"

definition SEASON_NUMBER_CONSTRAINT :: string where
  "SEASON_NUMBER_CONSTRAINT = ''idx_projection_season_project_number''"

definition BLOCK_NUMBER_CONSTRAINT :: string where
  "BLOCK_NUMBER_CONSTRAINT = ''idx_projection_block_project_number''"

definition EPISODE_NUMBER_CONSTRAINT :: string where
  "EPISODE_NUMBER_CONSTRAINT = ''idx_projection_episode_project_number''"

fun is_unique_violation_on :: "sqlx_error \<Rightarrow> string \<Rightarrow> bool" where
  "is_unique_violation_on (SqlDatabase code c) constraint \<longleftrightarrow> code = Some ''23505'' \<and> c = Some constraint"
| "is_unique_violation_on (SqlOther _) constraint \<longleftrightarrow> False"

text \<open>The insert behind a savepoint: a violation of the constraint skips the event, other errors are returned.\<close>

definition guarded_insert :: "string \<Rightarrow> sqlx_error + 't \<Rightarrow> ('t \<Rightarrow> 'm) \<Rightarrow> 'm \<Rightarrow> sqlx_error + 'm" where
  "guarded_insert constraint res write rm =
     (case res of
        Inl err \<Rightarrow> if is_unique_violation_on err constraint then Ok rm else Err err
      | Inr t \<Rightarrow> Ok (write t))"

section \<open>Projectors without children\<close>

fun project_season :: "season_event \<Rightarrow> 'd read_model \<Rightarrow> sqlx_error + 'd read_model" where
  "project_season (SeasonCreated i project number title v) rm =
     (let row = \<lparr>sea_project = project, sea_number = number, sea_title = title, sea_archived = False,
                 sea_version = v\<rparr>
      in guarded_insert SEASON_NUMBER_CONSTRAINT
           (unique_rows SEASON_NUMBER_CONSTRAINT (\<lambda>r. (sea_project r, sea_number r)) i row (rm_season rm)
              (upsert (\<lambda>old new. new\<lparr>sea_archived := sea_archived old\<rparr>) i row (rm_season rm)))
           (\<lambda>t. rm\<lparr>rm_season := t\<rparr>) rm)"
| "project_season (SeasonRenamed i title v) rm =
     Ok (rm\<lparr>rm_season := update_row i (\<lambda>r. r\<lparr>sea_title := title, sea_version := v\<rparr>) (rm_season rm)\<rparr>)"
| "project_season (SeasonArchived i v) rm =
     Ok (rm\<lparr>rm_season := update_row i (\<lambda>r. r\<lparr>sea_archived := True, sea_version := v\<rparr>) (rm_season rm)\<rparr>)"

fun project_block :: "block_event \<Rightarrow> 'd read_model \<Rightarrow> sqlx_error + 'd read_model" where
  "project_block (BlockCreated i season project number start_date end_date v) rm =
     (let row = \<lparr>blk_season = season, blk_project = project, blk_number = number, blk_start = start_date,
                 blk_end = end_date, blk_version = v\<rparr>
      in guarded_insert BLOCK_NUMBER_CONSTRAINT
           (unique_rows BLOCK_NUMBER_CONSTRAINT (\<lambda>r. (blk_project r, blk_number r)) i row (rm_block rm)
              (upsert (\<lambda>old new. new) i row (rm_block rm)))
           (\<lambda>t. rm\<lparr>rm_block := t\<rparr>) rm)"
| "project_block (BlockTimeSpanUpdated i start_date end_date v) rm =
     Ok (rm\<lparr>rm_block := update_row i (\<lambda>r. r\<lparr>blk_start := start_date, blk_end := end_date, blk_version := v\<rparr>)
              (rm_block rm)\<rparr>)"

fun project_episode :: "episode_event \<Rightarrow> 'd read_model \<Rightarrow> sqlx_error + 'd read_model" where
  "project_episode (EpisodeDeleted i v) rm = Ok (rm\<lparr>rm_episode := AList.delete i (rm_episode rm)\<rparr>)"
| "project_episode (EpisodeCreated i block project number name v) rm =
     (let row = \<lparr>epi_block = block, epi_project = project, epi_number = number, epi_name = name,
                 epi_version = v\<rparr>
      in guarded_insert EPISODE_NUMBER_CONSTRAINT
           (unique_rows EPISODE_NUMBER_CONSTRAINT (\<lambda>r. (epi_project r, epi_number r)) i row (rm_episode rm)
              (upsert (\<lambda>old new. new) i row (rm_episode rm)))
           (\<lambda>t. rm\<lparr>rm_episode := t\<rparr>) rm)"
| "project_episode (EpisodeRenamed i name v) rm =
     Ok (rm\<lparr>rm_episode := update_row i (\<lambda>r. r\<lparr>epi_name := name, epi_version := v\<rparr>) (rm_episode rm)\<rparr>)"

fun project_character :: "'d character_event \<Rightarrow> 'd read_model \<Rightarrow> sqlx_error + 'd read_model" where
  "project_character (CharacterDeleted i v) rm = Ok (rm\<lparr>rm_character := AList.delete i (rm_character rm)\<rparr>)"
| "project_character (CharacterCreated i season name cat measurements contact v) rm =
     Ok (rm\<lparr>rm_character := upsert (\<lambda>old new. new) i
          \<lparr>chr_season = season, chr_name = name, chr_category = cat, chr_measurements = measurements,
           chr_contact = contact, chr_version = v\<rparr> (rm_character rm)\<rparr>)"
| "project_character (MeasurementsUpdated i measurements v) rm =
     Ok (rm\<lparr>rm_character := update_row i (\<lambda>r. r\<lparr>chr_measurements := measurements, chr_version := v\<rparr>)
              (rm_character rm)\<rparr>)"
| "project_character (CategoryChanged i cat v) rm =
     Ok (rm\<lparr>rm_character := update_row i (\<lambda>r. r\<lparr>chr_category := cat, chr_version := v\<rparr>) (rm_character rm)\<rparr>)"
| "project_character (ContactInfoUpdated i contact v) rm =
     Ok (rm\<lparr>rm_character := update_row i (\<lambda>r. r\<lparr>chr_contact := contact, chr_version := v\<rparr>) (rm_character rm)\<rparr>)"

text \<open>A rename of a category also renames it on the pieces that hold it.\<close>

fun project_category :: "costume_category_event \<Rightarrow> 'd read_model \<Rightarrow> sqlx_error + 'd read_model" where
  "project_category (CostumeCategoryCreated i season name key v) rm =
     Ok (rm\<lparr>rm_category := upsert (\<lambda>old new. new\<lparr>cat_archived := cat_archived old\<rparr>) i
          \<lparr>cat_season = season, cat_name = name, cat_order = key, cat_archived = False, cat_version = v\<rparr>
          (rm_category rm)\<rparr>)"
| "project_category (CostumeCategoryRenamed i name v) rm =
     Ok (rm\<lparr>rm_category := update_row i (\<lambda>r. r\<lparr>cat_name := name, cat_version := v\<rparr>) (rm_category rm),
            rm_piece := map (\<lambda>(k, r). (k, if pc_category r = Some i then r\<lparr>pc_category_name := Some name\<rparr> else r))
              (rm_piece rm)\<rparr>)"
| "project_category (CostumeCategoryReordered i key v) rm =
     Ok (rm\<lparr>rm_category := update_row i (\<lambda>r. r\<lparr>cat_order := key, cat_version := v\<rparr>) (rm_category rm)\<rparr>)"
| "project_category (CostumeCategoryArchived i v) rm =
     Ok (rm\<lparr>rm_category := update_row i (\<lambda>r. r\<lparr>cat_archived := True, cat_version := v\<rparr>) (rm_category rm)\<rparr>)"

text \<open>The owner of a binding is the actor in the metadata of the event that binds it.\<close>

fun project_settings ::
  "string option \<Rightarrow> settings_event \<Rightarrow> 'd read_model \<Rightarrow> sqlx_error + 'd read_model" where
  "project_settings owner (CredentialBound i provider key vault_version v) rm =
     Ok (rm\<lparr>rm_settings := upsert_newer set_version (\<lambda>old new. new) i
          \<lparr>set_provider = provider, set_vault_key = key, set_vault_version = vault_version,
           set_state = ''active'', set_owner = owner, set_version = v\<rparr> (rm_settings rm)\<rparr>)"
| "project_settings owner (CredentialRotated i provider key vault_version v) rm =
     Ok (rm\<lparr>rm_settings := update_newer set_version i v
          (\<lambda>r. r\<lparr>set_provider := provider, set_vault_key := key, set_vault_version := vault_version,
                 set_state := ''active'', set_version := v\<rparr>) (rm_settings rm)\<rparr>)"
| "project_settings owner (CredentialRevoked i v) rm =
     Ok (rm\<lparr>rm_settings := update_newer set_version i v (\<lambda>r. r\<lparr>set_state := ''revoked'', set_version := v\<rparr>)
              (rm_settings rm)\<rparr>)"

fun cost_display_preference_as_str :: "cost_display_preference \<Rightarrow> string" where
  "cost_display_preference_as_str Token = ''token''"
| "cost_display_preference_as_str Energy = ''energy''"

text \<open>\<open>i64::try_from(version)\<close>.\<close>

definition version_i64 :: "aggregate_version \<Rightarrow> sqlx_error + i64" where
  "version_i64 v =
     (if sint v < 0 then Err (SqlOther ''AI config aggregate version exceeds database range: out of range integral type conversion attempted'') else Ok v)"

fun project_ai_config :: "ai_config_event \<Rightarrow> 'd read_model \<Rightarrow> sqlx_error + 'd read_model" where
  "project_ai_config (AiConfigCreated i user provider model img prompts vault pref dp dm dv v) rm =
     and_then (version_i64 v) (\<lambda>version. Ok (rm\<lparr>rm_ai := upsert_newer ar_version (\<lambda>old new. new) i
          \<lparr>ar_user = user, ar_provider = llm_provider_as_str provider, ar_assistant = model, ar_image = img,
           ar_prompts = prompts, ar_vault_key = vault, ar_preference = cost_display_preference_as_str pref,
           ar_decision_provider = map_option llm_provider_as_str dp, ar_decision_model = dm,
           ar_decision_key = dv, ar_revoked = False, ar_version = version\<rparr> (rm_ai rm)\<rparr>))"
| "project_ai_config (AiConfigUpdated i provider model img prompts vault pref dp dm dv v) rm =
     and_then (version_i64 v) (\<lambda>version. Ok (rm\<lparr>rm_ai := update_newer ar_version i version
          (\<lambda>r. r\<lparr>ar_provider := llm_provider_as_str provider, ar_assistant := model, ar_image := img,
                 ar_prompts := prompts, ar_vault_key := vault,
                 ar_preference := (case pref of Some p \<Rightarrow> cost_display_preference_as_str p | None \<Rightarrow> ar_preference r),
                 ar_decision_provider := map_option llm_provider_as_str dp, ar_decision_model := dm,
                 ar_decision_key := dv, ar_revoked := False, ar_version := version\<rparr>) (rm_ai rm)\<rparr>))"
| "project_ai_config (AiConfigRevoked i v) rm =
     and_then (version_i64 v) (\<lambda>version. Ok (rm\<lparr>rm_ai := update_newer ar_version i version
          (\<lambda>r. r\<lparr>ar_revoked := True, ar_version := version\<rparr>) (rm_ai rm)\<rparr>))"

fun project_membership :: "membership_event \<Rightarrow> 'd read_model \<Rightarrow> sqlx_error + 'd read_model" where
  "project_membership (MemberInvited b u r) rm =
     Ok (rm\<lparr>rm_member := upsert (\<lambda>old new. new) (b, u)
          \<lparr>mb_role = role_as_str r, mb_state = state_kind_as_str StatePending\<rparr> (rm_member rm)\<rparr>)"
| "project_membership (InvitationAccepted b u r) rm =
     Ok (rm\<lparr>rm_member := update_row (b, u)
          (\<lambda>m. m\<lparr>mb_role := role_as_str r, mb_state := state_kind_as_str StateActive\<rparr>) (rm_member rm)\<rparr>)"
| "project_membership (RoleGranted b u r) rm =
     Ok (rm\<lparr>rm_member := update_row (b, u) (\<lambda>m. m\<lparr>mb_role := role_as_str r\<rparr>) (rm_member rm)\<rparr>)"
| "project_membership (MemberRemoved b u) rm = Ok (rm\<lparr>rm_member := AList.delete (b, u) (rm_member rm)\<rparr>)"
| "project_membership (OwnerBootstrapped b u r) rm =
     Ok (rm\<lparr>rm_member := upsert (\<lambda>old new. new) (b, u)
          \<lparr>mb_role = role_as_str r, mb_state = state_kind_as_str StateActive\<rparr> (rm_member rm)\<rparr>)"

fun project_reservation ::
  "string \<Rightarrow> datetime \<Rightarrow> u64 \<Rightarrow> reservation_event \<Rightarrow> 'd read_model \<Rightarrow> sqlx_error + 'd read_model" where
  "project_reservation stream at version (Reserved a) rm =
     (case kind_from_key (stream_key stream) of
        None \<Rightarrow> Ok rm
      | Some kind \<Rightarrow>
          Ok (rm\<lparr>rm_claim := upsert_newer cl_version (\<lambda>old new. new) (stream_key stream)
               \<lparr>cl_kind = reservation_kind_as_str kind, cl_aggregate = a, cl_state = ''reserved'',
                cl_reserved_at = at, cl_released_at = None, cl_version = version\<rparr> (rm_claim rm)\<rparr>))"
| "project_reservation stream at version (Released a) rm =
     Ok (rm\<lparr>rm_claim := update_newer cl_version (stream_key stream) version
          (\<lambda>r. r\<lparr>cl_state := ''released'', cl_released_at := Some at, cl_aggregate := a, cl_version := version\<rparr>)
          (rm_claim rm)\<rparr>)"
| "project_reservation stream at version (Consumed a) rm =
     Ok (rm\<lparr>rm_claim := update_newer cl_version (stream_key stream) version
          (\<lambda>r. r\<lparr>cl_state := ''consumed'', cl_aggregate := a, cl_version := version\<rparr>) (rm_claim rm)\<rparr>)"

section \<open>Projectors with references\<close>

text \<open>
  Rows that refer to a parent: inserting one without its parent violates the foreign key. \<open>child_upsert\<close> replaces
  the row on a conflict, \<open>child_insert\<close> does nothing.
\<close>

definition child_upsert ::
  "string \<Rightarrow> bool \<Rightarrow> 'k \<Rightarrow> 'r \<Rightarrow> ('k \<times> 'r) list \<Rightarrow> sqlx_error + ('k \<times> 'r) list" where
  "child_upsert constraint parent k row t =
     (if map_of t k = None \<and> \<not> parent then Err (fk_violation constraint) else Ok (AList.update k row t))"

definition child_insert ::
  "string \<Rightarrow> bool \<Rightarrow> 'k \<Rightarrow> 'r \<Rightarrow> ('k \<times> 'r) list \<Rightarrow> sqlx_error + ('k \<times> 'r) list" where
  "child_insert constraint parent k row t =
     (if map_of t k = None \<and> \<not> parent then Err (fk_violation constraint) else Ok (insert_new k row t))"

fun for_each :: "('a \<Rightarrow> 'm \<Rightarrow> 'e + 'm) \<Rightarrow> 'a list \<Rightarrow> 'm \<Rightarrow> 'e + 'm" where
  "for_each f [] rm = Ok rm"
| "for_each f (x # xs) rm = and_then (f x rm) (for_each f xs)"

definition delete_day :: "shooting_day_id \<Rightarrow> 'd read_model \<Rightarrow> 'd read_model" where
  "delete_day i rm =
     rm\<lparr>rm_report_job := filter (\<lambda>(_, day). day \<noteq> i) (rm_report_job rm), rm_day := AList.delete i (rm_day rm),
        rm_scene_day := delete_rows (\<lambda>(_, day). day = i) (rm_scene_day rm),
        rm_shoot := filter (\<lambda>(_, r). sh_day r \<noteq> i) (rm_shoot rm)\<rparr>"

fun project_shooting_day :: "shooting_day_event \<Rightarrow> 'd read_model \<Rightarrow> sqlx_error + 'd read_model" where
  "project_shooting_day (ShootingDayDeleted i v) rm = Ok (delete_day i rm)"
| "project_shooting_day (ShootingDayCreated i episode label key date source v) rm =
     Ok (rm\<lparr>rm_day := upsert
          (\<lambda>old new. new\<lparr>sd_archived := sd_archived old, sd_wrapped := sd_wrapped old\<rparr>) i
          \<lparr>sd_episode = episode, sd_label = label, sd_order = key, sd_date = date, sd_source = source,
           sd_archived = False, sd_wrapped = None, sd_version = v\<rparr> (rm_day rm)\<rparr>)"
| "project_shooting_day (ShootingDayRenamed i label v) rm =
     Ok (rm\<lparr>rm_day := update_row i (\<lambda>r. r\<lparr>sd_label := label, sd_version := v\<rparr>) (rm_day rm)\<rparr>)"
| "project_shooting_day (ShootingDayRescheduled i date v) rm =
     Ok (rm\<lparr>rm_day := update_row i (\<lambda>r. r\<lparr>sd_date := date, sd_version := v\<rparr>) (rm_day rm)\<rparr>)"
| "project_shooting_day (ShootingDayReordered i key v) rm =
     Ok (rm\<lparr>rm_day := update_row i (\<lambda>r. r\<lparr>sd_order := key, sd_version := v\<rparr>) (rm_day rm)\<rparr>)"
| "project_shooting_day (ShootingDayArchived i v) rm =
     Ok (rm\<lparr>rm_day := update_row i (\<lambda>r. r\<lparr>sd_archived := True, sd_version := v\<rparr>) (rm_day rm)\<rparr>)"
| "project_shooting_day (ShootingDayWrapped i at v) rm =
     Ok (rm\<lparr>rm_day := update_row i (\<lambda>r. r\<lparr>sd_wrapped := Some at, sd_version := v\<rparr>) (rm_day rm)\<rparr>)"

definition touch_scene :: "uuid \<Rightarrow> i64 \<Rightarrow> 'd read_model \<Rightarrow> 'd read_model" where
  "touch_scene i v rm = rm\<lparr>rm_scene := update_row i (\<lambda>r. r\<lparr>scn_version := v\<rparr>) (rm_scene rm)\<rparr>"

definition guard_scene :: "uuid \<Rightarrow> i64 \<Rightarrow> 'd read_model \<Rightarrow> bool \<times> 'd read_model" where
  "guard_scene i v rm =
     (case map_of (rm_scene rm) i of
        None \<Rightarrow> (False, rm)
      | Some r \<Rightarrow> if sint (scn_version r) < sint v then (True, touch_scene i v rm) else (False, rm))"

definition assign_row :: "uuid \<Rightarrow> i64 \<Rightarrow> uuid \<Rightarrow> 'd read_model \<Rightarrow> sqlx_error + 'd read_model" where
  "assign_row i v c rm =
     and_then (child_upsert ''projection_scene_character_scene_id_fkey'' (map_of (rm_scene rm) i \<noteq> None) (i, c) v
         (rm_scene_character rm))
       (\<lambda>t. Ok (rm\<lparr>rm_scene_character := t\<rparr>))"

definition delete_scene :: "uuid \<Rightarrow> 'd read_model \<Rightarrow> 'd read_model" where
  "delete_scene i rm =
     rm\<lparr>rm_scene := AList.delete i (rm_scene rm),
        rm_scene_character := delete_rows (\<lambda>(s, _). s = i) (rm_scene_character rm),
        rm_scene_day := delete_rows (\<lambda>(s, _). s = i) (rm_scene_day rm),
        rm_scene_outfit := delete_rows (\<lambda>(s, _). s = i) (rm_scene_outfit rm),
        rm_shoot := filter (\<lambda>(_, r). sh_scene r \<noteq> i) (rm_shoot rm)\<rparr>"

fun project_scene :: "scene_event \<Rightarrow> 'd read_model \<Rightarrow> sqlx_error + 'd read_model" where
  "project_scene (SceneDeleted i v) rm = Ok (delete_scene i rm)"
| "project_scene (SceneCreated i episode details characters source v) rm =
     for_each (assign_row i v) characters
       (rm\<lparr>rm_scene := upsert (\<lambda>old new. new) i
            \<lparr>scn_episode = episode, scn_details = details, scn_source = source, scn_version = v\<rparr> (rm_scene rm)\<rparr>)"
| "project_scene (SceneDetailsUpdated i details v) rm =
     Ok (rm\<lparr>rm_scene := update_row i (\<lambda>r. r\<lparr>scn_details := details, scn_version := v\<rparr>) (rm_scene rm)\<rparr>)"
| "project_scene (CharacterAssigned i c v) rm =
     and_then (assign_row i v c rm) (\<lambda>rm'. Ok (touch_scene i v rm'))"
| "project_scene (CharacterRemoved i c v) rm =
     Ok (touch_scene i v (rm\<lparr>rm_scene_character := AList.delete (i, c) (rm_scene_character rm)\<rparr>))"
| "project_scene (ShootingDayScheduled i day v) rm =
     and_then (child_upsert ''projection_scene_shooting_day_scene_id_fkey'' (map_of (rm_scene rm) i \<noteq> None) (i, day) v
         (rm_scene_day rm)) (\<lambda>_.
     and_then (child_upsert ''projection_scene_shooting_day_shooting_day_id_fkey'' (map_of (rm_day rm) day \<noteq> None)
         (i, day) v (rm_scene_day rm)) (\<lambda>t.
     Ok (touch_scene i v (rm\<lparr>rm_scene_day := t\<rparr>))))"
| "project_scene (ShootingDayUnscheduled i day v) rm =
     Ok (touch_scene i v (rm\<lparr>rm_scene_day := AList.delete (i, day) (rm_scene_day rm)\<rparr>))"
| "project_scene (OutfitBeatAdded i c outfit order note v) rm =
     (case guard_scene i v rm of
        (False, _) \<Rightarrow> Ok rm
      | (True, rm') \<Rightarrow> Ok (touch_scene i v (rm'\<lparr>rm_scene_outfit := upsert (\<lambda>old new. new) (i, c, order)
          \<lparr>asg_outfit = outfit, asg_note = note, asg_version = v\<rparr> (rm_scene_outfit rm')\<rparr>)))"
| "project_scene (OutfitBeatUpdated i c order outfit note v) rm =
     (case guard_scene i v rm of
        (False, _) \<Rightarrow> Ok rm
      | (True, rm') \<Rightarrow> Ok (touch_scene i v (rm'\<lparr>rm_scene_outfit := update_row (i, c, order)
          (\<lambda>r. r\<lparr>asg_outfit := outfit, asg_note := note, asg_version := v\<rparr>) (rm_scene_outfit rm')\<rparr>)))"
| "project_scene (OutfitBeatRemoved i c order v) rm =
     (case guard_scene i v rm of
        (False, _) \<Rightarrow> Ok rm
      | (True, rm') \<Rightarrow> Ok (touch_scene i v (rm'\<lparr>rm_scene_outfit := AList.delete (i, c, order) (rm_scene_outfit rm')\<rparr>)))"
| "project_scene (OutfitBeatsCleared i c v) rm =
     (case guard_scene i v rm of
        (False, _) \<Rightarrow> Ok rm
      | (True, rm') \<Rightarrow> Ok (touch_scene i v (rm'\<lparr>rm_scene_outfit :=
          delete_rows (\<lambda>(s, d, _). s = i \<and> d = c) (rm_scene_outfit rm')\<rparr>)))"

text \<open>
  The insert of a planned scene shoot: the version guard of the conflict clause, the unique pair of scene and day,
  and the two foreign keys.
\<close>

definition plan_row ::
  "scene_shoot_id \<Rightarrow> shoot_row \<Rightarrow> 'd read_model \<Rightarrow> sqlx_error + (scene_shoot_id \<times> shoot_row) list" where
  "plan_row i row rm =
     (if (case map_of (rm_shoot rm) i of None \<Rightarrow> False | Some old \<Rightarrow> sint (sh_version row) \<le> sint (sh_version old))
      then Ok (rm_shoot rm)
      else
        and_then (unique_rows SCENE_SHOOT_PAIR_CONSTRAINT (\<lambda>r. (sh_scene r, sh_day r)) i row (rm_shoot rm)
            (upsert (\<lambda>old new. old\<lparr>sh_scene := sh_scene new, sh_day := sh_day new, sh_planned := sh_planned new,
                                sh_status := sh_status new, sh_version := sh_version new\<rparr>) i row (rm_shoot rm))) (\<lambda>t.
        if map_of (rm_scene rm) (sh_scene row) = None
        then Err (fk_violation ''projection_scene_shoot_scene_id_fkey'')
        else if map_of (rm_day rm) (sh_day row) = None
        then Err (fk_violation ''projection_scene_shoot_shooting_day_id_fkey'') else Ok t))"

definition update_shoot ::
  "scene_shoot_id \<Rightarrow> i64 \<Rightarrow> (shoot_row \<Rightarrow> shoot_row) \<Rightarrow> 'd read_model \<Rightarrow> 'd read_model" where
  "update_shoot i v f rm = rm\<lparr>rm_shoot := update_newer sh_version i v (\<lambda>r. (f r)\<lparr>sh_version := v\<rparr>) (rm_shoot rm)\<rparr>"

text \<open>\<open>jsonb_agg\<close> of no element is \<open>NULL\<close>, which the column \<open>notes\<close> refuses.\<close>

fun project_scene_shoot :: "scene_shoot_event \<Rightarrow> 'd read_model \<Rightarrow> sqlx_error + 'd read_model" where
  "project_scene_shoot (SceneShootDeleted i v) rm = Ok (rm\<lparr>rm_shoot := AList.delete i (rm_shoot rm)\<rparr>)"
| "project_scene_shoot (SceneShootPlanned i scene day order status v) rm =
     guarded_insert SCENE_SHOOT_PAIR_CONSTRAINT
       (plan_row i \<lparr>sh_scene = scene, sh_day = day, sh_planned = order, sh_actual = None, sh_start = None,
          sh_end = None, sh_status = scene_shoot_status_as_str status, sh_notes = [], sh_photos = [],
          sh_version = v\<rparr> rm)
       (\<lambda>t. rm\<lparr>rm_shoot := t\<rparr>) rm"
| "project_scene_shoot (SceneShootReplanned i order v) rm =
     Ok (update_shoot i v (\<lambda>r. r\<lparr>sh_planned := order\<rparr>) rm)"
| "project_scene_shoot (SceneShootStarted i dt v) rm =
     Ok (update_shoot i v (\<lambda>r. r\<lparr>sh_start := Some dt, sh_status := ''InProgress''\<rparr>) rm)"
| "project_scene_shoot (SceneShootActualOrderSet i order v) rm =
     Ok (update_shoot i v (\<lambda>r. r\<lparr>sh_actual := Some order,
          sh_status := (if sh_status r = ''Planned'' \<or> sh_status r = ''Scheduled'' then ''InProgress'' else sh_status r)\<rparr>) rm)"
| "project_scene_shoot (SceneShootFinished i dt v) rm =
     Ok (update_shoot i v (\<lambda>r. r\<lparr>sh_end := Some dt, sh_status := ''Shot''\<rparr>) rm)"
| "project_scene_shoot (SceneShootSkipped i v) rm = Ok (update_shoot i v (\<lambda>r. r\<lparr>sh_status := ''Skipped''\<rparr>) rm)"
| "project_scene_shoot (ShootDayNoteAdded i n body author v) rm =
     Ok (update_shoot i v (\<lambda>r. r\<lparr>sh_notes := sh_notes r @ [(n, body)]\<rparr>) rm)"
| "project_scene_shoot (ShootDayNoteUpdated i n body v) rm =
     (case map_of (rm_shoot rm) i of
        Some r \<Rightarrow>
          if sint (sh_version r) < sint v \<and> sh_notes r = [] then Err (SqlDatabase (Some ''23502'') None)
          else Ok (update_shoot i v (\<lambda>r. r\<lparr>sh_notes :=
            map (\<lambda>(m, b). if m = n then (n, body) else (m, b)) (sh_notes r)\<rparr>) rm)
      | None \<Rightarrow> Ok rm)"
| "project_scene_shoot (ShootDayNoteRemoved i n v) rm =
     Ok (update_shoot i v (\<lambda>r. r\<lparr>sh_notes := filter (\<lambda>(m, _). m \<noteq> n) (sh_notes r)\<rparr>) rm)"
| "project_scene_shoot (ContinuityPhotoLinked i photo v) rm =
     Ok (update_shoot i v (\<lambda>r. r\<lparr>sh_photos := sh_photos r @ [photo]\<rparr>) rm)"
| "project_scene_shoot (ContinuityPhotoUnlinked i photo v) rm =
     Ok (update_shoot i v (\<lambda>r. r\<lparr>sh_photos := filter (\<lambda>p. p \<noteq> photo) (sh_photos r)\<rparr>) rm)"

section \<open>Pieces and outfits\<close>

definition resolve_category_name :: "'d read_model \<Rightarrow> costume_category_id option \<Rightarrow> string option" where
  "resolve_category_name rm category =
     (case category of None \<Rightarrow> None | Some c \<Rightarrow> map_option cat_name (map_of (rm_category rm) c))"

definition upsert_detail :: "uuid \<Rightarrow> piece_detail \<Rightarrow> 'd read_model \<Rightarrow> sqlx_error + 'd read_model" where
  "upsert_detail i d rm =
     and_then (child_upsert ''projection_piece_detail_piece_id_fkey'' (map_of (rm_piece rm) i \<noteq> None)
         (i, detail_id d) (detail_subject d, detail_text d) (rm_piece_detail rm))
       (\<lambda>t. Ok (rm\<lparr>rm_piece_detail := t\<rparr>))"

definition insert_piece_season :: "uuid \<Rightarrow> uuid \<Rightarrow> 'd read_model \<Rightarrow> sqlx_error + 'd read_model" where
  "insert_piece_season i season rm =
     and_then (child_insert ''projection_piece_season_piece_id_fkey'' (map_of (rm_piece rm) i \<noteq> None)
         (i, season) () (rm_piece_season rm))
       (\<lambda>t. Ok (rm\<lparr>rm_piece_season := t\<rparr>))"

definition insert_piece_photo :: "uuid \<Rightarrow> uuid \<Rightarrow> 'd read_model \<Rightarrow> sqlx_error + 'd read_model" where
  "insert_piece_photo i photo rm =
     and_then (child_insert ''projection_piece_photo_piece_id_fkey'' (map_of (rm_piece rm) i \<noteq> None)
         (i, photo) () (rm_piece_photo rm))
       (\<lambda>t. Ok (rm\<lparr>rm_piece_photo := t\<rparr>))"

definition touch_piece :: "uuid \<Rightarrow> i64 \<Rightarrow> 'd read_model \<Rightarrow> 'd read_model" where
  "touch_piece i v rm =
     rm\<lparr>rm_piece := update_newer pc_version i v (\<lambda>r. r\<lparr>pc_version := v\<rparr>) (rm_piece rm)\<rparr>"

definition delete_piece :: "uuid \<Rightarrow> 'd read_model \<Rightarrow> 'd read_model" where
  "delete_piece i rm =
     rm\<lparr>rm_piece := AList.delete i (rm_piece rm),
        rm_piece_season := delete_rows (\<lambda>(p, _). p = i) (rm_piece_season rm),
        rm_piece_detail := delete_rows (\<lambda>(p, _). p = i) (rm_piece_detail rm),
        rm_piece_photo := delete_rows (\<lambda>(p, _). p = i) (rm_piece_photo rm)\<rparr>"

fun project_piece :: "piece_event \<Rightarrow> 'd read_model \<Rightarrow> sqlx_error + 'd read_model" where
  "project_piece (PieceDeleted i v) rm = Ok (delete_piece i rm)"
| "project_piece (PieceCreated i name category season notes details photos v) rm =
     and_then ((case season of None \<Rightarrow> Ok | Some s \<Rightarrow> insert_piece_season i s)
       (rm\<lparr>rm_piece := upsert_newer pc_version (\<lambda>old new. new) i
            \<lparr>pc_name = name, pc_category = category, pc_category_name = resolve_category_name rm category,
             pc_notes = notes, pc_version = v\<rparr> (rm_piece rm)\<rparr>)) (\<lambda>rm1.
     and_then (for_each (upsert_detail i) details rm1)
       (for_each (insert_piece_photo i) photos))"
| "project_piece (PieceRenamed i name v) rm =
     Ok (rm\<lparr>rm_piece := update_newer pc_version i v (\<lambda>r. r\<lparr>pc_name := name, pc_version := v\<rparr>) (rm_piece rm)\<rparr>)"
| "project_piece (PieceAddedToSeason i season v) rm =
     and_then (insert_piece_season i season rm) (\<lambda>rm'. Ok (touch_piece i v rm'))"
| "project_piece (PieceRemovedFromSeason i season v) rm =
     Ok (touch_piece i v (rm\<lparr>rm_piece_season := AList.delete (i, season) (rm_piece_season rm)\<rparr>))"
| "project_piece (PieceNotesUpdated i notes v) rm =
     Ok (rm\<lparr>rm_piece := update_newer pc_version i v (\<lambda>r. r\<lparr>pc_notes := notes, pc_version := v\<rparr>) (rm_piece rm)\<rparr>)"
| "project_piece (PieceDetailAdded i d v) rm =
     and_then (upsert_detail i d rm) (\<lambda>rm'. Ok (touch_piece i v rm'))"
| "project_piece (PieceDetailUpdated i d v) rm =
     and_then (upsert_detail i d rm) (\<lambda>rm'. Ok (touch_piece i v rm'))"
| "project_piece (PieceDetailRemoved i d v) rm =
     Ok (touch_piece i v (rm\<lparr>rm_piece_detail := AList.delete (i, d) (rm_piece_detail rm)\<rparr>))"
| "project_piece (PiecePhotoLinked i photo v) rm =
     and_then (insert_piece_photo i photo rm) (\<lambda>rm'. Ok (touch_piece i v rm'))"
| "project_piece (PiecePhotoUnlinked i photo v) rm =
     Ok (touch_piece i v (rm\<lparr>rm_piece_photo := AList.delete (i, photo) (rm_piece_photo rm)\<rparr>))"
| "project_piece (PieceCategorySet i category v) rm =
     Ok (rm\<lparr>rm_piece := update_newer pc_version i v
          (\<lambda>r. r\<lparr>pc_category := category, pc_category_name := resolve_category_name rm category, pc_version := v\<rparr>)
          (rm_piece rm)\<rparr>)"

text \<open>\<open>i32::try_from(position).unwrap_or(i32::MAX)\<close>.\<close>

definition position_i32 :: "nat \<Rightarrow> i32" where
  "position_i32 n = (if n < 2 ^ 31 then of_nat n else 2 ^ 31 - 1)"

definition upsert_outfit ::
  "uuid \<Rightarrow> uuid \<Rightarrow> uuid option \<Rightarrow> string \<Rightarrow> string \<Rightarrow> i64 \<Rightarrow> 'd read_model \<Rightarrow> 'd read_model" where
  "upsert_outfit i character variant name notes v rm =
     rm\<lparr>rm_outfit := upsert_newer of_version (\<lambda>old new. new) i
          \<lparr>of_character = character, of_name = name, of_variant = variant, of_notes = notes, of_version = v\<rparr>
          (rm_outfit rm)\<rparr>"

definition insert_piece :: "uuid \<Rightarrow> uuid \<times> i32 \<Rightarrow> 'd read_model \<Rightarrow> sqlx_error + 'd read_model" where
  "insert_piece i p rm =
     and_then (child_insert ''projection_outfit_piece_outfit_id_fkey'' (map_of (rm_outfit rm) i \<noteq> None)
         (i, fst p) (snd p) (rm_outfit_piece rm))
       (\<lambda>t. Ok (rm\<lparr>rm_outfit_piece := t\<rparr>))"

definition insert_outfit_photo :: "uuid \<Rightarrow> uuid \<Rightarrow> 'd read_model \<Rightarrow> sqlx_error + 'd read_model" where
  "insert_outfit_photo i photo rm =
     and_then (child_insert ''projection_outfit_photo_outfit_id_fkey'' (map_of (rm_outfit rm) i \<noteq> None)
         (i, photo) () (rm_outfit_photo rm))
       (\<lambda>t. Ok (rm\<lparr>rm_outfit_photo := t\<rparr>))"

definition touch_outfit :: "uuid \<Rightarrow> i64 \<Rightarrow> 'd read_model \<Rightarrow> 'd read_model" where
  "touch_outfit i v rm =
     rm\<lparr>rm_outfit := update_newer of_version i v (\<lambda>r. r\<lparr>of_version := v\<rparr>) (rm_outfit rm)\<rparr>"

definition delete_outfit :: "uuid \<Rightarrow> 'd read_model \<Rightarrow> 'd read_model" where
  "delete_outfit i rm =
     rm\<lparr>rm_outfit := AList.delete i (rm_outfit rm),
        rm_outfit_piece := delete_rows (\<lambda>(p, _). p = i) (rm_outfit_piece rm),
        rm_outfit_photo := delete_rows (\<lambda>(p, _). p = i) (rm_outfit_photo rm)\<rparr>"

definition fill_outfit :: "uuid \<Rightarrow> uuid list \<Rightarrow> uuid list \<Rightarrow> 'd read_model \<Rightarrow> sqlx_error + 'd read_model" where
  "fill_outfit i pieces photos rm =
     and_then (for_each (insert_piece i) (map (\<lambda>(n, p). (p, position_i32 n)) (enumerate 0 pieces)) rm)
       (for_each (insert_outfit_photo i) photos)"

fun project_outfit :: "outfit_event \<Rightarrow> 'd read_model \<Rightarrow> sqlx_error + 'd read_model" where
  "project_outfit (OutfitDeleted i v) rm = Ok (delete_outfit i rm)"
| "project_outfit (OutfitCreated i character name pieces photos notes v) rm =
     fill_outfit i pieces photos (upsert_outfit i character None name notes v rm)"
| "project_outfit (OutfitVariantCreated i source character name pieces photos notes v) rm =
     fill_outfit i pieces photos (upsert_outfit i character (Some source) name notes v rm)"
| "project_outfit (OutfitRenamed i name v) rm =
     Ok (rm\<lparr>rm_outfit := update_newer of_version i v (\<lambda>r. r\<lparr>of_name := name, of_version := v\<rparr>) (rm_outfit rm)\<rparr>)"
| "project_outfit (OutfitNotesUpdated i notes v) rm =
     Ok (rm\<lparr>rm_outfit := update_newer of_version i v (\<lambda>r. r\<lparr>of_notes := notes, of_version := v\<rparr>) (rm_outfit rm)\<rparr>)"
| "project_outfit (OutfitPieceAdded i piece position v) rm =
     and_then (insert_piece i (piece, position_i32 (unat position)) rm) (\<lambda>rm'. Ok (touch_outfit i v rm'))"
| "project_outfit (OutfitPieceRemoved i piece v) rm =
     Ok (touch_outfit i v (rm\<lparr>rm_outfit_piece := AList.delete (i, piece) (rm_outfit_piece rm)\<rparr>))"
| "project_outfit (OutfitPhotoLinked i photo v) rm =
     and_then (insert_outfit_photo i photo rm) (\<lambda>rm'. Ok (touch_outfit i v rm'))"
| "project_outfit (OutfitPhotoUnlinked i photo v) rm =
     Ok (touch_outfit i v (rm\<lparr>rm_outfit_photo := AList.delete (i, photo) (rm_outfit_photo rm)\<rparr>))"

section \<open>Rows after a statement\<close>

lemma rows_after [simp]:
  "map_of (upsert keep k row t) j =
     (if j = k then Some (case map_of t k of None \<Rightarrow> row | Some old \<Rightarrow> keep old row) else map_of t j)"
  "map_of (upsert_newer ver keep k row t) j =
     (if j = k then Some (case map_of t k of None \<Rightarrow> row
        | Some old \<Rightarrow> if sint (ver old) < sint (ver row) then keep old row else old) else map_of t j)"
  "map_of (insert_new k row t) j =
     (if j = k then Some (case map_of t k of None \<Rightarrow> row | Some old \<Rightarrow> old) else map_of t j)"
  "map_of (update_row k f t) j = (if j = k then map_option f (map_of t k) else map_of t j)"
  "map_of (update_newer ver k v f t) j =
     (if j = k then map_option (\<lambda>r. if sint (ver r) < sint v then f r else r) (map_of t k) else map_of t j)"
  "map_of (AList.delete k t) j = (if j = k then None else map_of t j)"
  "map_of (AList.update k row t) j = (if j = k then Some row else map_of t j)"
  by (simp_all add: upsert_def upsert_newer_def insert_new_def update_row_def update_newer_def update_conv'
      map_of_map_entry delete_conv' split: option.splits)

lemma delete_rows_after [simp]:
  "map_of (delete_rows P t) j = (if P j then None else map_of t j)"
  by (induction t) (auto simp: delete_rows_def)

lemma for_each_keeps:
  "(\<And>x m m'. f x m = Ok m' \<Longrightarrow> g m' = g m) \<Longrightarrow> for_each f xs m = Ok m' \<Longrightarrow> g m' = g m"
  by (induction xs arbitrary: m) fastforce+

lemma find_append: "List.find P (xs @ ys) = (case List.find P xs of None \<Rightarrow> List.find P ys | Some x \<Rightarrow> Some x)"
  by (induction xs) simp_all

end
