(* ===== verification/Projection_Invariant.thy ===== *)
theory Projection_Invariant
  imports Projection_Worker
begin

text \<open>
  What a projection worker keeps of its rows, dead letters and checkpoints, for every operation of
  \<open>Projection_Worker\<close> under the faults that keep its batch.
\<close>

section \<open>The invariant\<close>

text \<open>Between the two positions the partition has only messages that could not be decoded.\<close>

definition quiet :: "(u16 \<Rightarrow> 'd message list) \<Rightarrow> u16 \<Rightarrow> nat \<Rightarrow> nat \<Rightarrow> bool" where
  "quiet logs p a b \<longleftrightarrow> (\<forall>i. a \<le> i \<and> i < b \<longrightarrow> \<not> decoded (logs p ! i))"

definition committed :: "'r pg \<Rightarrow> u16 \<Rightarrow> nat" where
  "committed db p = next_sequence (map_of (pg_checkpoints db) p)"

definition dead_of :: "'r pg \<Rightarrow> (u16 \<times> u64) set" where
  "dead_of db = dom (map_of (pg_dead db))"

definition batch :: "'r tx option \<Rightarrow> 'r tx" where
  "batch transaction = (case transaction of None \<Rightarrow> begin_tx | Some t \<Rightarrow> t)"

definition seen_row :: "'r pg \<Rightarrow> 'r worker \<Rightarrow> u16 \<Rightarrow> 'r" where
  "seen_row db w p = (case wk_tx w of None \<Rightarrow> pg_rows db p | Some t \<Rightarrow> view_row db t p)"

definition seen_dead :: "'r pg \<Rightarrow> 'r worker \<Rightarrow> (u16 \<times> u64) set" where
  "seen_dead db w = dead_of db \<union> (case wk_tx w of None \<Rightarrow> {} | Some t \<Rightarrow> dom (map_of (tx_dead t)))"

definition handled_to :: "'r worker \<Rightarrow> u16 \<Rightarrow> nat" where
  "handled_to w p = next_sequence (map_of (wk_handled w) p)"

text \<open>Rows and dead letters of a partition agree with its first \<open>n\<close> messages.\<close>

definition agrees ::
  "('d partition_event \<Rightarrow> 'r \<Rightarrow> event_handler_error + 'r) \<Rightarrow> (u16 \<Rightarrow> 'd message list) \<Rightarrow> (u16 \<Rightarrow> 'r) \<Rightarrow>
   (u16 \<times> u64) set \<Rightarrow> u16 \<Rightarrow> nat \<Rightarrow> 'r \<Rightarrow> bool" where
  "agrees handler logs rows dead p n row \<longleftrightarrow>
     n \<le> length (logs p) \<and> projected handler logs dead p (rows p) n = Some row \<and>
     (\<forall>i < length (logs p). decoded (logs p ! i) \<and> (p, of_nat i) \<in> dead \<longrightarrow> i < n)"

definition db_ok ::
  "('d partition_event \<Rightarrow> 'r \<Rightarrow> event_handler_error + 'r) \<Rightarrow> (u16 \<Rightarrow> 'd message list) \<Rightarrow> (u16 \<Rightarrow> 'r) \<Rightarrow> 'r pg \<Rightarrow> u16 \<Rightarrow>
   bool" where
  "db_ok handler logs rows db p \<longleftrightarrow> agrees handler logs rows (dead_of db) p (committed db p) (pg_rows db p)"

definition owner_ok ::
  "('d partition_event \<Rightarrow> 'r \<Rightarrow> event_handler_error + 'r) \<Rightarrow> (u16 \<Rightarrow> 'd message list) \<Rightarrow> (u16 \<Rightarrow> 'r) \<Rightarrow> 'r pg \<Rightarrow>
   'r worker \<Rightarrow> u16 \<Rightarrow> bool" where
  "owner_ok handler logs rows db w p \<longleftrightarrow>
     agrees handler logs rows (seen_dead db w) p (handled_to w p) (seen_row db w p) \<and>
     (map_of (wk_flushed w) p = None \<or> map_of (wk_flushed w) p = map_of (pg_checkpoints db) p) \<and>
     quiet logs p (handled_to w p) (committed db p)"

definition foreign_ok :: "'r worker \<Rightarrow> u16 \<Rightarrow> bool" where
  "foreign_ok w p \<longleftrightarrow>
     map_of (wk_handled w) p = map_of (wk_flushed w) p \<and>
     (case wk_tx w of None \<Rightarrow> True | Some t \<Rightarrow> map_of (tx_rows t) p = None \<and> (\<forall>s. map_of (tx_dead t) (p, s) = None))"

definition due :: "(u16 \<times> u64) list \<Rightarrow> (u16 \<times> u64) list \<Rightarrow> u16 \<rightharpoonup> u64" where
  "due flushed handled = (\<lambda>p. if map_of flushed p = map_of handled p then None else map_of handled p)"

definition tx_ok :: "'r worker \<Rightarrow> bool" where
  "tx_ok w \<longleftrightarrow> distinct (map fst (wk_handled w)) \<and>
     (case wk_tx w of
        None \<Rightarrow> True
      | Some t \<Rightarrow> map_of (tx_checkpoints t) \<subseteq>\<^sub>m due (wk_flushed w) (wk_handled w) \<and>
          (tx_aborted t \<longrightarrow> due (wk_flushed w) (wk_handled w) \<noteq> Map.empty))"

definition tx_clean :: "'r worker \<Rightarrow> bool" where
  "tx_clean w \<longleftrightarrow> (case wk_tx w of None \<Rightarrow> True | Some t \<Rightarrow> tx_checkpoints t = [] \<and> \<not> tx_aborted t)"

definition worker_inv ::
  "('d partition_event \<Rightarrow> 'r \<Rightarrow> event_handler_error + 'r) \<Rightarrow> (u16 \<Rightarrow> 'd message list) \<Rightarrow> (u16 \<Rightarrow> 'r) \<Rightarrow> 'r pg \<Rightarrow>
   u16 set \<Rightarrow> 'r worker \<Rightarrow> bool" where
  "worker_inv handler logs rows db own w \<longleftrightarrow>
     tx_ok w \<and> (\<forall>p \<in> own. owner_ok handler logs rows db w p) \<and> (\<forall>p. p \<notin> own \<longrightarrow> foreign_ok w p)"

text \<open>Two states of the database that do not differ for a partition.\<close>

definition same_at :: "'r pg \<Rightarrow> 'r pg \<Rightarrow> u16 \<Rightarrow> bool" where
  "same_at db db' p \<longleftrightarrow>
     pg_rows db' p = pg_rows db p \<and> map_of (pg_checkpoints db') p = map_of (pg_checkpoints db) p \<and>
     (\<forall>s. (p, s) \<in> dead_of db' \<longleftrightarrow> (p, s) \<in> dead_of db)"

section \<open>Lemmas\<close>

lemma projected_cong:
  assumes "\<And>i. i < n \<Longrightarrow> decoded (logs p ! i) \<Longrightarrow> (p, of_nat i) \<in> dead' \<longleftrightarrow> (p, of_nat i) \<in> dead"
  shows "projected handler logs dead' p row n = projected handler logs dead p row n"
  using assms
proof (induction n)
  case 0
  then show ?case
    by simp
next
  case (Suc n)
  then have "projected handler logs dead' p row n = projected handler logs dead p row n"
    by simp
  then show ?case
    using Suc.prems [of n] by (cases "logs p ! n"; cases "projected handler logs dead p row n") simp_all
qed

lemma projected_quiet:
  assumes "a \<le> b" "quiet logs p a b"
  shows "projected handler logs dead p row b = projected handler logs dead p row a"
  using assms
proof (induction rule: dec_induct)
  case base
  then show ?case
    by simp
next
  case (step n)
  then have "projected handler logs dead p row n = projected handler logs dead p row a"
    by (simp add: quiet_def)
  moreover have "\<not> decoded (logs p ! n)"
    using step by (simp add: quiet_def)
  ultimately show ?case
    by (cases "logs p ! n") simp_all
qed

lemma quiet_mono: "quiet logs p a b \<Longrightarrow> a \<le> a' \<Longrightarrow> b' \<le> b \<Longrightarrow> quiet logs p a' b'"
  by (simp add: quiet_def)

lemma agrees_quiet:
  assumes "agrees handler logs rows dead p a row" "quiet logs p a b" "b \<le> length (logs p)" "a \<le> b"
  shows "agrees handler logs rows dead p b row"
  using assms projected_quiet [OF assms(4,2), of handler dead "rows p"] by (auto simp: agrees_def intro: less_le_trans)

lemma agrees_cong:
  assumes "\<And>s. (p, s) \<in> dead' \<longleftrightarrow> (p, s) \<in> dead"
  shows "agrees handler logs rows dead' p n row = agrees handler logs rows dead p n row"
  using assms projected_cong [of n logs p dead' dead handler "rows p"] by (simp add: agrees_def)

lemma merge_None [simp]: "map_of (AList.merge xs ys) k = None \<longleftrightarrow> map_of ys k = None \<and> map_of xs k = None"
  by (simp add: merge_conv')

lemma same_at_refl [simp]: "same_at db db p"
  by (simp add: same_at_def)

lemma same_at_trans: "same_at db db' p \<Longrightarrow> same_at db' db'' p \<Longrightarrow> same_at db db'' p"
  by (simp add: same_at_def)

lemma db_ok_same: "same_at db db' p \<Longrightarrow> db_ok handler logs rows db p \<Longrightarrow> db_ok handler logs rows db' p"
  using agrees_cong [of p "dead_of db'" "dead_of db" handler logs rows]
  by (simp add: db_ok_def same_at_def committed_def)

lemma owner_ok_same:
  assumes "same_at db db' p" "owner_ok handler logs rows db w p"
  shows "owner_ok handler logs rows db' w p"
proof -
  have "(p, s) \<in> seen_dead db' w \<longleftrightarrow> (p, s) \<in> seen_dead db w" for s
    using assms(1) by (simp add: seen_dead_def same_at_def)
  moreover have "seen_row db' w p = seen_row db w p"
    using assms(1) by (simp add: seen_row_def view_row_def same_at_def split: option.splits)
  ultimately show ?thesis
    using assms agrees_cong [of p "seen_dead db' w" "seen_dead db w" handler logs rows]
    by (simp add: owner_ok_def same_at_def committed_def)
qed

subsection \<open>Flushing\<close>

lemma flush_write_cases:
  assumes "flush_write db f flushed p h t = (t', res)"
  shows "if map_of flushed p = Some h then t' = t \<and> res = Ok ()
    else res = Ok () \<and> t' = put_checkpoint p h t \<and> \<not> tx_aborted t \<or>
      isl res \<and> (t' = t \<or> t' = t\<lparr>tx_aborted := True\<rparr>)"
  using assms
  by (auto simp: flush_write_def statement_def split: option.splits if_splits sum.splits sqlx_error.splits)

lemma map_of_put_checkpoint [simp]:
  "map_of (tx_checkpoints (put_checkpoint p s t)) = (map_of (tx_checkpoints t))(p \<mapsto> s)"
  "tx_rows (put_checkpoint p s t) = tx_rows t" "tx_dead (put_checkpoint p s t) = tx_dead t"
  "tx_aborted (put_checkpoint p s t) = tx_aborted t"
  by (simp_all add: put_checkpoint_def update_conv')

lemma flush_writes_rows:
  assumes "flush_writes db f flushed handled t = (t', res)"
  shows "tx_rows t' = tx_rows t \<and> tx_dead t' = tx_dead t"
  using assms
proof (induction handled arbitrary: t)
  case (Cons a handled)
  obtain p h where a: "a = (p, h)"
    by (cases a)
  obtain t1 res1 where one: "flush_write db f flushed p h t = (t1, res1)"
    by (cases "flush_write db f flushed p h t")
  then have "tx_rows t1 = tx_rows t \<and> tx_dead t1 = tx_dead t"
    using flush_write_cases [OF one] by (auto split: if_splits)
  moreover have "flush_writes db f flushed handled t1 = (t', res) \<or> t' = t1"
    using Cons.prems one a by (auto split: sum.splits)
  ultimately show ?case
    using Cons.IH [of t1] by auto
qed simp

lemma due_Cons:
  assumes "map_of handled p = None"
  shows "due flushed ((p, h) # handled) =
    (if map_of flushed p = Some h then due flushed handled else (due flushed handled)(p \<mapsto> h))"
  using assms by (auto simp: due_def fun_eq_iff)

lemma due_fresh: "map_of handled p = None \<Longrightarrow> due flushed handled p = None"
  by (simp add: due_def)

lemma flush_writes_due:
  assumes "flush_writes db f flushed handled t = (t', res)" "distinct (map fst handled)"
    and "map_of (tx_checkpoints t) \<subseteq>\<^sub>m all" "due flushed handled \<subseteq>\<^sub>m all"
  shows "map_of (tx_checkpoints t') \<subseteq>\<^sub>m all \<and>
    (isl res \<longrightarrow> due flushed handled \<noteq> Map.empty) \<and>
    (\<not> isl res \<longrightarrow> map_of (tx_checkpoints t') = map_of (tx_checkpoints t) ++ due flushed handled \<and>
       (due flushed handled \<noteq> Map.empty \<longrightarrow> \<not> tx_aborted t) \<and> tx_aborted t' = tx_aborted t)"
  using assms
proof (induction handled arbitrary: t)
  case Nil
  moreover have "due flushed [] = Map.empty"
    by (auto simp: due_def fun_eq_iff)
  ultimately show ?case
    by auto
next
  case (Cons a handled)
  obtain p h where a: "a = (p, h)"
    by (cases a)
  obtain t1 res1 where one: "flush_write db f flushed p h t = (t1, res1)"
    by (cases "flush_write db f flushed p h t")
  have fresh: "map_of handled p = None" and dist: "distinct (map fst handled)"
    using Cons.prems a by (auto simp: map_of_eq_None_iff)
  note step = flush_write_cases [OF one] and cons = due_Cons [OF fresh, of flushed h]
  show ?case
  proof (cases "isl res1")
    case True
    then have "t' = t1" "res = res1" "map_of flushed p \<noteq> Some h"
      using Cons.prems a one step by (auto split: sum.splits if_splits)
    then show ?thesis
      using step True a cons Cons.prems(3) by (auto simp: fun_eq_iff)
  next
    case False
    then have rest: "flush_writes db f flushed handled t1 = (t', res)"
      using Cons.prems a one by (auto split: sum.splits)
    have le: "due flushed handled \<subseteq>\<^sub>m all" "map_of flushed p \<noteq> Some h \<Longrightarrow> all p = Some h"
      using Cons.prems(4) a cons due_fresh [OF fresh, of flushed] by (auto simp: map_le_def dom_def split: if_splits)
    then have "map_of (tx_checkpoints t1) \<subseteq>\<^sub>m all"
      using step False Cons.prems(3) by (auto simp: map_le_def split: if_splits)
    note IH = Cons.IH [OF rest dist this le(1)]
    have "map_of (tx_checkpoints t1) ++ due flushed handled =
        map_of (tx_checkpoints t) ++ due flushed (a # handled)"
      using step False a cons due_fresh [OF fresh, of flushed]
      by (auto simp: fun_eq_iff map_add_def split: if_splits option.splits)
    then show ?thesis
      using IH step False a cons by (auto split: if_splits)
  qed
qed

lemma commit_simps:
  assumes "\<not> tx_aborted t"
  shows "pg_rows (commit db t) = view_row db t"
    and "map_of (pg_checkpoints (commit db t)) = map_of (pg_checkpoints db) ++ map_of (tx_checkpoints t)"
    and "dead_of (commit db t) = dead_of db \<union> dom (map_of (tx_dead t))"
  using assms by (auto simp: commit_def dead_of_def merge_conv')

lemma flush_commits:
  assumes "worker_inv handler logs rows db own w" "wk_tx w = Some t"
    and "flush_writes db f (wk_flushed w) (wk_handled w) t = (t', Ok ())"
  shows "pg_rows (commit db t') = view_row db t"
    and "map_of (pg_checkpoints (commit db t')) = map_of (pg_checkpoints db) ++ due (wk_flushed w) (wk_handled w)"
    and "dead_of (commit db t') = seen_dead db w"
proof -
  have tx: "tx_ok w"
    using assms(1) by (simp add: worker_inv_def)
  have le: "map_of (tx_checkpoints t) \<subseteq>\<^sub>m due (wk_flushed w) (wk_handled w)"
    using tx assms(2) by (simp add: tx_ok_def)
  note written = flush_writes_due [OF assms(3) _ le map_le_refl] flush_writes_rows [OF assms(3)]
  have "\<not> tx_aborted t'"
    using tx written assms(2) by (auto simp: tx_ok_def)
  note commits = commit_simps [OF this, of db]
  show "pg_rows (commit db t') = view_row db t"
    using commits(1) written by (simp add: view_row_def fun_eq_iff)
  show "dead_of (commit db t') = seen_dead db w"
    using commits(3) written assms(2) by (simp add: seen_dead_def)
  have "map_of (tx_checkpoints t) ++ due (wk_flushed w) (wk_handled w) = due (wk_flushed w) (wk_handled w)"
    using le by (auto simp: map_le_def map_add_def fun_eq_iff dom_def split: option.splits)
  then show "map_of (pg_checkpoints (commit db t')) = map_of (pg_checkpoints db) ++ due (wk_flushed w) (wk_handled w)"
    using commits(2) written tx by (simp add: tx_ok_def)
qed

lemma flush_owner:
  assumes inv: "worker_inv handler logs rows db own w" and db: "db_ok handler logs rows db p" and p: "p \<in> own"
    and rows': "pg_rows db' p = seen_row db w p" and dead': "dead_of db' = seen_dead db w"
    and checkpoints': "map_of (pg_checkpoints db') = map_of (pg_checkpoints db) ++ due (wk_flushed w) (wk_handled w)"
    and w': "w' = w\<lparr>wk_tx := None, wk_flushed := wk_handled w, wk_since := 0\<rparr>"
  shows "db_ok handler logs rows db' p \<and> owner_ok handler logs rows db' w' p \<and>
    committed db' p \<in> {committed db p, handled_to w p}"
proof -
  have own: "agrees handler logs rows (dead_of db') p (handled_to w p) (pg_rows db' p)"
      "map_of (wk_flushed w) p = None \<or> map_of (wk_flushed w) p = map_of (pg_checkpoints db) p"
      "quiet logs p (handled_to w p) (committed db p)"
    using inv p rows' dead' by (simp_all add: worker_inv_def owner_ok_def)
  have seen: "seen_row db' w' p = pg_rows db' p" "seen_dead db' w' = dead_of db'" "handled_to w' p = handled_to w p"
    by (simp_all add: w' seen_row_def seen_dead_def handled_to_def)
  show ?thesis
  proof (cases "due (wk_flushed w) (wk_handled w) p")
    case (Some s)
    then have "map_of (wk_handled w) p = Some s"
      by (auto simp: due_def split: if_splits)
    moreover have "map_of (pg_checkpoints db') p = Some s"
      using Some checkpoints' by (simp add: map_add_def)
    ultimately show ?thesis
      using own(1) seen by (auto simp: db_ok_def owner_ok_def committed_def handled_to_def quiet_def w')
  next
    case None
    then have c: "committed db' p = committed db p"
        and cp: "map_of (pg_checkpoints db') p = map_of (pg_checkpoints db) p"
      using checkpoints' by (simp_all add: committed_def map_add_def)
    have "db_ok handler logs rows db' p \<and>
      (map_of (wk_handled w) p = None \<or> map_of (wk_handled w) p = map_of (pg_checkpoints db') p)"
    proof (cases "map_of (wk_handled w) p")
      case none: None
      then have "handled_to w p = 0"
        by (simp add: handled_to_def next_sequence_def)
      then show ?thesis
        using agrees_quiet [OF own(1,3)] db c none by (simp add: db_ok_def agrees_def)
    next
      case (Some s)
      then have "map_of (pg_checkpoints db) p = Some s"
        using None own(2) by (auto simp: due_def split: if_splits)
      then show ?thesis
        using own(1) Some cp by (simp add: db_ok_def committed_def handled_to_def)
    qed
    then show ?thesis
      using own seen c by (simp add: owner_ok_def w')
  qed
qed

lemma flush_checkpoint_inv:
  assumes inv: "worker_inv handler logs rows db own w" and db: "\<forall>p. db_ok handler logs rows db p"
    and "ff_commit f = None" "flush_checkpoint f db w = (db', w', res)"
  shows "worker_inv handler logs rows db' own w' \<and> (\<forall>p. db_ok handler logs rows db' p) \<and>
    (\<forall>p. p \<notin> own \<longrightarrow> same_at db db' p) \<and> (\<not> isl res \<longrightarrow> tx_clean w') \<and> wk_handled w' = wk_handled w \<and>
    (\<forall>p \<in> own. committed db' p \<in> {committed db p, handled_to w p})"
proof (cases "wk_tx w")
  case None
  then show ?thesis
    using assms by (auto simp: flush_checkpoint_def tx_clean_def)
next
  case (Some t)
  obtain t' res' where writes: "flush_writes db f (wk_flushed w) (wk_handled w) t = (t', res')"
    by (cases "flush_writes db f (wk_flushed w) (wk_handled w) t")
  show ?thesis
  proof (cases res')
    case (Inl err)
    then have w': "db' = db" "w' = w\<lparr>wk_tx := Some t'\<rparr>" "res = Err err"
      using assms Some writes by (simp_all add: flush_checkpoint_def)
    have tx: "tx_ok w"
      using inv by (simp add: worker_inv_def)
    have le: "map_of (tx_checkpoints t) \<subseteq>\<^sub>m due (wk_flushed w) (wk_handled w)"
      using tx Some by (simp add: tx_ok_def)
    have "tx_ok w'"
      using flush_writes_due [OF writes _ le map_le_refl] tx Some Inl w' by (auto simp: tx_ok_def)
    moreover have "owner_ok handler logs rows db w' p = owner_ok handler logs rows db w p"
        "foreign_ok w' p = foreign_ok w p" for p
      using flush_writes_rows [OF writes] w' Some
      by (auto simp: owner_ok_def foreign_ok_def seen_row_def seen_dead_def view_row_def handled_to_def)
    ultimately show ?thesis
      using inv db w' by (auto simp: worker_inv_def)
  next
    case (Inr u)
    then have w': "db' = commit db t'" "w' = w\<lparr>wk_tx := None, wk_flushed := wk_handled w, wk_since := 0\<rparr>"
      using assms Some writes by (simp_all add: flush_checkpoint_def)
    have writes': "flush_writes db f (wk_flushed w) (wk_handled w) t = (t', Ok ())"
      using writes Inr by simp
    note commits = flush_commits [OF inv Some writes', folded w'(1)]
    have foreign: "same_at db db' p \<and> foreign_ok w' p" if "p \<notin> own" for p
    proof -
      have ok: "foreign_ok w p"
        using inv that by (simp add: worker_inv_def)
      then have "due (wk_flushed w) (wk_handled w) p = None"
        by (simp add: foreign_ok_def due_def)
      moreover have "(p, s) \<in> seen_dead db w \<longleftrightarrow> (p, s) \<in> dead_of db" for s
        using ok Some by (auto simp: seen_dead_def foreign_ok_def)
      ultimately show ?thesis
        using ok Some commits by (simp add: same_at_def foreign_ok_def view_row_def map_add_def w'(2))
    qed
    have owner: "db_ok handler logs rows db' p \<and> owner_ok handler logs rows db' w' p \<and>
        committed db' p \<in> {committed db p, handled_to w p}" if "p \<in> own" for p
      using commits Some by (intro flush_owner [OF inv _ that _ _ _ w'(2)]) (simp_all add: db seen_row_def)
    have "db_ok handler logs rows db' p" for p
      using owner foreign db_ok_same db by blast
    moreover have "tx_ok w'"
      using inv by (simp add: w'(2) worker_inv_def tx_ok_def)
    ultimately show ?thesis
      using owner foreign by (auto simp: worker_inv_def tx_clean_def w'(2))
  qed
qed

lemma flush_retry_inv:
  assumes "worker_inv handler logs rows db own w" "\<forall>p. db_ok handler logs rows db p"
    and "ff_commit f = None" "list_all (\<lambda>g. ff_commit g = None) fs" "flush_retry f fs db w = (db', w', res)"
  shows "worker_inv handler logs rows db' own w' \<and> (\<forall>p. db_ok handler logs rows db' p) \<and>
    (\<forall>p. p \<notin> own \<longrightarrow> same_at db db' p) \<and> (\<not> isl res \<longrightarrow> tx_clean w') \<and> wk_handled w' = wk_handled w \<and>
    (\<forall>p \<in> own. committed db' p \<in> {committed db p, handled_to w p})"
  using assms
proof (induction fs arbitrary: f db w)
  case Nil
  then show ?case
    using flush_checkpoint_inv [of handler logs rows db own w f] by simp
next
  case (Cons g fs)
  obtain db1 w1 res1 where one: "flush_checkpoint f db w = (db1, w1, res1)"
    by (cases "flush_checkpoint f db w")
  note first = flush_checkpoint_inv [OF Cons.prems(1-3) one]
  show ?case
  proof (cases res1)
    case (Inl err)
    then have "flush_retry g fs db1 w1 = (db', w', res)"
      using Cons.prems(5) one by simp
    then have "worker_inv handler logs rows db' own w' \<and> (\<forall>p. db_ok handler logs rows db' p) \<and>
      (\<forall>p. p \<notin> own \<longrightarrow> same_at db1 db' p) \<and> (\<not> isl res \<longrightarrow> tx_clean w') \<and> wk_handled w' = wk_handled w1 \<and>
      (\<forall>p \<in> own. committed db' p \<in> {committed db1 p, handled_to w1 p})"
      using Cons.IH [of db1 w1 g] first Cons.prems(4) by simp
    moreover from this have "same_at db db' p" if "p \<notin> own" for p
      using first that same_at_trans [of db db1 p db'] by simp
    moreover have "handled_to w1 = handled_to w"
      using first by (simp add: handled_to_def fun_eq_iff)
    ultimately show ?thesis
      using first by fastforce
  next
    case (Inr u)
    then show ?thesis
      using first Cons.prems(5) one by simp
  qed
qed

subsection \<open>Handling an event\<close>

lemma handle_attempt_keeps:
  assumes "keeps_batch f" "\<not> tx_aborted (batch transaction)"
    and "handle_attempt handler db event f transaction = (transaction', res)"
  shows "case res of
      Inr _ \<Rightarrow> \<exists>row. handler event (view_row db (batch transaction) (pe_partition event)) = Ok row \<and>
        transaction' = Some ((batch transaction)
          \<lparr>tx_rows := AList.update (pe_partition event) row (tx_rows (batch transaction)), tx_aborted := False\<rparr>)
    | Inl err \<Rightarrow> transaction' = Some (batch transaction) \<or>
        transaction' = transaction \<and> \<not> is_permanent_event_error err"
  using assms
  by (auto simp: handle_attempt_def batch_def keeps_batch_def statement_def
      split: option.splits sum.splits if_splits prod.splits)

lemma handle_retry_keeps:
  assumes "keeps_batch f" "list_all keeps_batch fs" "\<not> tx_aborted (batch transaction)"
    and "handle_retry handler db event f fs transaction = (transaction', res)"
  shows "case res of
      Inr _ \<Rightarrow> \<exists>row. handler event (view_row db (batch transaction) (pe_partition event)) = Ok row \<and>
        transaction' = Some ((batch transaction)
          \<lparr>tx_rows := AList.update (pe_partition event) row (tx_rows (batch transaction)), tx_aborted := False\<rparr>)
    | Inl err \<Rightarrow> transaction' = Some (batch transaction) \<or>
        transaction' = transaction \<and> \<not> is_permanent_event_error err"
  using assms
proof (induction fs arbitrary: f transaction)
  case Nil
  then show ?case
    using handle_attempt_keeps [of f transaction handler db event] by simp
next
  case (Cons g fs)
  obtain transaction1 res1 where one: "handle_attempt handler db event f transaction = (transaction1, res1)"
    by (cases "handle_attempt handler db event f transaction")
  note first = handle_attempt_keeps [OF Cons.prems(1,3) one]
  show ?case
  proof (cases res1)
    case (Inl err)
    then have rest: "handle_retry handler db event g fs transaction1 = (transaction', res)"
      using Cons.prems(4) one by simp
    have same: "batch transaction1 = batch transaction"
      using first Inl by (auto simp: batch_def)
    have "transaction1 = Some (batch transaction) \<or> transaction1 = transaction"
      using first Inl by auto
    then show ?thesis
      using Cons.IH [OF _ _ _ rest] Cons.prems same by (auto split: sum.splits)
  next
    case (Inr u)
    then show ?thesis
      using first Cons.prems(4) one by auto
  qed
qed

lemma of_nat_inj_u64: "i < 2 ^ 63 \<Longrightarrow> j < 2 ^ 63 \<Longrightarrow> (of_nat i :: u64) = of_nat j \<longleftrightarrow> i = j"
  by (simp add: word_of_nat_eq_iff take_bit_nat_eq_self)

lemma next_sequence_of_nat: "i < 2 ^ 63 \<Longrightarrow> next_sequence (Some (of_nat i)) = Suc i"
  by (simp add: next_sequence_def unat_of_nat take_bit_nat_eq_self)

lemma batch_Some [simp]: "batch (Some t) = t"
  by (simp add: batch_def)

lemma seen_batch:
  "seen_row db w p = view_row db (batch (wk_tx w)) p"
  "seen_dead db w = dead_of db \<union> dom (map_of (tx_dead (batch (wk_tx w))))"
  by (simp_all add: seen_row_def seen_dead_def batch_def begin_tx_def view_row_def split: option.splits)

lemma worker_inv_cong:
  assumes "wk_tx w' = wk_tx w" "map_of (wk_handled w') = map_of (wk_handled w)" "wk_flushed w' = wk_flushed w"
    and "distinct (map fst (wk_handled w'))" "worker_inv handler logs rows db own w"
  shows "worker_inv handler logs rows db own w'"
proof -
  have "due (wk_flushed w') (wk_handled w') = due (wk_flushed w) (wk_handled w)"
    using assms by (simp add: due_def fun_eq_iff)
  then show ?thesis
    using assms
    by (simp add: worker_inv_def tx_ok_def owner_ok_def foreign_ok_def seen_row_def seen_dead_def handled_to_def
        split: option.splits)
qed

lemma agrees_apply:
  assumes "agrees handler logs rows dead p n row" "n < length (logs p)" "logs p ! n = Decoded stream name d"
    and "handler (event_at p n stream name d) row = Ok row'"
  shows "agrees handler logs rows dead p (Suc n) row'"
  using assms by (auto simp: agrees_def less_Suc_eq)

lemma agrees_dead:
  assumes ok: "agrees handler logs rows dead p n row" and n: "n < length (logs p)" "length (logs p) \<le> 2 ^ 63"
    and "logs p ! n = Decoded stream name d" and dead': "\<And>s. (p, s) \<in> dead' \<longleftrightarrow> (p, s) \<in> dead \<or> s = of_nat n"
  shows "agrees handler logs rows dead' p (Suc n) row"
proof -
  have "of_nat i \<noteq> (of_nat n :: u64)" if "i < n" for i
    using of_nat_inj_u64 [of i n] n that by simp
  then have "projected handler logs dead' p (rows p) n = projected handler logs dead p (rows p) n"
    using dead' by (intro projected_cong) simp
  moreover have "i = n" if "(of_nat i :: u64) = of_nat n" "i < length (logs p)" for i
    using of_nat_inj_u64 [of i n] n that by simp
  ultimately show ?thesis
    using assms by (auto simp: agrees_def less_Suc_eq)
qed

lemma advance:
  assumes inv: "worker_inv handler logs rows db own w" and clean: "tx_clean w" and p: "p \<in> own"
    and i: "i < length (logs p)" "length (logs p) \<le> 2 ^ 63" "logs p ! i = Decoded stream name d"
    and h: "handled_to w p \<le> i" "quiet logs p (handled_to w p) i"
    and t: "t = batch (wk_tx w)"
    and t': "(\<exists>row. handler (event_at p i stream name d) (view_row db t p) = Ok row \<and>
        t' = t\<lparr>tx_rows := AList.update p row (tx_rows t), tx_aborted := False\<rparr>) \<or>
      (\<exists>x. t' = t\<lparr>tx_dead := AList.update (p, of_nat i) x (tx_dead t)\<rparr>)"
    and w': "wk_tx w' = Some t'" "wk_handled w' = AList.update p (of_nat i) (wk_handled w)" "wk_flushed w' = wk_flushed w"
  shows "worker_inv handler logs rows db own w' \<and> tx_clean w' \<and> handled_to w' = (handled_to w)(p := Suc i)"
proof -
  have plain: "tx_checkpoints t = []" "\<not> tx_aborted t"
    using clean by (auto simp: t batch_def tx_clean_def begin_tx_def split: option.splits)
  have clean': "tx_clean w'" "tx_ok w'"
    using plain t' inv w' by (auto simp: tx_clean_def tx_ok_def worker_inv_def distinct_update)
  have to: "handled_to w' = (handled_to w)(p := Suc i)"
    using next_sequence_of_nat [of i] i by (simp add: handled_to_def w' update_conv' fun_eq_iff)
  have other: "view_row db t' q = view_row db t q" "(q, s) \<in> seen_dead db w' \<longleftrightarrow> (q, s) \<in> seen_dead db w"
      "map_of (wk_handled w') q = map_of (wk_handled w) q" "map_of (tx_rows t') q = map_of (tx_rows t) q"
      "map_of (tx_dead t') (q, s) = map_of (tx_dead t) (q, s)" if "q \<noteq> p" for q s
    using that t' by (auto simp: w' view_row_def seen_batch update_conv' simp flip: t)
  have foreign: "foreign_ok w' q" if "q \<notin> own" for q
  proof -
    have "q \<noteq> p" "foreign_ok w q"
      using that p inv by (auto simp: worker_inv_def)
    then show ?thesis
      using other [of q] by (auto simp: foreign_ok_def w' t batch_def begin_tx_def split: option.splits)
  qed
  have owner: "owner_ok handler logs rows db w' q" if "q \<in> own" "q \<noteq> p" for q
    using that inv other [OF that(2)] agrees_cong [of q "seen_dead db w'" "seen_dead db w" handler logs rows] to
    by (simp add: worker_inv_def owner_ok_def seen_batch(1) w' flip: t)
  have ok: "owner_ok handler logs rows db w p"
    using inv p by (simp add: worker_inv_def)
  then have before: "agrees handler logs rows (seen_dead db w) p i (view_row db t p)"
    using agrees_quiet [OF _ h(2), of handler rows "seen_dead db w" "view_row db t p"] h i
    by (simp add: owner_ok_def seen_batch(1) flip: t)
  have "agrees handler logs rows (seen_dead db w') p (Suc i) (seen_row db w' p)"
    using t'
  proof
    assume "\<exists>row. handler (event_at p i stream name d) (view_row db t p) = Ok row \<and>
        t' = t\<lparr>tx_rows := AList.update p row (tx_rows t), tx_aborted := False\<rparr>"
    then obtain row where row: "handler (event_at p i stream name d) (view_row db t p) = Ok row"
        "t' = t\<lparr>tx_rows := AList.update p row (tx_rows t), tx_aborted := False\<rparr>"
      by auto
    then have "seen_row db w' p = row" "seen_dead db w' = seen_dead db w"
      by (simp_all add: seen_batch w' view_row_def update_conv' flip: t)
    then show ?thesis
      using agrees_apply [OF before i(1,3) row(1)] by simp
  next
    assume "\<exists>x. t' = t\<lparr>tx_dead := AList.update (p, of_nat i) x (tx_dead t)\<rparr>"
    then obtain x where "t' = t\<lparr>tx_dead := AList.update (p, of_nat i) x (tx_dead t)\<rparr>"
      by auto
    then have "seen_row db w' p = view_row db t p" "\<And>s. (p, s) \<in> seen_dead db w' \<longleftrightarrow> (p, s) \<in> seen_dead db w \<or> s = of_nat i"
      by (auto simp: seen_batch w' view_row_def update_conv' simp flip: t)
    then show ?thesis
      using agrees_dead [OF before i, of "seen_dead db w'"] by simp
  qed
  then have "owner_ok handler logs rows db w' p"
    using ok to h quiet_mono [of logs p "handled_to w p" "committed db p" "Suc i" "committed db p"]
    by (simp add: owner_ok_def w')
  then show ?thesis
    using clean' to owner foreign by (auto simp: worker_inv_def)
qed

text \<open>What an operation of a worker on its partitions leaves behind.\<close>

definition leaves_ok ::
  "('d partition_event \<Rightarrow> 'r \<Rightarrow> event_handler_error + 'r) \<Rightarrow> (u16 \<Rightarrow> 'd message list) \<Rightarrow> (u16 \<Rightarrow> 'r) \<Rightarrow> u16 set \<Rightarrow>
   'r pg \<Rightarrow> 'r pg \<Rightarrow> 'r worker \<Rightarrow> (u16 \<Rightarrow> nat) \<Rightarrow> bool \<Rightarrow> bool" where
  "leaves_ok handler logs rows own db db' w' position failed \<longleftrightarrow>
     (\<forall>p. db_ok handler logs rows db' p) \<and>
     (\<not> failed \<longrightarrow> worker_inv handler logs rows db' own w' \<and> tx_clean w' \<and> (\<forall>p. p \<notin> own \<longrightarrow> same_at db db' p) \<and>
        handled_to w' = position \<and> (\<forall>p \<in> own. committed db' p \<in> {committed db p, position p}))"

lemma flush_leaves_ok:
  assumes "worker_inv handler logs rows db own w" "\<forall>p. db_ok handler logs rows db p" "commits fs"
    and "flush_retry (fst fs) (snd fs) db w = (db', w', res)"
  shows "leaves_ok handler logs rows own db db' w' (handled_to w) (isl res)"
  using flush_retry_inv [OF assms(1,2) _ _ assms(4)] assms(3)
  by (simp add: leaves_ok_def commits_def handled_to_def fun_eq_iff)

lemma finish_event_ok:
  assumes inv: "worker_inv handler logs rows db own w1" and clean: "tx_clean w1" and db: "\<forall>p. db_ok handler logs rows db p"
    and "commits (ef_flush f)"
    and w1: "w1 = w\<lparr>wk_handled := AList.update (pe_partition event) (pe_sequence event) (wk_handled w)\<rparr>"
    and run: "finish_event f event db w = (db', w', res)"
  shows "leaves_ok handler logs rows own db db' w' (handled_to w1) (isl res)"
proof -
  define w2 where "w2 = w1\<lparr>wk_since := wk_since w + 1\<rparr>"
  define w3 where "w3 = (if replaying w2 then w2 else w2\<lparr>wk_live := True\<rparr>)"
  have same: "wk_tx w3 = wk_tx w1" "wk_handled w3 = wk_handled w1" "wk_flushed w3 = wk_flushed w1"
    by (simp_all add: w3_def w2_def)
  then have inv3: "worker_inv handler logs rows db own w3"
    using inv by (intro worker_inv_cong [OF same(1) _ same(3) _ inv]) (simp_all add: worker_inv_def tx_ok_def)
  have to: "handled_to w3 = handled_to w1" and clean3: "tx_clean w3"
    using same clean by (simp_all add: handled_to_def tx_clean_def fun_eq_iff)
  have "flush_retry (fst (ef_flush f)) (snd (ef_flush f)) db w3 = (db', w', res) \<or> (db', w', res) = (db, w3, Ok ())"
    using run by (auto simp: finish_event_def Let_def w3_def w2_def w1 split: if_splits)
  then show ?thesis
    using flush_leaves_ok [OF inv3 db assms(4)] inv3 clean3 db to by (auto simp: leaves_ok_def)
qed

lemma update_same: "map_of al k = Some v \<Longrightarrow> map_of (AList.update k v al) = map_of al"
  by (simp add: update_conv' fun_upd_idem)

lemma handled_cases:
  assumes "i < 2 ^ 63"
  shows "(case map_of (wk_handled w) p of Some s \<Rightarrow> s \<ge> of_nat i | None \<Rightarrow> False) \<longleftrightarrow> i < handled_to w p"
proof -
  have "unat (of_nat i :: u64) = i"
    using assms by (simp add: unat_of_nat take_bit_nat_eq_self)
  then show ?thesis
    by (auto simp: handled_to_def next_sequence_def word_le_nat_alt split: option.splits)
qed

lemma leaves_ok_trans:
  assumes "leaves_ok handler logs rows own db db1 w1 position False" "leaves_ok handler logs rows own db1 db' w' position failed"
  shows "leaves_ok handler logs rows own db db' w' position failed"
proof -
  have "same_at db db' p" if "p \<notin> own" "\<not> failed" for p
    using assms that same_at_trans [of db db1 p db'] by (simp add: leaves_ok_def)
  then show ?thesis
    using assms by (fastforce simp: leaves_ok_def)
qed

lemma handled_to_Suc: "handled_to w p = Suc i \<Longrightarrow> map_of (wk_handled w) p = Some (of_nat i)"
  by (auto simp: handled_to_def next_sequence_def split: option.splits)

lemma dead_letter_ok:
  assumes inv: "worker_inv handler logs rows db own w" and clean: "tx_clean w" and db: "\<forall>p. db_ok handler logs rows db p"
    and p: "p \<in> own" and i: "i < length (logs p)" "length (logs p) \<le> 2 ^ 63" "logs p ! i = Decoded stream name d"
    and h: "handled_to w p \<le> i" "quiet logs p (handled_to w p) i" and "commits (ef_dead_flush f)"
    and w2: "w2 = v\<lparr>wk_tx := Some (batch (wk_tx w))\<rparr>" "wk_handled v = wk_handled w" "wk_flushed v = wk_flushed w"
    and event: "pe_partition event = p" "pe_sequence event = of_nat i"
    and run: "dead_letter_event f event details msg db w2 = (db', w', res)"
  shows "leaves_ok handler logs rows own db db' w' ((handled_to w)(p := Suc i)) (isl res)"
proof -
  define t where "t = batch (wk_tx w)"
  define w3 where "w3 = w2\<lparr>wk_tx := Some (put_dead db event details msg t), wk_handled := AList.update p (of_nat i) (wk_handled w2)\<rparr>"
  have "db' = db \<and> isl res \<or>
      flush_retry (fst (ef_dead_flush f)) (snd (ef_dead_flush f)) db w3 = (db', w', res)"
    using run by (auto simp: dead_letter_event_def Let_def event w2 w3_def statement_def simp flip: t_def
        split: if_splits option.splits)
  then show ?thesis
  proof
    assume "db' = db \<and> isl res"
    then show ?thesis
      using db by (simp add: leaves_ok_def)
  next
    assume flush: "flush_retry (fst (ef_dead_flush f)) (snd (ef_dead_flush f)) db w3 = (db', w', res)"
    have "\<exists>x. put_dead db event details msg t = t\<lparr>tx_dead := AList.update (p, of_nat i) x (tx_dead t)\<rparr>"
      by (auto simp: put_dead_def Let_def event)
    then have "worker_inv handler logs rows db own w3 \<and> tx_clean w3 \<and> handled_to w3 = (handled_to w)(p := Suc i)"
      by (intro advance [OF inv clean p i h t_def]) (auto simp: w3_def w2)
    then show ?thesis
      using flush_leaves_ok [OF _ db assms(10) flush] by simp
  qed
qed

lemma worker_handle_event_ok:
  assumes inv: "worker_inv handler logs rows db own w" and clean: "tx_clean w" and db: "\<forall>p. db_ok handler logs rows db p"
    and p: "p \<in> own" and i: "i < length (logs p)" "length (logs p) \<le> 2 ^ 63" "logs p ! i = Decoded stream name d"
    and quiet: "quiet logs p (handled_to w p) i" and benign: "benign (Deliver p f) s"
    and run: "worker_handle_event handler debug f (event_at p i stream name d) db w = (db', w', res)"
  shows "leaves_ok handler logs rows own db db' w' ((handled_to w)(p := max (handled_to w p) (Suc i))) (isl res)"
proof (cases "i < handled_to w p")
  case True
  then have "db' = db" "w' = w" "res = Ok ()"
    using run handled_cases [of i w p] i by (auto simp: worker_handle_event_def event_at_def Let_def split: option.splits)
  moreover have "max (handled_to w p) (Suc i) = handled_to w p"
    using True by simp
  ultimately show ?thesis
    using inv clean db by (simp add: leaves_ok_def)
next
  case False
  then have h: "handled_to w p \<le> i" and new: "max (handled_to w p) (Suc i) = Suc i"
    by simp_all
  define w1 where "w1 = (if map_of (wk_latest w) p = None
      then w\<lparr>wk_live := False, wk_latest := AList.update p (projr (ef_epseq f)) (wk_latest w)\<rparr> else w)"
  have w1: "wk_tx w1 = wk_tx w" "wk_handled w1 = wk_handled w" "wk_flushed w1 = wk_flushed w"
    by (simp_all add: w1_def)
  define event where "event = event_at p i stream name d"
  obtain tr res1 where retry: "handle_retry handler db event (ef_attempt f) (ef_retries f) (wk_tx w) = (tr, res1)"
    by (cases "handle_retry handler db event (ef_attempt f) (ef_retries f) (wk_tx w)")
  define w2 where "w2 = w1\<lparr>wk_tx := tr\<rparr>"
  have event: "pe_partition event = p" "pe_sequence event = of_nat i"
    by (simp_all add: event_def event_at_def)
  have "\<not> tx_aborted (batch (wk_tx w))"
    using clean by (auto simp: batch_def tx_clean_def begin_tx_def split: option.splits)
  note kept = handle_retry_keeps [OF _ _ this retry]
  have run1: "(case res1 of Inr _ \<Rightarrow> finish_event f event db w2
      | Inl err \<Rightarrow> if is_permanent_event_error err then
          (case dead_letter_event f event (case err of HandlerError e \<Rightarrow> permanent_error_details e | _ \<Rightarrow> (None, None))
              (debug err) db w2 of
             (db', w', Inl err') \<Rightarrow> (db', w', Err err') | (db', w', Inr _) \<Rightarrow> finish_event f event db' w')
        else (db, w2, Err err)) = (db', w', res) \<or> db' = db \<and> isl res"
  proof -
    have "\<not> (case map_of (wk_handled w) p of Some s \<Rightarrow> s \<ge> pe_sequence event | None \<Rightarrow> False)"
      using False handled_cases [of i w p] i unfolding event by simp
    then show ?thesis
      using run retry w1(1) unfolding w2_def event_def [symmetric] worker_handle_event_def Let_def event(1) w1_def [symmetric]
      by (auto split: if_splits)
  qed
  show ?thesis
    unfolding new
  proof (cases res1)
    case (Inr u)
    define w3 where "w3 = w2\<lparr>wk_handled := AList.update (pe_partition event) (pe_sequence event) (wk_handled w2)\<rparr>"
    obtain row where row: "handler event (view_row db (batch (wk_tx w)) p) = Ok row"
        "tr = Some ((batch (wk_tx w))\<lparr>tx_rows := AList.update p row (tx_rows (batch (wk_tx w))), tx_aborted := False\<rparr>)"
      using kept Inr benign event by auto
    have "worker_inv handler logs rows db own w3 \<and> tx_clean w3 \<and> handled_to w3 = (handled_to w)(p := Suc i)"
      using row w1 by (intro advance [OF inv clean p i h quiet refl]) (auto simp: w3_def w2_def event_def event_at_def)
    then have w3: "worker_inv handler logs rows db own w3" "tx_clean w3" "handled_to w3 = (handled_to w)(p := Suc i)"
      by simp_all
    show "leaves_ok handler logs rows own db db' w' ((handled_to w)(p := Suc i)) (isl res)"
    proof (cases "db' = db \<and> isl res")
      case True
      then show ?thesis
        using db by (simp add: leaves_ok_def)
    next
      case False
      then have "finish_event f event db w2 = (db', w', res)"
        using run1 Inr by auto
      from finish_event_ok [OF w3(1,2) db _ w3_def this] show ?thesis
        using benign w3(3) by simp
    qed
  next
    case (Inl err)
    show "leaves_ok handler logs rows own db db' w' ((handled_to w)(p := Suc i)) (isl res)"
    proof (cases "db' = db \<and> isl res \<or> \<not> is_permanent_event_error err")
      case True
      then show ?thesis
        using run1 Inl db by (auto simp: leaves_ok_def)
    next
      case perm: False
      then have tr: "tr = Some (batch (wk_tx w))"
        using kept Inl benign by auto
      have w2_def': "w2 = w1\<lparr>wk_tx := Some (batch (wk_tx w))\<rparr>"
        by (simp add: w2_def tr)
      obtain db1 w3 res2 where dead: "dead_letter_event f event
          (case err of HandlerError e \<Rightarrow> permanent_error_details e | _ \<Rightarrow> (None, None)) (debug err) db w2 = (db1, w3, res2)"
        by (cases "dead_letter_event f event
          (case err of HandlerError e \<Rightarrow> permanent_error_details e | _ \<Rightarrow> (None, None)) (debug err) db w2")
      have first: "leaves_ok handler logs rows own db db1 w3 ((handled_to w)(p := Suc i)) (isl res2)"
        using benign w1 tr by (intro dead_letter_ok [OF inv clean db p i h quiet _ w2_def' _ _ event dead]) (auto simp: w2_def)
      show ?thesis
      proof (cases res2)
        case Inl2: (Inl err2)
        then show ?thesis
          using run1 Inl perm dead first by (auto simp: leaves_ok_def)
      next
        case (Inr u)
        have rest: "finish_event f event db1 w3 = (db', w', res)"
          using run1 Inl perm dead Inr by auto
        define w4 where "w4 = w3\<lparr>wk_handled := AList.update (pe_partition event) (pe_sequence event) (wk_handled w3)\<rparr>"
        have ok: "worker_inv handler logs rows db1 own w3" "tx_clean w3" "handled_to w3 = (handled_to w)(p := Suc i)"
            "\<forall>p. db_ok handler logs rows db1 p"
          using first Inr by (auto simp: leaves_ok_def)
        then have same: "map_of (wk_handled w4) = map_of (wk_handled w3)"
          using handled_to_Suc [of w3 p i] by (simp add: w4_def event update_same)
        have "worker_inv handler logs rows db1 own w4"
          using ok(1) by (intro worker_inv_cong [OF _ same _ _ ok(1)])
            (simp_all add: w4_def worker_inv_def tx_ok_def distinct_update)
        moreover have "tx_clean w4" "handled_to w4 = handled_to w3"
          using ok(2) same by (simp_all add: w4_def tx_clean_def handled_to_def fun_eq_iff)
        ultimately have "leaves_ok handler logs rows own db1 db' w' (handled_to w3) (isl res)"
          using finish_event_ok [OF _ _ ok(4) _ w4_def rest] benign by simp
        then show ?thesis
          using first Inr ok(3) leaves_ok_trans [of handler logs rows own db db1 w3 "handled_to w3" db' w' "isl res"]
          by simp
      qed
    qed
  qed
qed

end
