(* ===== verification/Projection_Runs.thy ===== *)
theory Projection_Runs
  imports Projection_Invariant
begin

text \<open>
  The projection system as a whole: its steps keep the invariant of the workers, so that projections are
  exactly-once under the faults that keep a batch; and the faults that lose events.
\<close>

subsection \<open>The system\<close>

definition partition_ok :: "(u16 \<Rightarrow> 'd message list) \<Rightarrow> 'r pg \<Rightarrow> 'r processor \<Rightarrow> u16 \<Rightarrow> nat \<Rightarrow> bool" where
  "partition_ok logs db pr p cursor \<longleftrightarrow>
     (map_of (pr_workers pr) (p mod pr_count pr) = None \<longrightarrow>
        map_of (pr_flushed pr) p = map_of (pg_checkpoints db) p \<and> cursor = committed db p) \<and>
     next_sequence (map_of (pr_flushed pr) p) \<le> cursor \<and> cursor \<le> length (logs p) \<and>
     quiet logs p (handled_to (worker_of pr p) p) cursor \<and>
     (\<forall>i < max (max (handled_to (worker_of pr p) p) (committed db p)) cursor.
        \<not> decoded (logs p ! i) \<longrightarrow> i < next_sequence (map_of (pr_flushed pr) p))"

definition partitions_of :: "'r processor \<Rightarrow> u16 \<Rightarrow> u16 set" where
  "partitions_of pr i = {p. p mod pr_count pr = i}"

definition processor_ok ::
  "('d partition_event \<Rightarrow> 'r \<Rightarrow> event_handler_error + 'r) \<Rightarrow> (u16 \<Rightarrow> 'd message list) \<Rightarrow> (u16 \<Rightarrow> 'r) \<Rightarrow> 'r pg \<Rightarrow>
   'r processor \<Rightarrow> (u16 \<Rightarrow> nat) \<Rightarrow> bool" where
  "processor_ok handler logs rows db pr cursor \<longleftrightarrow>
     distinct (map fst (pr_flushed pr)) \<and>
     (\<forall>i w. map_of (pr_workers pr) i = Some w \<longrightarrow>
        worker_inv handler logs rows db (partitions_of pr i) w \<and> tx_clean w) \<and>
     (\<forall>p. partition_ok logs db pr p (cursor p))"

definition system_ok ::
  "('d partition_event \<Rightarrow> 'r \<Rightarrow> event_handler_error + 'r) \<Rightarrow> (u16 \<Rightarrow> 'd message list) \<Rightarrow> (u16 \<Rightarrow> 'r) \<Rightarrow> 'r system \<Rightarrow>
   bool" where
  "system_ok handler logs rows s \<longleftrightarrow>
     (\<forall>p. db_ok handler logs rows (sy_db s) p) \<and>
     (case sy_processor s of
        None \<Rightarrow> True
      | Some pr \<Rightarrow> processor_ok handler logs rows (sy_db s) pr (sy_cursor s))"

lemma worker_of_ok:
  assumes ok: "processor_ok handler logs rows db pr cursor" and db: "\<forall>p. db_ok handler logs rows db p"
  shows "worker_inv handler logs rows db (partitions_of pr (p mod pr_count pr)) (worker_of pr p) \<and>
    tx_clean (worker_of pr p)"
proof (cases "map_of (pr_workers pr) (p mod pr_count pr)")
  case (Some w)
  then show ?thesis
    using ok by (simp add: processor_ok_def worker_of_def)
next
  case None
  let ?w = "worker_of pr p"
  have w: "wk_tx ?w = None" "wk_flushed ?w = pr_flushed pr" "wk_handled ?w = pr_flushed pr"
    using None by (simp_all add: worker_of_def)
  have "owner_ok handler logs rows db ?w q" if "q \<in> partitions_of pr (p mod pr_count pr)" for q
  proof -
    have "map_of (pr_flushed pr) q = map_of (pg_checkpoints db) q"
      using ok that None by (simp add: processor_ok_def partition_ok_def partitions_of_def)
    then have "handled_to ?w q = committed db q"
      by (simp add: handled_to_def committed_def w)
    then show ?thesis
      using db \<open>map_of (pr_flushed pr) q = _\<close>
      by (auto simp: owner_ok_def db_ok_def seen_row_def seen_dead_def w quiet_def)
  qed
  then show ?thesis
    using ok w by (simp add: worker_inv_def tx_ok_def tx_clean_def foreign_ok_def processor_ok_def)
qed

lemma worker_inv_same:
  assumes "worker_inv handler logs rows db own w" "\<And>p. p \<in> own \<Longrightarrow> same_at db db' p"
  shows "worker_inv handler logs rows db' own w"
  using assms by (auto simp: worker_inv_def intro: owner_ok_same)

lemma start_cursor_eq:
  assumes "next_sequence (map_of (pr_flushed pr) p) \<le> 2 ^ 63"
  shows "start_cursor pr p = next_sequence (map_of (pr_flushed pr) p)"
proof -
  have "map_of (get_start_from pr) p = map_option (\<lambda>s. s + 1) (map_of (pr_flushed pr) p)"
    by (simp add: get_start_from_def map_of_map)
  moreover have "unat (s + 1) = unat s + 1" if "unat s + 1 \<le> 2 ^ 63" for s :: u64
    using that by (simp add: unat_word_ariths)
  ultimately show ?thesis
    using assms by (auto simp: start_cursor_def next_sequence_def split: option.splits)
qed

lemma new_epoch_ok:
  assumes "processor_ok handler logs rows db pr cursor" "\<forall>p. length (logs p) \<le> 2 ^ 63"
  shows "processor_ok handler logs rows db pr (start_cursor pr)"
proof -
  have "partition_ok logs db pr p (start_cursor pr p)" for p
  proof -
    have ok: "partition_ok logs db pr p (cursor p)"
      using assms(1) by (simp add: processor_ok_def)
    then have "next_sequence (map_of (pr_flushed pr) p) \<le> length (logs p)"
      unfolding partition_ok_def by (blast intro: order_trans)
    from order_trans [OF this spec [OF assms(2), of p]]
    have start: "start_cursor pr p = next_sequence (map_of (pr_flushed pr) p)"
      by (rule start_cursor_eq)
    then have less: "start_cursor pr p \<le> cursor p"
      using ok by (simp add: partition_ok_def)
    then have "quiet logs p (handled_to (worker_of pr p) p) (start_cursor pr p)"
      using ok less quiet_mono [of logs p "handled_to (worker_of pr p) p" "cursor p"] by (simp add: partition_ok_def)
    moreover have "\<forall>i < max (max (handled_to (worker_of pr p) p) (committed db p)) (start_cursor pr p).
        \<not> decoded (logs p ! i) \<longrightarrow> i < next_sequence (map_of (pr_flushed pr) p)"
    proof (intro allI impI)
      fix i
      assume "i < max (max (handled_to (worker_of pr p) p) (committed db p)) (start_cursor pr p)" "\<not> decoded (logs p ! i)"
      moreover have "max (max (handled_to (worker_of pr p) p) (committed db p)) (start_cursor pr p) \<le>
          max (max (handled_to (worker_of pr p) p) (committed db p)) (cursor p)"
        using less by (intro max.mono) simp_all
      ultimately show "i < next_sequence (map_of (pr_flushed pr) p)"
        using ok by (simp add: partition_ok_def)
    qed
    moreover have "next_sequence (map_of (pr_flushed pr) p) \<le> start_cursor pr p" "start_cursor pr p \<le> length (logs p)"
      using start less ok by (simp_all add: partition_ok_def)
    moreover have "map_of (pr_flushed pr) p = map_of (pg_checkpoints db) p \<and> start_cursor pr p = committed db p"
      if "map_of (pr_workers pr) (p mod pr_count pr) = None"
      using that ok start by (simp add: partition_ok_def committed_def)
    ultimately show ?thesis
      unfolding partition_ok_def by blast
  qed
  then show ?thesis
    using assms(1) by (simp add: processor_ok_def)
qed

text \<open>A worker has been replaced by the result of one of its operations.\<close>

lemma replace_worker_ok:
  assumes ok: "processor_ok handler logs rows db pr cursor"
    and w: "\<And>q. q \<in> partitions_of pr i \<Longrightarrow> worker_of pr q = w"
    and leaves: "leaves_ok handler logs rows (partitions_of pr i) db db' w' position False"
    and position: "\<And>q. q \<in> partitions_of pr i \<Longrightarrow> handled_to w q \<le> position q \<and>
       quiet logs q (position q) (cursor' q) \<and> cursor q \<le> cursor' q \<and> cursor' q \<le> length (logs q) \<and>
       (\<forall>j. max (max (handled_to w q) (committed db q)) (cursor q) \<le> j \<and> j < max (position q) (cursor' q) \<longrightarrow>
          decoded (logs q ! j))"
    and others: "\<And>q. q \<notin> partitions_of pr i \<Longrightarrow> cursor' q = cursor q"
  shows "processor_ok handler logs rows db' (pr\<lparr>pr_workers := AList.update i w' (pr_workers pr)\<rparr>) cursor'"
proof -
  let ?pr = "pr\<lparr>pr_workers := AList.update i w' (pr_workers pr)\<rparr>"
  have parts: "partitions_of ?pr j = partitions_of pr j" for j
    by (simp add: partitions_of_def)
  have new: "worker_inv handler logs rows db' (partitions_of pr i) w'" "tx_clean w'" "handled_to w' = position"
      "\<And>q. q \<notin> partitions_of pr i \<Longrightarrow> same_at db db' q"
      "\<And>q. q \<in> partitions_of pr i \<Longrightarrow> committed db' q \<in> {committed db q, position q}"
    using leaves by (auto simp: leaves_ok_def)
  have "worker_inv handler logs rows db' (partitions_of pr j) v \<and> tx_clean v"
    if "map_of (pr_workers pr) j = Some v" "j \<noteq> i" for j v
  proof -
    have "same_at db db' q" if "q \<in> partitions_of pr j" for q
      using that \<open>j \<noteq> i\<close> new(4) [of q] by (simp add: partitions_of_def)
    moreover have "worker_inv handler logs rows db (partitions_of pr j) v" "tx_clean v"
      using ok that(1) by (simp_all add: processor_ok_def)
    ultimately show ?thesis
      using worker_inv_same by blast
  qed
  then have workers: "worker_inv handler logs rows db' (partitions_of pr j) v \<and> tx_clean v"
    if "map_of (pr_workers ?pr) j = Some v" for j v
    using that new by (auto simp: update_conv' split: if_splits)
  have "partition_ok logs db' ?pr q (cursor' q)" for q
  proof (cases "q \<in> partitions_of pr i")
    case True
    then have "worker_of ?pr q = w'" "worker_of pr q = w" "map_of (pr_workers ?pr) (q mod pr_count pr) = Some w'"
      using w [OF True] by (simp_all add: worker_of_def partitions_of_def update_conv')
    moreover have old: "partition_ok logs db pr q (cursor q)"
      using ok by (simp add: processor_ok_def)
    moreover have "j < next_sequence (map_of (pr_flushed pr) q)"
      if "j < max (max (position q) (committed db' q)) (cursor' q)" "\<not> decoded (logs q ! j)" for j
    proof (cases "j < max (max (handled_to w q) (committed db q)) (cursor q)")
      case inside: True
      then show ?thesis
        using old that(2) w [OF True] by (simp add: partition_ok_def)
    next
      case False
      then have "j < max (position q) (cursor' q)"
        using that(1) new(5) [OF True] by auto
      then show ?thesis
        using position [OF True] False that(2) by (simp add: not_less)
    qed
    ultimately show ?thesis
      using position [OF True] new(3) by (simp add: partition_ok_def)
  next
    case False
    then have "worker_of ?pr q = worker_of pr q" "map_of (pr_workers ?pr) (q mod pr_count pr) = map_of (pr_workers pr) (q mod pr_count pr)"
      by (simp_all add: worker_of_def partitions_of_def update_conv' split: option.splits)
    moreover have "partition_ok logs db pr q (cursor q)"
      using ok by (simp add: processor_ok_def)
    ultimately show ?thesis
      using new(4) [OF False] others [OF False] by (simp add: partition_ok_def same_at_def committed_def)
  qed
  then show ?thesis
    using ok workers parts by (simp add: processor_ok_def)
qed

lemma sint_uint_small:
  fixes s :: u64
  assumes "unat s < 2 ^ 63"
  shows "sint s = int (unat s)"
proof -
  have "int (unat s) < int (2 ^ 63)"
    using assms by (simp only: of_nat_less_iff)
  then have "uint s < 2 ^ 63"
    by simp
  moreover have "0 \<le> uint s"
    by simp
  ultimately have "signed_take_bit 63 (uint s) = uint s"
    by (intro signed_take_bit_int_eq_self) (rule order_trans [of _ 0], simp_all)
  then show ?thesis
    by (simp add: sint_uint)
qed

lemma greatest_new:
  assumes "next_sequence old \<le> i" "i < 2 ^ 63"
  shows "greatest old (of_nat i) = of_nat i"
proof (cases old)
  case (Some s)
  then have "unat s < i"
    using assms by (simp add: next_sequence_def)
  moreover have "unat (of_nat i :: u64) = i"
    using assms(2) by (simp add: unat_of_nat take_bit_nat_eq_self)
  ultimately have "sint (of_nat i :: u64) = int i" "sint s = int (unat s)"
    using assms(2) sint_uint_small [of "of_nat i"] sint_uint_small [of s] by simp_all
  moreover have "int (unat s) < int i"
    using \<open>unat s < i\<close> by (simp only: of_nat_less_iff)
  ultimately show ?thesis
    by (simp add: Some greatest_def)
qed (simp add: greatest_def)

lemma processor_new_map_of:
  "processor_new checkpoints = Ok m \<Longrightarrow> map_of m = map_of checkpoints \<and> distinct (map fst m)"
proof (induction checkpoints arbitrary: m rule: processor_new.induct)
  case (2 p s checkpoints)
  then show ?case
    by (cases "processor_new checkpoints") (auto simp: update_conv' distinct_update split: if_splits)
qed simp

lemma restart_ok:
  assumes "\<forall>p. db_ok handler logs rows db p" "\<forall>p. length (logs p) \<le> 2 ^ 63" "processor_new (pg_checkpoints db) = Ok m"
    and pr: "pr_flushed pr = m" "pr_workers pr = []"
  shows "processor_ok handler logs rows db pr (start_cursor pr)"
proof -
  note new = processor_new_map_of [OF assms(3)]
  have "partition_ok logs db pr p (start_cursor pr p)" for p
  proof -
    have "committed db p \<le> length (logs p)"
      using assms(1) by (simp add: db_ok_def agrees_def)
    moreover have "next_sequence (map_of (pr_flushed pr) p) = committed db p"
      using new by (simp add: committed_def pr)
    moreover from calculation have "start_cursor pr p = committed db p"
      using assms(2) [rule_format, of p] start_cursor_eq [of pr p] by simp
    moreover have "handled_to (worker_of pr p) p = committed db p"
      using new by (simp add: worker_of_def handled_to_def committed_def pr)
    ultimately show ?thesis
      using new by (auto simp: partition_ok_def pr quiet_def)
  qed
  then show ?thesis
    using new by (simp add: processor_ok_def pr)
qed

lemma deliver_ok:
  assumes ok: "processor_ok handler logs rows db pr cursor" and db: "\<forall>p. db_ok handler logs rows db p"
    and len: "\<forall>p. length (logs p) \<le> 2 ^ 63" and i: "cursor p < length (logs p)" "logs p ! cursor p = Decoded stream name d"
    and benign: "benign (Deliver p f) s"
    and run: "processor_handle_event handler debug f (event_at p (cursor p) stream name d) db pr = (db', pr', res)"
  shows "(\<forall>p. db_ok handler logs rows db' p) \<and>
    (\<not> isl res \<longrightarrow> processor_ok handler logs rows db' pr' (cursor(p := cursor p + 1)))"
proof -
  let ?i = "p mod pr_count pr" and ?w = "worker_of pr p"
  obtain w' where worker: "worker_handle_event handler debug f (event_at p (cursor p) stream name d) db ?w = (db', w', res)"
      and pr': "pr' = pr\<lparr>pr_workers := AList.update ?i w' (pr_workers pr)\<rparr>"
    using run by (auto simp: processor_handle_event_def event_at_def split: prod.splits)
  note w = worker_of_ok [OF ok db, of p]
  have part: "partition_ok logs db pr q (cursor q)" for q
    using ok by (simp add: processor_ok_def)
  have p: "p \<in> partitions_of pr ?i"
    by (simp add: partitions_of_def)
  have leaves: "leaves_ok handler logs rows (partitions_of pr ?i) db db' w'
      ((handled_to ?w)(p := max (handled_to ?w p) (Suc (cursor p)))) (isl res)"
    using worker_handle_event_ok [OF conjunct1 [OF w] conjunct2 [OF w] db p i(1) len [rule_format] i(2) _ benign worker]
      part [of p] by (simp add: partition_ok_def)
  have "processor_ok handler logs rows db' pr' (cursor(p := cursor p + 1))" if "\<not> isl res"
    unfolding pr'
  proof (rule replace_worker_ok [OF ok])
    show "worker_of pr q = ?w" if "q \<in> partitions_of pr ?i" for q
      using that by (simp add: partitions_of_def worker_of_def)
    show "leaves_ok handler logs rows (partitions_of pr ?i) db db' w'
      ((handled_to ?w)(p := max (handled_to ?w p) (Suc (cursor p)))) False"
      using leaves that by simp
    show "handled_to ?w q \<le> ((handled_to ?w)(p := max (handled_to ?w p) (Suc (cursor p)))) q \<and>
       quiet logs q (((handled_to ?w)(p := max (handled_to ?w p) (Suc (cursor p)))) q) ((cursor(p := cursor p + 1)) q) \<and>
       cursor q \<le> (cursor(p := cursor p + 1)) q \<and> (cursor(p := cursor p + 1)) q \<le> length (logs q) \<and>
       (\<forall>j. max (max (handled_to ?w q) (committed db q)) (cursor q) \<le> j \<and>
          j < max (((handled_to ?w)(p := max (handled_to ?w p) (Suc (cursor p)))) q) ((cursor(p := cursor p + 1)) q) \<longrightarrow>
          decoded (logs q ! j))" if "q \<in> partitions_of pr ?i" for q
    proof (cases "q = p")
      case True
      have "decoded (logs p ! j)"
        if "handled_to ?w p \<le> j" "cursor p \<le> j" "j < max (handled_to ?w p) (Suc (cursor p))" for j
      proof -
        have "j = cursor p"
          using that by (simp add: max_def split: if_splits)
        then show ?thesis
          using i by simp
      qed
      then show ?thesis
        using True i by (simp add: quiet_def)
    next
      case False
      have "worker_of pr q = ?w"
        using that by (simp add: partitions_of_def worker_of_def)
      then show ?thesis
        using False part [of q] by (auto simp: partition_ok_def max_def split: if_splits)
    qed
    show "(cursor(p := cursor p + 1)) q = cursor q" if "q \<notin> partitions_of pr ?i" for q
      using that p by auto
  qed
  then show ?thesis
    using leaves by (simp add: leaves_ok_def)
qed

lemma tick_ok:
  assumes ok: "processor_ok handler logs rows db pr cursor" and db: "\<forall>p. db_ok handler logs rows db p"
    and w: "map_of (pr_workers pr) i = Some w" and "commits fs"
    and run: "flush_retry (fst fs) (snd fs) db w = (db', w', res)"
  shows "(\<forall>p. db_ok handler logs rows db' p) \<and>
    (\<not> isl res \<longrightarrow> processor_ok handler logs rows db' (pr\<lparr>pr_workers := AList.update i w' (pr_workers pr)\<rparr>) cursor)"
proof -
  have inv: "worker_inv handler logs rows db (partitions_of pr i) w" "tx_clean w"
    using ok w by (auto simp: processor_ok_def)
  note leaves = flush_leaves_ok [OF inv(1) db assms(4) run]
  have "processor_ok handler logs rows db' (pr\<lparr>pr_workers := AList.update i w' (pr_workers pr)\<rparr>) cursor" if "\<not> isl res"
  proof (rule replace_worker_ok [OF ok])
    show "worker_of pr q = w" if "q \<in> partitions_of pr i" for q
      using that w by (simp add: partitions_of_def worker_of_def)
    show "leaves_ok handler logs rows (partitions_of pr i) db db' w' (handled_to w) False"
      using leaves that by simp
    show "handled_to w q \<le> handled_to w q \<and> quiet logs q (handled_to w q) (cursor q) \<and> cursor q \<le> cursor q \<and>
       cursor q \<le> length (logs q) \<and>
       (\<forall>j. max (max (handled_to w q) (committed db q)) (cursor q) \<le> j \<and> j < max (handled_to w q) (cursor q) \<longrightarrow>
          decoded (logs q ! j))" if "q \<in> partitions_of pr i" for q
    proof -
      have "worker_of pr q = w" "partition_ok logs db pr q (cursor q)"
        using that w ok by (simp_all add: partitions_of_def worker_of_def processor_ok_def)
      then show ?thesis
        by (auto simp: partition_ok_def)
    qed
  qed simp
  then show ?thesis
    using leaves by (simp add: leaves_ok_def)
qed

text \<open>The database after the coordinator has set a message aside that could not be decoded.\<close>

lemma undecodable_db:
  fixes db :: "'r pg" and event :: "'d partition_event"
  assumes "pe_partition event = p" "pe_sequence event = of_nat i" "committed db p \<le> i" "i < 2 ^ 63"
    and db'_def: "db' = commit db (put_checkpoint p (greatest (map_of (pg_checkpoints db) p) (of_nat i))
    (put_undecodable db event msg begin_tx))"
  shows "pg_rows db' = pg_rows db" and "map_of (pg_checkpoints db') = (map_of (pg_checkpoints db))(p \<mapsto> of_nat i)"
    and "dead_of db' = insert (p, of_nat i) (dead_of db)" and "committed db' p = Suc i"
    and "q \<noteq> p \<Longrightarrow> same_at db db' q"
proof -
  let ?t = "put_checkpoint p (of_nat i) (put_undecodable db event msg begin_tx) :: 'r tx"
  have db': "db' = commit db ?t"
    using greatest_new [of "map_of (pg_checkpoints db) p" i] assms(3,4) by (simp add: db'_def committed_def)
  have t: "\<not> tx_aborted ?t" "tx_rows ?t = []" "map_of (tx_checkpoints ?t) = [p \<mapsto> of_nat i]"
      "dom (map_of (tx_dead ?t)) = {(p, of_nat i)}"
    by (simp_all add: put_undecodable_def Let_def begin_tx_def assms(1,2) put_checkpoint_def)
  note commits = commit_simps [OF t(1), of db, folded db']
  show rows: "pg_rows db' = pg_rows db"
    using commits(1) t(2) by (simp add: view_row_def fun_eq_iff)
  show checkpoints: "map_of (pg_checkpoints db') = (map_of (pg_checkpoints db))(p \<mapsto> of_nat i)"
    using commits(2) unfolding t(3) by simp
  show dead: "dead_of db' = insert (p, of_nat i) (dead_of db)"
    using commits(3) t(4) by simp
  show "committed db' p = Suc i"
    using checkpoints next_sequence_of_nat [OF assms(4)] by (simp add: committed_def)
  show "same_at db db' q" if "q \<noteq> p"
    using that rows checkpoints dead by (simp add: same_at_def)
qed

lemma agrees_undecodable:
  assumes ok: "agrees handler logs rows dead p n row" and i: "i < length (logs p)" "length (logs p) \<le> 2 ^ 63"
    and "\<not> decoded (logs p ! i)"
  shows "agrees handler logs rows (insert (p, of_nat i) dead) p n row"
proof -
  have same: "(p, of_nat j) \<in> insert (p, of_nat i) dead \<longleftrightarrow> (p, of_nat j) \<in> dead" if "decoded (logs p ! j)" "j < length (logs p)" for j
    using of_nat_inj_u64 [of j i] that assms by auto
  then have "projected handler logs (insert (p, of_nat i) dead) p (rows p) n = projected handler logs dead p (rows p) n"
    using ok by (intro projected_cong) (simp add: agrees_def)
  moreover have "j < n" if "j < length (logs p)" "decoded (logs p ! j)" "(p, of_nat j) \<in> insert (p, of_nat i) dead" for j
    using same [OF that(2,1)] that ok by (simp add: agrees_def)
  ultimately show ?thesis
    using ok by (simp add: agrees_def)
qed

lemma sync_ok:
  assumes inv: "worker_inv handler logs rows db own w" and idle: "wk_tx w = None"
    and agrees: "agrees handler logs rows (dead_of db') p (handled_to w p) (pg_rows db' p)"
    and quiet: "quiet logs p (handled_to w p) (Suc i)" "committed db' p = Suc i"
    and cps: "map_of (pg_checkpoints db') = (map_of (pg_checkpoints db))(p \<mapsto> of_nat i)"
    and i: "committed db p \<le> i" "i < 2 ^ 63" and same: "\<And>q. q \<noteq> p \<Longrightarrow> same_at db db' q" and p: "p \<in> own"
  shows "worker_inv handler logs rows db' own (sync_processor_checkpoint p (of_nat i) w) \<and>
    tx_clean (sync_processor_checkpoint p (of_nat i) w)"
proof -
  let ?v = "sync_processor_checkpoint p (of_nat i) w"
  have v: "wk_tx ?v = None" "wk_handled ?v = wk_handled w" "q \<noteq> p \<Longrightarrow> map_of (wk_flushed ?v) q = map_of (wk_flushed w) q" for q
    using idle by (simp_all add: sync_processor_checkpoint_def update_conv')
  have seen: "seen_row db' ?v q = seen_row db' w q" "seen_dead db' ?v = seen_dead db' w" "handled_to ?v q = handled_to w q" for q
    using idle v by (simp_all add: seen_row_def seen_dead_def handled_to_def)
  have "map_of (wk_flushed w) p = None \<or> map_of (wk_flushed w) p = map_of (pg_checkpoints db) p"
    using inv p by (simp add: worker_inv_def owner_ok_def)
  moreover have "f < of_nat i" if "map_of (pg_checkpoints db) p = Some f" for f
    using that i by (simp add: committed_def next_sequence_def word_less_nat_alt unat_of_nat take_bit_nat_eq_self)
  ultimately have "map_of (wk_flushed ?v) p = Some (of_nat i)"
    by (auto simp: sync_processor_checkpoint_def update_conv' split: option.splits)
  then have "owner_ok handler logs rows db' ?v p"
    using agrees quiet cps seen idle by (simp add: owner_ok_def seen_row_def seen_dead_def)
  moreover have "owner_ok handler logs rows db' ?v q" if "q \<in> own" "q \<noteq> p" for q
    using that inv owner_ok_same [OF same [OF that(2)], of handler logs rows w] seen v(3) [OF that(2)]
    by (simp add: worker_inv_def owner_ok_def)
  moreover have "foreign_ok ?v q" if "q \<notin> own" for q
  proof -
    have "q \<noteq> p" "foreign_ok w q"
      using that inv p by (auto simp: worker_inv_def)
    then show ?thesis
      using v(1,2) v(3) [of q] by (simp add: foreign_ok_def)
  qed
  ultimately show ?thesis
    using inv v(1,2) p by (auto simp: worker_inv_def tx_ok_def tx_clean_def)
qed

lemma undecodable_ok:
  assumes ok: "processor_ok handler logs rows db pr cursor" and db: "\<forall>p. db_ok handler logs rows db p"
    and len: "\<forall>p. length (logs p) \<le> 2 ^ 63" and i: "cursor p < length (logs p)" "\<not> decoded (logs p ! cursor p)"
    and idle: "wk_tx (worker_of pr p) = None" and event: "pe_partition event = p" "pe_sequence event = of_nat (cursor p)"
    and run: "dead_letter_undecodable fault event msg db pr = (db', pr', Ok ())"
  shows "(\<forall>p. db_ok handler logs rows db' p) \<and> processor_ok handler logs rows db' pr' (cursor(p := cursor p + 1))"
proof -
  let ?w = "worker_of pr p" and ?i = "p mod pr_count pr"
  have part: "partition_ok logs db pr q (cursor q)" for q
    using ok by (simp add: processor_ok_def)
  have small: "cursor p < 2 ^ 63"
    using i len [rule_format, of p] by simp
  have upper: "handled_to ?w p \<le> cursor p" "committed db p \<le> cursor p"
  proof -
    have "\<not> cursor p < max (max (handled_to ?w p) (committed db p)) (cursor p)"
      using part [of p] i(2) by (meson leD partition_ok_def)
    then show "handled_to ?w p \<le> cursor p" "committed db p \<le> cursor p"
      by simp_all
  qed
  have db': "db' = commit db (put_checkpoint p (greatest (map_of (pg_checkpoints db) p) (of_nat (cursor p)))
      (put_undecodable db event msg begin_tx))"
    and pr': "pr' = pr\<lparr>pr_flushed := AList.update p (of_nat (cursor p)) (pr_flushed pr),
      pr_workers := (case map_of (pr_workers pr) ?i of None \<Rightarrow> pr_workers pr
        | Some w \<Rightarrow> AList.update ?i (sync_processor_checkpoint p (of_nat (cursor p)) w) (pr_workers pr))\<rparr>"
    using run by (auto simp: dead_letter_undecodable_def Let_def event split: if_splits option.splits)
  note new = undecodable_db [OF event upper(2) small db']
  have inv: "worker_inv handler logs rows db (partitions_of pr ?i) ?w"
    using worker_of_ok [OF ok db, of p] by simp
  then have owner: "owner_ok handler logs rows db ?w p"
    by (simp add: worker_inv_def partitions_of_def)
  have quiet: "quiet logs p (handled_to ?w p) (Suc (cursor p))"
    using part [of p] i(2) by (auto simp: partition_ok_def quiet_def less_Suc_eq)
  have idle_agrees: "agrees handler logs rows (dead_of db') p (handled_to ?w p) (pg_rows db' p)"
  proof -
    have "agrees handler logs rows (dead_of db) p (handled_to ?w p) (pg_rows db p)"
      using owner idle by (simp add: owner_ok_def seen_row_def seen_dead_def)
    from agrees_undecodable [OF this i(1) len [rule_format] i(2)] show ?thesis
      by (simp add: new)
  qed
  then have "db_ok handler logs rows db' p"
    using agrees_quiet [OF _ quiet] i(1) upper(1) new(4) by (simp add: db_ok_def)
  then have db_ok': "db_ok handler logs rows db' q" for q
    using db db_ok_same [OF new(5), of q handler logs rows] by (cases "q = p") simp_all
  have parts: "partitions_of pr' j = partitions_of pr j" for j
    by (simp add: partitions_of_def pr')
  have workers: "worker_inv handler logs rows db' (partitions_of pr' j) v \<and> tx_clean v"
    if found: "map_of (pr_workers pr') j = Some v" for j v
  proof (cases "j = ?i")
    case True
    then obtain w where w: "map_of (pr_workers pr) ?i = Some w" "v = sync_processor_checkpoint p (of_nat (cursor p)) w"
      using found by (auto simp: pr' update_conv' split: option.splits)
    then have "?w = w"
      by (simp add: worker_of_def)
    then show ?thesis
      using sync_ok [OF inv [folded True] idle idle_agrees quiet new(4) new(2) upper(2) small new(5)] True w(2) parts
      by (simp add: partitions_of_def)
  next
    case False
    then have "map_of (pr_workers pr) j = Some v"
      using found by (auto simp: pr' update_conv' split: option.splits)
    moreover have "same_at db db' q" if "q \<in> partitions_of pr j" for q
      using False that new(5) [of q] by (auto simp: partitions_of_def)
    moreover from calculation have "worker_inv handler logs rows db (partitions_of pr j) v" "tx_clean v"
      using ok by (simp_all add: processor_ok_def)
    ultimately show ?thesis
      unfolding parts using worker_inv_same by blast
  qed
  have none: "map_of (pr_workers pr') j = None \<longleftrightarrow> map_of (pr_workers pr) j = None" for j
    by (auto simp: pr' update_conv' split: option.splits)
  have handled: "handled_to (worker_of pr' q) q = (if q = p \<and> map_of (pr_workers pr) ?i = None then Suc (cursor p)
      else handled_to (worker_of pr q) q)" for q
    using next_sequence_of_nat [OF small]
    by (auto simp: handled_to_def worker_of_def pr' update_conv' sync_processor_checkpoint_def split: option.splits)
  have "partition_ok logs db' pr' q ((cursor(p := cursor p + 1)) q)" for q
  proof (cases "q = p")
    case True
    have "next_sequence (map_of (pr_flushed pr') p) = Suc (cursor p)" "map_of (pr_flushed pr') p = map_of (pg_checkpoints db') p"
      using next_sequence_of_nat [OF small] new(2) by (simp_all add: pr' update_conv')
    moreover have "quiet logs p (handled_to (worker_of pr' p) p) (Suc (cursor p))" "handled_to (worker_of pr' p) p \<le> Suc (cursor p)"
      using handled [of p] quiet upper(1) by (auto simp: quiet_def)
    ultimately show ?thesis
      using True i(1) new(4) by (simp add: partition_ok_def)
  next
    case False
    then show ?thesis
      using part [of q] none [of "q mod pr_count pr"] handled [of q] new(5) [OF False]
      by (simp add: partition_ok_def same_at_def committed_def pr' update_conv')
  qed
  moreover have "distinct (map fst (pr_flushed pr'))"
    using ok by (simp add: pr' processor_ok_def distinct_update)
  ultimately show ?thesis
    using workers db_ok' by (simp add: processor_ok_def)
qed

lemma sys_step_ok:
  assumes ok: "system_ok handler logs rows s" and len: "\<forall>p. length (logs p) \<le> 2 ^ 63" and "benign l s"
    and run: "sys_step handler debug config logs l s = Some s'"
  shows "system_ok handler logs rows s'"
proof (cases l)
  case (Deliver p f)
  then obtain pr where pr: "sy_processor s = Some pr" "sy_cursor s p < length (logs p)"
    using run by (auto split: option.splits if_splits)
  then obtain stream name d where m: "logs p ! sy_cursor s p = Decoded stream name d"
    using run Deliver by (cases "logs p ! sy_cursor s p") auto
  obtain db pr' res where h: "processor_handle_event handler debug f (event_at p (sy_cursor s p) stream name d) (sy_db s) pr = (db, pr', res)"
    by (cases "processor_handle_event handler debug f (event_at p (sy_cursor s p) stream name d) (sy_db s) pr")
  have "processor_ok handler logs rows (sy_db s) pr (sy_cursor s)" "\<forall>p. db_ok handler logs rows (sy_db s) p"
    using ok pr by (simp_all add: system_ok_def)
  from deliver_ok [OF this len pr(2) m assms(3) [unfolded Deliver] h] show ?thesis
    using run Deliver pr m h by (cases res) (auto simp: system_ok_def)
next
  case (DeliverRaw p f)
  then obtain pr where pr: "sy_processor s = Some pr" "sy_cursor s p < length (logs p)"
    using run by (auto split: option.splits if_splits)
  then obtain stream name msg where m: "logs p ! sy_cursor s p = Undecodable stream name msg"
    using run DeliverRaw by (cases "logs p ! sy_cursor s p") auto
  let ?event = "event_at p (sy_cursor s p) stream name ()"
  obtain db pr' res where h: "dead_letter_undecodable f ?event msg (sy_db s) pr = (db, pr', res)"
    by (cases "dead_letter_undecodable f ?event msg (sy_db s) pr")
  have pre: "processor_ok handler logs rows (sy_db s) pr (sy_cursor s)" "\<forall>p. db_ok handler logs rows (sy_db s) p"
    using ok pr by (simp_all add: system_ok_def)
  have idle: "wk_tx (worker_of pr p) = None"
    using assms(3) DeliverRaw pr by simp
  show ?thesis
  proof (cases res)
    case (Inl err)
    then have "db = sy_db s" "pr' = pr"
      using h by (auto simp: dead_letter_undecodable_def Let_def split: if_splits option.splits)
    then show ?thesis
      using run DeliverRaw pr m h Inl pre new_epoch_ok [OF pre(1) len] by (auto simp: system_ok_def)
  next
    case (Inr u)
    then show ?thesis
      using undecodable_ok [OF pre len pr(2) _ idle, of ?event f msg db pr'] run DeliverRaw pr m h
      by (auto simp: system_ok_def event_at_def)
  qed
next
  case (Tick i fs)
  then obtain pr w where pr: "sy_processor s = Some pr" "map_of (pr_workers pr) i = Some w"
    using run by (auto split: option.splits)
  obtain db w' res where h: "flush_retry (fst fs) (snd fs) (sy_db s) w = (db, w', res)"
    by (cases "flush_retry (fst fs) (snd fs) (sy_db s) w")
  have "processor_ok handler logs rows (sy_db s) pr (sy_cursor s)" "\<forall>p. db_ok handler logs rows (sy_db s) p"
    using ok pr by (simp_all add: system_ok_def)
  from tick_ok [OF this pr(2) _ h] show ?thesis
    using run Tick pr h assms(3) by (cases res) (auto simp: system_ok_def)
next
  case NewEpoch
  then show ?thesis
    using run ok new_epoch_ok [OF _ len] by (auto simp: system_ok_def split: option.splits)
next
  case Restart
  then obtain m where "processor_new (pg_checkpoints (sy_db s)) = Ok m"
    using run by (cases config) (auto split: sum.splits)
  then show ?thesis
    using run Restart ok restart_ok [OF _ len, of handler rows "sy_db s" m]
    by (cases config) (auto simp: system_ok_def Let_def)
qed

lemma sys_run_ok:
  assumes "system_ok handler logs rows s" "\<forall>p. length (logs p) \<le> 2 ^ 63" "benign_run handler debug config logs ls s"
    and "sys_run handler debug config logs ls s = Some s'"
  shows "system_ok handler logs rows s'"
  using assms(1,3,4)
proof (induction ls arbitrary: s)
  case (Cons l ls)
  then obtain s1 where step: "sys_step handler debug config logs l s = Some s1"
    by (auto simp: Option.bind_eq_Some_conv)
  from sys_step_ok [OF Cons.prems(1) assms(2) _ step] have "system_ok handler logs rows s1"
    using Cons.prems(2) by simp
  then show ?case
    using Cons.IH [of s1] Cons.prems step by simp
qed simp

lemma empty_run_ok:
  assumes "\<forall>p. length (logs p) \<le> 2 ^ 63" "benign_run handler debug config logs ls (empty_system rows)"
    and "sys_run handler debug config logs ls (empty_system rows) = Some s"
  shows "committed (sy_db s) p \<le> length (logs p)"
    "projected handler logs (dead_of (sy_db s)) p (rows p) (committed (sy_db s) p) = Some (pg_rows (sy_db s) p)"
proof -
  have "system_ok handler logs rows (empty_system rows)"
    by (simp add: system_ok_def empty_system_def db_ok_def agrees_def committed_def next_sequence_def dead_of_def)
  then have "system_ok handler logs rows s"
    using sys_run_ok [OF _ assms] by simp
  then show "committed (sy_db s) p \<le> length (logs p)"
    "projected handler logs (dead_of (sy_db s)) p (rows p) (committed (sy_db s) p) = Some (pg_rows (sy_db s) p)"
    by (simp_all add: system_ok_def db_ok_def agrees_def)
qed


section \<open>Runs\<close>

text \<open>A projection that lists the events of each partition and has no place for the number 0.\<close>

definition sample_handler :: "nat partition_event \<Rightarrow> nat list \<Rightarrow> event_handler_error + nat list" where
  "sample_handler event row =
     (if pe_data event = 0 then Err (HandlerError (SqlDatabase (Some ''23502'') None)) else Ok (row @ [pe_data event]))"

definition sample_logs :: "u16 \<Rightarrow> nat message list" where
  "sample_logs p = (if p = 0 then [Decoded ''s'' ''Listed'' 7, Decoded ''s'' ''Listed'' 0, Decoded ''s'' ''Listed'' 8]
     else if p = 1 then [Decoded ''t'' ''Listed'' 7, Undecodable ''t'' ''Listed'' ''bad payload''] else [])"

definition no_attempt_faults :: attempt_faults where
  "no_attempt_faults = \<lparr>af_begin = None, af_savepoint = None, af_handler = None, af_rollback = None, af_release = None\<rparr>"

definition no_flush_faults :: flush_faults where
  "no_flush_faults = \<lparr>ff_write = (\<lambda>_. None), ff_commit = None\<rparr>"

definition no_faults :: event_faults where
  "no_faults = \<lparr>ef_epseq = Ok (Some 9), ef_attempt = no_attempt_faults, ef_retries = [], ef_dead_begin = None,
     ef_dead_row = None, ef_dead_checkpoint = None, ef_dead_commit = None, ef_dead_flush = (no_flush_faults, []),
     ef_flush = (no_flush_faults, [])\<rparr>"

definition broken :: sqlx_error where
  "broken = SqlOther ''connection closed''"

definition sample_run :: "label list \<Rightarrow> nat list system option" where
  "sample_run ls = sys_run sample_handler (\<lambda>_. ''poison'') (16, 10, 10000) sample_logs ls (empty_system (\<lambda>_. []))"

text \<open>The messages of a partition that count as handled, and its rows.\<close>

definition outcome :: "u16 \<Rightarrow> nat list system option \<Rightarrow> (nat \<times> nat list) option" where
  "outcome p = map_option (\<lambda>s. (committed (sy_db s) p, pg_rows (sy_db s) p))"



end
