(* ===== verification/Projector_Contract.thy ===== *)
theory Projector_Contract
  imports Read_Model Projection_Runs
begin

text \<open>
  What it means that a projector follows its aggregate: after any interleaving of the streams of an aggregate, the
  rows of every identifier show the state that its stream replays to. \<open>projected_aggregate\<close> adds to the version
  and tombstone contracts of an aggregate how its events name the aggregate; \<open>projector\<close> adds the projector and
  the rows of a state, with one law for creates and one for updates.
\<close>

definition own :: "('e \<Rightarrow> 'k) \<Rightarrow> 'k \<Rightarrow> 'e list \<Rightarrow> 'e list" where
  "own eid k log = filter (\<lambda>e. eid e = k) log"

definition rows_of :: "('s \<Rightarrow> 'e \<Rightarrow> 's) \<Rightarrow> 's \<Rightarrow> ('s \<Rightarrow> 'v) \<Rightarrow> 'v \<Rightarrow> 'e list \<Rightarrow> 'v" where
  "rows_of ap s0 shown nothing es = (if es = [] then nothing else shown (replay ap s0 es))"

text \<open>A prefix of a stream that dispatched commands produce.\<close>

definition stream_prefix ::
  "(expected_version \<Rightarrow> current_version \<Rightarrow> bool) \<Rightarrow> ('c \<Rightarrow> expected_version option) \<Rightarrow>
   ('s \<Rightarrow> 'c \<Rightarrow> bool) \<Rightarrow> ('s \<Rightarrow> 'e \<Rightarrow> 's) \<Rightarrow> ('s \<Rightarrow> 'c \<Rightarrow> 'err + 'e list) \<Rightarrow> 's \<Rightarrow> 'e list \<Rightarrow> bool" where
  "stream_prefix sat expect idem ap hnd s0 es \<longleftrightarrow> (\<exists>rest. history sat expect idem ap hnd s0 (es @ rest))"

text \<open>The constraints of the database accept every event when its turn comes.\<close>

fun accepted_run :: "('e \<Rightarrow> 'm \<Rightarrow> 'x + 'm) \<Rightarrow> ('m \<Rightarrow> 'e \<Rightarrow> bool) \<Rightarrow> 'e list \<Rightarrow> 'm \<Rightarrow> bool" where
  "accepted_run project accepts [] m \<longleftrightarrow> True"
| "accepted_run project accepts (e # log) m \<longleftrightarrow>
     accepts m e \<and> (case project e m of Inl _ \<Rightarrow> True | Inr m' \<Rightarrow> accepted_run project accepts log m')"

text \<open>
  \<open>composite_handle\<close> of a projector for one entity: events of other categories change nothing, a malformed
  identifier or payload is an error of the event.
\<close>

datatype 'e payload = EntityEvent 'e | MalformedId string | MalformedEvent string | OtherCategory

definition composite_handle ::
  "('e \<Rightarrow> 'm \<Rightarrow> sqlx_error + 'm) \<Rightarrow> 'e payload partition_event \<Rightarrow> 'm \<Rightarrow> event_handler_error + 'm" where
  "composite_handle project event m =
     (case pe_data event of
        EntityEvent e \<Rightarrow> map_err HandlerError (project e m)
      | MalformedId i \<Rightarrow> Err (ParseID i)
      | MalformedEvent category \<Rightarrow> Err (DeserializeEvent category (pe_name event))
      | OtherCategory \<Rightarrow> Ok m)"

fun entity_event :: "'e payload message \<Rightarrow> 'e list" where
  "entity_event (Decoded _ _ (EntityEvent e)) = [e]"
| "entity_event _ = []"

definition entity_events :: "'e payload message list \<Rightarrow> 'e list" where
  "entity_events msgs = concat (map entity_event msgs)"

lemma entity_events_simps [simp]:
  "entity_events [] = []" "entity_events (xs @ ys) = entity_events xs @ entity_events ys"
  "entity_events [x] = entity_event x"
  by (simp_all add: entity_events_def)

lemma for_each_append:
  "for_each f (xs @ ys) m = and_then (for_each f xs m) (for_each f ys)"
proof (induction xs arbitrary: m)
  case (Cons x xs)
  then show ?case
    by (cases "f x m") simp_all
qed simp

lemma map_err_eq_Inr [simp]: "map_err f r = Inr y \<longleftrightarrow> r = Inr y"
  by (cases r) simp_all

lemma projected_entity_events:
  assumes "projected (composite_handle project) logs dead p m n = Some r" "n \<le> length (logs p)"
    and "\<And>i. i < n \<Longrightarrow> (p, of_nat i) \<in> dead \<Longrightarrow> entity_event (logs p ! i) = []"
  shows "for_each project (entity_events (take n (logs p))) m = Ok r"
  using assms
proof (induction n arbitrary: r)
  case (Suc n)
  then obtain q where q: "for_each project (entity_events (take n (logs p))) m = Ok q"
    and step: "(case logs p ! n of Undecodable _ _ _ \<Rightarrow> Some q
      | Decoded stream name d \<Rightarrow> if (p, of_nat n) \<in> dead then Some q
          else case composite_handle project (event_at p n stream name d) q of Inr r' \<Rightarrow> Some r' | Inl _ \<Rightarrow> None) = Some r"
    by (auto simp: Option.bind_eq_Some_conv)
  have "for_each project (entity_event (logs p ! n)) q = Ok r"
    using step Suc.prems(3) [of n]
    by (cases "logs p ! n" rule: entity_event.cases)
      (auto simp: composite_handle_def event_at_def split: if_splits sum.splits payload.splits)
  then show ?case
    using Suc.prems(2) q by (simp add: take_Suc_conv_app_nth for_each_append)
qed simp

text \<open>
  \<open>read_model_contract\<close>: projecting any interleaving of streams onto tables without rows of the aggregate succeeds, and
  the rows then show the streams, on logs that satisfy \<open>accepted\<close>. \<open>committed_contract\<close>: the rows that a run of the
  projection processor has committed show the streams up to the checkpoint.
\<close>

definition read_model_contract ::
  "(expected_version \<Rightarrow> current_version \<Rightarrow> bool) \<Rightarrow> ('c \<Rightarrow> expected_version option) \<Rightarrow>
   ('s \<Rightarrow> 'c \<Rightarrow> bool) \<Rightarrow> ('s \<Rightarrow> 'e \<Rightarrow> 's) \<Rightarrow> ('s \<Rightarrow> 'c \<Rightarrow> 'err + 'e list) \<Rightarrow> 's \<Rightarrow>
   ('e \<Rightarrow> 'k) \<Rightarrow> nat \<Rightarrow> ('e \<Rightarrow> 'm \<Rightarrow> sqlx_error + 'm) \<Rightarrow> ('k \<Rightarrow> 'm \<Rightarrow> 'v) \<Rightarrow> ('s \<Rightarrow> 'v) \<Rightarrow> 'v \<Rightarrow>
   ('e list \<Rightarrow> 'm \<Rightarrow> bool) \<Rightarrow> bool" where
  "read_model_contract sat expect idem ap hnd s0 eid bound project view shown nothing accepted \<longleftrightarrow>
     (\<forall>log m0. (\<forall>k. stream_prefix sat expect idem ap hnd s0 (own eid k log) \<and> length (own eid k log) \<le> bound) \<longrightarrow>
        accepted log m0 \<longrightarrow> (\<forall>k. view k m0 = nothing) \<longrightarrow>
        (\<exists>m. for_each project log m0 = Ok m \<and> (\<forall>k. view k m = rows_of ap s0 shown nothing (own eid k log))))"

definition committed_contract ::
  "(expected_version \<Rightarrow> current_version \<Rightarrow> bool) \<Rightarrow> ('c \<Rightarrow> expected_version option) \<Rightarrow>
   ('s \<Rightarrow> 'c \<Rightarrow> bool) \<Rightarrow> ('s \<Rightarrow> 'e \<Rightarrow> 's) \<Rightarrow> ('s \<Rightarrow> 'c \<Rightarrow> 'err + 'e list) \<Rightarrow> 's \<Rightarrow>
   ('e \<Rightarrow> 'k) \<Rightarrow> nat \<Rightarrow> ('e \<Rightarrow> 'm \<Rightarrow> sqlx_error + 'm) \<Rightarrow> ('k \<Rightarrow> 'm \<Rightarrow> 'v) \<Rightarrow> ('s \<Rightarrow> 'v) \<Rightarrow> 'v \<Rightarrow>
   ('e list \<Rightarrow> 'm \<Rightarrow> bool) \<Rightarrow> bool" where
  "committed_contract sat expect idem ap hnd s0 eid bound project view shown nothing accepted \<longleftrightarrow>
     (\<forall>debug config logs ls rows s p. (\<forall>p. length (logs p) \<le> 2 ^ 63) \<longrightarrow>
        benign_run (composite_handle project) debug config logs ls (empty_system rows) \<longrightarrow>
        sys_run (composite_handle project) debug config logs ls (empty_system rows) = Some s \<longrightarrow>
        (\<forall>k. stream_prefix sat expect idem ap hnd s0 (own eid k (entity_events (logs p))) \<and>
           length (own eid k (entity_events (logs p))) \<le> bound) \<longrightarrow>
        accepted (entity_events (take (committed (sy_db s) p) (logs p))) (rows p) \<longrightarrow>
        (\<forall>k. view k (rows p) = nothing) \<longrightarrow>
        (\<forall>i < length (logs p). (p, of_nat i) \<in> dead_of (sy_db s) \<longrightarrow> entity_event (logs p ! i) = []) \<longrightarrow>
        (\<forall>k. view k (pg_rows (sy_db s) p) =
           rows_of ap s0 shown nothing (own eid k (entity_events (take (committed (sy_db s) p) (logs p))))))"

definition unique_numbers :: "('e \<Rightarrow> 'u option) \<Rightarrow> ('e \<Rightarrow> 'k) \<Rightarrow> 'e list \<Rightarrow> bool" where
  "unique_numbers number eid log \<longleftrightarrow>
     list_all (\<lambda>e. list_all (\<lambda>e'. number e = None \<or> number e \<noteq> number e' \<or> eid e = eid e') log) log"

lemma own_simps [simp]:
  "own eid k [] = []"
  "own eid k (log @ [e]) = (if eid e = k then own eid k log @ [e] else own eid k log)"
  by (simp_all add: own_def)

lemma accepted_run_append:
  "accepted_run project accepts (xs @ ys) m \<longleftrightarrow>
     accepted_run project accepts xs m \<and>
     (case for_each project xs m of Inl _ \<Rightarrow> True | Inr m' \<Rightarrow> accepted_run project accepts ys m')"
  by (induction xs arbitrary: m) (auto split: sum.splits)

lemma accepted_always:
  "(\<And>m e. accepts m e) \<Longrightarrow> accepted_run project accepts log m"
  by (induction log arbitrary: m) (auto split: sum.splits)

lemma history_prefix: "history sat expect idem ap hnd s0 es \<Longrightarrow> stream_prefix sat expect idem ap hnd s0 es"
  unfolding stream_prefix_def by (rule exI [of _ "[]"]) simp

lemma stream_prefix_take:
  "stream_prefix sat expect idem ap hnd s0 (es @ es') \<Longrightarrow> stream_prefix sat expect idem ap hnd s0 es"
  by (auto simp: stream_prefix_def)

text \<open>A projector that follows a stream event by event follows all of them.\<close>

lemma read_model_by_steps:
  assumes step: "\<And>es e m. stream_prefix sat expect idem ap hnd s0 (es @ [e]) \<Longrightarrow> length es < bound \<Longrightarrow> accepts m e \<Longrightarrow>
      view (eid e) m = rows_of ap s0 shown nothing es \<Longrightarrow>
      \<exists>m'. project e m = Ok m' \<and> view (eid e) m' = rows_of ap s0 shown nothing (es @ [e]) \<and>
        (\<forall>k. k \<noteq> eid e \<longrightarrow> view k m' = view k m)"
    and accepted: "\<And>log m. accepted log m \<Longrightarrow> accepted_run project accepts log m"
  shows "read_model_contract sat expect idem ap hnd s0 eid bound project view shown nothing accepted"
proof -
  have "\<exists>m. for_each project log m0 = Ok m \<and> (\<forall>k. view k m = rows_of ap s0 shown nothing (own eid k log))"
    if "\<And>k. stream_prefix sat expect idem ap hnd s0 (own eid k log)" "\<And>k. length (own eid k log) \<le> bound"
      "accepted_run project accepts log m0" and empty: "\<And>k. view k m0 = nothing" for log m0
    using that(1-3)
  proof (induction log rule: rev_induct)
    case Nil
    show ?case
      using empty by (simp add: rows_of_def)
  next
    case (snoc e log)
    have "stream_prefix sat expect idem ap hnd s0 (own eid k log)" for k
      using snoc.prems(1) [of k] stream_prefix_take by (fastforce split: if_splits)
    moreover have "length (own eid k log) \<le> bound" for k
      using snoc.prems(2) [of k] by (simp split: if_splits)
    ultimately obtain m where m: "for_each project log m0 = Ok m"
      and view: "\<And>k. view k m = rows_of ap s0 shown nothing (own eid k log)"
      using snoc by (auto simp: accepted_run_append)
    have "accepts m e"
      using snoc.prems(3) m by (simp add: accepted_run_append)
    then obtain m' where "project e m = Ok m'"
      "view (eid e) m' = rows_of ap s0 shown nothing (own eid (eid e) log @ [e])"
      "\<forall>k. k \<noteq> eid e \<longrightarrow> view k m' = view k m"
      using step [of "own eid (eid e) log" e m] snoc.prems(1,2) [of "eid e"] view by auto
    then show ?case
      using m view by (auto simp: for_each_append)
  qed
  then show ?thesis
    using accepted by (simp add: read_model_contract_def)
qed

lemma committed_of_read_model:
  fixes project :: "'e \<Rightarrow> 'm \<Rightarrow> sqlx_error + 'm"
  assumes contract: "read_model_contract sat expect idem ap hnd s0 eid bound project view shown nothing accepted"
  shows "committed_contract sat expect idem ap hnd s0 eid bound project view shown nothing accepted"
  unfolding committed_contract_def
proof (intro allI impI)
  fix debug config ls p k and logs :: "u16 \<Rightarrow> 'e payload message list" and rows :: "u16 \<Rightarrow> 'm" and s :: "'m system"
  let ?handler = "composite_handle project" and ?n = "committed (sy_db s) p"
  let ?log = "entity_events (take ?n (logs p))" and ?rest = "entity_events (drop ?n (logs p))"
  assume run: "\<forall>p. length (logs p) \<le> 2 ^ 63" "benign_run ?handler debug config logs ls (empty_system rows)"
      "sys_run ?handler debug config logs ls (empty_system rows) = Some s"
    and streams: "\<forall>k. stream_prefix sat expect idem ap hnd s0 (own eid k (entity_events (logs p))) \<and>
      length (own eid k (entity_events (logs p))) \<le> bound"
    and accepted: "accepted ?log (rows p)" "\<forall>k. view k (rows p) = nothing"
    and live: "\<forall>i < length (logs p). (p, of_nat i) \<in> dead_of (sy_db s) \<longrightarrow> entity_event (logs p ! i) = []"
  have n: "?n \<le> length (logs p)"
    using empty_run_ok(1) [OF run] .
  have "entity_events (logs p) = ?log @ ?rest"
    by (metis append_take_drop_id entity_events_simps(2))
  then have "own eid k (entity_events (logs p)) = own eid k ?log @ own eid k ?rest" for k
    by (simp add: own_def)
  then have "\<forall>k. stream_prefix sat expect idem ap hnd s0 (own eid k ?log) \<and> length (own eid k ?log) \<le> bound"
    using streams stream_prefix_take by (metis le_add1 le_trans length_append)
  then have "\<exists>m. for_each project ?log (rows p) = Ok m \<and> (\<forall>k. view k m = rows_of ap s0 shown nothing (own eid k ?log))"
    using contract accepted unfolding read_model_contract_def by blast
  moreover have "for_each project ?log (rows p) = Ok (pg_rows (sy_db s) p)"
    using projected_entity_events [OF empty_run_ok(2) [OF run] n] live n by simp
  ultimately show "view k (pg_rows (sy_db s) p) = rows_of ap s0 shown nothing (own eid k ?log)"
    by simp
qed

text \<open>
  \<open>created\<close> recognises the events that open a stream, \<open>deletes\<close> those that close it; \<open>sound\<close> is what else holds of an
  event and the state before it, on streams of at most \<open>bound\<close> events.
\<close>

locale projected_aggregate =
  versioned_aggregate ap hnd idem expect s0 state_version event_version +
  frozen_aggregate ap hnd idem expect s0 gone
  for ap :: "'s \<Rightarrow> 'e \<Rightarrow> 's"
    and hnd :: "'s \<Rightarrow> 'c \<Rightarrow> 'err + 'e list"
    and idem :: "'s \<Rightarrow> 'c \<Rightarrow> bool"
    and expect :: "'c \<Rightarrow> expected_version option"
    and s0 :: 's
    and state_version :: "'s \<Rightarrow> aggregate_version"
    and event_version :: "'e \<Rightarrow> aggregate_version"
    and gone :: "'s \<Rightarrow> bool" +
  fixes created :: "'e \<Rightarrow> bool"
    and deletes :: "'e \<Rightarrow> bool"
    and eid :: "'e \<Rightarrow> 'k"
    and sid :: "'s \<Rightarrow> 'k"
    and sound :: "'s \<Rightarrow> 'e \<Rightarrow> bool"
    and bound :: nat
  assumes create_events:
      "expect c = Some EmptyVersion \<Longrightarrow> hnd s0 c = Ok new \<Longrightarrow> e \<in> set new \<Longrightarrow> created e"
    and update_events:
      "expect c = Some ev \<Longrightarrow> ev \<noteq> EmptyVersion \<Longrightarrow> hnd s c = Ok new \<Longrightarrow> e \<in> set new \<Longrightarrow>
       \<not> created e \<and> eid e = sid s"
    and apply_id: "sid (ap s e) = (if created e then eid e else sid s)"
    and apply_gone: "gone (ap s e) \<longleftrightarrow> gone s \<or> deletes e"
    and deletes_last: "hnd s c = Ok new \<Longrightarrow> e \<in> set (butlast new) \<Longrightarrow> \<not> deletes e"
    and sound_events:
      "expected_version_laws sat \<Longrightarrow> history sat expect idem ap hnd s0 es \<Longrightarrow> expect c = Some ev \<Longrightarrow>
       sat ev (stream_current es) \<Longrightarrow> \<not> idem (replay ap s0 es) c \<Longrightarrow> hnd (replay ap s0 es) c = Ok new \<Longrightarrow>
       k < length new \<Longrightarrow> length es + k < bound \<Longrightarrow> sound (foldl ap (replay ap s0 es) (take k new)) (new ! k)"
    and bound_fits: "bound \<le> 2 ^ 63 - 1"
begin

definition follows :: "'e list \<Rightarrow> 'e \<Rightarrow> bool" where
  "follows es e \<longleftrightarrow>
     (created e \<longleftrightarrow> es = []) \<and> sound (replay ap s0 es) e \<and> event_version e = of_nat (Suc (length es)) \<and>
     (es \<noteq> [] \<longrightarrow> eid e = sid (replay ap s0 es) \<and> \<not> gone (replay ap s0 es) \<and>
        state_version (replay ap s0 es) = of_nat (length es))"

lemma foldl_sid: "\<forall>e \<in> set es. \<not> created e \<Longrightarrow> sid (foldl ap s es) = sid s"
  by (induction es arbitrary: s) (simp_all add: apply_id)

lemma foldl_gone: "\<forall>e \<in> set es. \<not> deletes e \<Longrightarrow> \<not> gone s \<Longrightarrow> \<not> gone (foldl ap s es)"
  by (induction es arbitrary: s) (simp_all add: apply_gone)

lemma take_butlast: "k < length xs \<Longrightarrow> set (take k xs) \<subseteq> set (butlast xs)"
  by (metis Suc_leI butlast_conv_take length_butlast set_take_subset_set_take diff_Suc_1 diff_le_mono)

lemma update_follows:
  assumes laws: "expected_version_laws sat" and h: "history sat expect idem ap hnd s0 es" and "es \<noteq> []"
    and c: "expect c = Some ev" "sat ev (stream_current es)" "\<not> idem (replay ap s0 es) c"
      "hnd (replay ap s0 es) c = Ok new" and k: "k < length new" "length es + k < bound"
  shows "follows (es @ take k new) (new ! k)"
proof -
  let ?s = "replay ap s0 es"
  have ne: "ev \<noteq> EmptyVersion"
    using c(2) laws \<open>es \<noteq> []\<close> by (auto simp: sat_simps)
  then have ev: "\<And>e. e \<in> set new \<Longrightarrow> \<not> created e \<and> eid e = sid ?s"
    using update_events [OF c(1) _ c(4)] by blast
  then have sid: "sid (foldl ap ?s (take k new)) = sid ?s"
    by (intro foldl_sid) (auto dest: in_set_takeD)
  have "\<not> gone ?s"
    using frozen_silent [of ?s c new] c k ne by auto
  moreover have "\<forall>e \<in> set (take k new). \<not> deletes e"
    using deletes_last [OF c(4)] take_butlast [OF k(1)] by blast
  ultimately have gone: "\<not> gone (foldl ap ?s (take k new))"
    by (rule foldl_gone [rotated])
  have v: "state_version ?s = of_nat (length es)"
    using version_is_length [OF laws h \<open>es \<noteq> []\<close>] .
  have cons: "consecutive (of_nat (length es)) (map event_version new)"
    using update_versions [OF c(1) ne c(4)] v by simp
  have version: "event_version (new ! j) = of_nat (Suc (length es + j))" if "j < length new" for j
    using consecutive_nth [OF cons, of j] that by simp
  have sv: "state_version (foldl ap ?s (take k new)) = of_nat (length es + k)"
  proof (cases k)
    case 0
    then show ?thesis
      using v by simp
  next
    case (Suc j)
    then have "state_version (foldl ap ?s (take k new)) = event_version (new ! j)"
      using k(1) by (simp add: take_Suc_conv_app_nth apply_version)
    then show ?thesis
      using version [of j] Suc k(1) by simp
  qed
  show ?thesis
    using ev [of "new ! k"] sid gone sv version [OF k(1)] sound_events [OF laws h c k] \<open>es \<noteq> []\<close> k(1)
    by (simp add: follows_def)
qed

lemma create_follows:
  assumes laws: "expected_version_laws sat"
    and c: "expect c = Some ev" "sat ev (stream_current ([] :: 'e list))" "\<not> idem s0 c" "hnd s0 c = Ok new"
    and k: "k < length new" "k < bound"
  shows "follows (take k new) (new ! k)"
proof -
  have ev: "ev = EmptyVersion"
  proof (cases ev)
    case AnyVersion
    then show ?thesis
      using any_on_initial [of c new] c k by simp
  qed (use c laws in \<open>auto simp: sat_simps stream_current_def\<close>)
  then have "map event_version new = [INITIAL]"
    using create_versions c by blast
  then have "new = [new ! 0]" "event_version (new ! 0) = INITIAL"
    by (auto simp: map_eq_Cons_conv)
  moreover have "new ! 0 \<in> set new"
    using k(1) by (cases new) simp_all
  then have "created (new ! 0)"
    using create_events [of c new "new ! 0"] c ev by blast
  moreover have "sound s0 (new ! 0)"
    using sound_events [OF laws history_Nil c(1,2), of new 0] c k by (cases new) simp_all
  moreover have "k = 0"
    using calculation k by (metis length_Cons less_Suc0 list.size(3) One_nat_def)
  ultimately show ?thesis
    by (simp add: follows_def INITIAL_def)
qed

lemma history_follows:
  assumes laws: "expected_version_laws sat" and "history sat expect idem ap hnd s0 es"
  shows "n < length es \<Longrightarrow> n < bound \<Longrightarrow> follows (take n es) (es ! n)"
  using assms(2)
proof (induction arbitrary: n rule: history_induct)
  case (step es c ev new)
  show ?case
  proof (cases "n < length es")
    case True
    then show ?thesis
      using step by (simp add: nth_append)
  next
    case False
    then obtain k where n: "n = length es + k"
      by (metis le_Suc_ex not_less)
    then have k: "k < length new" "length es + k < bound"
      using step.prems by simp_all
    show ?thesis
    proof (cases "es = []")
      case True
      then show ?thesis
        using create_follows [OF laws, of c ev new k] step.hyps k n by simp
    next
      case False
      then show ?thesis
        using update_follows [OF laws step.hyps(1) False step.hyps(2-5) k] n by (simp add: nth_append)
    qed
  qed
qed simp

lemma prefix_follows:
  assumes "expected_version_laws sat" "stream_prefix sat expect idem ap hnd s0 (es @ [e])" "length es < bound"
  shows "follows es e"
proof -
  obtain rest where "history sat expect idem ap hnd s0 (es @ e # rest)"
    using assms(2) by (auto simp: stream_prefix_def)
  from history_follows [OF assms(1) this, of "length es"] show ?thesis
    using assms(3) by simp
qed

lemma follows_newer:
  assumes "follows es e" "es \<noteq> []" "length es < bound"
  shows "0 < sint (state_version (replay ap s0 es))" "sint (state_version (replay ap s0 es)) < sint (event_version e)"
proof -
  have "Suc (length es) < 2 ^ 63"
    using assms(3) bound_fits by simp
  then have "sint (of_nat (Suc (length es)) :: 64 word) = int (Suc (length es))"
      "sint (of_nat (length es) :: 64 word) = int (length es)"
    by (simp_all add: signed_of_nat signed_take_bit_int_eq_self del: of_nat_Suc)
  then show "0 < sint (state_version (replay ap s0 es))"
      "sint (state_version (replay ap s0 es)) < sint (event_version e)"
    using assms(1,2) by (simp_all add: follows_def)
qed

end

text \<open>
  The projector: \<open>view k m\<close> is what the tables hold of the aggregate \<open>k\<close>, \<open>shown s\<close> what they should hold for its
  state \<open>s\<close>, and \<open>accepts\<close> says that the constraints on other rows let an event through.
\<close>

locale projector =
  projected_aggregate ap hnd idem expect s0 state_version event_version gone created deletes eid sid sound bound
  for ap :: "'s \<Rightarrow> 'e \<Rightarrow> 's"
    and hnd :: "'s \<Rightarrow> 'c \<Rightarrow> 'err + 'e list"
    and idem :: "'s \<Rightarrow> 'c \<Rightarrow> bool"
    and expect :: "'c \<Rightarrow> expected_version option"
    and s0 :: 's
    and state_version :: "'s \<Rightarrow> aggregate_version"
    and event_version :: "'e \<Rightarrow> aggregate_version"
    and gone :: "'s \<Rightarrow> bool"
    and created :: "'e \<Rightarrow> bool"
    and deletes :: "'e \<Rightarrow> bool"
    and eid :: "'e \<Rightarrow> 'k"
    and sid :: "'s \<Rightarrow> 'k"
    and sound :: "'s \<Rightarrow> 'e \<Rightarrow> bool"
    and bound :: nat +
  fixes project :: "'e \<Rightarrow> 'm \<Rightarrow> sqlx_error + 'm"
    and view :: "'k \<Rightarrow> 'm \<Rightarrow> 'v"
    and shown :: "'s \<Rightarrow> 'v"
    and nothing :: 'v
    and accepts :: "'m \<Rightarrow> 'e \<Rightarrow> bool"
  assumes project_create:
      "created e \<Longrightarrow> sound s0 e \<Longrightarrow> accepts m e \<Longrightarrow> event_version e = 1 \<Longrightarrow> view (eid e) m = nothing \<Longrightarrow>
       \<exists>m'. project e m = Ok m' \<and> view (eid e) m' = shown (ap s0 e) \<and> (\<forall>k. k \<noteq> eid e \<longrightarrow> view k m' = view k m)"
    and project_update:
      "\<not> created e \<Longrightarrow> sound s e \<Longrightarrow> accepts m e \<Longrightarrow> \<not> gone s \<Longrightarrow> sid s = eid e \<Longrightarrow>
       0 < sint (state_version s) \<Longrightarrow> sint (state_version s) < sint (event_version e) \<Longrightarrow> view (eid e) m = shown s \<Longrightarrow>
       \<exists>m'. project e m = Ok m' \<and> view (eid e) m' = shown (ap s e) \<and> (\<forall>k. k \<noteq> eid e \<longrightarrow> view k m' = view k m)"
begin

lemma project_next:
  assumes "follows es e" "length es < bound" "accepts m e" "view (eid e) m = rows_of ap s0 shown nothing es"
  shows "\<exists>m'. project e m = Ok m' \<and> view (eid e) m' = rows_of ap s0 shown nothing (es @ [e]) \<and>
    (\<forall>k. k \<noteq> eid e \<longrightarrow> view k m' = view k m)"
proof (cases "es = []")
  case True
  then show ?thesis
    using project_create [of e m] assms by (simp add: follows_def rows_of_def replay_def)
next
  case False
  then show ?thesis
    using project_update [of e "replay ap s0 es" m] follows_newer [OF assms(1)] assms
    by (simp add: follows_def rows_of_def)
qed

lemma keeps_read_model_contract:
  assumes laws: "expected_version_laws sat" and "\<And>log m. accepted log m \<Longrightarrow> accepted_run project accepts log m"
  shows "read_model_contract sat expect idem ap hnd s0 eid bound project view shown nothing accepted"
proof (rule read_model_by_steps)
  fix es e m
  assume "stream_prefix sat expect idem ap hnd s0 (es @ [e])" "length es < bound" "accepts m e"
    "view (eid e) m = rows_of ap s0 shown nothing es"
  then show "\<exists>m'. project e m = Ok m' \<and> view (eid e) m' = rows_of ap s0 shown nothing (es @ [e]) \<and>
    (\<forall>k. k \<noteq> eid e \<longrightarrow> view k m' = view k m)"
    by (intro project_next prefix_follows [OF laws])
qed (rule assms(2))

lemma keeps_committed_contract:
  assumes "expected_version_laws sat" "\<And>log m. accepted log m \<Longrightarrow> accepted_run project accepts log m"
  shows "committed_contract sat expect idem ap hnd s0 eid bound project view shown nothing accepted"
  by (rule committed_of_read_model [OF keeps_read_model_contract]) (use assms in blast)+

end

text \<open>
  Constraints on other rows: references to tables that the projector does not write, and a unique number among the
  rows of a table, which only creates set. The claims on numbers make the numbers of the creates unique, so that
  the constraint lets every event through.
\<close>

locale numbered_projector =
  projector ap hnd idem expect s0 state_version event_version gone created deletes eid sid sound bound project view
    shown nothing accepts
  for ap :: "'s \<Rightarrow> 'e \<Rightarrow> 's"
    and hnd :: "'s \<Rightarrow> 'c \<Rightarrow> 'err + 'e list"
    and idem :: "'s \<Rightarrow> 'c \<Rightarrow> bool"
    and expect :: "'c \<Rightarrow> expected_version option"
    and s0 :: 's
    and state_version :: "'s \<Rightarrow> aggregate_version"
    and event_version :: "'e \<Rightarrow> aggregate_version"
    and gone :: "'s \<Rightarrow> bool"
    and created :: "'e \<Rightarrow> bool"
    and deletes :: "'e \<Rightarrow> bool"
    and eid :: "'e \<Rightarrow> 'k"
    and sid :: "'s \<Rightarrow> 'k"
    and sound :: "'s \<Rightarrow> 'e \<Rightarrow> bool"
    and bound :: nat
    and project :: "'e \<Rightarrow> 'm \<Rightarrow> sqlx_error + 'm"
    and view :: "'k \<Rightarrow> 'm \<Rightarrow> 'v"
    and shown :: "'s \<Rightarrow> 'v"
    and nothing :: 'v
    and accepts :: "'m \<Rightarrow> 'e \<Rightarrow> bool" +
  fixes refs :: "'m \<Rightarrow> 'e \<Rightarrow> bool"
    and table :: "'m \<Rightarrow> ('k \<times> 'r) list"
    and row_number :: "'r \<Rightarrow> 'u"
    and event_number :: "'e \<Rightarrow> 'u option"
  assumes accepts_free:
      "refs m e \<Longrightarrow> (\<And>j r. (j, r) \<in> set (table m) \<Longrightarrow> event_number e = Some (row_number r) \<Longrightarrow> j = eid e) \<Longrightarrow>
       accepts m e"
    and refs_kept: "project e m = Ok m' \<Longrightarrow> refs m e' \<Longrightarrow> refs m' e'"
    and rows_kept:
      "project e m = Ok m' \<Longrightarrow> (j, r) \<in> set (table m') \<Longrightarrow>
       (\<exists>r'. (j, r') \<in> set (table m) \<and> row_number r' = row_number r) \<or> j = eid e \<and> event_number e = Some (row_number r)"
begin

lemma unique_numbers_accepted:
  assumes "\<forall>e \<in> set log. refs m e"
    and "\<forall>e \<in> set (past @ log). \<forall>e' \<in> set (past @ log). event_number e \<noteq> None \<longrightarrow> event_number e = event_number e' \<longrightarrow>
      eid e = eid e'"
    and "\<forall>(j, r) \<in> set (table m). \<exists>e \<in> set past. eid e = j \<and> event_number e = Some (row_number r)"
  shows "accepted_run project accepts log m"
  using assms
proof (induction log arbitrary: m past)
  case (Cons e log)
  have "accepts m e"
  proof (rule accepts_free)
    show "refs m e"
      using Cons.prems(1) by simp
    fix j r
    assume "(j, r) \<in> set (table m)" and e: "event_number e = Some (row_number r)"
    then obtain e' where "e' \<in> set past" "eid e' = j" "event_number e' = Some (row_number r)"
      using Cons.prems(3) by blast
    then show "j = eid e"
      using Cons.prems(2) e by fastforce
  qed
  moreover have "accepted_run project accepts log m'" if m': "project e m = Ok m'" for m'
  proof (rule Cons.IH [of m' "past @ [e]"])
    show "\<forall>e' \<in> set log. refs m' e'"
      using Cons.prems(1) refs_kept [OF m'] by simp
    show "\<forall>e1 \<in> set ((past @ [e]) @ log). \<forall>e2 \<in> set ((past @ [e]) @ log). event_number e1 \<noteq> None \<longrightarrow>
        event_number e1 = event_number e2 \<longrightarrow> eid e1 = eid e2"
      using Cons.prems(2) by simp
    show "\<forall>(j, r) \<in> set (table m'). \<exists>e' \<in> set (past @ [e]). eid e' = j \<and> event_number e' = Some (row_number r)"
      using rows_kept [OF m'] Cons.prems(3) by fastforce
  qed
  ultimately show ?case
    by (simp split: sum.splits)
qed simp

lemma keeps_unique_contract:
  assumes "expected_version_laws sat"
  shows "read_model_contract sat expect idem ap hnd s0 eid bound project view shown nothing
    (\<lambda>log m. list_all (refs m) log \<and> unique_numbers event_number eid log \<and> table m = [])"
proof (rule keeps_read_model_contract [OF assms])
  fix log m
  assume "list_all (refs m) log \<and> unique_numbers event_number eid log \<and> table m = []"
  then show "accepted_run project accepts log m"
    by (intro unique_numbers_accepted [of log m "[]"]) (fastforce simp: unique_numbers_def list_all_iff)+
qed

end

end
