(* ===== verification/Projectors.thy ===== *)
theory Projectors
  imports Projector_Contract
begin

text \<open>
  The projectors without children follow their aggregates: the row of every season, block, episode, character,
  costume category, credential binding, AI configuration and shooting day shows the state of its stream.
  \<open><x>_event_id\<close> is the identifier that an event carries, \<open><x>_rows\<close> the row that shows a state.
\<close>

section \<open>Numbered aggregates\<close>

text \<open>
  Seasons, blocks and episodes have a number that is unique in their project. An event whose number is free is never
  skipped.
\<close>

definition number_free ::
  "('r \<Rightarrow> project_id \<times> i32) \<Rightarrow> uuid \<Rightarrow> (project_id \<times> i32) option \<Rightarrow> (uuid \<times> 'r) list \<Rightarrow> bool" where
  "number_free key i number t \<longleftrightarrow> \<not> list_ex (\<lambda>(j, r). j \<noteq> i \<and> number = Some (key r)) t"

lemma guarded_unique_cases:
  "guarded_insert c (unique_rows c key k row t t') write rm =
     Ok (if list_ex (\<lambda>(j, r). j \<noteq> k \<and> key r = key row) t then rm else write t')"
  by (simp add: guarded_insert_def unique_rows_def)

lemma set_upsert:
  "(j, r) \<in> set (upsert keep k row t) \<Longrightarrow>
     (j, r) \<in> set t \<or> j = k \<and> r = (case map_of t k of None \<Rightarrow> row | Some old \<Rightarrow> keep old row)"
proof -
  have "(j, r) \<in> set (AList.update k x t) \<Longrightarrow> (j, r) \<in> set t \<or> j = k \<and> r = x" for x
    by (induction t) (auto split: if_splits)
  then show "(j, r) \<in> set (upsert keep k row t) \<Longrightarrow> ?thesis"
    by (simp add: upsert_def)
qed

lemma set_update_row:
  "(j, r) \<in> set (update_row k f t) \<Longrightarrow> (j, r) \<in> set t \<or> (\<exists>r'. (j, r') \<in> set t \<and> r = f r')"
  unfolding update_row_def by (induction t) (auto split: if_splits)

fun season_event_id :: "season_event \<Rightarrow> uuid" where
  "season_event_id (SeasonCreated i _ _ _ _) = i"
| "season_event_id (SeasonRenamed i _ _) = i"
| "season_event_id (SeasonArchived i _) = i"

fun season_event_number :: "season_event \<Rightarrow> (project_id \<times> i32) option" where
  "season_event_number (SeasonCreated _ project number _ _) = Some (project, number)"
| "season_event_number _ = None"

definition season_rows :: "season \<Rightarrow> season_row option" where
  "season_rows s =
     Some \<lparr>sea_project = season_project_id s, sea_number = season_number s, sea_title = season_title s,
           sea_archived = season_archived s, sea_version = season_version s\<rparr>"

interpretation season_projection: numbered_projector
  season_apply season_handle never_idempotent season_expect "season_default fresh" season_version
  season_event_version "\<lambda>_. False" is_SeasonCreated "\<lambda>_. False" season_event_id season_id "\<lambda>_ _. True" "2 ^ 63 - 1"
  project_season "\<lambda>k m. map_of (rm_season m) k" season_rows None
  "\<lambda>m e. number_free (\<lambda>r. (sea_project r, sea_number r)) (season_event_id e) (season_event_number e) (rm_season m)"
  "\<lambda>_ _. True" rm_season "\<lambda>r. (sea_project r, sea_number r)" season_event_number for fresh
proof (unfold_locales, goal_cases)
  case (3 c new e)
  then show ?case
    by (cases c) (auto simp: handler_defs split: if_splits)
next
  case (4 c ev s new e)
  then show ?case
    by (cases c) (auto simp: handler_defs split: if_splits)
next
  case (5 s e)
  show ?case
    by (cases e) simp_all
next
  case (10 e m)
  then show ?case
    by (cases e) (auto simp: season_rows_def season_default_def number_free_def guarded_unique_cases list_ex_iff)
next
  case (11 e s m)
  then show ?case
    by (cases e) (simp_all add: season_rows_def)
next
  case (12 m e)
  then show ?case
    by (auto simp: number_free_def list_ex_iff)
next
  case (14 e m m' j r)
  then show ?case
    by (cases e) (auto simp: guarded_unique_cases split: if_splits option.splits
        dest!: set_upsert set_update_row, blast+)
qed simp_all

fun block_event_id :: "block_event \<Rightarrow> uuid" where
  "block_event_id (BlockCreated i _ _ _ _ _ _) = i"
| "block_event_id (BlockTimeSpanUpdated i _ _ _) = i"

fun block_event_number :: "block_event \<Rightarrow> (project_id \<times> i32) option" where
  "block_event_number (BlockCreated _ _ project number _ _ _) = Some (project, number)"
| "block_event_number _ = None"

definition block_rows :: "block \<Rightarrow> block_row option" where
  "block_rows s =
     Some \<lparr>blk_season = block_season_id s, blk_project = block_project_id s, blk_number = block_number s,
           blk_start = block_start_date s, blk_end = block_end_date s, blk_version = block_version s\<rparr>"

interpretation block_projection: numbered_projector
  block_apply block_handle never_idempotent block_expect "block_default fs fp" block_version
  block_event_version "\<lambda>_. False" is_BlockCreated "\<lambda>_. False" block_event_id block_id "\<lambda>_ _. True" "2 ^ 63 - 1"
  project_block "\<lambda>k m. map_of (rm_block m) k" block_rows None
  "\<lambda>m e. number_free (\<lambda>r. (blk_project r, blk_number r)) (block_event_id e) (block_event_number e) (rm_block m)"
  "\<lambda>_ _. True" rm_block "\<lambda>r. (blk_project r, blk_number r)" block_event_number for fs fp
proof (unfold_locales, goal_cases)
  case (3 c new e)
  then show ?case
    by (cases c) (auto simp: handler_defs split: if_splits)
next
  case (4 c ev s new e)
  then show ?case
    by (cases c) (auto simp: handler_defs split: if_splits)
next
  case (5 s e)
  show ?case
    by (cases e) simp_all
next
  case (10 e m)
  then show ?case
    by (cases e) (auto simp: block_rows_def block_default_def number_free_def guarded_unique_cases list_ex_iff)
next
  case (11 e s m)
  then show ?case
    by (cases e) (simp_all add: block_rows_def)
next
  case (12 m e)
  then show ?case
    by (auto simp: number_free_def list_ex_iff)
next
  case (14 e m m' j r)
  then show ?case
    by (cases e) (auto simp: guarded_unique_cases split: if_splits option.splits
        dest!: set_upsert set_update_row, blast+)
qed simp_all

fun episode_event_id :: "episode_event \<Rightarrow> uuid" where
  "episode_event_id (EpisodeCreated i _ _ _ _ _) = i"
| "episode_event_id (EpisodeRenamed i _ _) = i"
| "episode_event_id (EpisodeDeleted i _) = i"

fun episode_event_number :: "episode_event \<Rightarrow> (project_id \<times> i32) option" where
  "episode_event_number (EpisodeCreated _ _ project number _ _) = Some (project, number)"
| "episode_event_number _ = None"

definition episode_rows :: "episode \<Rightarrow> episode_row option" where
  "episode_rows s =
     (if episode_deleted s then None
      else Some \<lparr>epi_block = episode_block_id s, epi_project = episode_project_id s, epi_number = episode_number s,
                 epi_name = episode_name s, epi_version = episode_version s\<rparr>)"

interpretation episode_projection: numbered_projector
  episode_apply episode_handle never_idempotent episode_expect "episode_default fb fp" episode_version
  episode_event_version episode_deleted is_EpisodeCreated is_EpisodeDeleted episode_event_id episode_id
  "\<lambda>_ _. True" "2 ^ 63 - 1" project_episode "\<lambda>k m. map_of (rm_episode m) k" episode_rows None
  "\<lambda>m e. number_free (\<lambda>r. (epi_project r, epi_number r)) (episode_event_id e) (episode_event_number e) (rm_episode m)"
  "\<lambda>_ _. True" rm_episode "\<lambda>r. (epi_project r, epi_number r)" episode_event_number for fb fp
proof (unfold_locales, goal_cases)
  case (1 c new e)
  then show ?case
    by (cases c) (auto simp: handler_defs split: if_splits)
next
  case (2 c ev s new e)
  then show ?case
    by (cases c) (auto simp: handler_defs split: if_splits)
next
  case (3 s e)
  show ?case
    by (cases e) simp_all
next
  case (4 s e)
  show ?case
    by (cases e) simp_all
next
  case (5 s c new e)
  then show ?case
    by (cases c) (auto simp: handler_defs split: if_splits)
next
  case (8 e m)
  then show ?case
    by (cases e) (auto simp: episode_rows_def episode_default_def number_free_def guarded_unique_cases list_ex_iff)
next
  case (9 e s m)
  then show ?case
    by (cases e) (simp_all add: episode_rows_def)
next
  case (10 m e)
  then show ?case
    by (auto simp: number_free_def list_ex_iff)
next
  case (12 e m m' j r)
  then show ?case
    by (cases e) (auto simp: guarded_unique_cases AList.delete_eq split: if_splits option.splits
        dest!: set_upsert set_update_row, blast+)
qed simp_all

section \<open>Characters\<close>

fun character_event_id :: "'d character_event \<Rightarrow> uuid" where
  "character_event_id (CharacterCreated i _ _ _ _ _ _) = i"
| "character_event_id (MeasurementsUpdated i _ _) = i"
| "character_event_id (ContactInfoUpdated i _ _) = i"
| "character_event_id (CategoryChanged i _ _) = i"
| "character_event_id (CharacterDeleted i _) = i"

definition character_rows :: "'d character \<Rightarrow> 'd character_row option" where
  "character_rows s =
     (if character_deleted s then None
      else Some \<lparr>chr_season = character_season_id s, chr_name = character_name s,
                 chr_category = character_category s, chr_measurements = character_measurements s,
                 chr_contact = character_contact_info s, chr_version = character_version s\<rparr>)"

interpretation character_projection: projector
  character_apply character_handle never_idempotent character_expect "character_default fresh"
  character_version character_event_version character_deleted is_CharacterCreated is_CharacterDeleted
  character_event_id character_id "\<lambda>_ _. True" "2 ^ 63 - 1" project_character
  "\<lambda>k m. map_of (rm_character m) k" character_rows None "\<lambda>_ _. True" for fresh
proof (unfold_locales, goal_cases)
  case (1 c new e)
  then show ?case
    by (cases c) (auto simp: handler_defs split: if_splits)
next
  case (2 c ev s new e)
  then show ?case
    by (cases c) (auto simp: handler_defs split: if_splits)
next
  case (3 s e)
  show ?case
    by (cases e) simp_all
next
  case (4 s e)
  show ?case
    by (cases e) simp_all
next
  case (5 s c new e)
  then show ?case
    by (cases c) (auto simp: handler_defs split: if_splits)
next
  case (8 e m)
  then show ?case
    by (cases e) (simp_all add: character_rows_def character_default_def)
next
  case (9 e s m)
  then show ?case
    by (cases e) (simp_all add: character_rows_def)
qed simp_all

section \<open>Costume categories\<close>

fun costume_category_event_id :: "costume_category_event \<Rightarrow> uuid" where
  "costume_category_event_id (CostumeCategoryCreated i _ _ _ _) = i"
| "costume_category_event_id (CostumeCategoryRenamed i _ _) = i"
| "costume_category_event_id (CostumeCategoryReordered i _ _) = i"
| "costume_category_event_id (CostumeCategoryArchived i _) = i"

definition costume_category_rows :: "costume_category \<Rightarrow> category_row option" where
  "costume_category_rows s =
     Some \<lparr>cat_season = category_season_id s, cat_name = category_name s, cat_order = category_order_key s,
           cat_archived = category_archived s, cat_version = category_version s\<rparr>"

interpretation costume_category_projection: projector
  costume_category_apply costume_category_handle never_idempotent costume_category_expect
  "costume_category_default fresh" category_version category_event_version "\<lambda>_. False"
  is_CostumeCategoryCreated "\<lambda>_. False" costume_category_event_id category_id "\<lambda>_ _. True" "2 ^ 63 - 1"
  project_category "\<lambda>k m. map_of (rm_category m) k" costume_category_rows None "\<lambda>_ _. True" for fresh
proof (unfold_locales, goal_cases)
  case (3 c new e)
  then show ?case
    by (cases c) (auto simp: handler_defs split: if_splits)
next
  case (4 c ev s new e)
  then show ?case
    by (cases c) (auto simp: handler_defs split: if_splits)
next
  case (5 s e)
  show ?case
    by (cases e) simp_all
next
  case (10 e m)
  then show ?case
    by (cases e) (simp_all add: costume_category_rows_def costume_category_default_def)
next
  case (11 e s m)
  then show ?case
    by (cases e) (simp_all add: costume_category_rows_def)
qed simp_all

section \<open>Credential bindings\<close>

fun settings_event_id :: "settings_event \<Rightarrow> uuid" where
  "settings_event_id (CredentialBound i _ _ _ _) = i"
| "settings_event_id (CredentialRotated i _ _ _ _) = i"
| "settings_event_id (CredentialRevoked i _) = i"

text \<open>The owner is not part of the aggregate: it is left out of what the row shows.\<close>

definition settings_rows :: "settings \<Rightarrow> settings_row option" where
  "settings_rows s =
     Some \<lparr>set_provider = settings_provider s, set_vault_key = settings_vault_key_id s,
           set_vault_version = settings_vault_version s,
           set_state = (if settings_binding_state s = Some BindingRevoked then ''revoked'' else ''active''),
           set_owner = None, set_version = settings_version s\<rparr>"

definition settings_view :: "uuid \<Rightarrow> 'd read_model \<Rightarrow> settings_row option" where
  "settings_view k m = map_option (\<lambda>r. r\<lparr>set_owner := None\<rparr>) (map_of (rm_settings m) k)"

interpretation settings_projection: projector
  settings_apply settings_handle never_idempotent settings_expect settings_default settings_version
  settings_event_version "\<lambda>_. False" is_CredentialBound "\<lambda>_. False" settings_event_id settings_id "\<lambda>_ _. True"
  "2 ^ 63 - 1" "\<lambda>e. project_settings (actor e) e" settings_view settings_rows None "\<lambda>_ _. True" for actor
proof (unfold_locales, goal_cases)
  case (3 c new e)
  then show ?case
    by (cases c) (auto simp: handler_defs split: if_splits)
next
  case (4 c ev s new e)
  then show ?case
    by (cases c) (auto simp: handler_defs split: if_splits)
next
  case (5 s e)
  show ?case
    by (cases e) simp_all
next
  case (10 e m)
  then show ?case
    by (cases e) (simp_all add: settings_rows_def settings_view_def settings_default_def)
next
  case (11 e s m)
  then obtain r where "map_of (rm_settings m) (settings_event_id e) = Some r"
    and "Some (r\<lparr>set_owner := None\<rparr>) = settings_rows s"
    by (auto simp: settings_view_def settings_rows_def)
  then show ?case
    using 11 by (cases e; cases r) (simp_all add: settings_rows_def settings_view_def)
qed simp_all

section \<open>AI configurations\<close>

fun ai_config_event_id :: "ai_config_event \<Rightarrow> uuid" where
  "ai_config_event_id (AiConfigCreated i _ _ _ _ _ _ _ _ _ _ _) = i"
| "ai_config_event_id (AiConfigUpdated i _ _ _ _ _ _ _ _ _ _) = i"
| "ai_config_event_id (AiConfigRevoked i _) = i"

definition ai_config_rows :: "ai_config \<Rightarrow> ai_row option" where
  "ai_config_rows s =
     Some \<lparr>ar_user = ai_user_id s, ar_provider = (case ai_provider s of None \<Rightarrow> [] | Some p \<Rightarrow> llm_provider_as_str p),
           ar_assistant = ai_assistant_model s, ar_image = ai_image_model s, ar_prompts = ai_prompts s,
           ar_vault_key = ai_vault_key_id s,
           ar_preference = cost_display_preference_as_str (ai_cost_display_preference s),
           ar_decision_provider = map_option llm_provider_as_str (ai_decision_provider s),
           ar_decision_model = ai_decision_model s, ar_decision_key = ai_decision_vault_key_id s,
           ar_revoked = ai_revoked s, ar_version = ai_version s\<rparr>"

interpretation ai_config_projection: projector
  ai_config_apply ai_config_handle never_idempotent ai_config_expect ai_config_default ai_version ai_event_version
  "\<lambda>_. False" is_AiConfigCreated "\<lambda>_. False" ai_config_event_id ai_id "\<lambda>_ _. True" "2 ^ 63 - 1"
  project_ai_config "\<lambda>k m. map_of (rm_ai m) k" ai_config_rows None "\<lambda>_ _. True"
proof (unfold_locales, goal_cases)
  case (3 c new e)
  then show ?case
    by (cases c) (auto simp: handler_defs Let_def split: if_splits option.splits)
next
  case (4 c ev s new e)
  then show ?case
    by (cases c) (auto simp: handler_defs Let_def split: if_splits option.splits)
next
  case (5 s e)
  show ?case
    by (cases e) simp_all
next
  case (10 e m)
  then show ?case
    by (cases e) (simp_all add: ai_config_rows_def ai_config_default_def version_i64_def)
next
  case (11 e s m)
  then show ?case
    by (cases e) (auto simp: ai_config_rows_def version_i64_def split: option.splits)
qed simp_all

section \<open>Shooting days\<close>

fun shooting_day_event_id :: "shooting_day_event \<Rightarrow> shooting_day_id" where
  "shooting_day_event_id (ShootingDayCreated i _ _ _ _ _ _) = i"
| "shooting_day_event_id (ShootingDayRenamed i _ _) = i"
| "shooting_day_event_id (ShootingDayRescheduled i _ _) = i"
| "shooting_day_event_id (ShootingDayReordered i _ _) = i"
| "shooting_day_event_id (ShootingDayArchived i _) = i"
| "shooting_day_event_id (ShootingDayWrapped i _ _) = i"
| "shooting_day_event_id (ShootingDayDeleted i _) = i"

definition shooting_day_rows :: "shooting_day \<Rightarrow> day_row option" where
  "shooting_day_rows s =
     (if day_deleted s then None
      else Some \<lparr>sd_episode = day_episode_id s, sd_label = day_label s, sd_order = day_order_key s,
                 sd_date = day_date s, sd_source = day_source s, sd_archived = day_archived s,
                 sd_wrapped = day_wrapped_at s, sd_version = day_version s\<rparr>)"

interpretation shooting_day_projection: projector
  shooting_day_apply "shooting_day_handle now" never_idempotent "on_existing shooting_day_expect"
  "shooting_day_default fi fe" day_version day_event_version day_deleted is_ShootingDayCreated
  is_ShootingDayDeleted shooting_day_event_id day_id "\<lambda>_ _. True" "2 ^ 63 - 1" project_shooting_day
  "\<lambda>k m. map_of (rm_day m) k" shooting_day_rows None "\<lambda>_ _. True" for now fi fe
proof (unfold_locales, goal_cases)
  case 1
  show ?case
    by (simp add: shooting_day_default_def)
next
  case (2 s c es)
  then show ?case
    by (cases c) (auto simp: handler_defs on_existing_def split: if_splits)
next
  case (3 c new e)
  then show ?case
    by (cases c) (auto simp: handler_defs on_existing_def split: if_splits option.splits expected_version.splits)
next
  case (4 c ev s new e)
  then show ?case
    by (cases c) (auto simp: handler_defs on_existing_def split: if_splits)
next
  case (5 s e)
  show ?case
    by (cases e) simp_all
next
  case (6 s e)
  show ?case
    by (cases e) simp_all
next
  case (7 s c new e)
  then show ?case
    by (cases c) (auto simp: handler_defs split: if_splits)
next
  case (10 e m)
  then show ?case
    by (cases e) (simp_all add: shooting_day_rows_def shooting_day_default_def)
next
  case (11 e s m)
  then show ?case
    by (cases e) (simp_all add: shooting_day_rows_def delete_day_def)
qed simp_all

section \<open>Memberships\<close>

text \<open>
  Membership events carry no version; the rows of a block are those of its members. A command comes with the
  metadata that names its actor.
\<close>

fun membership_event_id :: "membership_event \<Rightarrow> block_id" where
  "membership_event_id (MemberInvited b _ _) = b"
| "membership_event_id (InvitationAccepted b _ _) = b"
| "membership_event_id (RoleGranted b _ _) = b"
| "membership_event_id (MemberRemoved b _) = b"
| "membership_event_id (OwnerBootstrapped b _ _) = b"

fun member_shown :: "membership_state \<Rightarrow> member_row" where
  "member_shown (MemberPending r) = \<lparr>mb_role = role_as_str r, mb_state = state_kind_as_str StatePending\<rparr>"
| "member_shown (MemberActive r) = \<lparr>mb_role = role_as_str r, mb_state = state_kind_as_str StateActive\<rparr>"

definition membership_rows :: "block_membership \<Rightarrow> user_id \<Rightarrow> member_row option" where
  "membership_rows s u = map_option member_shown (members s u)"

definition membership_view :: "block_id \<Rightarrow> 'd read_model \<Rightarrow> user_id \<Rightarrow> member_row option" where
  "membership_view b m u = map_of (rm_member m) (b, u)"

definition membership_dispatch ::
  "block_membership \<Rightarrow> event_metadata option \<times> membership_command \<Rightarrow> membership_error + membership_event list" where
  "membership_dispatch s c = membership_handle (fst c) s (snd c)"

text \<open>The state that the handlers require before an event.\<close>

fun membership_sound :: "block_membership \<Rightarrow> membership_event \<Rightarrow> bool" where
  "membership_sound s (InvitationAccepted _ u _) \<longleftrightarrow> members s u \<noteq> None"
| "membership_sound s (RoleGranted _ u _) \<longleftrightarrow> (\<exists>r. members s u = Some (MemberActive r))"
| "membership_sound s _ \<longleftrightarrow> True"

lemma membership_emits:
  "membership_dispatch s c = Ok new \<Longrightarrow> \<exists>e. new = [e] \<and> membership_sound s e"
  by (cases "snd c") (auto simp: membership_dispatch_def handler_defs
      split: if_splits option.splits membership_state.splits)

lemma membership_history_sound:
  assumes "history sat expect idem membership_apply membership_dispatch s0 es" "n < length es"
  shows "membership_sound (replay membership_apply s0 (take n es)) (es ! n)"
  using assms
proof (induction rule: history_induct)
  case (step es c ev new)
  then show ?case
    using membership_emits [OF step.hyps(5)] by (cases "n < length es") (auto simp: nth_append less_Suc_eq)
qed simp

lemma project_membership_follows:
  assumes "membership_sound s e" "membership_view (membership_event_id e) m = membership_rows s"
  shows "\<exists>m'. project_membership e m = Ok m' \<and>
    membership_view (membership_event_id e) m' = membership_rows (membership_apply s e) \<and>
    (\<forall>k. k \<noteq> membership_event_id e \<longrightarrow> membership_view k m' = membership_view k m)"
  using assms by (cases e) (auto simp: membership_view_def membership_rows_def fun_eq_iff split: option.split)

lemma membership_keeps_contract:
  "read_model_contract sat expect idem membership_apply membership_dispatch (block_membership_default fresh)
     membership_event_id bound project_membership membership_view membership_rows (\<lambda>_. None) (\<lambda>_ _. True)"
proof (rule read_model_by_steps [where accepts = "\<lambda>_ _. True"])
  fix es e and m :: "'d read_model"
  let ?s0 = "block_membership_default fresh"
  assume "stream_prefix sat expect idem membership_apply membership_dispatch ?s0 (es @ [e])"
  then obtain rest where "history sat expect idem membership_apply membership_dispatch ?s0 (es @ e # rest)"
    by (auto simp: stream_prefix_def)
  from membership_history_sound [OF this, of "length es"]
  have sound: "membership_sound (replay membership_apply ?s0 es) e"
    by simp
  have rows: "rows_of membership_apply ?s0 membership_rows (\<lambda>_. None) xs = membership_rows (replay membership_apply ?s0 xs)" for xs
    by (simp add: rows_of_def membership_rows_def block_membership_default_def replay_def fun_eq_iff)
  assume "membership_view (membership_event_id e) m =
    rows_of membership_apply ?s0 membership_rows (\<lambda>_. None) es"
  then show "\<exists>m'. project_membership e m = Ok m' \<and> membership_view (membership_event_id e) m' =
      rows_of membership_apply ?s0 membership_rows (\<lambda>_. None) (es @ [e]) \<and>
    (\<forall>k. k \<noteq> membership_event_id e \<longrightarrow> membership_view k m' = membership_view k m)"
    using project_membership_follows [OF sound] by (simp add: rows replay_def)
qed (simp add: accepted_always)

end
