(* ===== verification/Scene_Projectors.thy ===== *)
theory Scene_Projectors
  imports Projector_Contract
begin

text \<open>
  The projectors of scenes and scene shoots follow their aggregates. Their rows refer to rows of other projectors:
  a scene shows its characters, shooting days and outfit beats, a shoot its notes and photos. \<open><x>_view\<close> is what
  the tables hold of one aggregate, \<open><x>_rows\<close> what they should hold.
\<close>

section \<open>Scenes\<close>

fun scene_event_id :: "scene_event \<Rightarrow> uuid" where
  "scene_event_id (SceneCreated i _ _ _ _ _) = i"
| "scene_event_id (SceneDetailsUpdated i _ _) = i"
| "scene_event_id (CharacterAssigned i _ _) = i"
| "scene_event_id (CharacterRemoved i _ _) = i"
| "scene_event_id (ShootingDayScheduled i _ _) = i"
| "scene_event_id (ShootingDayUnscheduled i _ _) = i"
| "scene_event_id (OutfitBeatAdded i _ _ _ _ _) = i"
| "scene_event_id (OutfitBeatUpdated i _ _ _ _ _) = i"
| "scene_event_id (OutfitBeatRemoved i _ _ _) = i"
| "scene_event_id (OutfitBeatsCleared i _ _) = i"
| "scene_event_id (SceneDeleted i _) = i"

type_synonym scene_shown =
  "scene_row option \<times> (uuid \<Rightarrow> bool) \<times> (shooting_day_id \<Rightarrow> bool) \<times> (uuid \<Rightarrow> u32 \<Rightarrow> (uuid \<times> string option) option)"

definition no_scene :: scene_shown where
  "no_scene = (None, \<lambda>_. False, \<lambda>_. False, \<lambda>_ _. None)"

definition beat_at :: "scene_outfit_beat list \<Rightarrow> uuid \<Rightarrow> u32 \<Rightarrow> (uuid \<times> string option) option" where
  "beat_at bs c order = map_option (\<lambda>b. (beat_outfit_id b, beat_note b)) (List.find (is_beat c order) bs)"

definition scene_rows :: "scene \<Rightarrow> scene_shown" where
  "scene_rows s =
     (if scene_deleted s then no_scene
      else (Some \<lparr>scn_episode = scene_episode_id s, scn_details = scene_details s, scn_source = scene_source s,
                  scn_version = scene_version s\<rparr>,
            \<lambda>c. c \<in> set (assigned_characters s), \<lambda>day. day \<in> set (shooting_day_ids s), beat_at (outfit_beats s)))"

definition scene_view :: "uuid \<Rightarrow> 'd read_model \<Rightarrow> scene_shown" where
  "scene_view k m =
     (map_of (rm_scene m) k, \<lambda>c. map_of (rm_scene_character m) (k, c) \<noteq> None,
      \<lambda>day. map_of (rm_scene_day m) (k, day) \<noteq> None,
      \<lambda>c order. map_option (\<lambda>r. (asg_outfit r, asg_note r)) (map_of (rm_scene_outfit m) (k, c, order)))"

fun scene_sound :: "scene \<Rightarrow> scene_event \<Rightarrow> bool" where
  "scene_sound s (SceneCreated _ _ _ characters _ _) \<longleftrightarrow> characters = []"
| "scene_sound s (OutfitBeatAdded _ c _ order _ _) \<longleftrightarrow> List.find (is_beat c order) (outfit_beats s) = None"
| "scene_sound s _ \<longleftrightarrow> True"

text \<open>The shooting day of a schedule has a row.\<close>

fun scene_refs :: "'d read_model \<Rightarrow> scene_event \<Rightarrow> bool" where
  "scene_refs m (ShootingDayScheduled _ day _) \<longleftrightarrow> map_of (rm_day m) day \<noteq> None"
| "scene_refs m _ \<longleftrightarrow> True"

lemma assign_keeps_days: "for_each (assign_row i v) cs m = Ok m' \<Longrightarrow> rm_day m' = rm_day m"
  by (rule for_each_keeps [of _ rm_day]) (auto simp: assign_row_def child_upsert_def split: if_splits)

lemma beat_at_changes:
  "List.find (is_beat c order) bs = None \<Longrightarrow>
     beat_at (bs @ [\<lparr>beat_character_id = c, beat_outfit_id = outfit, beat_order = order, beat_note = note\<rparr>]) d q =
       (if d = c \<and> q = order then Some (outfit, note) else beat_at bs d q)"
  "beat_at (update_beat c order outfit note bs) d q =
     (if d = c \<and> q = order then map_option (\<lambda>_. (outfit, note)) (beat_at bs c order) else beat_at bs d q)"
  "beat_at (filter (\<lambda>b. \<not> is_beat c order b) bs) d q = (if d = c \<and> q = order then None else beat_at bs d q)"
  "beat_at (filter (\<lambda>b. beat_character_id b \<noteq> c) bs) d q = (if d = c then None else beat_at bs d q)"
proof -
  show "List.find (is_beat c order) bs = None \<Longrightarrow>
     beat_at (bs @ [\<lparr>beat_character_id = c, beat_outfit_id = outfit, beat_order = order, beat_note = note\<rparr>]) d q =
       (if d = c \<and> q = order then Some (outfit, note) else beat_at bs d q)"
    by (auto simp: beat_at_def find_append is_beat_def split: option.splits)
  show "beat_at (update_beat c order outfit note bs) d q =
     (if d = c \<and> q = order then map_option (\<lambda>_. (outfit, note)) (beat_at bs c order) else beat_at bs d q)"
    by (induction bs) (auto simp: beat_at_def is_beat_def)
  show "beat_at (filter (\<lambda>b. \<not> is_beat c order b) bs) d q = (if d = c \<and> q = order then None else beat_at bs d q)"
    by (induction bs) (auto simp: beat_at_def is_beat_def)
  show "beat_at (filter (\<lambda>b. beat_character_id b \<noteq> c) bs) d q = (if d = c then None else beat_at bs d q)"
    by (induction bs) (auto simp: beat_at_def is_beat_def)
qed

lemma added_beat_fresh:
  assumes "scene_ok n s" "n < 2 ^ 32"
  shows "List.find (is_beat c (next_order (map beat_order (character_beats s c)))) (outfit_beats s) = None"
proof -
  have "\<forall>x \<in> set (map beat_order (character_beats s c)). unat x < n"
    using assms by (auto simp: scene_ok_def character_beats_def)
  from next_order_fresh(1) [OF this assms(2)] show ?thesis
    by (auto simp: find_None_iff is_beat_def character_beats_def)
qed

lemma scene_events_sound:
  assumes "expected_version_laws sat"
    and h: "history sat scene_expect scene_idempotent scene_apply scene_handle (scene_default fresh) es"
    and c: "scene_handle (replay scene_apply (scene_default fresh) es) c = Ok new" "k < length new" "length es + k < 2 ^ 32"
  shows "scene_sound (foldl scene_apply (replay scene_apply (scene_default fresh) es) (take k new)) (new ! k)"
proof (cases "\<exists>i ch outfit nt project v. c = AddOutfitBeat i ch outfit nt project v")
  case True
  then obtain i ch outfit nt project v where [simp]: "c = AddOutfitBeat i ch outfit nt project v"
    by blast
  let ?s = "replay scene_apply (scene_default fresh) es"
  have ch: "ch \<in> set (assigned_characters ?s)"
    and new: "new = [OutfitBeatAdded (scene_id ?s) ch outfit (next_order (map beat_order (character_beats ?s ch))) nt
      (version_next (scene_version ?s))]"
    using c(1) by (auto simp: handler_defs Let_def split: if_splits)
  have "es \<noteq> []"
    using ch by (auto simp: scene_default_def)
  then have "scene_ok (length es) ?s"
    using scene_consistency.history_inv [OF assms(1) h] by simp
  from added_beat_fresh [OF this] show ?thesis
    using new c(2,3) by simp
next
  case False
  have "\<forall>e \<in> set new. scene_sound s e" for s
    using c(1) False by (cases c) (auto simp: handler_defs split: if_splits option.splits)
  then show ?thesis
    using c(2) by simp
qed

interpretation scene_projection: numbered_projector
  scene_apply scene_handle scene_idempotent scene_expect "scene_default fresh" scene_version scene_event_version
  scene_deleted is_SceneCreated is_SceneDeleted scene_event_id scene_id scene_sound "2 ^ 32" project_scene scene_view
  scene_rows no_scene scene_refs scene_refs "\<lambda>_. [] :: (uuid \<times> unit) list" "\<lambda>_. ()" "\<lambda>_. None" for fresh
proof (unfold_locales, goal_cases)
  case (1 c new e)
  then show ?case
    by (cases c) (auto simp: handler_defs split: if_splits)
next
  case (2 c ev s new e)
  then show ?case
    by (cases c) (auto simp: handler_defs Let_def split: if_splits option.splits)
next
  case (3 s e)
  show ?case
    by (cases e) simp_all
next
  case (4 s e)
  show ?case
    by (cases e) simp_all
next
  case (5 s c new e)
  then show ?case
    by (cases c) (auto simp: handler_defs Let_def split: if_splits option.splits)
next
  case (6 sat es c ev new k)
  then show ?case
    by (intro scene_events_sound)
next
  case (8 e m)
  then show ?case
    by (cases e) (auto simp: scene_rows_def scene_view_def no_scene_def scene_default_def beat_at_def fun_eq_iff)
next
  case (9 e s m)
  then have row: "map_of (rm_scene m) (scene_id s) = fst (scene_rows s)"
    and characters: "\<And>c. (\<exists>y. map_of (rm_scene_character m) (scene_id s, c) = Some y) \<longleftrightarrow> c \<in> set (assigned_characters s)"
    and days: "\<And>day. (\<exists>y. map_of (rm_scene_day m) (scene_id s, day) = Some y) \<longleftrightarrow> day \<in> set (shooting_day_ids s)"
    and beats: "\<And>c q. beat_at (outfit_beats s) c q =
      map_option (\<lambda>r. (asg_outfit r, asg_note r)) (map_of (rm_scene_outfit m) (scene_id s, c, q))"
    by (auto simp: scene_view_def scene_rows_def fun_eq_iff)
  show ?case
    using 9(1-7) row characters days
    by (cases e) (auto simp: scene_rows_def scene_view_def no_scene_def fun_eq_iff guard_scene_def touch_scene_def
        delete_scene_def assign_row_def child_upsert_def beat_at_changes beats option.map_comp comp_def
        option.case_eq_if split: if_splits)
next
  case (11 e m m' e')
  then have "rm_day m' = rm_day m"
    by (cases e) (auto simp: delete_scene_def touch_scene_def guard_scene_def assign_row_def child_upsert_def
        dest: assign_keeps_days split: if_splits option.splits prod.splits)
  then show ?case
    using 11 by (cases e') simp_all
qed simp_all

lemma scenes_accepted: "list_all (scene_refs m) log \<Longrightarrow> accepted_run project_scene scene_refs log m"
  using scene_projection.unique_numbers_accepted [of log m "[]"] by (simp add: list_all_iff)

section \<open>Scene shoots\<close>

fun shoot_event_id :: "scene_shoot_event \<Rightarrow> scene_shoot_id" where
  "shoot_event_id (SceneShootPlanned i _ _ _ _ _) = i"
| "shoot_event_id (SceneShootReplanned i _ _) = i"
| "shoot_event_id (SceneShootStarted i _ _) = i"
| "shoot_event_id (SceneShootActualOrderSet i _ _) = i"
| "shoot_event_id (SceneShootFinished i _ _) = i"
| "shoot_event_id (SceneShootSkipped i _) = i"
| "shoot_event_id (ShootDayNoteAdded i _ _ _ _) = i"
| "shoot_event_id (ShootDayNoteUpdated i _ _ _) = i"
| "shoot_event_id (ShootDayNoteRemoved i _ _) = i"
| "shoot_event_id (ContinuityPhotoLinked i _ _) = i"
| "shoot_event_id (ContinuityPhotoUnlinked i _ _) = i"
| "shoot_event_id (SceneShootDeleted i _) = i"

text \<open>The rows of a shoot, and whether the ids of its notes are distinct.\<close>

definition shoot_rows :: "scene_shoot \<Rightarrow> shoot_row option" where
  "shoot_rows s =
     (if shoot_deleted s then None
      else Some \<lparr>sh_scene = shoot_scene_id s, sh_day = shoot_day_id s, sh_planned = planned_order s,
                 sh_actual = actual_order s, sh_start = start_dt s, sh_end = end_dt s,
                 sh_status = scene_shoot_status_as_str (shoot_status s),
                 sh_notes = map (\<lambda>n. (note_id n, note_body n)) (shoot_notes s), sh_photos = continuity_photos s,
                 sh_version = shoot_version s\<rparr>)"

fun shoot_sound :: "scene_shoot \<Rightarrow> scene_shoot_event \<Rightarrow> bool" where
  "shoot_sound s (SceneShootStarted _ _ _) \<longleftrightarrow> \<not> is_terminal s"
| "shoot_sound s (ShootDayNoteUpdated _ n _ _) \<longleftrightarrow> list_ex (\<lambda>m. note_id m = n) (shoot_notes s)"
| "shoot_sound s _ \<longleftrightarrow> True"

text \<open>
  The scene and the day of a plan have rows, no other shoot has the pair, and a note that is edited is the only one
  with its identifier.
\<close>

fun shoot_accepts :: "'d read_model \<Rightarrow> scene_shoot_event \<Rightarrow> bool" where
  "shoot_accepts m (SceneShootPlanned i scene day _ _ _) \<longleftrightarrow>
     map_of (rm_scene m) scene \<noteq> None \<and> map_of (rm_day m) day \<noteq> None \<and>
     \<not> list_ex (\<lambda>(j, r). j \<noteq> i \<and> (sh_scene r, sh_day r) = (scene, day)) (rm_shoot m)"
| "shoot_accepts m (ShootDayNoteUpdated i n _ _) \<longleftrightarrow>
     (case map_of (rm_shoot m) i of None \<Rightarrow> True | Some r \<Rightarrow> length (filter (\<lambda>(k, _). k = n) (sh_notes r)) \<le> 1)"
| "shoot_accepts m _ \<longleftrightarrow> True"

lemma edited_note:
  "length (filter (\<lambda>(k, _). k = n) (map (\<lambda>x. (note_id x, note_body x)) ns)) \<le> 1 \<Longrightarrow>
     map (\<lambda>(k, b). if k = n then (n, body) else (k, b)) (map (\<lambda>x. (note_id x, note_body x)) ns) =
     map (\<lambda>x. (note_id x, note_body x)) (update_note n body ns)"
proof (induction ns)
  case (Cons x ns)
  show ?case
  proof (cases "note_id x = n")
    case True
    then have "\<forall>y \<in> set ns. note_id y \<noteq> n"
      using Cons.prems by (auto simp: filter_empty_conv)
    then show ?thesis
      using True by (auto simp: o_def)
  next
    case False
    then show ?thesis
      using Cons by simp
  qed
qed simp

lemma execution_status:
  "scene_shoot_status_as_str (transition_on_execution st) =
     (if scene_shoot_status_as_str st = ''Planned'' \<or> scene_shoot_status_as_str st = ''Scheduled'' then ''InProgress''
      else scene_shoot_status_as_str st)"
  "\<not> is_terminal s \<Longrightarrow> transition_on_execution (shoot_status s) = InProgress"
  by (cases st; simp add: transition_on_execution_def)
    (cases "shoot_status s"; simp add: transition_on_execution_def is_terminal_def)

lemma remaining_notes:
  "filter (\<lambda>(k, _). k \<noteq> n) (map (\<lambda>x. (note_id x, note_body x)) ns) =
     map (\<lambda>x. (note_id x, note_body x)) (filter (\<lambda>x. note_id x \<noteq> n) ns)"
  by (induction ns) simp_all

interpretation shoot_projection: projector
  scene_shoot_apply "scene_shoot_handle disp" never_idempotent "on_existing scene_shoot_expect"
  "scene_shoot_default fi fd" shoot_version shoot_event_version shoot_deleted is_SceneShootPlanned
  is_SceneShootDeleted shoot_event_id shoot_id shoot_sound "2 ^ 63 - 1" project_scene_shoot
  "\<lambda>k m. map_of (rm_shoot m) k" shoot_rows None shoot_accepts for disp fi fd
proof (unfold_locales, goal_cases)
  case 1
  show ?case
    by (simp add: scene_shoot_default_def)
next
  case (2 s c es)
  then show ?case
    by (cases c) (auto simp: handler_defs on_existing_def split: if_splits)
next
  case (3 c new e)
  then show ?case
    by (cases c) (auto simp: handler_defs on_existing_def split: if_splits option.splits expected_version.splits)
next
  case (4 c ev s new e)
  then show ?case
    by (cases c) (auto simp: handler_defs on_existing_def split: if_splits)
next
  case (5 s e)
  show ?case
    by (cases e) simp_all
next
  case (6 s e)
  show ?case
    by (cases e) simp_all
next
  case (7 s c new e)
  then show ?case
    by (cases c) (auto simp: handler_defs split: if_splits)
next
  case (8 sat es c ev new k)
  then show ?case
    by (cases c) (auto simp: handler_defs split: if_splits)
next
  case (10 e m)
  then show ?case
    by (cases e) (auto simp: shoot_rows_def scene_shoot_default_def guarded_insert_def plan_row_def unique_rows_def)
next
  case (11 e s m)
  then have row: "map_of (rm_shoot m) (shoot_id s) = shoot_rows s"
    by simp
  show ?case
    using 11 row by (cases e) (auto simp: shoot_rows_def update_shoot_def execution_status edited_note remaining_notes
        retain_ne_def simp del: map_map)
qed simp_all

end
