(* ===== verification/Wardrobe_Projectors.thy ===== *)
theory Wardrobe_Projectors
  imports Projector_Contract
begin

text \<open>
  The projectors of pieces and outfits follow their aggregates: a piece shows its seasons, details and photos, an
  outfit its pieces and photos.
\<close>

section \<open>Pieces\<close>

fun piece_event_id :: "piece_event \<Rightarrow> uuid" where
  "piece_event_id (PieceCreated i _ _ _ _ _ _ _) = i"
| "piece_event_id (PieceRenamed i _ _) = i"
| "piece_event_id (PieceNotesUpdated i _ _) = i"
| "piece_event_id (PieceAddedToSeason i _ _) = i"
| "piece_event_id (PieceRemovedFromSeason i _ _) = i"
| "piece_event_id (PieceDetailAdded i _ _) = i"
| "piece_event_id (PieceDetailUpdated i _ _) = i"
| "piece_event_id (PieceDetailRemoved i _ _) = i"
| "piece_event_id (PieceCategorySet i _ _) = i"
| "piece_event_id (PiecePhotoLinked i _ _) = i"
| "piece_event_id (PiecePhotoUnlinked i _ _) = i"
| "piece_event_id (PieceDeleted i _) = i"

text \<open>The name of the category is copied from another aggregate and left out.\<close>

type_synonym piece_shown =
  "piece_row option \<times> (uuid \<Rightarrow> bool) \<times> (uuid \<Rightarrow> (string option \<times> string) option) \<times> (uuid \<Rightarrow> bool)"

definition no_piece :: piece_shown where
  "no_piece = (None, \<lambda>_. False, \<lambda>_. None, \<lambda>_. False)"

definition detail_at :: "piece_detail list \<Rightarrow> uuid \<Rightarrow> (string option \<times> string) option" where
  "detail_at ds k = map_option (\<lambda>d. (detail_subject d, detail_text d)) (List.find (\<lambda>d. detail_id d = k) ds)"

definition piece_rows :: "piece \<Rightarrow> piece_shown" where
  "piece_rows s =
     (if piece_deleted s then no_piece
      else (Some \<lparr>pc_name = piece_name s, pc_category = piece_category_id s, pc_category_name = None,
                  pc_notes = piece_notes s, pc_version = piece_version s\<rparr>,
            \<lambda>x. x \<in> set (piece_seasons s), detail_at (piece_details s), \<lambda>x. x \<in> set (piece_photos s)))"

definition piece_view :: "uuid \<Rightarrow> 'd read_model \<Rightarrow> piece_shown" where
  "piece_view k m =
     (map_option (\<lambda>r. r\<lparr>pc_category_name := None\<rparr>) (map_of (rm_piece m) k),
      \<lambda>x. map_of (rm_piece_season m) (k, x) \<noteq> None, \<lambda>d. map_of (rm_piece_detail m) (k, d),
      \<lambda>x. map_of (rm_piece_photo m) (k, x) \<noteq> None)"

fun piece_sound :: "piece \<Rightarrow> piece_event \<Rightarrow> bool" where
  "piece_sound s (PieceCreated _ _ _ _ _ details photos _) \<longleftrightarrow> details = [] \<and> photos = []"
| "piece_sound s (PieceDetailUpdated _ d _) \<longleftrightarrow> list_ex (\<lambda>x. detail_id x = detail_id d) (piece_details s)"
| "piece_sound s _ \<longleftrightarrow> True"

text \<open>The identifier of a new detail is not taken.\<close>

fun piece_accepts :: "'d read_model \<Rightarrow> piece_event \<Rightarrow> bool" where
  "piece_accepts m (PieceDetailAdded i d _) \<longleftrightarrow> map_of (rm_piece_detail m) (i, detail_id d) = None"
| "piece_accepts m _ \<longleftrightarrow> True"

lemma detail_at_changes:
  "detail_at ds (detail_id d) = None \<Longrightarrow>
     detail_at (ds @ [d]) k = (if k = detail_id d then Some (detail_subject d, detail_text d) else detail_at ds k)"
  "detail_at (replace_detail ds d) k =
     (if k = detail_id d then Some (detail_subject d, detail_text d) else detail_at ds k)"
  "detail_at (filter (\<lambda>x. detail_id x \<noteq> j) ds) k = (if k = j then None else detail_at ds k)"
proof -
  show "detail_at ds (detail_id d) = None \<Longrightarrow>
     detail_at (ds @ [d]) k = (if k = detail_id d then Some (detail_subject d, detail_text d) else detail_at ds k)"
    by (auto simp: detail_at_def find_append split: option.splits)
  show "detail_at (replace_detail ds d) k =
     (if k = detail_id d then Some (detail_subject d, detail_text d) else detail_at ds k)"
    by (induction ds) (auto simp: detail_at_def)
  show "detail_at (filter (\<lambda>x. detail_id x \<noteq> j) ds) k = (if k = j then None else detail_at ds k)"
    by (induction ds) (auto simp: detail_at_def)
qed

lemmas piece_statement_defs =
  touch_piece_def delete_piece_def insert_piece_season_def insert_piece_photo_def upsert_detail_def child_upsert_def
  child_insert_def

interpretation piece_projection: projector
  piece_apply piece_handle never_idempotent piece_expect piece_default piece_version piece_event_version
  piece_deleted is_PieceCreated is_PieceDeleted piece_event_id piece_id piece_sound "2 ^ 63 - 1" project_piece
  piece_view piece_rows no_piece piece_accepts
proof (unfold_locales, goal_cases)
  case (1 c new e)
  then show ?case
    by (cases c) (auto simp: handler_defs split: if_splits)
next
  case (2 c ev s new e)
  then show ?case
    by (cases c) (auto simp: handler_defs split: if_splits)
next
  case (3 s e)
  show ?case
    by (cases e) simp_all
next
  case (4 s e)
  show ?case
    by (cases e) simp_all
next
  case (5 s c new e)
  then show ?case
    by (cases c) (auto simp: handler_defs split: if_splits)
next
  case (6 sat es c ev new k)
  then show ?case
    by (cases c) (auto simp: handler_defs split: if_splits)
next
  case (8 e m)
  then show ?case
    by (cases e) (auto simp: piece_rows_def piece_view_def no_piece_def piece_default_def detail_at_def fun_eq_iff
        piece_statement_defs split: option.splits)
next
  case (9 e s m)
  then obtain r where row: "map_of (rm_piece m) (piece_id s) = Some r" and
    r: "Some (r\<lparr>pc_category_name := None\<rparr>) = fst (piece_rows s)"
    and seasons: "\<And>x. (map_of (rm_piece_season m) (piece_id s, x) = Some ()) \<longleftrightarrow> x \<in> set (piece_seasons s)"
    and photos: "\<And>x. (map_of (rm_piece_photo m) (piece_id s, x) = Some ()) \<longleftrightarrow> x \<in> set (piece_photos s)"
    and details: "\<And>x. detail_at (piece_details s) x = map_of (rm_piece_detail m) (piece_id s, x)"
    by (auto simp: piece_view_def piece_rows_def fun_eq_iff)
  show ?case
    using 9(1-7) row r seasons photos
    by (cases e; cases r) (auto simp: piece_rows_def piece_view_def no_piece_def fun_eq_iff piece_statement_defs
        detail_at_changes details retain_ne_def)
qed simp_all

section \<open>Outfits\<close>

fun outfit_event_id :: "outfit_event \<Rightarrow> uuid" where
  "outfit_event_id (OutfitCreated i _ _ _ _ _ _) = i"
| "outfit_event_id (OutfitVariantCreated i _ _ _ _ _ _ _) = i"
| "outfit_event_id (OutfitRenamed i _ _) = i"
| "outfit_event_id (OutfitNotesUpdated i _ _) = i"
| "outfit_event_id (OutfitPieceAdded i _ _ _) = i"
| "outfit_event_id (OutfitPieceRemoved i _ _) = i"
| "outfit_event_id (OutfitPhotoLinked i _ _) = i"
| "outfit_event_id (OutfitPhotoUnlinked i _ _) = i"
| "outfit_event_id (OutfitDeleted i _) = i"

text \<open>The rows of an outfit; the positions of its pieces are left out.\<close>

type_synonym outfit_shown = "outfit_row option \<times> (uuid \<Rightarrow> bool) \<times> (uuid \<Rightarrow> bool)"

definition no_outfit :: outfit_shown where
  "no_outfit = (None, \<lambda>_. False, \<lambda>_. False)"

definition outfit_rows :: "outfit \<Rightarrow> outfit_shown" where
  "outfit_rows s =
     (if outfit_deleted s then no_outfit
      else (Some \<lparr>of_character = outfit_character_id s, of_name = outfit_name s, of_variant = outfit_variant_of s,
                  of_notes = outfit_notes s, of_version = outfit_version s\<rparr>,
            \<lambda>x. x \<in> set (outfit_piece_ids s), \<lambda>x. x \<in> set (outfit_photos s)))"

definition outfit_view :: "uuid \<Rightarrow> 'd read_model \<Rightarrow> outfit_shown" where
  "outfit_view k m =
     (map_of (rm_outfit m) k, \<lambda>x. map_of (rm_outfit_piece m) (k, x) \<noteq> None,
      \<lambda>x. map_of (rm_outfit_photo m) (k, x) \<noteq> None)"

fun outfit_opens :: "outfit_event \<Rightarrow> bool" where
  "outfit_opens (OutfitCreated _ _ _ _ _ _ _) \<longleftrightarrow> True"
| "outfit_opens (OutfitVariantCreated _ _ _ _ _ _ _ _) \<longleftrightarrow> True"
| "outfit_opens _ \<longleftrightarrow> False"

lemma insert_pieces:
  assumes "map_of (rm_outfit m) i \<noteq> None"
  shows "\<exists>t. for_each (insert_piece i) ps m = Ok (m\<lparr>rm_outfit_piece := t\<rparr>) \<and>
    (\<forall>k x. map_of t (k, x) \<noteq> None \<longleftrightarrow> map_of (rm_outfit_piece m) (k, x) \<noteq> None \<or> k = i \<and> x \<in> fst ` set ps)"
  using assms
proof (induction ps arbitrary: m)
  case Nil
  show ?case
    by (rule exI [of _ "rm_outfit_piece m"]) simp
next
  case (Cons p ps)
  let ?m = "m\<lparr>rm_outfit_piece := insert_new (i, fst p) (snd p) (rm_outfit_piece m)\<rparr>"
  have "insert_piece i p m = Ok ?m"
    using Cons.prems by (simp add: insert_piece_def child_insert_def)
  moreover obtain t where "for_each (insert_piece i) ps ?m = Ok (?m\<lparr>rm_outfit_piece := t\<rparr>)"
    and "\<forall>k x. map_of t (k, x) \<noteq> None \<longleftrightarrow> map_of (rm_outfit_piece ?m) (k, x) \<noteq> None \<or> k = i \<and> x \<in> fst ` set ps"
    using Cons.IH [of ?m] Cons.prems by auto
  ultimately show ?case
    by (intro exI [of _ t]) (auto split: if_splits)
qed

lemma insert_photos:
  assumes "map_of (rm_outfit m) i \<noteq> None"
  shows "\<exists>t. for_each (insert_outfit_photo i) ps m = Ok (m\<lparr>rm_outfit_photo := t\<rparr>) \<and>
    (\<forall>k x. map_of t (k, x) \<noteq> None \<longleftrightarrow> map_of (rm_outfit_photo m) (k, x) \<noteq> None \<or> k = i \<and> x \<in> set ps)"
  using assms
proof (induction ps arbitrary: m)
  case Nil
  show ?case
    by (rule exI [of _ "rm_outfit_photo m"]) simp
next
  case (Cons p ps)
  let ?m = "m\<lparr>rm_outfit_photo := insert_new (i, p) () (rm_outfit_photo m)\<rparr>"
  have "insert_outfit_photo i p m = Ok ?m"
    using Cons.prems by (simp add: insert_outfit_photo_def child_insert_def)
  moreover obtain t where "for_each (insert_outfit_photo i) ps ?m = Ok (?m\<lparr>rm_outfit_photo := t\<rparr>)"
    and "\<forall>k x. map_of t (k, x) \<noteq> None \<longleftrightarrow> map_of (rm_outfit_photo ?m) (k, x) \<noteq> None \<or> k = i \<and> x \<in> set ps"
    using Cons.IH [of ?m] Cons.prems by auto
  ultimately show ?case
    by (intro exI [of _ t]) (auto split: if_splits)
qed

lemma filled_outfit:
  assumes "map_of (rm_outfit m) i = Some r" "outfit_view i m = (Some r, \<lambda>_. False, \<lambda>_. False)"
  shows "\<exists>m'. fill_outfit i pieces photos m = Ok m' \<and>
    outfit_view i m' = (Some r, \<lambda>x. x \<in> set pieces, \<lambda>x. x \<in> set photos) \<and>
    (\<forall>k. k \<noteq> i \<longrightarrow> outfit_view k m' = outfit_view k m)"
proof -
  let ?ps = "map (\<lambda>(n, p). (p, position_i32 n)) (enumerate 0 pieces)"
  have "fst ` set ?ps = snd ` set (enumerate 0 pieces)"
    by (auto simp: image_image split_def)
  also have "\<dots> = set pieces"
    by (metis list.set_map map_snd_enumerate)
  finally have ps: "fst ` set ?ps = set pieces" .
  obtain t where t: "for_each (insert_piece i) ?ps m = Ok (m\<lparr>rm_outfit_piece := t\<rparr>)"
    "\<forall>k x. map_of t (k, x) \<noteq> None \<longleftrightarrow> map_of (rm_outfit_piece m) (k, x) \<noteq> None \<or> k = i \<and> x \<in> fst ` set ?ps"
    using insert_pieces [of m i ?ps] assms(1) by auto
  obtain u where u: "for_each (insert_outfit_photo i) photos (m\<lparr>rm_outfit_piece := t\<rparr>) =
      Ok (m\<lparr>rm_outfit_piece := t, rm_outfit_photo := u\<rparr>)"
    "\<forall>k x. map_of u (k, x) \<noteq> None \<longleftrightarrow> map_of (rm_outfit_photo m) (k, x) \<noteq> None \<or> k = i \<and> x \<in> set photos"
    using insert_photos [of "m\<lparr>rm_outfit_piece := t\<rparr>" i photos] assms(1) by auto
  show ?thesis
    unfolding fill_outfit_def t(1) and_then.simps u(1)
    using t(2) u(2) assms ps by (intro exI conjI refl) (auto simp: outfit_view_def fun_eq_iff, (metis option.distinct(1))+)
qed

interpretation outfit_projection: projector
  outfit_apply outfit_handle never_idempotent outfit_expect outfit_default outfit_version outfit_event_version
  outfit_deleted outfit_opens is_OutfitDeleted outfit_event_id outfit_id "\<lambda>_ _. True" "2 ^ 63 - 1" project_outfit
  outfit_view outfit_rows no_outfit "\<lambda>_ _. True"
proof (unfold_locales, goal_cases)
  case (1 c new e)
  then show ?case
    by (cases c) (auto simp: handler_defs split: if_splits)
next
  case (2 c ev s new e)
  then show ?case
    by (cases c) (auto simp: handler_defs split: if_splits)
next
  case (3 s e)
  show ?case
    by (cases e) simp_all
next
  case (4 s e)
  show ?case
    by (cases e) simp_all
next
  case (5 s c new e)
  then show ?case
    by (cases c) (auto simp: handler_defs split: if_splits)
next
  case (8 e m)
  have opened: "outfit_view i (upsert_outfit i c variant name nts v m) =
      (Some \<lparr>of_character = c, of_name = name, of_variant = variant, of_notes = nts, of_version = v\<rparr>,
       \<lambda>_. False, \<lambda>_. False) \<and> (\<forall>k. k \<noteq> i \<longrightarrow> outfit_view k (upsert_outfit i c variant name nts v m) = outfit_view k m)"
    if "outfit_view i m = no_outfit" for i c variant name nts v
    using that by (auto simp: outfit_view_def no_outfit_def upsert_outfit_def fun_eq_iff)
  from 8 show ?case
  proof (cases e)
    case (OutfitCreated i c name pieces photos nts v)
    then show ?thesis
      using filled_outfit [of "upsert_outfit i c None name nts v m" i _ pieces photos] opened [of i c None name nts v] 8
      by (auto simp: outfit_rows_def outfit_default_def outfit_view_def)
  next
    case (OutfitVariantCreated i source c name pieces photos nts v)
    then show ?thesis
      using filled_outfit [of "upsert_outfit i c (Some source) name nts v m" i _ pieces photos]
        opened [of i c "Some source" name nts v] 8
      by (auto simp: outfit_rows_def outfit_default_def outfit_view_def)
  qed simp_all
next
  case (9 e s m)
  then have row: "map_of (rm_outfit m) (outfit_id s) = fst (outfit_rows s)"
    and pieces: "\<And>x. (\<exists>y. map_of (rm_outfit_piece m) (outfit_id s, x) = Some y) \<longleftrightarrow> x \<in> set (outfit_piece_ids s)"
    and photos: "\<And>x. (map_of (rm_outfit_photo m) (outfit_id s, x) = Some ()) \<longleftrightarrow> x \<in> set (outfit_photos s)"
    by (auto simp: outfit_view_def outfit_rows_def fun_eq_iff)
  show ?case
    using 9(1-7) row pieces photos
    by (cases e) (auto simp: outfit_rows_def outfit_view_def no_outfit_def fun_eq_iff touch_outfit_def
        delete_outfit_def insert_piece_def insert_outfit_photo_def child_insert_def retain_ne_def)
qed simp_all

end
