(* ===== verification/Read_Model_Contracts.thy ===== *)
theory Read_Model_Contracts
  imports Projectors Scene_Projectors Wardrobe_Projectors
begin

text \<open>
  The read model shows what the streams say. Each projector is run alone: rows that the deletion of a row of another
  projector takes along are not part of these properties.
\<close>

lemmas free_contracts =
  character_projection.keeps_read_model_contract costume_category_projection.keeps_read_model_contract
  settings_projection.keeps_read_model_contract ai_config_projection.keeps_read_model_contract
  shooting_day_projection.keeps_read_model_contract outfit_projection.keeps_read_model_contract

lemmas numbered_contracts =
  season_projection.keeps_unique_contract [simplified list.pred_True simp_thms]
  block_projection.keeps_unique_contract [simplified list.pred_True simp_thms]
  episode_projection.keeps_unique_contract [simplified list.pred_True simp_thms]

lemmas dependent_contracts =
  scene_projection.keeps_read_model_contract shoot_projection.keeps_read_model_contract
  piece_projection.keeps_read_model_contract


text \<open>
  C13. The rows of every season, block and episode follow its stream as long as no number is given to two of them in
  a project: the projector skips a create whose number another row has.
\<close>

theorem numbered_rows_follow_streams:
  assumes laws: "expected_version_laws sat"
  shows "read_model_contract sat season_expect never_idempotent season_apply season_handle (season_default fs)
      season_event_id (2 ^ 63 - 1) project_season (\<lambda>k m. map_of (rm_season m) k) season_rows None
      (\<lambda>log m. unique_numbers season_event_number season_event_id log \<and> rm_season m = []) \<and>
    read_model_contract sat block_expect never_idempotent block_apply block_handle (block_default fs fp)
      block_event_id (2 ^ 63 - 1) project_block (\<lambda>k m. map_of (rm_block m) k) block_rows None
      (\<lambda>log m. unique_numbers block_event_number block_event_id log \<and> rm_block m = []) \<and>
    read_model_contract sat episode_expect never_idempotent episode_apply episode_handle (episode_default fb fp)
      episode_event_id (2 ^ 63 - 1) project_episode (\<lambda>k m. map_of (rm_episode m) k) episode_rows None
      (\<lambda>log m. unique_numbers episode_event_number episode_event_id log \<and> rm_episode m = [])"
  by (intro conjI; rule numbered_contracts [OF laws])

text \<open>
  C12. The rows of a scene, with its characters, shooting days and outfit beats, follow its stream when the scheduled
  shooting days have rows; the rows of a scene shoot and of a piece with its details follow theirs when the
  constraints accept each event in its turn: the scene and the day of a plan have rows and no other shoot, and no
  identifier of a detail or an edited note is taken twice.
\<close>

theorem dependent_rows_follow_streams:
  assumes laws: "expected_version_laws sat"
  shows "read_model_contract sat scene_expect scene_idempotent scene_apply scene_handle (scene_default fresh)
      scene_event_id (2 ^ 32) project_scene scene_view scene_rows no_scene
      (\<lambda>log m. list_all (scene_refs m) log) \<and>
    read_model_contract sat (on_existing scene_shoot_expect) never_idempotent scene_shoot_apply
      (scene_shoot_handle disp) (scene_shoot_default fi fd) shoot_event_id (2 ^ 63 - 1) project_scene_shoot
      (\<lambda>k m. map_of (rm_shoot m) k) shoot_rows None (accepted_run project_scene_shoot shoot_accepts) \<and>
    read_model_contract sat piece_expect never_idempotent piece_apply piece_handle piece_default
      piece_event_id (2 ^ 63 - 1) project_piece piece_view piece_rows no_piece
      (accepted_run project_piece piece_accepts)"
  by (intro conjI; rule dependent_contracts [OF laws]; simp add: scenes_accepted)


section \<open>Runs\<close>

text \<open>Two interleaved characters, one of which is deleted.\<close>

definition sample_cast :: "nat character_event list" where
  "sample_cast =
     [CharacterCreated 7 3 ''Anna'' Guest measurements_default contact_info_default 1,
      CharacterCreated 8 3 ''Otto'' Extra measurements_default contact_info_default 1,
      CategoryChanged 7 MainCast 2, CharacterDeleted 8 2]"

lemma sample_cast_streams:
  "stream_prefix reference_satisfied character_expect never_idempotent character_apply character_handle
     (character_default 9) (own character_event_id k sample_cast)"
  "length (own character_event_id k sample_cast) \<le> 2 ^ 63 - 1"
proof -
  have "run_commands reference_satisfied character_expect never_idempotent character_apply character_handle
      (character_default 9) [] [CreateCharacter 7 3 None ''Anna'' Guest, UpdateCharacterCategory 7 None MainCast 1] =
      Some (own character_event_id 7 sample_cast)"
    "run_commands reference_satisfied character_expect never_idempotent character_apply character_handle
      (character_default 9) [] [CreateCharacter 8 3 None ''Otto'' Extra, DeleteCharacter 8] =
      Some (own character_event_id 8 sample_cast)"
    by code_simp+
  note histories = this [THEN run_commands_history]
  have "own character_event_id k sample_cast = []" if "k \<noteq> 7" "k \<noteq> 8"
    using that by (simp add: own_def sample_cast_def)
  then show "stream_prefix reference_satisfied character_expect never_idempotent character_apply character_handle
     (character_default 9) (own character_event_id k sample_cast)"
    using histories by (cases "k = 7"; cases "k = 8") (simp_all add: history_prefix)
  have "length (own character_event_id k sample_cast) \<le> length sample_cast"
    by (simp add: own_def)
  then show "length (own character_event_id k sample_cast) \<le> 2 ^ 63 - 1"
    by (simp add: sample_cast_def)
qed


definition sample_seasons :: "season_event list" where
  "sample_seasons = [SeasonCreated 7 2 1 None 1, SeasonCreated 8 2 2 None 1, SeasonArchived 7 2]"

theorem numbered_rows_follow_streams_witness:
  "\<exists>m. for_each project_season sample_seasons (empty_read_model :: nat read_model) = Ok m \<and>
     map_option (\<lambda>r. (sea_number r, sea_archived r)) (map_of (rm_season m) 7) = Some (1, True) \<and>
     map_option (\<lambda>r. (sea_number r, sea_archived r)) (map_of (rm_season m) 8) = Some (2, False)"
proof -
  have "run_commands reference_satisfied season_expect never_idempotent season_apply season_handle (season_default 9) []
      [CreateSeason 7 2 1 None, ArchiveSeason 7 None 1] = Some (own season_event_id 7 sample_seasons)"
    "run_commands reference_satisfied season_expect never_idempotent season_apply season_handle (season_default 9) []
      [CreateSeason 8 2 2 None] = Some (own season_event_id 8 sample_seasons)"
    by code_simp+
  note histories = this [THEN run_commands_history]
  have "own season_event_id k sample_seasons = []" if "k \<noteq> 7" "k \<noteq> 8" for k
    using that by (simp add: own_def sample_seasons_def)
  then have streams: "stream_prefix reference_satisfied season_expect never_idempotent season_apply season_handle
      (season_default 9) (own season_event_id k sample_seasons)" for k
    using histories by (cases "k = 7"; cases "k = 8") (simp_all add: history_prefix)
  have "length (own season_event_id k sample_seasons) \<le> 2 ^ 63 - 1" for k
    by (rule le_trans [of _ "length sample_seasons"]) (simp_all add: own_def sample_seasons_def)
  moreover have "unique_numbers season_event_number season_event_id sample_seasons"
    by code_simp
  moreover have "read_model_contract reference_satisfied season_expect never_idempotent season_apply season_handle
      (season_default 9) season_event_id (2 ^ 63 - 1) project_season (\<lambda>k (m :: nat read_model). map_of (rm_season m) k)
      season_rows None (\<lambda>log m. unique_numbers season_event_number season_event_id log \<and> rm_season m = [])"
    using numbered_rows_follow_streams [OF reference_laws] by blast
  ultimately obtain m :: "nat read_model" where m: "for_each project_season sample_seasons empty_read_model = Ok m"
    "\<And>k. map_of (rm_season m) k =
       rows_of season_apply (season_default 9) season_rows None (own season_event_id k sample_seasons)"
    unfolding read_model_contract_def using streams by (force simp: empty_read_model_def)
  have "map_option (\<lambda>r. (sea_number r, sea_archived r)) (rows_of season_apply (season_default 9) season_rows None
      (own season_event_id 7 sample_seasons)) = Some (1, True)"
    "map_option (\<lambda>r. (sea_number r, sea_archived r)) (rows_of season_apply (season_default 9) season_rows None
      (own season_event_id 8 sample_seasons)) = Some (2, False)"
    by code_simp+
  then show ?thesis
    using m by auto
qed

definition sample_detail :: "uuid \<Rightarrow> string \<Rightarrow> piece_detail" where
  "sample_detail i text = \<lparr>detail_id = i, detail_subject = None, detail_text = text\<rparr>"

definition sample_piece_commands :: "uuid \<Rightarrow> piece_command list" where
  "sample_piece_commands second =
     [CreatePiece 7 ''Hat'' None (Some 3) None, AddPieceDetail 7 (sample_detail 1 ''red'') None 1,
      AddPieceDetail 7 (sample_detail second ''blue'') None 2]"

definition sample_piece :: "piece_event list" where
  "sample_piece =
     [PieceCreated 7 ''Hat'' None (Some 3) [] [] [] 1, PieceDetailAdded 7 (sample_detail 1 ''red'') 2,
      PieceDetailAdded 7 (sample_detail 2 ''blue'') 3]"

theorem dependent_rows_follow_streams_witness:
  "\<exists>m. for_each project_piece sample_piece (empty_read_model :: nat read_model) = Ok m \<and>
     map_of (rm_piece_detail m) (7, 1) = Some (None, ''red'') \<and> map_of (rm_piece_detail m) (7, 2) = Some (None, ''blue'')"
proof -
  have "run_commands reference_satisfied piece_expect never_idempotent piece_apply piece_handle piece_default []
      (sample_piece_commands 2) = Some (own piece_event_id 7 sample_piece)"
    by code_simp
  note history = this [THEN run_commands_history]
  have "own piece_event_id k sample_piece = []" if "k \<noteq> 7" for k
    using that by (simp add: own_def sample_piece_def)
  then have streams: "stream_prefix reference_satisfied piece_expect never_idempotent piece_apply piece_handle
      piece_default (own piece_event_id k sample_piece)" for k
    using history by (cases "k = 7") (simp_all add: history_prefix)
  have "length (own piece_event_id k sample_piece) \<le> 2 ^ 63 - 1" for k
    by (rule le_trans [of _ "length sample_piece"]) (simp_all add: own_def sample_piece_def)
  moreover have "accepted_run project_piece piece_accepts sample_piece (empty_read_model :: nat read_model)"
    by code_simp
  moreover have "piece_view k (empty_read_model :: nat read_model) = no_piece" for k
    by (simp add: piece_view_def no_piece_def empty_read_model_def)
  moreover have "read_model_contract reference_satisfied piece_expect never_idempotent piece_apply piece_handle
      piece_default piece_event_id (2 ^ 63 - 1) (project_piece :: _ \<Rightarrow> nat read_model \<Rightarrow> _) piece_view piece_rows no_piece
      (accepted_run project_piece piece_accepts)"
    using dependent_rows_follow_streams [OF reference_laws] by blast
  ultimately obtain m :: "nat read_model" where m: "for_each project_piece sample_piece empty_read_model = Ok m"
    "piece_view 7 m = rows_of piece_apply piece_default piece_rows no_piece (own piece_event_id 7 sample_piece)"
    unfolding read_model_contract_def using streams by blast
  have "fst (snd (snd (rows_of piece_apply piece_default piece_rows no_piece (own piece_event_id 7 sample_piece)))) 1 =
      Some (None, ''red'')"
    "fst (snd (snd (rows_of piece_apply piece_default piece_rows no_piece (own piece_event_id 7 sample_piece)))) 2 =
      Some (None, ''blue'')"
    by code_simp+
  then show ?thesis
    using m(1) unfolding m(2) [symmetric] by (auto simp: piece_view_def)
qed

text \<open>The rows of a scene and of a shooting day.\<close>

definition sample_parents :: "sqlx_error + nat read_model" where
  "sample_parents =
     and_then (project_scene (SceneCreated 3 4 scene_details_default [] SceneManual 1) empty_read_model)
       (project_shooting_day (ShootingDayCreated 5 4 None ''m'' None DayManual 1))"


text \<open>
  A run of the processor over the characters with a redelivery, a restart and an event of another identifier that does
  not parse.
\<close>

definition sample_cast_logs :: "u16 \<Rightarrow> nat character_event payload message list" where
  "sample_cast_logs p =
     (if p = 0 then Decoded ''x'' ''CharacterCreated'' (MalformedId ''x'') #
        map (\<lambda>e. Decoded ''character'' (character_event_type e) (EntityEvent e)) sample_cast
      else [])"

definition sample_cast_run :: "label list" where
  "sample_cast_run = [Restart, Deliver 0 no_faults, Deliver 0 no_faults, Restart, Deliver 0 no_faults, Deliver 0 no_faults,
     Deliver 0 no_faults, Deliver 0 no_faults, Tick 0 (no_flush_faults, [])]"

definition sample_cast_system :: "nat read_model system option" where
  "sample_cast_system = sys_run (composite_handle project_character) (\<lambda>_. ''poison'') (16, 10, 10000) sample_cast_logs
     sample_cast_run (empty_system (\<lambda>_. empty_read_model))"


end
