(* ===== verification/Spec2Isabelle.thy ===== *)
theory Spec2Isabelle
  imports Wrap_Finality Import_Cost Authorization Read_Model_Contracts
begin

text \<open>
  \<^bold>\<open>Breakdown: verification of the event-sourced core.\<close>

  Breakdown is a costume-department application for film productions. Its
  backend (\<open>src/backend\<close>) is event sourced: an HTTP handler calls a port of
  \<open>crates/core\<close>; the adapter of \<open>crates/infra/src/event_store/command_adapters.rs\<close>
  turns the call into a command with an expected stream version and sends it to
  the entity actor of the stream (\<open>.patches/kameo_es\<close>); the actor lets the
  aggregate handle the command, appends the resulting events to SierraDB and
  answers with the new version; projectors turn the events into read models.

  \<^bold>\<open>Theories.\<close>

  \<^item> \<open>BD_Prelude\<close>: machine words, \<open>Result\<close>, \<open>str::trim\<close> on UTF-8 bytes, lists of
    consecutive versions, the collections \<open>handler_defs\<close>.
  \<^item> \<open>Shared_Types\<close> (\<open>core/src/shared.rs\<close>): identifiers, versions, provenance,
    status enums, and \<open>LexicalSortKey\<close> with \<open>midpoint\<close> on byte strings.
  \<^item> \<open>Error_Registry\<close> and \<open>Domain_Error\<close> (\<open>core/src/error_registry.rs\<close>,
    \<open>core/src/error.rs\<close>): the 112 problem codes, \<open>DomainError\<close>, and the \<open>From\<close>
    conversions of all aggregate errors.
  \<^item> \<open>Event_Sourcing\<close>: streams, replay, the step relation \<open>dispatch_step\<close> of one
    accepted command, and the locales \<open>versioned_aggregate\<close>, \<open>frozen_aggregate\<close>,
    \<open>invariant_aggregate\<close> and \<open>immutable_attribute\<close> that say what an aggregate
    promises. Every aggregate theory interprets them on its own handlers.
  \<^item> \<open>Season_\<close>, \<open>Block_\<close>, \<open>Episode_\<close>, \<open>Character_\<close>, \<open>Costume_Category_\<close>, \<open>Settings_\<close>,
    \<open>Scene_\<close>, \<open>Scene_Shoot_\<close>, \<open>Shooting_Day_\<close>, \<open>Photo_\<close>, \<open>Membership_\<close>, \<open>Piece_\<close>,
    \<open>Outfit_\<close> and \<open>Ai_Config_Aggregate\<close>: one theory per aggregate of
    \<open>core/src\<close>. The record is the aggregate struct, the datatypes are its events,
    commands and errors, \<open>handle_<Command>\<close> is \<open>Command<..>::handle\<close>, \<open><x>_apply\<close> is
    \<open>Apply::apply\<close>, \<open><x>_handle\<close> collects the handlers and \<open><x>_expect\<close> is the
    expected version with which the adapter, the sagas or the data reset dispatch
    each command.
  \<^item> \<open>Entity_Actor\<close> (\<open>.patches/kameo_es\<close>): the actor state, causation tracking,
    \<open>execute\<close>, \<open>resync_with_db\<close>, \<open>append_events\<close> and the retry loop of \<open>handle\<close>.
    SierraDB is the record \<open>sierra_client\<close> with the laws \<open>sierra_laws\<close>; the other
    writers are an arbitrary function \<open>env\<close> that appends between any two accesses.
  \<^item> \<open>Command_Adapters\<close> (\<open>infra/src/event_store/command_adapters.rs\<close>): version checks,
    mapping of execution results, and the shapes of a create and an update.
  \<^item> \<open>Reservations\<close> and \<open>Reservation_Reaper\<close> (\<open>infra/src/reservations\<close>): the claim streams
    that keep numbers and scene-shoot pairs unique, \<open>reserve\<close> with its retries, release,
    consume and compensation, and the reaper of orphaned claims.
  \<^item> \<open>Adapter_Methods\<close>: every method of the fourteen command ports. A method is a value
    of \<open>adapter_call\<close> (stream version, claim, lock and probe, mapping of the reply), which
    \<open>adapter_run\<close> performs on the actor and the claim stream.
  \<^item> \<open>Wrap_Finality\<close> (\<open>wrap_finality.rs\<close> and \<open>ensure_day_open\<close>): the step relation
    \<open>wrap_step\<close> of requests that take the lock of a shooting day, probe it and send their
    command. Its two flags allow probes that see a prefix of the stream, and commands that
    outlive their request.
  \<^item> \<open>Import_Cost\<close> (\<open>core/src/ai/cost.rs\<close>): usage, prices and totals of AI imports.
  \<^item> \<open>Authorization\<close> (\<open>api/src/auth\<close>, \<open>core/src/membership/policy.rs\<close>, the routes and the
    membership handlers of \<open>api/src/handlers/mod.rs\<close>): the two request layers, their
    configuration, the policy, and the guards of the operations role.
  \<^item> \<open>Projection_Worker\<close>, \<open>Projection_Invariant\<close> and \<open>Projection_Runs\<close>
    (\<open>.patches/kameo_es/src/event_handler.rs\<close> and \<open>event_handler/postgres.rs\<close>): the
    processor that applies events to the read model in batches, with its checkpoints and
    dead letters; the invariant of a worker and of the whole system; its runs. PostgreSQL is
    the record \<open>pg\<close> of what is committed, the projector is a parameter.
  \<^item> \<open>Read_Model\<close> (\<open>infra/src/projectors\<close>, \<open>infra/migrations\<close>): the tables of the read model
    and one function \<open>project_<x>\<close> per projector, with the constraints and cascades that its
    statements meet. \<open>Projector_Contract\<close>: the locales \<open>projected_aggregate\<close>, \<open>projector\<close> and
    \<open>numbered_projector\<close>, what it means that rows follow streams, and \<open>composite_handle\<close>,
    which connects a projector to the processor. \<open>Projectors\<close>, \<open>Scene_Projectors\<close> and
    \<open>Wardrobe_Projectors\<close> interpret the locales for every projector whose events carry
    versions; \<open>Read_Model_Contracts\<close> states the properties.

  \<^bold>\<open>What is shown.\<close> A command handled by an actor is one atomic dispatch step, under
  any interleaving with other writers (\<open>actor_linearizable\<close>), resynchronisation
  returns, and a command is not executed twice for the same cause. On streams
  produced by dispatch steps: versions count the events and agree with the
  expected-version check; tombstones are final; scope attributes never change;
  scenes, scene shoots, photos, pieces, outfits and credentials stay
  well formed. Errors convert to registered codes with the documented status. The
  adapters return the version of the resulting state, and every method of the ports
  dispatches as the histories above assume and returns. A reserved key is
  created at most once under any interleaving of creates, compensation and reaper, and
  an orphaned claim is given back. No execution event follows the wrap of a day,
  with fresh probes and live requests; two theorems show that the code guarantees
  neither. Requests reach a handler only with a verified token and the membership
  their route asks for, where enforcement is on. Import costs are rounded half up,
  capped per request and totalled without mixing currencies. Projections are
  exactly-once under redelivery, crashes and faults of the database, but for the three
  faults of \<open>projection_loses_events\<close>. The rows that the projectors write show, after any
  interleaving of streams, the states that the streams replay to, also after a run of the
  processor; they do not when a client repeats the identifier of a detail or a note
  (\<open>duplicate_ids_diverge\<close>). The remaining theorems
  are about single operations, some of them about operations that do not do what
  their comments say.

  \<^bold>\<open>Bounds.\<close> Versions are 64-bit words and wrap; the theorems on streams speak of
  \<open>of_nat (length es)\<close> and need no bound. Beat orders are 32-bit and increase only
  on streams shorter than \<open>2 ^ 32\<close> events. The retry loop of the actor recurses on
  the retries left (\<open>conflict_retries = 5\<close>); \<open>actor_resync\<close> has no fuel and is
  shown to return on every well-formed stream. A reservation makes at most the four
  attempts of the code. Amounts of money are integers with the clamps of the code
  written out, and the products are shown to fit \<open>i128\<close>. A partition holds at most
  \<open>2 ^ 63\<close> messages, so that a sequence fits the signed column of the checkpoint; the
  retries of a projection are any number, the code makes at most five. Rows are compared by
  signed versions: streams have fewer than \<open>2 ^ 63\<close> events there, those of scenes at most
  \<open>2 ^ 32\<close>.

  \<^bold>\<open>Not modelled.\<close> The HTTP handlers other than those of memberships, and their framework;
  the SQL queries, the audit trail and the projector of photos; cascades from the rows of one
  projector to those of another are in the model, but the properties run each projector
  alone; the rows of number reservations have no theorem; the preview and the
  workers of the AI import; vault, TLS, object storage and PDF rendering, which are
  external services; the multi-entity transactions of kameo\_es; the time-out of the day
  lock; the Flutter client. \<open>Decimal\<close>, the uuid \<open>Display\<close>, the hash of the scene-shoot
  pair, token verification, the read models and the clock are parameters.
\<close>

section \<open>All aggregates\<close>



text \<open>C28. What places an aggregate in its project never changes after the create: identifiers, the
  season, block, episode, character or user it belongs to, its number or provenance, whatever
  sequence of commands follows.\<close>

theorem scopes_are_immutable:
  assumes "expected_version_laws sat"
  shows "kept_by_updates sat season_expect never_idempotent season_apply season_handle (season_default f)
      (\<lambda>s. (season_id s, season_project_id s, season_number s)) \<and>
    kept_by_updates sat block_expect never_idempotent block_apply block_handle (block_default f g)
      (\<lambda>s. (block_id s, block_season_id s, block_project_id s, block_number s)) \<and>
    kept_by_updates sat episode_expect never_idempotent episode_apply episode_handle (episode_default f g)
      (\<lambda>s. (episode_id s, episode_block_id s, episode_project_id s, episode_number s)) \<and>
    kept_by_updates sat character_expect never_idempotent character_apply character_handle (character_default f)
      (\<lambda>s. (character_id s, character_season_id s, character_name s)) \<and>
    kept_by_updates sat costume_category_expect never_idempotent costume_category_apply costume_category_handle (costume_category_default f)
      (\<lambda>s. (category_id s, category_season_id s)) \<and>
    kept_by_updates sat settings_expect never_idempotent settings_apply settings_handle settings_default
      (\<lambda>s. (settings_id s, settings_provider s)) \<and>
    kept_by_updates sat scene_expect scene_idempotent scene_apply scene_handle (scene_default f)
      (\<lambda>s. (scene_id s, scene_episode_id s, scene_source s)) \<and>
    kept_by_updates sat scene_shoot_expect never_idempotent scene_shoot_apply (scene_shoot_handle disp) (scene_shoot_default f g)
      (\<lambda>s. (shoot_id s, shoot_scene_id s, shoot_day_id s)) \<and>
    kept_by_updates sat shooting_day_expect never_idempotent shooting_day_apply (shooting_day_handle now) (shooting_day_default f g)
      (\<lambda>s. (day_id s, day_episode_id s, day_source s)) \<and>
    kept_by_updates sat photo_expect never_idempotent (photo_apply now) photo_dispatch_handle (photo_default f)
      (\<lambda>s. (photo_id s, photo_content_type s, photo_binding s)) \<and>
    kept_by_updates sat piece_expect never_idempotent piece_apply piece_handle piece_default
      piece_id \<and>
    kept_by_updates sat outfit_expect never_idempotent outfit_apply outfit_handle outfit_default
      (\<lambda>s. (outfit_id s, outfit_character_id s, outfit_variant_of s)) \<and>
    kept_by_updates sat ai_config_expect never_idempotent ai_config_apply ai_config_handle ai_config_default
      (\<lambda>s. (ai_id s, ai_user_id s))"
  using assms
  by (intro conjI
      season_scope.attr_kept_by_updates block_scope.attr_kept_by_updates
      episode_scope.attr_kept_by_updates character_scope.attr_kept_by_updates
      costume_category_scope.attr_kept_by_updates settings_scope.attr_kept_by_updates
      scene_scope.attr_kept_by_updates scene_shoot_scope.attr_kept_by_updates
      shooting_day_scope.attr_kept_by_updates photo_scope.attr_kept_by_updates
      piece_identity.attr_kept_by_updates outfit_scope.attr_kept_by_updates
      ai_config_scope.attr_kept_by_updates) simp_all

text \<open>C26. The wardrobe stays well formed: every stream of a piece replays to a trimmed non-empty name
  with no season and no photo twice, every stream of an outfit to a trimmed non-empty name with no
  piece and no photo twice.\<close>

theorem wardrobe_stays_consistent:
  assumes "expected_version_laws sat"
    and "history sat piece_expect never_idempotent piece_apply piece_handle piece_default pes" "pes \<noteq> []"
    and "history sat outfit_expect never_idempotent outfit_apply outfit_handle outfit_default oes"
      "oes \<noteq> []"
    and "p = replay piece_apply piece_default pes" "o' = replay outfit_apply outfit_default oes"
  shows "piece_name p \<noteq> [] \<and> trim (piece_name p) = piece_name p \<and> distinct (piece_seasons p) \<and>
    distinct (piece_photos p) \<and> outfit_name o' \<noteq> [] \<and> trim (outfit_name o') = outfit_name o' \<and>
    distinct (outfit_piece_ids o') \<and> distinct (outfit_photos o')"
  using piece_consistency.history_inv [OF assms(1-3)] outfit_consistency.history_inv [OF assms(1,4,5)]
    assms(6,7) by (simp add: piece_ok_def outfit_ok_def)

text \<open>C27. Credentials are never half bound: a settings stream replays to a binding with a provider, a
  vault key and a definite state, and an AI configuration to one with a provider, an assistant model, a
  vault key, no blank prompt, and a decision slot that is either empty or has a decision-capable provider, one of
  its curated models and a vault key of its own.\<close>

theorem credentials_stay_bound:
  assumes "expected_version_laws sat"
    and "history sat settings_expect never_idempotent settings_apply settings_handle settings_default ses"
      "ses \<noteq> []"
    and "history sat ai_config_expect never_idempotent ai_config_apply ai_config_handle ai_config_default
      aes" "aes \<noteq> []"
  shows "settings_bound (replay settings_apply settings_default ses) \<and>
    ai_config_ok (replay ai_config_apply ai_config_default aes)"
  using settings_binding.history_inv [OF assms(1-3)] ai_config_consistency.history_inv [OF assms(1,4,5)]
  by simp

text \<open>A photo stream that begins with its upload always has exactly one record for each of the
  three variants, in the order original, thumbnail, medium, whatever the upload and thumbnail sagas
  and the adapters dispatch.\<close>

theorem photo_has_every_variant_once:
  assumes "expected_version_laws sat"
    and "history sat (on_existing photo_expect) never_idempotent (photo_apply now) photo_dispatch_handle
      (photo_default fresh) es" "es \<noteq> []"
  shows "map variant_kind (photo_variants (replay (photo_apply now) (photo_default fresh) es)) =
    [Original, Thumb, Medium]"
  using photo_records.history_inv [OF assms] by (simp add: photo_ok_def)

text \<open>C29. Deleting a shooting day that does not exist fabricates a stream: the default state carries
  a fresh identifier, so the guard on the nil identifier does not fire, and the data reset's delete
  (sent with no expected version) appends a deletion event with that identifier and version 2 to the
  empty stream. Scene shoots behave the same.\<close>

theorem absent_delete_fabricates_stream:
  assumes "expected_version_laws sat" "f \<noteq> nil_uuid"
  shows "dispatch_step sat shooting_day_expect never_idempotent shooting_day_apply
      (shooting_day_handle now) (shooting_day_default f g) [] [ShootingDayDeleted f 2] \<and>
    dispatch_step sat scene_shoot_expect never_idempotent scene_shoot_apply
      (scene_shoot_handle disp) (scene_shoot_default f g) [] [SceneShootDeleted f 2]"
proof
  show "dispatch_step sat shooting_day_expect never_idempotent shooting_day_apply
      (shooting_day_handle now) (shooting_day_default f g) [] [ShootingDayDeleted f 2]"
    using dispatchI [of shooting_day_expect "DeleteShootingDay i" AnyVersion sat "[]" never_idempotent
        shooting_day_apply "shooting_day_default f g" "shooting_day_handle now"] assms
    by (simp add: sat_simps handler_defs never_idempotent_def shooting_day_default_def version_next_def
        INITIAL_def)
  show "dispatch_step sat scene_shoot_expect never_idempotent scene_shoot_apply
      (scene_shoot_handle disp) (scene_shoot_default f g) [] [SceneShootDeleted f 2]"
    using dispatchI [of scene_shoot_expect "DeleteSceneShoot i" AnyVersion sat "[]" never_idempotent
        scene_shoot_apply "scene_shoot_default f g" "scene_shoot_handle disp"] assms
    by (simp add: sat_simps handler_defs never_idempotent_def scene_shoot_default_def version_next_def
        INITIAL_def)
qed

text \<open>Domain versions and stream versions convert back and forth without loss, except that the
  domain version 0 has no stream version and the largest stream version wraps to it: a version that
  \<open>version_from_current\<close> reports for a non-empty stream is accepted back as the exact expected version
  of that stream as long as the stream is shorter than 2^64 - 1 events.\<close>

theorem stream_versions_roundtrip:
  "domain_to_stream (stream_to_domain n) = (if n = - 1 then None else Some n) \<and>
   (case domain_to_stream v of None \<Rightarrow> v = 0 | Some s \<Rightarrow> stream_to_domain s = v) \<and>
   domain_to_stream_checked v = (if v = 0 then Err (VersionConflict 0 0) else Ok (v - 1)) \<and>
   exact_version (version_from_current (Current n)) = (if n = - 1 then None else Some (Exact n))"
  by (auto simp: domain_to_stream_def stream_to_domain_def domain_to_stream_checked_def
      exact_version_def version_from_current_def eq_neg_iff_add_eq_0)

section \<open>Witnesses\<close>



theorem scopes_are_immutable_witness:
  "(\<lambda>s. (season_id s, season_project_id s, season_number s))
     (replay season_apply (season_default 9) [SeasonCreated 7 3 1 None 1, SeasonRenamed 7 (Some ''B'') 2]) =
   (7, 3, 1)"
proof -
  let ?attr = "\<lambda>s. (season_id s, season_project_id s, season_number s)"
  have "kept_by_updates reference_satisfied season_expect never_idempotent season_apply season_handle
      (season_default 9) ?attr"
    using scopes_are_immutable [OF reference_laws] by blast
  moreover have "(dispatch_step reference_satisfied season_expect never_idempotent season_apply
      season_handle (season_default 9))\<^sup>*\<^sup>* [SeasonCreated 7 3 1 None 1]
      [SeasonCreated 7 3 1 None 1, SeasonRenamed 7 (Some ''B'') 2]"
    by (rule run_commands_steps [where cs = "[RenameSeason 7 (Some ''B'') None 1]"]) code_simp
  ultimately have "?attr (replay season_apply (season_default 9)
        [SeasonCreated 7 3 1 None 1, SeasonRenamed 7 (Some ''B'') 2]) =
      ?attr (replay season_apply (season_default 9) [SeasonCreated 7 3 1 None 1])"
    unfolding kept_by_updates_def by blast
  also have "\<dots> = (7, 3, 1)"
    by (simp add: replay_def)
  finally show ?thesis .
qed

theorem wardrobe_stays_consistent_witness:
  "distinct (outfit_piece_ids (replay outfit_apply outfit_default
     [OutfitCreated 7 3 ''Look'' [1, 2] [] [] 1, OutfitPieceRemoved 7 1 2]))"
proof -
  have "history reference_satisfied piece_expect never_idempotent piece_apply piece_handle piece_default
      [PieceCreated 4 ''Hat'' None None [] [] [] 1]"
    by (rule run_commands_history [where cs = "[CreatePiece 4 '' Hat '' None None None]"]) code_simp
  moreover have "history reference_satisfied outfit_expect never_idempotent outfit_apply outfit_handle
      outfit_default [OutfitCreated 7 3 ''Look'' [1, 2] [] [] 1, OutfitPieceRemoved 7 1 2]"
    by (rule run_commands_history [where cs =
          "[CreateOutfit 7 3 ''Look'' [1, 2, 1] None, RemovePieceFromOutfit 7 1 None 1]"]) code_simp
  ultimately show ?thesis
    using wardrobe_stays_consistent [OF reference_laws _ list.distinct(2) _ list.distinct(2) refl refl]
    by blast
qed

theorem credentials_stay_bound_witness:
  "settings_bound (replay settings_apply settings_default
     [CredentialBound 1 ''openai'' ''k1'' 0 1])"
proof -
  have "history reference_satisfied settings_expect never_idempotent settings_apply settings_handle
      settings_default [CredentialBound 1 ''openai'' ''k1'' 0 1]"
    by (rule run_commands_history [where cs = "[CreateCredentialBinding 1 ''openai'' ''k1'' 0]"]) code_simp
  moreover have "history reference_satisfied ai_config_expect never_idempotent ai_config_apply
      ai_config_handle ai_config_default
      [AiConfigCreated 2 ''u'' OpenAI ''m'' None Map.empty ''k2'' Token None None None 1]"
    by (rule run_commands_history [where cs =
          "[CreateAiConfig 2 ''u'' OpenAI ''m'' None Map.empty ''k2'' Token None None None]"]) code_simp
  ultimately show ?thesis
    using credentials_stay_bound [OF reference_laws _ list.distinct(2) _ list.distinct(2)] by blast
qed

theorem photo_has_every_variant_once_witness:
  "map variant_kind (photo_variants (replay (photo_apply 0) (photo_default 9)
     [PhotoUploaded 7 ''image/png'' 10 [(Original, Pending), (Thumb, Pending), (Medium, Pending)]
        photo_binding_default 1])) = [Original, Thumb, Medium]"
proof (rule photo_has_every_variant_once [OF reference_laws])
  show "history reference_satisfied (on_existing photo_expect) never_idempotent (photo_apply 0)
      photo_dispatch_handle (photo_default 9)
      [PhotoUploaded 7 ''image/png'' 10 [(Original, Pending), (Thumb, Pending), (Medium, Pending)]
        photo_binding_default 1]"
    by (rule run_commands_history [where cs =
          "[ViaAdapter (UploadPhoto 7 ''image/png'' 10 photo_binding_default None)]"]) code_simp
qed simp

theorem absent_delete_fabricates_stream_witness:
  "dispatch_step reference_satisfied shooting_day_expect never_idempotent shooting_day_apply
     (shooting_day_handle 0) (shooting_day_default 1 2) [] [ShootingDayDeleted 1 2]"
  using absent_delete_fabricates_stream [OF reference_laws, of 1] by simp

end
